(* ===== verification/Prelude.thy ===== *)
theory Prelude
  imports Main "HOL-Library.Word" "HOL-Library.Sublist" "HOL-Library.Code_Target_Nat"
begin

text \<open>
  Shared vocabulary of the development: the error values that the Go code returns, results as
  sums (\<open>Inl\<close> an error, \<open>Inr\<close> a value), loops that stop at the first error, 64-bit wrap-around
  of Go's \<open>int\<close>, truncating division, and the generic contracts (locales) that several
  components share: a step function that keeps an invariant, a step function that only moves
  forward along an order, and a byte codec that leaves the rest of its input.
\<close>

section \<open>Theorem collections\<close>

named_theorems go_simps \<open>evaluation rules for the models of the Go standard library\<close>
named_theorems inv_intros \<open>invariant preservation, one rule per operation\<close>

section \<open>Errors and results\<close>

text \<open>
  One value per kind of error that the code builds or inspects. \<open>Panic\<close> is a run-time panic
  (index out of range, nil dereference, division by zero), which is not an error value of Go but
  an outcome that the model must be able to show.
\<close>

datatype errno = ENOENT | EACCES | EINVAL | EBUSY | EOPNOTSUPP | EEXIST | EIO | Errno nat

datatype num_err = ErrSyntax | ErrRange

datatype grpc_code = CodeCanceled | CodeUnknown | CodeInvalidArgument | CodeDeadlineExceeded | CodeNotFound | CodeInternal

datatype error =
    PathError string string errno      \<comment> \<open>op, path, errno: \<open>*fs.PathError\<close>\<close>
  | SyscallError string errno          \<comment> \<open>\<open>*os.SyscallError\<close>\<close>
  | SysErrno errno                     \<comment> \<open>a bare \<open>syscall.Errno\<close>\<close>
  | NumError string string num_err     \<comment> \<open>func, input, kind: \<open>*strconv.NumError\<close>\<close>
  | ErrTooLong                         \<comment> \<open>\<open>bufio.ErrTooLong\<close>\<close>
  | EOF
  | ErrUnexpectedEOF
  | Errorf string                      \<comment> \<open>\<open>fmt.Errorf\<close> or \<open>errors.New\<close> with this text\<close>
  | Wrap string error                  \<comment> \<open>\<open>fmt.Errorf\<close> with a wrapped error\<close>
  | Fmt string error                   \<comment> \<open>\<open>fmt.Errorf\<close> with the text of another error, not wrapped\<close>
  | GrpcStatus grpc_code error         \<comment> \<open>\<open>grpc_status.Error\<close> with this code and message\<close>
  | Foreign nat                        \<comment> \<open>an error value made by a third-party package\<close>
  | Panic string

type_synonym 'a result = "error + 'a"

definition ok :: "'a result \<Rightarrow> bool" where
  "ok r = (case r of Inl _ \<Rightarrow> False | Inr _ \<Rightarrow> True)"

lemma ok_simps [simp]: "ok (Inr v)" "\<not> ok (Inl e)"
  by (simp_all add: ok_def)

lemma ok_iff: "ok r \<longleftrightarrow> (\<exists>v. r = Inr v)"
  by (cases r) simp_all

definition rbind :: "'a result \<Rightarrow> ('a \<Rightarrow> 'b result) \<Rightarrow> 'b result" where
  "rbind r f = (case r of Inl e \<Rightarrow> Inl e | Inr v \<Rightarrow> f v)"

lemma rbind_simps [simp]: "rbind (Inl e) f = Inl e" "rbind (Inr v) f = f v"
  by (simp_all add: rbind_def)

lemma rbind_Inr: "rbind r f = Inr w \<longleftrightarrow> (\<exists>v. r = Inr v \<and> f v = Inr w)"
  by (cases r) simp_all

lemma rbind_Inl: "rbind r f = Inl e \<longleftrightarrow> r = Inl e \<or> (\<exists>v. r = Inr v \<and> f v = Inl e)"
  by (cases r) simp_all

text \<open>\<open>for _, x := range xs { if err := f(x); err != nil { return err } }\<close>, threading a state.\<close>

fun fold_res :: "('a \<Rightarrow> 's \<Rightarrow> 's result) \<Rightarrow> 'a list \<Rightarrow> 's \<Rightarrow> 's result" where
  "fold_res f [] s = Inr s"
| "fold_res f (x # xs) s = rbind (f x s) (fold_res f xs)"

lemma fold_res_append: "fold_res f (xs @ ys) s = rbind (fold_res f xs s) (fold_res f ys)"
  by (induction xs arbitrary: s) (auto simp: rbind_def split: sum.splits)

lemma fold_res_inv:
  assumes "fold_res f xs s = Inr t" and "P s"
    and "\<And>x u v. x \<in> set xs \<Longrightarrow> P u \<Longrightarrow> f x u = Inr v \<Longrightarrow> P v"
  shows "P t"
  using assms
proof (induction xs arbitrary: s)
  case Nil
  then show ?case by simp
next
  case (Cons x xs)
  from Cons.prems(1) obtain u where u: "f x s = Inr u" "fold_res f xs u = Inr t"
    by (auto simp: rbind_Inr)
  have "P u" using Cons.prems(2) Cons.prems(3)[OF _ _ u(1)] by simp
  with u(2) show ?case by (rule Cons.IH) (use Cons.prems(3) in auto)
qed

text \<open>The first error of a list of computations, or all their values.\<close>

fun traverse_res :: "('a \<Rightarrow> 'b result) \<Rightarrow> 'a list \<Rightarrow> 'b list result" where
  "traverse_res f [] = Inr []"
| "traverse_res f (x # xs) =
     (case f x of Inl e \<Rightarrow> Inl e
      | Inr y \<Rightarrow> (case traverse_res f xs of Inl e \<Rightarrow> Inl e | Inr ys \<Rightarrow> Inr (y # ys)))"

lemma traverse_res_Inr:
  "traverse_res f xs = Inr ys \<longleftrightarrow> list_all2 (\<lambda>x y. f x = Inr y) xs ys"
proof (induction xs arbitrary: ys)
  case Nil
  then show ?case by auto
next
  case (Cons x xs)
  show ?case
    by (cases ys; cases "traverse_res f xs"; cases "f x") (auto simp: Cons[symmetric])
qed

lemma traverse_res_total: "(\<And>x. x \<in> set xs \<Longrightarrow> f x = Inr (g x)) \<Longrightarrow> traverse_res f xs = Inr (map g xs)"
  by (induction xs) auto

lemma length_traverse_res: "traverse_res f xs = Inr ys \<Longrightarrow> length ys = length xs"
  by (auto simp: traverse_res_Inr dest: list_all2_lengthD)

section \<open>Machine arithmetic\<close>

text \<open>Go's \<open>int\<close> and \<open>int64\<close> on the platforms of the agent: 64-bit two's complement.\<close>

definition wrap64 :: "int \<Rightarrow> int" where
  "wrap64 x = (x + 2 ^ 63) mod 2 ^ 64 - 2 ^ 63"

definition wrap32 :: "int \<Rightarrow> int" where
  "wrap32 x = (x + 2 ^ 31) mod 2 ^ 32 - 2 ^ 31"

definition in_int64 :: "int \<Rightarrow> bool" where
  "in_int64 x \<longleftrightarrow> - (2 ^ 63) \<le> x \<and> x < 2 ^ 63"

definition in_int32 :: "int \<Rightarrow> bool" where
  "in_int32 x \<longleftrightarrow> - (2 ^ 31) \<le> x \<and> x < 2 ^ 31"

lemma wrap64_in: "in_int64 (wrap64 x)"
  by (simp add: wrap64_def in_int64_def)

lemma wrap64_id: "in_int64 x \<Longrightarrow> wrap64 x = x"
  by (simp add: wrap64_def in_int64_def)

lemma wrap32_in: "in_int32 (wrap32 x)"
  by (simp add: wrap32_def in_int32_def)

lemma wrap32_id: "in_int32 x \<Longrightarrow> wrap32 x = x"
  by (simp add: wrap32_def in_int32_def)

lemma wrap64_wrap64 [simp]: "wrap64 (wrap64 x) = wrap64 x"
  by (rule wrap64_id) (rule wrap64_in)

text \<open>Go's \<open>/\<close> and \<open>%\<close> truncate towards zero.\<close>

definition tdiv :: "int \<Rightarrow> int \<Rightarrow> int" where
  "tdiv a b = sgn a * sgn b * (\<bar>a\<bar> div \<bar>b\<bar>)"

definition tmod :: "int \<Rightarrow> int \<Rightarrow> int" where
  "tmod a b = a - tdiv a b * b"

lemma tdiv_nonneg: "0 \<le> a \<Longrightarrow> 0 < b \<Longrightarrow> tdiv a b = a div b"
  by (cases "a = 0") (simp_all add: tdiv_def)

lemma tmod_nonneg: "0 \<le> a \<Longrightarrow> 0 < b \<Longrightarrow> tmod a b = a mod b"
  by (simp add: tmod_def tdiv_nonneg minus_div_mult_eq_mod)

section \<open>Contracts that several components share\<close>

text \<open>A step function that keeps an invariant: every run keeps it.\<close>

locale step_invariant =
  fixes step :: "'s \<Rightarrow> 'e \<Rightarrow> 's" and inv :: "'s \<Rightarrow> bool"
  assumes step_inv: "inv s \<Longrightarrow> inv (step s e)"
begin

lemma run_inv: "inv s \<Longrightarrow> inv (foldl step s es)"
  by (induction es arbitrary: s) (simp_all add: step_inv)

lemma prefix_inv: "inv s \<Longrightarrow> prefix es fs \<Longrightarrow> inv (foldl step s es)"
  by (rule run_inv)

end

text \<open>A step function that only moves forward along a preorder.\<close>

locale step_progress =
  fixes step :: "'s \<Rightarrow> 'e \<Rightarrow> 's" and le :: "'s \<Rightarrow> 's \<Rightarrow> bool"
  assumes le_refl: "le s s"
    and le_trans: "le s t \<Longrightarrow> le t u \<Longrightarrow> le s u"
    and step_le: "le s (step s e)"
begin

lemma run_le: "le s (foldl step s es)"
proof (induction es arbitrary: s)
  case Nil
  show ?case by (simp add: le_refl)
next
  case (Cons e es)
  have "le (step s e) (foldl step (step s e) es)" by (rule Cons.IH)
  then show ?case using le_trans[OF step_le] by simp
qed

lemma run_le_append: "le (foldl step s es) (foldl step s (es @ fs))"
  by (simp add: run_le)

end

text \<open>A gate in front of a store: while it is shut, no call but a releasing one changes what is behind
  it, nor opens it.\<close>

locale lock_gate =
  fixes call :: "'s \<Rightarrow> 'r \<Rightarrow> 's" and shut :: "'s \<Rightarrow> bool" and view :: "'s \<Rightarrow> 'v" and release :: "'r \<Rightarrow> bool"
  assumes gate: "shut s \<Longrightarrow> \<not> release r \<Longrightarrow> view (call s r) = view s \<and> shut (call s r)"
begin

lemma until_release:
  "shut s \<Longrightarrow> (\<And>r. r \<in> set rs \<Longrightarrow> \<not> release r) \<Longrightarrow> view (foldl call s rs) = view s \<and> shut (foldl call s rs)"
  by (induction rs arbitrary: s) (simp_all add: gate)

text \<open>What changed the view while the gate was shut has released it before.\<close>

lemma change_needs_release:
  assumes "shut s" "view (foldl call s rs) \<noteq> view s"
  shows "\<exists>r \<in> set rs. release r"
  using until_release[OF assms(1), of rs] assms(2) by blast

end

text \<open>The relational counterpart, for goroutines that interleave: a step relation that keeps a
  predicate keeps it along every execution.\<close>

locale rel_invariant =
  fixes step :: "'s \<Rightarrow> 's \<Rightarrow> bool" and inv :: "'s \<Rightarrow> bool"
  assumes step_keeps: "inv s \<Longrightarrow> step s t \<Longrightarrow> inv t"
begin

lemma star_inv: "step\<^sup>*\<^sup>* s t \<Longrightarrow> inv s \<Longrightarrow> inv t"
  by (induction rule: rtranclp_induct) (auto intro: step_keeps)

end

text \<open>Refinement of an abstract transition system: under the invariant, each step of the program is
  a step of the specification or leaves the abstract state alone; so is every execution.\<close>

locale simulation = rel_invariant step inv
  for step :: "'s \<Rightarrow> 's \<Rightarrow> bool" and inv :: "'s \<Rightarrow> bool" +
  fixes spec :: "'a \<Rightarrow> 'a \<Rightarrow> bool" and absf :: "'s \<Rightarrow> 'a"
  assumes square: "inv s \<Longrightarrow> step s t \<Longrightarrow> absf t = absf s \<or> spec (absf s) (absf t)"
begin

lemma star_refines: "step\<^sup>*\<^sup>* s t \<Longrightarrow> inv s \<Longrightarrow> spec\<^sup>*\<^sup>* (absf s) (absf t)"
proof (induction rule: rtranclp_induct)
  case (step u v)
  then have "inv u" by (blast intro: star_inv)
  then show ?case using step square[of u v] by (metis rtranclp.rtrancl_into_rtrancl)
qed simp

text \<open>What the specification never does, the program never does.\<close>

lemma spec_invariant:
  assumes "\<And>a b. P a \<Longrightarrow> spec a b \<Longrightarrow> P b" "step\<^sup>*\<^sup>* s t" "inv s" "P (absf s)"
  shows "P (absf t)"
  using star_refines[OF assms(2,3)] assms(4)
  by (induction rule: rtranclp_induct) (auto intro: assms(1))

end

text \<open>
  A codec on a byte stream: the decoder takes an encoded value off the front of its input and
  leaves the rest. \<open>wf\<close> restricts the values that have an encoding. Two codecs compose.
\<close>

locale codec =
  fixes enc :: "'a \<Rightarrow> 'b list" and dec :: "'b list \<Rightarrow> ('a \<times> 'b list) option"
    and wf :: "'a \<Rightarrow> bool"
  assumes dec_enc: "wf x \<Longrightarrow> dec (enc x @ rest) = Some (x, rest)"
begin

lemma dec_enc_nil: "wf x \<Longrightarrow> dec (enc x) = Some (x, [])"
  using dec_enc[of x "[]"] by simp

lemma enc_prefix_free:
  assumes "wf x" "wf y" "enc x @ r = enc y @ s"
  shows "x = y \<and> r = s"
proof -
  have "Some (x, r) = dec (enc x @ r)" using assms(1) by (rule dec_enc[symmetric])
  also have "\<dots> = dec (enc y @ s)" by (rule arg_cong[OF assms(3)])
  also have "\<dots> = Some (y, s)" using assms(2) by (rule dec_enc)
  finally show ?thesis by blast
qed

lemma enc_inj:
  assumes "wf x" "wf y" "enc x = enc y"
  shows "x = y"
  using enc_prefix_free[OF assms(1,2), of "[]" "[]"] assms(3) by blast

end

end
