(* ===== verification/Go_Strings.thy ===== *)
theory Go_Strings
  imports Prelude
begin

text \<open>
  The functions of Go's \<open>strings\<close>, \<open>bytes\<close>, \<open>bufio\<close> and \<open>path/filepath\<close> packages that the agent
  calls, on strings as lists of bytes. White space is the ASCII white space of
  \<open>unicode.IsSpace\<close>; the multi-byte spaces of Unicode are not treated.
\<close>

section \<open>Splitting and joining\<close>

text \<open>Splitting at every character that satisfies a predicate; never empty.\<close>

fun split_pred :: "(char \<Rightarrow> bool) \<Rightarrow> string \<Rightarrow> string list" where
  "split_pred P [] = [[]]"
| "split_pred P (x # xs) =
     (if P x then [] # split_pred P xs
      else (case split_pred P xs of [] \<Rightarrow> [[x]] | p # ps \<Rightarrow> (x # p) # ps))"

text \<open>\<open>strings.Split(s, sep)\<close> for a separator of one byte.\<close>

definition Split :: "char \<Rightarrow> string \<Rightarrow> string list" where
  "Split c = split_pred (\<lambda>x. x = c)"

text \<open>\<open>strings.SplitN(s, sep, n)\<close>: at most \<open>n\<close> parts, the last one unsplit.\<close>

fun SplitN :: "char \<Rightarrow> nat \<Rightarrow> string \<Rightarrow> string list" where
  "SplitN c 0 s = []"
| "SplitN c (Suc 0) s = [s]"
| "SplitN c (Suc (Suc n)) s =
     (if c \<in> set s
      then takeWhile (\<lambda>x. x \<noteq> c) s # SplitN c (Suc n) (tl (dropWhile (\<lambda>x. x \<noteq> c) s))
      else [s])"

text \<open>\<open>strings.Join(xs, sep)\<close>.\<close>

fun Join :: "string \<Rightarrow> string list \<Rightarrow> string" where
  "Join sep [] = []"
| "Join sep [x] = x"
| "Join sep (x # y # ys) = x @ sep @ Join sep (y # ys)"

definition is_space :: "char \<Rightarrow> bool" where
  "is_space c \<longleftrightarrow> c \<in> {CHR 0x09, CHR 0x0A, CHR 0x0B, CHR 0x0C, CHR 0x0D, CHR 0x20}"

text \<open>\<open>strings.Fields(s)\<close>: the maximal runs of characters that are no space.\<close>

definition Fields :: "string \<Rightarrow> string list" where
  "Fields s = filter (\<lambda>p. p \<noteq> []) (split_pred is_space s)"

lemma split_pred_not_Nil [simp]: "split_pred P s \<noteq> []"
  by (cases s) (auto split: list.splits)

lemma Split_not_Nil [simp]: "Split c s \<noteq> []"
  by (simp add: Split_def)

lemma split_pred_no_sep: "p \<in> set (split_pred P s) \<Longrightarrow> x \<in> set p \<Longrightarrow> \<not> P x"
  by (induction s arbitrary: p) (auto split: if_splits list.splits, blast+)

lemma split_pred_id: "\<forall>x \<in> set s. \<not> P x \<Longrightarrow> split_pred P s = [s]"
  by (induction s) auto

lemma split_pred_append:
  "\<forall>x \<in> set s. \<not> P x \<Longrightarrow> P c \<Longrightarrow> split_pred P (s @ c # t) = s # split_pred P t"
  by (induction s) auto

lemma Split_no_sep: "p \<in> set (Split c s) \<Longrightarrow> c \<notin> set p"
  by (auto simp: Split_def dest: split_pred_no_sep)

lemma Split_Join:
  "xs \<noteq> [] \<Longrightarrow> \<forall>x \<in> set xs. c \<notin> set x \<Longrightarrow> Split c (Join [c] xs) = xs"
proof (induction xs rule: induct_list012)
  case (2 x)
  then show ?case by (auto simp: Split_def intro!: split_pred_id)
next
  case (3 x y zs)
  have "Split c (Join [c] (x # y # zs)) = x # Split c (Join [c] (y # zs))"
    using "3.prems" by (auto simp: Split_def intro!: split_pred_append)
  then show ?case using "3.IH"(2) "3.prems" by simp
qed simp

lemma Join_Cons: "xs \<noteq> [] \<Longrightarrow> Join sep (x # xs) = x @ sep @ Join sep xs"
  by (cases xs) simp_all

lemma Join_Split: "Join [c] (Split c s) = s"
  unfolding Split_def
proof (induction s)
  case Nil
  then show ?case by simp
next
  case (Cons x s)
  obtain p ps where p: "split_pred (\<lambda>x. x = c) s = p # ps"
    by (meson neq_Nil_conv split_pred_not_Nil)
  then show ?case using Cons by (cases ps) (auto simp: Join_Cons)
qed

lemma Fields_no_space: "p \<in> set (Fields s) \<Longrightarrow> p \<noteq> [] \<and> (\<forall>x \<in> set p. \<not> is_space x)"
  by (auto simp: Fields_def dest: split_pred_no_sep)

lemma SplitN_length: "length (SplitN c n s) \<le> n"
  by (induction c n s rule: SplitN.induct) auto

lemma SplitN_Join: "0 < n \<Longrightarrow> Join [c] (SplitN c n s) = s"
proof (induction c n s rule: SplitN.induct)
  case (3 c n s)
  show ?case
  proof (cases "c \<in> set s")
    case True
    let ?d = "dropWhile (\<lambda>x. x \<noteq> c) s"
    have ne: "?d \<noteq> []" using True by (auto simp: dropWhile_eq_Nil_conv)
    then have "hd ?d = c" using hd_dropWhile[of "\<lambda>x. x \<noteq> c" s] by simp
    with ne have d: "c # tl ?d = ?d" by (metis list.collapse)
    have "SplitN c (Suc n) (tl ?d) \<noteq> []"
      by (cases n) auto
    then have "Join [c] (SplitN c (Suc (Suc n)) s) =
        takeWhile (\<lambda>x. x \<noteq> c) s @ c # Join [c] (SplitN c (Suc n) (tl ?d))"
      using True by (simp add: Join_Cons)
    also have "\<dots> = takeWhile (\<lambda>x. x \<noteq> c) s @ ?d"
      using "3.IH"[OF True] d by simp
    finally show ?thesis by simp
  next
    case False
    then show ?thesis by simp
  qed
qed simp_all

section \<open>Prefixes, trimming, search, case\<close>

definition HasPrefix :: "string \<Rightarrow> string \<Rightarrow> bool" where
  "HasPrefix s p \<longleftrightarrow> take (length p) s = p"

definition TrimPrefix :: "string \<Rightarrow> string \<Rightarrow> string" where
  "TrimPrefix s p = (if HasPrefix s p then drop (length p) s else s)"

definition HasSuffix :: "string \<Rightarrow> string \<Rightarrow> bool" where
  "HasSuffix s p \<longleftrightarrow> HasPrefix (rev s) (rev p)"

text \<open>\<open>strings.Trim\<close> and \<open>bytes.Trim\<close> with a cutset given as a predicate.\<close>

definition trim_pred :: "(char \<Rightarrow> bool) \<Rightarrow> string \<Rightarrow> string" where
  "trim_pred P s = rev (dropWhile P (rev (dropWhile P s)))"

definition TrimSpace :: "string \<Rightarrow> string" where
  "TrimSpace = trim_pred is_space"

fun Contains :: "string \<Rightarrow> string \<Rightarrow> bool" where
  "Contains [] sub = (sub = [])"
| "Contains (x # xs) sub = (HasPrefix (x # xs) sub \<or> Contains xs sub)"

definition to_upper :: "char \<Rightarrow> char" where
  "to_upper c =
     (let n = (of_char c :: nat) in if 97 \<le> n \<and> n \<le> 122 then char_of (n - 32) else c)"

definition ToUpper :: "string \<Rightarrow> string" where
  "ToUpper = map to_upper"

text \<open>\<open>strings.Replace\<close> and \<open>bytes.Replace\<close> with count \<open>-1\<close> and a non-empty pattern: matches are
  replaced from left to right and do not overlap.\<close>

function (sequential) Replace_all :: "string \<Rightarrow> string \<Rightarrow> string \<Rightarrow> string" where
  "Replace_all [] old new = []"
| "Replace_all (x # xs) [] new = x # xs"
| "Replace_all (x # xs) (y # ys) new =
     (if HasPrefix (x # xs) (y # ys) then new @ Replace_all (drop (length ys) xs) (y # ys) new
      else x # Replace_all xs (y # ys) new)"
  by pat_completeness auto
termination by (relation "measure (\<lambda>(s, _, _). length s)") auto

text \<open>\<open>hex.EncodeToString\<close>.\<close>

definition hex_digit :: "nat \<Rightarrow> char" where
  "hex_digit n = (if n < 10 then char_of (48 + n) else char_of (87 + n))"

definition hex_EncodeToString :: "string \<Rightarrow> string" where
  "hex_EncodeToString s =
     concat (map (\<lambda>c. [hex_digit (of_char c div 16), hex_digit (of_char c mod 16)]) s)"

lemma length_hex [simp]: "length (hex_EncodeToString s) = 2 * length s"
  by (induction s) (simp_all add: hex_EncodeToString_def)

lemma HasPrefix_iff: "HasPrefix s p \<longleftrightarrow> prefix p s"
  by (auto simp: HasPrefix_def prefix_def) (metis append_take_drop_id)

lemma HasPrefix_append [simp]: "HasPrefix (p @ s) p"
  by (simp add: HasPrefix_iff)

lemma HasPrefix_same_length: "HasPrefix s p \<Longrightarrow> HasPrefix s q \<Longrightarrow> length p = length q \<Longrightarrow> p = q"
  by (simp add: HasPrefix_def)

lemma TrimPrefix_append [simp]: "TrimPrefix (p @ s) p = s"
  by (simp add: TrimPrefix_def)

lemma Contains_iff: "Contains s sub \<longleftrightarrow> sublist sub s"
proof (induction s)
  case Nil
  then show ?case by simp
next
  case (Cons x s)
  then show ?case by (simp add: HasPrefix_iff sublist_Cons_right)
qed

lemma Contains_char: "Contains s [c] \<longleftrightarrow> c \<in> set s"
  by (induction s) (auto simp: HasPrefix_def)

lemma trim_pred_id:
  assumes "s = [] \<or> \<not> P (hd s) \<and> \<not> P (last s)"
  shows "trim_pred P s = s"
proof -
  have "dropWhile P s = s" and "dropWhile P (rev s) = rev s"
    using assms by (auto simp: dropWhile_eq_self_iff hd_rev)
  then show ?thesis by (simp add: trim_pred_def)
qed

lemma trim_pred_no_ends: "trim_pred P s = [] \<or> \<not> P (last (trim_pred P s))"
proof (cases "dropWhile P (rev (dropWhile P s))")
  case (Cons a list)
  then have "\<not> P a" by (metis hd_dropWhile list.distinct(1) list.sel(1))
  with Cons show ?thesis by (simp add: trim_pred_def)
qed (simp add: trim_pred_def)

section \<open>Line scanning (\<open>bufio.Scanner\<close> with the default split function)\<close>

text \<open>
  An open file as the scanner sees it: the bytes it yields and the error of the read that ends
  it (\<open>None\<close> for a plain end of file).
\<close>

record go_file =
  bytes :: string
  read_err :: "error option"

definition MaxScanTokenSize :: nat where
  "MaxScanTokenSize = 65536"

definition drop_cr :: "string \<Rightarrow> string" where
  "drop_cr s = (if s \<noteq> [] \<and> last s = CHR 0x0D then butlast s else s)"

text \<open>The raw lines: split at every newline; a final empty piece is no line.\<close>

definition raw_lines :: "string \<Rightarrow> string list" where
  "raw_lines s = (let ps = Split (CHR 0x0A) s in if last ps = [] then butlast ps else ps)"

text \<open>
  The tokens that \<open>Scan\<close> delivers and what \<open>Err\<close> returns afterwards: a line that fills the
  buffer of \<open>MaxScanTokenSize\<close> bytes before its newline ends the scan with \<open>ErrTooLong\<close>.
\<close>

definition scan_tokens :: "go_file \<Rightarrow> string list" where
  "scan_tokens f =
     map drop_cr (takeWhile (\<lambda>l. length l < MaxScanTokenSize) (raw_lines (bytes f)))"

definition scan_err :: "go_file \<Rightarrow> error option" where
  "scan_err f =
     (if \<exists>l \<in> set (raw_lines (bytes f)). MaxScanTokenSize \<le> length l then Some ErrTooLong
      else read_err f)"

lemma scan_tokens_short: "t \<in> set (scan_tokens f) \<Longrightarrow> length t < MaxScanTokenSize"
  by (auto simp: scan_tokens_def drop_cr_def dest!: set_takeWhileD)

lemma scan_tokens_complete:
  "scan_err f = None \<Longrightarrow> scan_tokens f = map drop_cr (raw_lines (bytes f))"
  by (simp add: scan_tokens_def scan_err_def not_le takeWhile_eq_all_conv[THEN iffD2]
      split: if_splits)

section \<open>Slash-separated paths (\<open>path/filepath\<close> on Unix)\<close>

text \<open>\<open>filepath.Base\<close>: the last element; \<open>"."\<close> for the empty path, \<open>"/"\<close> for slashes only.\<close>

definition Base :: "string \<Rightarrow> string" where
  "Base p =
     (if p = [] then ''.''
      else let q = rev (dropWhile (\<lambda>c. c = CHR ''/'') (rev p))
           in if q = [] then ''/'' else last (Split (CHR ''/'') q))"

text \<open>\<open>filepath.Clean\<close>: the lexical normal form, element by element.\<close>

fun clean_step :: "bool \<Rightarrow> string list \<Rightarrow> string list \<Rightarrow> string list" where
  "clean_step rooted acc [] = rev acc"
| "clean_step rooted acc (e # es) =
     (if e = [] \<or> e = ''.'' then clean_step rooted acc es
      else if e = ''..'' then
        (case acc of
           [] \<Rightarrow> clean_step rooted (if rooted then [] else [e]) es
         | a # as \<Rightarrow> clean_step rooted (if a = ''..'' then e # acc else as) es)
      else clean_step rooted (e # acc) es)"

definition Clean :: "string \<Rightarrow> string" where
  "Clean p =
     (let rooted = (p \<noteq> [] \<and> hd p = CHR ''/'');
          q = Join ''/'' (clean_step rooted [] (Split (CHR ''/'') p))
      in if rooted then CHR ''/'' # q else if q = [] then ''.'' else q)"

text \<open>\<open>filepath.Dir\<close>: everything up to the last slash, cleaned.\<close>

definition Dir :: "string \<Rightarrow> string" where
  "Dir p = Clean (rev (dropWhile (\<lambda>c. c \<noteq> CHR ''/'') (rev p)))"

text \<open>\<open>filepath.Join\<close>: the non-empty elements joined by slashes, cleaned.\<close>

definition path_join :: "string list \<Rightarrow> string" where
  "path_join es =
     (let ne = dropWhile (\<lambda>e. e = []) es in if ne = [] then [] else Clean (Join ''/'' ne))"

lemma Base_no_slash: "Base p = ''/'' \<or> CHR ''/'' \<notin> set (Base p)"
proof (cases "p = []")
  case False
  have "c \<notin> set (last (Split c q))" for c q
    by (rule Split_no_sep[of _ c q]) (rule last_in_set, simp)
  then show ?thesis by (auto simp: Base_def Let_def)
qed (simp add: Base_def)

lemma Base_id: "p \<noteq> [] \<Longrightarrow> CHR ''/'' \<notin> set p \<Longrightarrow> Base p = p"
proof -
  assume p: "p \<noteq> []" "CHR ''/'' \<notin> set p"
  then have "dropWhile (\<lambda>c. c = CHR ''/'') (rev p) = rev p"
    by (cases "rev p") (auto simp: dropWhile_eq_self_iff)
  moreover have "Split (CHR ''/'') p = [p]"
    using p by (auto simp: Split_def intro!: split_pred_id)
  ultimately show ?thesis using p by (simp add: Base_def Let_def)
qed

lemma split_pred_append_sep:
  "P c \<Longrightarrow> split_pred P (a @ c # b) = split_pred P a @ split_pred P b"
  by (induction a) (auto split: list.splits)

lemma last_Split_append: "c \<notin> set n \<Longrightarrow> last (Split c (x @ c # n)) = n"
proof -
  assume "c \<notin> set n"
  then have "split_pred (\<lambda>x. x = c) n = [n]" by (intro split_pred_id) auto
  then show ?thesis by (simp add: Split_def split_pred_append_sep)
qed

lemma Base_append: "n \<noteq> [] \<Longrightarrow> CHR ''/'' \<notin> set n \<Longrightarrow> Base (x @ CHR ''/'' # n) = n"
proof -
  assume n: "n \<noteq> []" "CHR ''/'' \<notin> set n"
  have "last n \<noteq> CHR ''/''" using n last_in_set by metis
  then have "dropWhile (\<lambda>c. c = CHR ''/'') (rev n @ CHR ''/'' # rev x) = rev n @ CHR ''/'' # rev x"
    using n by (cases n rule: rev_cases) auto
  then show ?thesis using n by (simp add: Base_def Let_def last_Split_append)
qed

end
