(* ===== verification/Go_Strconv.thy ===== *)
theory Go_Strconv
  imports Go_Strings
begin

text \<open>
  Go's \<open>strconv\<close> as the agent uses it: \<open>ParseUint\<close> in bases 8 and 10, \<open>Atoi\<close> on 64-bit \<open>int\<close>,
  and the decimal printing of integers that \<open>fmt\<close> and \<open>strconv\<close> share. The scanning loop keeps
  the overflow tests of the library; the lemmas show that it computes the positional value
  exactly when the value fits, and that parsing inverts printing.
\<close>

section \<open>Digits\<close>

definition digit_val :: "char \<Rightarrow> nat option" where
  "digit_val c =
     (let n = (of_char c :: nat) in
      if 48 \<le> n \<and> n \<le> 57 then Some (n - 48)
      else if 97 \<le> n \<and> n \<le> 122 then Some (n - 97 + 10)
      else if 65 \<le> n \<and> n \<le> 90 then Some (n - 65 + 10)
      else None)"

definition digit_chr :: "nat \<Rightarrow> char" where
  "digit_chr d = char_of (48 + d)"

lemma digit_val_chr: "d < 10 \<Longrightarrow> digit_val (digit_chr d) = Some d"
  by (simp add: digit_val_def digit_chr_def)

lemma digit_chr_neq [simp]:
  "d < 10 \<Longrightarrow> digit_chr d \<noteq> CHR ''.''" "d < 10 \<Longrightarrow> digit_chr d \<noteq> CHR ''-''"
  "d < 10 \<Longrightarrow> digit_chr d \<noteq> CHR ''+''" "d < 10 \<Longrightarrow> \<not> is_space (digit_chr d)"
  "d < 10 \<Longrightarrow> digit_chr d \<noteq> CHR '':''"
proof -
  assume d: "d < 10"
  then have "of_char (digit_chr d) = 48 + d" by (simp add: digit_chr_def)
  with d have *: "digit_chr d \<noteq> c" if "(of_char c :: nat) < 48 \<or> 57 < (of_char c :: nat)" for c
    using that by auto
  show "digit_chr d \<noteq> CHR ''.''" "digit_chr d \<noteq> CHR ''-''" "digit_chr d \<noteq> CHR ''+''"
    "digit_chr d \<noteq> CHR '':''"
    by (rule *; simp)+
  show "\<not> is_space (digit_chr d)"
    by (simp add: is_space_def *)
qed

lemmas digit_chr_neq_sym [simp] = digit_chr_neq(1,2,3,5)[THEN not_sym]

lemma is_space_sign [simp]: "\<not> is_space (CHR ''-'')" "\<not> is_space (CHR ''.'')"
  by (simp_all add: is_space_def)

section \<open>Unsigned parsing\<close>

definition max_uint64 :: nat where
  "max_uint64 = 2 ^ 64 - 1"

text \<open>The loop of \<open>ParseUint\<close>: \<open>Inl\<close> the kind of error at the first offending byte.\<close>

fun parse_loop :: "nat \<Rightarrow> nat \<Rightarrow> nat \<Rightarrow> string \<Rightarrow> num_err + nat" where
  "parse_loop base maxVal n [] = Inr n"
| "parse_loop base maxVal n (c # cs) =
     (case digit_val c of
        None \<Rightarrow> Inl ErrSyntax
      | Some d \<Rightarrow>
          if base \<le> d then Inl ErrSyntax
          else if max_uint64 div base + 1 \<le> n then Inl ErrRange
          else let n0 = n * base; n1 = (n0 + d) mod 2 ^ 64
               in if n1 < n0 \<or> maxVal < n1 then Inl ErrRange
                  else parse_loop base maxVal n1 cs)"

definition ParseUint :: "string \<Rightarrow> nat \<Rightarrow> nat \<Rightarrow> nat result" where
  "ParseUint s base bitSize =
     (if s = [] then Inl (NumError ''ParseUint'' s ErrSyntax)
      else case parse_loop base (2 ^ bitSize - 1) 0 s of
             Inl e \<Rightarrow> Inl (NumError ''ParseUint'' s e)
           | Inr n \<Rightarrow> Inr n)"

text \<open>The specification: the digits and their positional value.\<close>

definition digits_ok :: "nat \<Rightarrow> string \<Rightarrow> bool" where
  "digits_ok base s \<longleftrightarrow> (\<forall>c \<in> set s. \<exists>d. digit_val c = Some d \<and> d < base)"

definition digits_value :: "nat \<Rightarrow> nat \<Rightarrow> string \<Rightarrow> nat" where
  "digits_value base n s = foldl (\<lambda>acc c. acc * base + the (digit_val c)) n s"

lemma digits_value_ge: "0 < base \<Longrightarrow> n \<le> digits_value base n s"
proof (induction s arbitrary: n)
  case (Cons c s)
  have "n * 1 \<le> n * base" using Cons.prems by (intro mult_le_mono2) simp
  also have "n * base \<le> n * base + the (digit_val c)" by simp
  also have "\<dots> \<le> digits_value base (n * base + the (digit_val c)) s"
    using Cons by blast
  finally show ?case by (simp add: digits_value_def)
qed (simp add: digits_value_def)

lemma digits_value_append:
  "digits_value base n (s @ t) = digits_value base (digits_value base n s) t"
  by (simp add: digits_value_def)

lemma digits_ok_append [simp]: "digits_ok base (s @ t) \<longleftrightarrow> digits_ok base s \<and> digits_ok base t"
  by (auto simp: digits_ok_def)

lemma digits_ok_simps [simp]:
  "digits_ok base []"
  "digits_ok base (c # s) \<longleftrightarrow> (\<exists>d. digit_val c = Some d \<and> d < base) \<and> digits_ok base s"
  by (auto simp: digits_ok_def)

text \<open>One round of the loop, its wrap-around tests read as plain arithmetic.\<close>

lemma parse_loop_Cons:
  assumes "0 < base" "base \<le> 36" "maxVal \<le> max_uint64" "digit_val c = Some d" "d < base"
  shows "parse_loop base maxVal n (c # cs) =
           (if n * base + d \<le> maxVal then parse_loop base maxVal (n * base + d) cs
            else Inl ErrRange)"
proof (cases "max_uint64 div base + 1 \<le> n")
  case True
  then have "max_uint64 div base < n" by simp
  then have "max_uint64 < n * base"
    using assms(1) by (simp add: div_less_iff_less_mult)
  then have "\<not> n * base + d \<le> maxVal" using assms(3) by simp
  then show ?thesis using True assms(4,5) by simp
next
  case False
  then have "n \<le> max_uint64 div base" by simp
  then have le: "n * base \<le> max_uint64"
    using assms(1) by (simp add: less_eq_div_iff_mult_less_eq)
  show ?thesis
  proof (cases "n * base + d < 2 ^ 64")
    case True
    then have "(n * base + d) mod 2 ^ 64 = n * base + d" by simp
    then show ?thesis using False assms(4,5) by (simp add: Let_def)
  next
    case over: False
    have "(n * base + d) mod 2 ^ 64 = n * base + d - 2 ^ 64"
      using over le assms(2,5) by (subst mod_if) (simp add: max_uint64_def)
    then have "(n * base + d) mod 2 ^ 64 < n * base"
      using over assms(2,5) by simp
    moreover have "\<not> n * base + d \<le> maxVal"
      using over assms(3) by (simp add: max_uint64_def)
    ultimately show ?thesis using False assms(4,5) by (simp add: Let_def)
  qed
qed

lemma parse_loop_ok:
  assumes "0 < base" "base \<le> 36" "maxVal \<le> max_uint64" "digits_ok base s" "n \<le> maxVal"
  shows "parse_loop base maxVal n s =
           (if digits_value base n s \<le> maxVal then Inr (digits_value base n s) else Inl ErrRange)"
  using assms(4,5)
proof (induction s arbitrary: n)
  case Nil
  then show ?case by (simp add: digits_value_def)
next
  case (Cons c s)
  then obtain d where d: "digit_val c = Some d" "d < base" by auto
  have v: "digits_value base n (c # s) = digits_value base (n * base + d) s"
    using d by (simp add: digits_value_def)
  have "n * base + d \<le> digits_value base (n * base + d) s"
    using assms(1) by (rule digits_value_ge)
  then show ?case
    using Cons parse_loop_Cons[OF assms(1-3) d] by (auto simp: v)
qed

lemma parse_loop_digits: "parse_loop base maxVal n s = Inr m \<Longrightarrow> digits_ok base s"
  by (induction s arbitrary: n) (auto simp: Let_def not_le split: option.splits if_splits)

lemma ParseUint_eq:
  assumes "0 < base" "base \<le> 36" "bits \<le> 64"
  shows "ParseUint s base bits = Inr n \<longleftrightarrow>
           s \<noteq> [] \<and> digits_ok base s \<and> n = digits_value base 0 s \<and> n < 2 ^ bits"
proof -
  have m: "(2::nat) ^ bits - 1 \<le> max_uint64"
    unfolding max_uint64_def using assms(3) by (intro diff_le_mono power_increasing) simp_all
  have lt: "(k \<le> 2 ^ bits - 1) = (k < (2::nat) ^ bits)" for k
    by (cases "(2::nat) ^ bits") auto
  show ?thesis
  proof (cases "digits_ok base s")
    case True
    then have p: "parse_loop base (2 ^ bits - 1) 0 s =
        (if digits_value base 0 s < 2 ^ bits then Inr (digits_value base 0 s) else Inl ErrRange)"
      using parse_loop_ok[OF assms(1,2) m True, of 0] lt[of "digits_value base 0 s"]
      by (simp del: One_nat_def)
    show ?thesis
      using True by (auto simp: ParseUint_def p simp del: One_nat_def split: if_splits)
  next
    case False
    then have "\<nexists>m. parse_loop base (2 ^ bits - 1) 0 s = Inr m"
      by (auto dest: parse_loop_digits)
    then show ?thesis using False by (auto simp: ParseUint_def split: sum.splits)
  qed
qed

section \<open>Signed parsing\<close>

definition Atoi :: "string \<Rightarrow> int result" where
  "Atoi s =
     (let neg = (s \<noteq> [] \<and> hd s = CHR ''-'');
          u = (if s \<noteq> [] \<and> (hd s = CHR ''+'' \<or> hd s = CHR ''-'') then tl s else s)
      in case ParseUint u 10 64 of
           Inl (NumError _ _ e) \<Rightarrow> Inl (NumError ''Atoi'' s e)
         | Inl e \<Rightarrow> Inl e
         | Inr un \<Rightarrow>
             if \<not> neg \<and> 2 ^ 63 \<le> un then Inl (NumError ''Atoi'' s ErrRange)
             else if neg \<and> 2 ^ 63 < un then Inl (NumError ''Atoi'' s ErrRange)
             else Inr (if neg then - int un else int un))"

lemma ParseUint_err: "ParseUint s b k = Inl e \<Longrightarrow> \<exists>f. e = NumError ''ParseUint'' s f"
  by (auto simp: ParseUint_def split: if_splits sum.splits)

lemma Atoi_err: "Atoi s = Inl e \<Longrightarrow> \<exists>f. e = NumError ''Atoi'' s f"
  by (auto simp: Atoi_def Let_def split: if_splits sum.splits error.splits dest!: ParseUint_err)

lemma Atoi_range: "Atoi s = Inr v \<Longrightarrow> in_int64 v"
  by (auto simp: Atoi_def Let_def in_int64_def split: if_splits sum.splits error.splits)

section \<open>Printing\<close>

fun show_nat :: "nat \<Rightarrow> string" where
  "show_nat n = (if n < 10 then [digit_chr n] else show_nat (n div 10) @ [digit_chr (n mod 10)])"

declare show_nat.simps [simp del]

definition Itoa :: "int \<Rightarrow> string" where
  "Itoa v = (if v < 0 then CHR ''-'' # show_nat (nat (- v)) else show_nat (nat v))"

lemma show_nat_digits: "c \<in> set (show_nat n) \<Longrightarrow> \<exists>d < 10. c = digit_chr d"
proof (induction n rule: show_nat.induct)
  case (1 n)
  show ?case
  proof (cases "n < 10")
    case True
    then show ?thesis using "1.prems" by (auto simp: show_nat.simps[of n])
  next
    case False
    have "n mod 10 < 10" by simp
    then show ?thesis
      using False 1 by (fastforce simp: show_nat.simps[of n])
  qed
qed

lemma show_nat_not_Nil [simp]: "show_nat n \<noteq> []"
  by (simp add: show_nat.simps[of n])

lemma show_nat_ok: "digits_ok 10 (show_nat n)"
  by (auto simp: digits_ok_def digit_val_chr dest!: show_nat_digits)

lemma show_nat_value: "digits_value 10 0 (show_nat n) = n"
proof (induction n rule: show_nat.induct)
  case (1 n)
  show ?case
  proof (cases "n < 10")
    case True
    then show ?thesis by (simp add: show_nat.simps[of n] digits_value_def digit_val_chr)
  next
    case False
    have m: "digit_val (digit_chr (n mod 10)) = Some (n mod 10)"
      by (rule digit_val_chr) simp
    have "digits_value 10 0 (show_nat n) =
        digits_value 10 (digits_value 10 0 (show_nat (n div 10))) [digit_chr (n mod 10)]"
      using False by (simp add: show_nat.simps[of n] digits_value_append)
    also have "\<dots> = n div 10 * 10 + n mod 10"
      using 1 False m by (simp add: digits_value_def)
    finally show ?thesis by simp
  qed
qed

lemma show_nat_hd [simp]: "hd (show_nat n) \<noteq> CHR ''-''" "hd (show_nat n) \<noteq> CHR ''+''"
  using show_nat_digits[of "hd (show_nat n)" n] by auto

lemma ParseUint_show_nat: "n < 2 ^ 64 \<Longrightarrow> ParseUint (show_nat n) 10 64 = Inr n"
  by (simp add: ParseUint_eq show_nat_ok show_nat_value)

lemma Atoi_Itoa: "in_int64 v \<Longrightarrow> Atoi (Itoa v) = Inr v"
proof (cases "v < 0")
  case True
  assume "in_int64 v"
  then have b: "nat (- v) \<le> 2 ^ 63" by (auto simp: in_int64_def nat_le_iff)
  then have "nat (- v) < 2 ^ 64" by simp
  then have "ParseUint (show_nat (nat (- v))) 10 64 = Inr (nat (- v))"
    by (rule ParseUint_show_nat)
  then show ?thesis using True b by (simp add: Atoi_def Itoa_def)
next
  case False
  assume "in_int64 v"
  then have b: "nat v < 2 ^ 63" using False by (simp add: in_int64_def)
  then have "nat v < 2 ^ 64" by simp
  then have "ParseUint (show_nat (nat v)) 10 64 = Inr (nat v)"
    by (rule ParseUint_show_nat)
  then show ?thesis using False b by (simp add: Atoi_def Itoa_def)
qed

lemma Itoa_chars:
  "c \<in> set (Itoa v) \<Longrightarrow> c = CHR ''-'' \<or> (\<exists>d < 10. c = digit_chr d)"
  by (auto simp: Itoa_def dest!: show_nat_digits split: if_splits)

lemma Itoa_not_Nil [simp]: "Itoa v \<noteq> []"
  by (simp add: Itoa_def)

lemma Itoa_no_dot [simp]: "CHR ''.'' \<notin> set (Itoa v)"
  by (auto dest!: Itoa_chars)

lemma Itoa_no_space: "c \<in> set (Itoa v) \<Longrightarrow> \<not> is_space c"
  by (auto dest!: Itoa_chars)

end
