(* ===== verification/Go_Os.thy ===== *)
theory Go_Os
  imports Go_Strconv
begin

text \<open>
  The part of Go's \<open>os\<close> and \<open>syscall\<close> packages that the agent calls, over an explicit world: the
  files of the guest (a map from path names), the process umask, and the freeze state of the
  superblocks. Every call first asks the fault oracle of the world, so that each call can fail
  with any errno (permissions, full disk, I/O errors); a theorem about all worlds covers every
  pattern of failures. A symbolic link in the last element of a path is followed where the
  system call follows it, for at most 40 hops; two different path names are two different files.
\<close>

unbundle bit_operations_syntax

section \<open>World\<close>

datatype kind = RegK string | DirK | LinkK string

record inode =
  ino_kind :: kind
  ino_perm :: "32 word"
  ino_uid :: "32 word"
  ino_gid :: "32 word"

record world =
  nodes :: "string \<Rightarrow> inode option"
  dir_entries :: "string \<Rightarrow> string list"
  umask :: "32 word"
  fault :: "string \<Rightarrow> string \<Rightarrow> errno option"
  sb_of :: "string \<Rightarrow> string"
  freezable :: "string \<Rightarrow> bool"
  frozen :: "string set"

record file_info =
  fi_name :: string
  fi_mode :: "32 word"
  fi_size :: int
  fi_isdir :: bool
  fi_uid :: "32 word"
  fi_gid :: "32 word"

abbreviation ModeDir :: "32 word" where "ModeDir \<equiv> 0x80000000"
abbreviation ModeSymlink :: "32 word" where "ModeSymlink \<equiv> 0x08000000"

abbreviation "ENOTDIR \<equiv> Errno 20"
abbreviation "EISDIR \<equiv> Errno 21"
abbreviation "ELOOP \<equiv> Errno 40"

text \<open>One system call: the fault oracle first, then the effect.\<close>

definition syscall :: "world \<Rightarrow> string \<Rightarrow> string \<Rightarrow> 'a result \<Rightarrow> 'a result" where
  "syscall w op p r =
     (case fault w op p of Some e \<Rightarrow> Inl (PathError op p e) | None \<Rightarrow> r)"

lemma syscall_ok [simp]: "fault w op p = None \<Longrightarrow> syscall w op p r = r"
  by (simp add: syscall_def)

lemma syscall_Inr: "syscall w op p r = Inr v \<longleftrightarrow> fault w op p = None \<and> r = Inr v"
  by (simp add: syscall_def split: option.splits)

text \<open>A world with the given nodes, no faults and nothing frozen, for concrete runs.\<close>

definition mk_world :: "(string \<times> kind) list \<Rightarrow> world" where
  "mk_world fs =
     \<lparr>nodes = (\<lambda>p. map_option (\<lambda>k. \<lparr>ino_kind = k, ino_perm = 0x1A4, ino_uid = 0, ino_gid = 0\<rparr>)
                 (map_of fs p)),
      dir_entries = (\<lambda>_. []), umask = 0x12, fault = (\<lambda>_ _. None), sb_of = (\<lambda>m. m),
      freezable = (\<lambda>_. True), frozen = {}\<rparr>"

section \<open>Reading\<close>

fun follow :: "nat \<Rightarrow> world \<Rightarrow> string \<Rightarrow> string result" where
  "follow 0 w p = Inl (SysErrno ELOOP)"
| "follow (Suc n) w p =
     (case nodes w p of
        Some i \<Rightarrow>
          (case ino_kind i of
             LinkK t \<Rightarrow> follow n w (if t \<noteq> [] \<and> hd t = CHR ''/'' then t else path_join [Dir p, t])
           | _ \<Rightarrow> Inr p)
      | None \<Rightarrow> Inr p)"

definition kind_bits :: "kind \<Rightarrow> 32 word" where
  "kind_bits k = (case k of RegK _ \<Rightarrow> 0 | DirK \<Rightarrow> ModeDir | LinkK _ \<Rightarrow> ModeSymlink)"

text \<open>Permission, setuid, setgid and sticky bits of \<open>stat(2)\<close> as bits of \<open>fs.FileMode\<close>.\<close>

definition file_mode :: "32 word \<Rightarrow> 32 word" where
  "file_mode m =
     (m AND 0x1FF) OR (if bit m 11 then 0x800000 else 0) OR (if bit m 10 then 0x400000 else 0)
       OR (if bit m 9 then 0x100000 else 0)"

definition kind_size :: "kind \<Rightarrow> int" where
  "kind_size k = (case k of RegK s \<Rightarrow> int (length s) | DirK \<Rightarrow> 4096 | LinkK t \<Rightarrow> int (length t))"

definition info_of :: "string \<Rightarrow> inode \<Rightarrow> file_info" where
  "info_of p i =
     \<lparr>fi_name = Base p, fi_mode = kind_bits (ino_kind i) OR file_mode (ino_perm i),
      fi_size = kind_size (ino_kind i), fi_isdir = (ino_kind i = DirK),
      fi_uid = ino_uid i, fi_gid = ino_gid i\<rparr>"

definition os_Lstat :: "world \<Rightarrow> string \<Rightarrow> file_info result" where
  "os_Lstat w p =
     syscall w ''lstat'' p
       (case nodes w p of None \<Rightarrow> Inl (PathError ''lstat'' p ENOENT) | Some i \<Rightarrow> Inr (info_of p i))"

definition os_Stat :: "world \<Rightarrow> string \<Rightarrow> file_info result" where
  "os_Stat w p =
     syscall w ''stat'' p
       (case follow 40 w p of
          Inl _ \<Rightarrow> Inl (PathError ''stat'' p ELOOP)
        | Inr q \<Rightarrow>
            (case nodes w q of
               None \<Rightarrow> Inl (PathError ''stat'' p ENOENT) | Some i \<Rightarrow> Inr (info_of p i)))"

definition os_Readlink :: "world \<Rightarrow> string \<Rightarrow> string result" where
  "os_Readlink w p =
     syscall w ''readlink'' p
       (case nodes w p of
          None \<Rightarrow> Inl (PathError ''readlink'' p ENOENT)
        | Some i \<Rightarrow>
            (case ino_kind i of LinkK t \<Rightarrow> Inr t | _ \<Rightarrow> Inl (PathError ''readlink'' p EINVAL)))"

text \<open>\<open>os.Open\<close>: the opened file with the bytes that reading it yields.\<close>

definition os_Open :: "world \<Rightarrow> string \<Rightarrow> go_file result" where
  "os_Open w p =
     syscall w ''open'' p
       (case follow 40 w p of
          Inl _ \<Rightarrow> Inl (PathError ''open'' p ELOOP)
        | Inr q \<Rightarrow>
            (case nodes w q of
               None \<Rightarrow> Inl (PathError ''open'' p ENOENT)
             | Some i \<Rightarrow>
                 (case ino_kind i of
                    RegK s \<Rightarrow>
                      Inr \<lparr>bytes = s,
                           read_err = map_option (PathError ''read'' p) (fault w ''read'' p)\<rparr>
                  | _ \<Rightarrow> Inr \<lparr>bytes = [], read_err = Some (PathError ''read'' p EISDIR)\<rparr>)))"

text \<open>\<open>(*os.File).Readdir(-1)\<close>: the entries of a directory; an entry that vanished meanwhile is
  left out, as the library does.\<close>

definition file_Readdir :: "world \<Rightarrow> string \<Rightarrow> file_info list result" where
  "file_Readdir w p =
     syscall w ''readdirent'' p
       (Inr (List.map_filter
               (\<lambda>e. let q = p @ ''/'' @ e in map_option (info_of q) (nodes w q))
               (dir_entries w p)))"

text \<open>\<open>os.ReadDir\<close>: the names in a directory.\<close>

definition os_ReadDir :: "world \<Rightarrow> string \<Rightarrow> string list result" where
  "os_ReadDir w p =
     syscall w ''open'' p
       (case nodes w p of
          None \<Rightarrow> Inl (PathError ''open'' p ENOENT)
        | Some i \<Rightarrow>
            if ino_kind i = DirK then Inr (dir_entries w p) else Inl (PathError ''readdirent'' p ENOTDIR))"

text \<open>\<open>filepath.EvalSymlinks\<close>: the path after following links; it must exist.\<close>

definition EvalSymlinks :: "world \<Rightarrow> string \<Rightarrow> string result" where
  "EvalSymlinks w p =
     (case fault w ''lstat'' p of
        Some e \<Rightarrow> Inl (PathError ''lstat'' p e)
      | None \<Rightarrow>
          (case follow 255 w p of
             Inl _ \<Rightarrow> Inl (Errorf ''EvalSymlinks: too many links'')
           | Inr q \<Rightarrow>
               if nodes w q = None then Inl (PathError ''lstat'' q ENOENT) else Inr (Clean q)))"

text \<open>\<open>os.IsNotExist\<close>, and \<open>errors.Is(err, fs.ErrNotExist)\<close>, which also unwraps.\<close>

fun IsNotExist :: "error \<Rightarrow> bool" where
  "IsNotExist (PathError _ _ e) = (e = ENOENT)"
| "IsNotExist (SyscallError _ e) = (e = ENOENT)"
| "IsNotExist (SysErrno e) = (e = ENOENT)"
| "IsNotExist _ = False"

fun is_ErrNotExist :: "error \<Rightarrow> bool" where
  "is_ErrNotExist (Wrap _ e) = is_ErrNotExist e"
| "is_ErrNotExist e = IsNotExist e"

section \<open>Changing files\<close>

definition set_node :: "string \<Rightarrow> inode option \<Rightarrow> world \<Rightarrow> world" where
  "set_node p i w = w\<lparr>nodes := (nodes w)(p := i)\<rparr>"

lemma set_node_simps [simp]:
  "nodes (set_node p i w) = (nodes w)(p := i)" "umask (set_node p i w) = umask w"
  "fault (set_node p i w) = fault w" "frozen (set_node p i w) = frozen w"
  "sb_of (set_node p i w) = sb_of w" "freezable (set_node p i w) = freezable w"
  "dir_entries (set_node p i w) = dir_entries w"
  by (simp_all add: set_node_def)

text \<open>A call that changes the node a path leads to.\<close>

definition on_node ::
  "string \<Rightarrow> string \<Rightarrow> (inode \<Rightarrow> inode) \<Rightarrow> world \<Rightarrow> unit result \<times> world" where
  "on_node op p f w =
     (case fault w op p of
        Some e \<Rightarrow> (Inl (PathError op p e), w)
      | None \<Rightarrow>
          (case follow 40 w p of
             Inl _ \<Rightarrow> (Inl (PathError op p ELOOP), w)
           | Inr q \<Rightarrow>
               (case nodes w q of
                  None \<Rightarrow> (Inl (PathError op p ENOENT), w)
                | Some i \<Rightarrow> (Inr (), set_node q (Some (f i)) w))))"

text \<open>\<open>os.Chmod\<close> passes the permission bits and the setuid, setgid and sticky flags.\<close>

definition syscall_mode :: "32 word \<Rightarrow> 32 word" where
  "syscall_mode m =
     (m AND 0x1FF) OR (if bit m 23 then 0x800 else 0) OR (if bit m 22 then 0x400 else 0)
       OR (if bit m 20 then 0x200 else 0)"

definition os_Chmod :: "string \<Rightarrow> 32 word \<Rightarrow> world \<Rightarrow> unit result \<times> world" where
  "os_Chmod p m = on_node ''chmod'' p (\<lambda>i. i\<lparr>ino_perm := syscall_mode m\<rparr>)"

text \<open>\<open>chown(2)\<close> takes 32-bit ids; -1 leaves an id unchanged. On anything but a directory it clears the setuid
  bit, and the setgid bit if the group may execute the file, also for root.\<close>

definition chown_perm :: "inode \<Rightarrow> 32 word" where
  "chown_perm i =
     (if ino_kind i = DirK then ino_perm i
      else ino_perm i AND NOT (if bit (ino_perm i) 3 then 0xC00 else 0x800))"

definition os_Chown :: "string \<Rightarrow> int \<Rightarrow> int \<Rightarrow> world \<Rightarrow> unit result \<times> world" where
  "os_Chown p uid gid =
     on_node ''chown'' p
       (\<lambda>i. i\<lparr>ino_uid := (if word_of_int uid = (- 1 :: 32 word) then ino_uid i else word_of_int uid),
             ino_gid := (if word_of_int gid = (- 1 :: 32 word) then ino_gid i else word_of_int gid),
             ino_perm := chown_perm i\<rparr>)"

definition set_umask :: "32 word \<Rightarrow> world \<Rightarrow> 32 word \<times> world" where
  "set_umask m w = (umask w, w\<lparr>umask := m\<rparr>)"

text \<open>New files belong to root, as whom the agent runs; in a directory with the setgid bit they get its
  group instead. \<open>mkdir(2)\<close> honours the permission bits and the sticky bit of the mode under the umask,
  and a new directory inherits the setgid bit. Access control lists are not modelled.\<close>

definition is_setgid :: "inode \<Rightarrow> bool" where
  "is_setgid i = bit (ino_perm i) 10"

definition new_gid :: "inode \<Rightarrow> 32 word" where
  "new_gid parent = (if is_setgid parent then ino_gid parent else 0)"

definition mkdir_mode :: "32 word \<Rightarrow> bool \<Rightarrow> 32 word \<Rightarrow> 32 word" where
  "mkdir_mode m inherit msk = (syscall_mode m AND 0x3FF AND NOT msk) OR (if inherit then 0x400 else 0)"

definition new_dir :: "world \<Rightarrow> inode \<Rightarrow> 32 word \<Rightarrow> inode" where
  "new_dir w parent m =
     \<lparr>ino_kind = DirK, ino_perm = mkdir_mode m (is_setgid parent) (umask w), ino_uid = 0, ino_gid = new_gid parent\<rparr>"

text \<open>The parent of a path as \<open>os.MkdirAll\<close> computes it: trailing slashes dropped, then the last
  element; the slashes before it, which the kernel ignores, are dropped too.\<close>

definition mkdir_parent :: "string \<Rightarrow> string" where
  "mkdir_parent p =
     rev (dropWhile (\<lambda>c. c = CHR ''/'')
       (dropWhile (\<lambda>c. c \<noteq> CHR ''/'') (dropWhile (\<lambda>c. c = CHR ''/'') (rev p))))"

definition parent_dir :: "string \<Rightarrow> string" where
  "parent_dir p =
     (if mkdir_parent p = [] then if HasPrefix p ''/'' then ''/'' else ''.'' else mkdir_parent p)"

definition parent_node :: "world \<Rightarrow> string \<Rightarrow> errno + inode" where
  "parent_node w p =
     (case follow 40 w (parent_dir p) of
        Inl _ \<Rightarrow> Inl ELOOP
      | Inr q \<Rightarrow>
          (case nodes w q of
             None \<Rightarrow> Inl ENOENT
           | Some i \<Rightarrow> if ino_kind i = DirK then Inr i else Inl ENOTDIR))"

definition os_Mkdir :: "string \<Rightarrow> 32 word \<Rightarrow> world \<Rightarrow> unit result \<times> world" where
  "os_Mkdir p m w =
     (case fault w ''mkdir'' p of
        Some e \<Rightarrow> (Inl (PathError ''mkdir'' p e), w)
      | None \<Rightarrow>
          (case parent_node w p of
             Inl e \<Rightarrow> (Inl (PathError ''mkdir'' p e), w)
           | Inr d \<Rightarrow>
               if nodes w p \<noteq> None then (Inl (PathError ''mkdir'' p EEXIST), w)
               else (Inr (), set_node p (Some (new_dir w d m)) w)))"

lemma length_dropWhile_less: "xs \<noteq> [] \<Longrightarrow> P (hd xs) \<Longrightarrow> length (dropWhile P xs) < length xs"
  by (cases xs) (simp_all add: le_imp_less_Suc length_dropWhile_le)

lemma mkdir_parent_shorter: "mkdir_parent p \<noteq> [] \<Longrightarrow> length (mkdir_parent p) < length p"
proof -
  assume ne: "mkdir_parent p \<noteq> []"
  let ?a = "dropWhile (\<lambda>c. c = CHR ''/'') (rev p)"
  let ?b = "dropWhile (\<lambda>c. c \<noteq> CHR ''/'') ?a"
  have b: "?b \<noteq> []"
  proof
    assume "?b = []"
    then show False using ne unfolding mkdir_parent_def by (simp only: dropWhile.simps rev.simps)
  qed
  then have "hd ?b = CHR ''/''" using hd_dropWhile[of "\<lambda>c. c \<noteq> CHR ''/''" ?a] by simp
  then have "length (dropWhile (\<lambda>c. c = CHR ''/'') ?b) < length ?b"
    using b by (intro length_dropWhile_less) simp_all
  also have "\<dots> \<le> length p"
    using length_dropWhile_le[of "\<lambda>c. c \<noteq> CHR ''/''" ?a]
      length_dropWhile_le[of "\<lambda>c. c = CHR ''/''" "rev p"] by simp
  finally show ?thesis by (simp add: mkdir_parent_def)
qed

function os_MkdirAll :: "string \<Rightarrow> 32 word \<Rightarrow> world \<Rightarrow> unit result \<times> world" where
  "os_MkdirAll p m w =
     (case os_Stat w p of
        Inr fi \<Rightarrow> if fi_isdir fi then (Inr (), w) else (Inl (PathError ''mkdir'' p ENOTDIR), w)
      | Inl _ \<Rightarrow>
          let parent = mkdir_parent p;
              pr = (if parent = [] then (Inr (), w) else os_MkdirAll parent m w)
          in case pr of
               (Inl e, w1) \<Rightarrow> (Inl e, w1)
             | (Inr _, w1) \<Rightarrow>
                 (case os_Mkdir p m w1 of
                    (Inr _, w2) \<Rightarrow> (Inr (), w2)
                  | (Inl e, w2) \<Rightarrow>
                      (case os_Lstat w2 p of
                         Inr fi \<Rightarrow> if fi_isdir fi then (Inr (), w2) else (Inl e, w2)
                       | Inl _ \<Rightarrow> (Inl e, w2))))"
  by pat_completeness auto
termination
  by (relation "measure (\<lambda>(p, m, w). length p)") (auto simp: mkdir_parent_shorter)

declare os_MkdirAll.simps [simp del]

definition os_Remove :: "string \<Rightarrow> world \<Rightarrow> unit result \<times> world" where
  "os_Remove p w =
     (case fault w ''remove'' p of
        Some e \<Rightarrow> (Inl (PathError ''remove'' p e), w)
      | None \<Rightarrow>
          if nodes w p = None then (Inl (PathError ''remove'' p ENOENT), w)
          else (Inr (), set_node p None w))"

definition os_Rename :: "string \<Rightarrow> string \<Rightarrow> world \<Rightarrow> unit result \<times> world" where
  "os_Rename a b w =
     (case fault w ''rename'' a of
        Some e \<Rightarrow> (Inl (PathError ''rename'' a e), w)
      | None \<Rightarrow>
          (case nodes w a of
             None \<Rightarrow> (Inl (PathError ''rename'' a ENOENT), w)
           | Some i \<Rightarrow>
               if (case nodes w b of Some j \<Rightarrow> ino_kind j = DirK | None \<Rightarrow> False)
               then (Inl (PathError ''rename'' a EEXIST), w)
               else (Inr (), set_node b (Some i) (set_node a None w))))"

text \<open>\<open>os.CreateTemp(dir, prefix + "*")\<close>: a new file whose name has one of the random numbers tried as its
  suffix and is not in use; a prefix with a slash is refused. The mode is 0600 under the umask. Whether
  the directory exists is left to the fault oracle.\<close>

definition gid_in :: "world \<Rightarrow> string \<Rightarrow> 32 word" where
  "gid_in w dir =
     (case follow 40 w dir of
        Inl _ \<Rightarrow> 0
      | Inr q \<Rightarrow> (case nodes w q of None \<Rightarrow> 0 | Some i \<Rightarrow> if ino_kind i = DirK then new_gid i else 0))"

definition temp_name :: "string \<Rightarrow> string \<Rightarrow> nat \<Rightarrow> string" where
  "temp_name dir pre rnd = (if HasSuffix dir ''/'' then dir else dir @ ''/'') @ pre @ Itoa (int rnd)"

definition os_CreateTemp :: "nat list \<Rightarrow> string \<Rightarrow> string \<Rightarrow> world \<Rightarrow> string result \<times> world" where
  "os_CreateTemp rnds dir pre w =
     (if CHR ''/'' \<in> set pre then (Inl (PathError ''createtemp'' (pre @ ''*'') EINVAL), w)
      else (case find (\<lambda>r. nodes w (temp_name dir pre r) = None) rnds of
              None \<Rightarrow> (Inl (PathError ''createtemp'' (pre @ ''*'') EEXIST), w)
            | Some r \<Rightarrow>
                let p = temp_name dir pre r in
                (case fault w ''open'' p of
                   Some e \<Rightarrow> (Inl (PathError ''open'' p e), w)
                 | None \<Rightarrow>
                     (Inr p, set_node p (Some \<lparr>ino_kind = RegK [], ino_perm = 0x180 AND NOT (umask w),
                                               ino_uid = 0, ino_gid = gid_in w dir\<rparr>) w))))"

text \<open>\<open>(*os.File).Write\<close> at the end of a regular file, and \<open>Sync\<close>.\<close>

definition file_Write :: "string \<Rightarrow> string \<Rightarrow> world \<Rightarrow> error option \<times> world" where
  "file_Write p data w =
     (case fault w ''write'' p of
        Some e \<Rightarrow> (Some (PathError ''write'' p e), w)
      | None \<Rightarrow>
          (case nodes w p of
             Some i \<Rightarrow>
               (case ino_kind i of
                  RegK s \<Rightarrow> (None, set_node p (Some (i\<lparr>ino_kind := RegK (s @ data)\<rparr>)) w)
                | _ \<Rightarrow> (Some (PathError ''write'' p EINVAL), w))
           | None \<Rightarrow> (Some (PathError ''write'' p ENOENT), w)))"

definition file_Sync :: "string \<Rightarrow> world \<Rightarrow> error option" where
  "file_Sync p w = map_option (PathError ''sync'' p) (fault w ''sync'' p)"

section \<open>Frame facts\<close>

text \<open>Only the file at \<open>p\<close> may differ.\<close>

definition only_at :: "string \<Rightarrow> world \<Rightarrow> world \<Rightarrow> bool" where
  "only_at p w w' \<longleftrightarrow> (\<exists>i. w' = set_node p i w)"

lemma set_node_twice [simp]: "set_node p i (set_node p j w) = set_node p i w"
  by (simp add: set_node_def)

lemma only_at_refl [simp, intro]: "only_at p w w"
  unfolding only_at_def by (rule exI[of _ "nodes w p"]) (simp add: set_node_def)

lemma only_at_trans: "only_at p w w1 \<Longrightarrow> only_at p w1 w2 \<Longrightarrow> only_at p w w2"
  by (auto simp: only_at_def)

lemma only_at_nodes: "only_at p w w' \<Longrightarrow> q \<noteq> p \<Longrightarrow> nodes w' q = nodes w q"
  by (auto simp: only_at_def)

lemma only_at_fault: "only_at p w w' \<Longrightarrow> fault w' = fault w"
  by (auto simp: only_at_def)

lemma only_at_same: "only_at p w w' \<Longrightarrow> nodes w' p = nodes w p \<Longrightarrow> w' = w"
  unfolding only_at_def by (auto simp: set_node_def)

lemma file_Write_only_at: "only_at p w (snd (file_Write p d w))"
  by (auto simp: file_Write_def only_at_def split: option.splits kind.splits)
    (metis fun_upd_triv set_node_def world.surjective world.update_convs(1))+

lemma os_CreateTemp_ok:
  assumes "os_CreateTemp rnds dir pre w = (Inr p, w')"
  shows "\<exists>r. p = temp_name dir pre r" "nodes w p = None" "CHR ''/'' \<notin> set pre"
    "w' = set_node p (Some \<lparr>ino_kind = RegK [], ino_perm = 0x180 AND NOT (umask w), ino_uid = 0,
        ino_gid = gid_in w dir\<rparr>) w"
  using assms by (auto simp: os_CreateTemp_def Let_def find_Some_iff split: if_splits option.splits)

lemma os_CreateTemp_err: "os_CreateTemp rnds dir pre w = (Inl e, w') \<Longrightarrow> w' = w"
  by (auto simp: os_CreateTemp_def Let_def split: if_splits option.splits)

lemma on_node_frame:
  "on_node op p f w = (r, w') \<Longrightarrow> umask w' = umask w \<and> frozen w' = frozen w \<and> fault w' = fault w"
  by (auto simp: on_node_def split: option.splits sum.splits)

lemma on_node_error: "on_node op p f w = (Inl e, w') \<Longrightarrow> w' = w"
  by (auto simp: on_node_def split: option.splits sum.splits)

lemma follow_same: "nodes w' = nodes w \<Longrightarrow> follow n w' p = follow n w p"
  by (induction n arbitrary: p) (auto split: option.splits kind.splits)

text \<open>No existing file is touched.\<close>

definition extends :: "world \<Rightarrow> world \<Rightarrow> bool" where
  "extends w w' \<longleftrightarrow>
     (\<forall>q i. nodes w q = Some i \<longrightarrow> nodes w' q = Some i) \<and>
     umask w' = umask w \<and> frozen w' = frozen w \<and> fault w' = fault w"

lemma extends_refl [simp]: "extends w w"
  by (simp add: extends_def)

lemma extends_trans: "extends u v \<Longrightarrow> extends v w \<Longrightarrow> extends u w"
  by (simp add: extends_def)

lemma extends_set_node [intro]: "nodes w p = None \<Longrightarrow> extends w (set_node p i w)"
  by (auto simp: extends_def)

lemma follow_extends:
  "follow n w p = Inr q \<Longrightarrow> nodes w q = Some i \<Longrightarrow> extends w w' \<Longrightarrow> follow n w' p = Inr q"
proof (induction n arbitrary: p)
  case (Suc n)
  show ?case
  proof (cases "nodes w p")
    case (Some j)
    then have "nodes w' p = Some j" using Suc.prems(3) by (simp add: extends_def)
    then show ?thesis using Suc Some by (cases "ino_kind j") auto
  qed (use Suc.prems in auto)
qed simp

lemma parent_node_extends: "parent_node w p = Inr d \<Longrightarrow> extends w w' \<Longrightarrow> parent_node w' p = Inr d"
  by (auto simp: parent_node_def extends_def split: sum.splits option.splits if_splits
      dest: follow_extends[of 40 w _ _ _ w'])

lemma parent_node_umask [simp]: "parent_node (w\<lparr>umask := m\<rparr>) = parent_node w"
  using follow_same[of "w\<lparr>umask := m\<rparr>" w] by (intro ext) (simp add: parent_node_def cong: sum.case_cong option.case_cong)

text \<open>Directories appear only where nothing was, each as a child of the directory that is its parent.\<close>

definition made_dirs :: "32 word \<Rightarrow> world \<Rightarrow> world \<Rightarrow> bool" where
  "made_dirs m w w' \<longleftrightarrow>
     extends w w' \<and>
     (\<forall>q i. nodes w q = None \<longrightarrow> nodes w' q = Some i \<longrightarrow> (\<exists>d. parent_node w' q = Inr d \<and> i = new_dir w d m))"

lemma made_dirs_refl [simp]: "made_dirs m w w"
  by (simp add: made_dirs_def)

lemma new_dir_extends: "extends w w' \<Longrightarrow> new_dir w' d m = new_dir w d m"
  by (simp add: new_dir_def extends_def)

lemma made_dirs_trans:
  assumes "made_dirs m u v" "made_dirs m v w"
  shows "made_dirs m u w"
proof -
  have e: "extends u v" "extends v w" using assms by (simp_all add: made_dirs_def)
  have "\<exists>d. parent_node w q = Inr d \<and> i = new_dir u d m" if new: "nodes u q = None" "nodes w q = Some i" for q i
  proof (cases "nodes v q")
    case None
    then show ?thesis using assms(2) new new_dir_extends[OF e(1)] by (auto simp: made_dirs_def)
  next
    case (Some j)
    then have "j = i" using Some e(2) new(2) by (auto simp: extends_def)
    then obtain d where "parent_node v q = Inr d" "i = new_dir u d m"
      using assms(1) new(1) Some unfolding made_dirs_def by blast
    then show ?thesis using parent_node_extends[OF _ e(2)] by blast
  qed
  then show ?thesis using extends_trans[OF e] by (simp add: made_dirs_def)
qed

lemma os_Mkdir_frame: "os_Mkdir p m w = (r, w') \<Longrightarrow> made_dirs m w w'"
proof -
  assume mk: "os_Mkdir p m w = (r, w')"
  show ?thesis
  proof (cases "\<exists>d. parent_node w p = Inr d \<and> nodes w p = None \<and> w' = set_node p (Some (new_dir w d m)) w")
    case True
    then obtain d where d: "parent_node w p = Inr d" "nodes w p = None" "w' = set_node p (Some (new_dir w d m)) w" by blast
    then have "extends w w'" by auto
    then show ?thesis using d parent_node_extends[OF d(1)] by (auto simp: made_dirs_def)
  next
    case False
    then have "w' = w" using mk by (auto simp: os_Mkdir_def split: option.splits sum.splits if_splits)
    then show ?thesis by simp
  qed
qed

lemma os_MkdirAll_frame: "os_MkdirAll p m w = (r, w') \<Longrightarrow> made_dirs m w w'"
proof (induction p m w arbitrary: r w' rule: os_MkdirAll.induct)
  case (1 p m w)
  show ?case
  proof (cases "os_Stat w p")
    case (Inr fi)
    then show ?thesis using "1.prems" by (auto simp: os_MkdirAll.simps[of p] split: if_splits)
  next
    case (Inl e)
    let ?pr = "if mkdir_parent p = [] then (Inr (), w) else os_MkdirAll (mkdir_parent p) m w"
    obtain r1 w1 where pr: "?pr = (r1, w1)" by fastforce
    have f1: "made_dirs m w w1"
      using pr "1.IH"[OF Inl refl] by (cases "mkdir_parent p = []") auto
    obtain r2 w2 where mk: "os_Mkdir p m w1 = (r2, w2)" by fastforce
    have w': "w' = w1 \<or> w' = w2"
      using "1.prems" Inl pr mk
      by (auto simp: os_MkdirAll.simps[of p] Let_def split: sum.splits if_splits)
    then show ?thesis using f1 made_dirs_trans[OF f1 os_Mkdir_frame[OF mk]] by auto
  qed
qed

end
