(* ===== verification/Fs_Utils.thy ===== *)
theory Fs_Utils
  imports Go_Os
begin

text \<open>
  \<open>core/filesystem_utils.go\<close>: the list of freezable mount points read from
  \<open>/proc/self/mounts\<close>, and the user and group tables read from \<open>/etc/passwd\<close> and \<open>/etc/group\<close>.
  The two tables are loaded by the same loop over different line formats; the locale
  \<open>id_table\<close> states that loop and what it guarantees, and both loaders interpret it.
\<close>

section \<open>Mount points\<close>

abbreviation FIFREEZE :: nat where "FIFREEZE \<equiv> 0xC0045877"
abbreviation FITHAW :: nat where "FITHAW \<equiv> 0xC0045878"

record MPEntry =
  FSSpec :: string
  FSFile :: string
  FSType :: string

fun present :: "MPEntry list \<Rightarrow> string \<Rightarrow> bool" where
  "present [] fsspec = False"
| "present (v # vs) fsspec = (FSSpec v = fsspec \<or> present vs fsspec)"

text \<open>What is stored for a device: the base name of the link target for a symbolic link.\<close>

definition mount_spec :: "world \<Rightarrow> string \<Rightarrow> string result" where
  "mount_spec w dev =
     (case os_Lstat w dev of
        Inl e \<Rightarrow> Inl e
      | Inr st \<Rightarrow>
          if fi_mode st AND ModeSymlink \<noteq> 0
          then (case os_Readlink w dev of Inl e \<Rightarrow> Inl e | Inr s \<Rightarrow> Inr (Base s))
          else Inr dev)"

text \<open>One round of the scanning loop. The third \<open>case\<close> of the switch reads \<open>parts[2]\<close> under the
  guard \<open>len(parts) >= 2\<close> only.\<close>

definition mount_line :: "world \<Rightarrow> string \<Rightarrow> MPEntry list \<Rightarrow> MPEntry list result" where
  "mount_line w line mpoints =
     (let parts = Fields line in
      if length parts < 2 then Inr mpoints
      else if present mpoints (parts ! 0) then Inr mpoints
      else if hd (parts ! 0) \<noteq> CHR ''/'' then Inr mpoints
      else if length parts < 3 then Inl (Panic ''index out of range'')
      else if parts ! 2 = ''smbfs'' \<or> parts ! 2 = ''cifs'' then Inr mpoints
      else if HasPrefix (parts ! 0) ''/dev/loop'' then Inr mpoints
      else case mount_spec w (parts ! 0) of
             Inl e \<Rightarrow> Inl e
           | Inr spec \<Rightarrow>
               if HasPrefix spec ''dm-'' then Inr mpoints
               else Inr (mpoints @ [\<lparr>FSSpec = spec, FSFile = parts ! 1, FSType = parts ! 2\<rparr>]))"

definition GetMountPoints :: "world \<Rightarrow> MPEntry list result" where
  "GetMountPoints w =
     (case os_Open w ''/proc/self/mounts'' of
        Inl e \<Rightarrow> Inl e
      | Inr f \<Rightarrow>
          (case fold_res (mount_line w) (scan_tokens f) [] of
             Inl e \<Rightarrow> Inl e
           | Inr mpoints \<Rightarrow>
               (case scan_err f of Some e \<Rightarrow> Inl e | None \<Rightarrow> Inr mpoints)))"

lemma present_iff: "present mps s \<longleftrightarrow> s \<in> FSSpec ` set mps"
  by (induction mps) auto

text \<open>What an entry of the result says about the line it comes from.\<close>

definition mount_entry_of :: "world \<Rightarrow> string \<Rightarrow> MPEntry \<Rightarrow> bool" where
  "mount_entry_of w line e \<longleftrightarrow>
     (\<exists>dev rest. Fields line = dev # FSFile e # FSType e # rest \<and>
        hd dev = CHR ''/'' \<and> \<not> HasPrefix dev ''/dev/loop'' \<and>
        FSType e \<noteq> ''smbfs'' \<and> FSType e \<noteq> ''cifs'' \<and>
        mount_spec w dev = Inr (FSSpec e) \<and> \<not> HasPrefix (FSSpec e) ''dm-'')"

lemma fields3: "\<not> length xs < 2 \<Longrightarrow> \<not> length xs < 3 \<Longrightarrow> \<exists>rest. xs = xs ! 0 # xs ! 1 # xs ! 2 # rest"
  by (cases xs; cases "tl xs"; cases "tl (tl xs)") auto

lemma mount_line_cases:
  assumes "mount_line w line mps = Inr mps'"
  shows "mps' = mps \<or>
    (\<exists>e. mps' = mps @ [e] \<and> mount_entry_of w line e \<and> \<not> present mps (hd (Fields line)))"
proof (cases "mps' = mps")
  case False
  let ?p = "Fields line"
  from assms False obtain spec where h: "\<not> length ?p < 2" "\<not> present mps (?p ! 0)"
      "hd (?p ! 0) = CHR ''/''" "\<not> length ?p < 3" "?p ! 2 \<noteq> ''smbfs''" "?p ! 2 \<noteq> ''cifs''"
      "\<not> HasPrefix (?p ! 0) ''/dev/loop''" "mount_spec w (?p ! 0) = Inr spec"
      "\<not> HasPrefix spec ''dm-''"
      "mps' = mps @ [\<lparr>FSSpec = spec, FSFile = ?p ! 1, FSType = ?p ! 2\<rparr>]"
    by (auto simp: mount_line_def Let_def split: if_splits sum.splits)
  obtain rest where "?p = ?p ! 0 # ?p ! 1 # ?p ! 2 # rest" using fields3[OF h(1,4)] by blast
  moreover from this have "hd ?p = ?p ! 0" by (metis list.sel(1))
  ultimately show ?thesis
    using h unfolding mount_entry_of_def by (intro disjI2 exI[of _ "\<lparr>FSSpec = spec,
      FSFile = ?p ! 1, FSType = ?p ! 2\<rparr>"] conjI exI[of _ "?p ! 0"] exI[of _ rest]) simp_all
qed simp

lemma mount_loop_sound:
  assumes "fold_res (mount_line w) ls mps = Inr mps'" "e \<in> set mps'"
  shows "e \<in> set mps \<or> (\<exists>line \<in> set ls. mount_entry_of w line e)"
  using assms
proof (induction ls arbitrary: mps)
  case (Cons l ls)
  then obtain m where m: "mount_line w l mps = Inr m" "fold_res (mount_line w) ls m = Inr mps'"
    by (auto simp: rbind_Inr)
  show ?case using Cons.IH[OF m(2) Cons.prems(2)] mount_line_cases[OF m(1)] by auto
qed simp

text \<open>Without symbolic links among the devices the stored name is the device name, and the
  \<open>present\<close> test keeps the names distinct.\<close>

lemma mount_loop_distinct:
  assumes "fold_res (mount_line w) ls mps = Inr mps'"
    and "distinct (map FSSpec mps)"
    and "\<And>line dev rest s. line \<in> set ls \<Longrightarrow> Fields line = dev # rest \<Longrightarrow>
           mount_spec w dev = Inr s \<Longrightarrow> s = dev"
  shows "distinct (map FSSpec mps')"
  using assms
proof (induction ls arbitrary: mps)
  case (Cons l ls)
  then obtain m where m: "mount_line w l mps = Inr m" "fold_res (mount_line w) ls m = Inr mps'"
    by (auto simp: rbind_Inr)
  have "distinct (map FSSpec m)"
    using mount_line_cases[OF m(1)]
  proof
    assume "\<exists>e. m = mps @ [e] \<and> mount_entry_of w l e \<and> \<not> present mps (hd (Fields l))"
    then obtain e dev rest where e: "m = mps @ [e]" "\<not> present mps (hd (Fields l))"
        "Fields l = dev # rest" "mount_spec w dev = Inr (FSSpec e)"
      by (auto simp: mount_entry_of_def)
    have "l \<in> set (l # ls)" by simp
    from Cons.prems(3)[OF this e(3,4)] have "FSSpec e = dev" .
    with e Cons.prems(2) show ?thesis by (auto simp: present_iff)
  qed (use Cons.prems(2) in simp)
  then show ?case by (rule Cons.IH[OF m(2)]) (rule Cons.prems(3), auto)
qed simp

lemma GetMountPoints_loop:
  "GetMountPoints w = Inr mps \<Longrightarrow>
     \<exists>f. os_Open w ''/proc/self/mounts'' = Inr f \<and> scan_err f = None \<and>
       fold_res (mount_line w) (scan_tokens f) [] = Inr mps"
  by (auto simp: GetMountPoints_def split: sum.splits option.splits)

section \<open>Users and groups\<close>

type_synonym id_maps = "(string \<rightharpoonup> 32 word) \<times> (32 word \<rightharpoonup> string)"

text \<open>The first field must be a plain name: not empty, not a NIS \<open>+\<close> or \<open>-\<close> line.\<close>

definition plain_name :: "string \<Rightarrow> bool" where
  "plain_name n \<longleftrightarrow> n \<noteq> [] \<and> hd n \<noteq> CHR ''+'' \<and> hd n \<noteq> CHR ''-''"

definition passwd_entry :: "string \<Rightarrow> (string \<times> 32 word) option result" where
  "passwd_entry line =
     (let parts = SplitN (CHR '':'') 7 line in
      if length parts < 6 \<or> \<not> plain_name (parts ! 0) then Inr None
      else case Atoi (parts ! 2) of
             Inl e \<Rightarrow> Inl e
           | Inr uid \<Rightarrow> Inr (Some (parts ! 0, word_of_int uid)))"

definition group_entry :: "string \<Rightarrow> (string \<times> 32 word) option result" where
  "group_entry line =
     (let parts = SplitN (CHR '':'') 4 line in
      if length parts < 4 \<or> \<not> plain_name (parts ! 0) then Inr None
      else case Atoi (parts ! 2) of
             Inl e \<Rightarrow> Inl e
           | Inr gid \<Rightarrow> Inr (Some (parts ! 0, word_of_int gid)))"

text \<open>The body of both loops: \<open>names[name] = id; ids[id] = name\<close>.\<close>

definition add_id :: "(string \<times> 32 word) option \<Rightarrow> id_maps \<Rightarrow> id_maps" where
  "add_id e m =
     (case e of None \<Rightarrow> m | Some (n, i) \<Rightarrow> ((fst m)(n \<mapsto> i), (snd m)(i \<mapsto> n)))"

definition users_line :: "string \<Rightarrow> id_maps \<Rightarrow> id_maps result" where
  "users_line line m = (case passwd_entry line of Inl e \<Rightarrow> Inl e | Inr x \<Rightarrow> Inr (add_id x m))"

definition groups_line :: "string \<Rightarrow> id_maps \<Rightarrow> id_maps result" where
  "groups_line line m = (case group_entry line of Inl e \<Rightarrow> Inl e | Inr x \<Rightarrow> Inr (add_id x m))"

definition GetOSUsers :: "world \<Rightarrow> id_maps result" where
  "GetOSUsers w =
     (case os_Open w ''/etc/passwd'' of
        Inl e \<Rightarrow> Inl e
      | Inr f \<Rightarrow>
          (case fold_res users_line (scan_tokens f) (Map.empty, Map.empty) of
             Inl e \<Rightarrow> Inl e
           | Inr m \<Rightarrow> (case scan_err f of Some e \<Rightarrow> Inl e | None \<Rightarrow> Inr m)))"

definition GetOSGroups :: "world \<Rightarrow> id_maps result" where
  "GetOSGroups w =
     (case os_Open w ''/etc/group'' of
        Inl e \<Rightarrow> Inl e
      | Inr f \<Rightarrow>
          (case fold_res groups_line (scan_tokens f) (Map.empty, Map.empty) of
             Inl e \<Rightarrow> Inl e
           | Inr m \<Rightarrow> (case scan_err f of Some e \<Rightarrow> Inl e | None \<Rightarrow> Inr m)))"

subsection \<open>The contract of a table loader\<close>

text \<open>The entries of a file, in order: the specification that the two maps implement.\<close>

definition table_entries ::
  "(string \<Rightarrow> (string \<times> 32 word) option result) \<Rightarrow> string list \<Rightarrow> (string \<times> 32 word) list" where
  "table_entries entry ls =
     List.map_filter (\<lambda>l. case entry l of Inr x \<Rightarrow> x | Inl _ \<Rightarrow> None) ls"

locale id_table =
  fixes entry :: "string \<Rightarrow> (string \<times> 32 word) option result"
    and line_step :: "string \<Rightarrow> id_maps \<Rightarrow> id_maps result"
  assumes line_step: "line_step l m = (case entry l of Inl e \<Rightarrow> Inl e | Inr x \<Rightarrow> Inr (add_id x m))"
    and entry_name: "entry l = Inr (Some (n, i)) \<Longrightarrow> plain_name n"
begin

lemma load_spec:
  "fold_res line_step ls m = Inr (names, ids) \<Longrightarrow>
     names = fst m ++ map_of (rev (table_entries entry ls)) \<and>
     ids = snd m ++ map_of (rev (map prod.swap (table_entries entry ls)))"
proof (induction ls arbitrary: m)
  case Nil
  then show ?case by (auto simp: table_entries_def List.map_filter_def)
next
  case (Cons l ls)
  then obtain o' where o': "entry l = Inr o'" "fold_res line_step ls (add_id o' m) = Inr (names, ids)"
    by (cases "entry l") (auto simp: line_step[of l] rbind_Inr)
  show ?case
    using Cons.IH[OF o'(2)] o'(1)
    by (cases o') (auto simp: add_id_def table_entries_def List.map_filter_def map_add_upd_left
        map_add_upd)
qed

lemma load_names:
  assumes "fold_res line_step ls (Map.empty, Map.empty) = Inr (names, ids)"
  shows "names n = map_of (rev (table_entries entry ls)) n"
    and "ids i = map_of (rev (map prod.swap (table_entries entry ls))) i"
  using load_spec[OF assms] by simp_all

lemma load_id_has_name:
  assumes "fold_res line_step ls (Map.empty, Map.empty) = Inr (names, ids)" "ids i = Some n"
  shows "plain_name n \<and> n \<in> dom names"
proof -
  have "(i, n) \<in> set (map prod.swap (table_entries entry ls))"
    using assms load_names(2)[OF assms(1), of i] by (metis map_of_SomeD set_rev)
  then have e: "(n, i) \<in> set (table_entries entry ls)" by auto
  then have "n \<in> dom (map_of (rev (table_entries entry ls)))"
    by (auto simp: dom_map_of_conv_image_fst image_iff intro!: bexI[of _ "(n, i)"])
  moreover have "plain_name n"
    using e entry_name by (auto simp: table_entries_def List.map_filter_def split: sum.splits)
  ultimately show ?thesis
    using load_names(1)[OF assms(1)] by (simp add: dom_def)
qed

lemma load_fails_iff:
  "(\<exists>e. fold_res line_step ls m = Inl e) \<longleftrightarrow> (\<exists>l \<in> set ls. \<exists>e. entry l = Inl e)"
proof (induction ls arbitrary: m)
  case (Cons l ls)
  then show ?case by (cases "entry l") (auto simp: line_step)
qed simp

end

lemma passwd_entry_name: "passwd_entry l = Inr (Some (n, i)) \<Longrightarrow> plain_name n"
  by (auto simp: passwd_entry_def Let_def split: if_splits sum.splits)

lemma group_entry_name: "group_entry l = Inr (Some (n, i)) \<Longrightarrow> plain_name n"
  by (auto simp: group_entry_def Let_def split: if_splits sum.splits)

interpretation users: id_table passwd_entry users_line
  by unfold_locales (simp add: users_line_def, rule passwd_entry_name)

interpretation groups: id_table group_entry groups_line
  by unfold_locales (simp add: groups_line_def, rule group_entry_name)

lemma GetOSUsers_loop:
  "GetOSUsers w = Inr m \<Longrightarrow>
     \<exists>f. os_Open w ''/etc/passwd'' = Inr f \<and> scan_err f = None \<and>
       fold_res users_line (scan_tokens f) (Map.empty, Map.empty) = Inr m"
  by (auto simp: GetOSUsers_def split: sum.splits option.splits)

lemma GetOSGroups_loop:
  "GetOSGroups w = Inr m \<Longrightarrow>
     \<exists>f. os_Open w ''/etc/group'' = Inr f \<and> scan_err f = None \<and>
       fold_res groups_line (scan_tokens f) (Map.empty, Map.empty) = Inr m"
  by (auto simp: GetOSGroups_def split: sum.splits option.splits)

section \<open>Properties\<close>

text \<open>C24. Every mount point that is returned comes from a line of \<open>/proc/self/mounts\<close> with at least
  three fields, whose device is an absolute path and no loop device, whose type is neither
  \<open>smbfs\<close> nor \<open>cifs\<close>, and whose resolved device name is not that of a device-mapper node.\<close>

theorem GetMountPoints_sound:
  assumes "GetMountPoints w = Inr mps" "e \<in> set mps"
  shows "\<exists>f line. os_Open w ''/proc/self/mounts'' = Inr f \<and> line \<in> set (scan_tokens f) \<and>
           mount_entry_of w line e"
  using GetMountPoints_loop[OF assms(1)] mount_loop_sound[OF _ assms(2)] by fastforce

text \<open>A guest with one file system on a disk, one on a loop device and one virtual one.\<close>

definition disk_world :: world where
  "disk_world = mk_world
     [(''/proc/self/mounts'', RegK (''/dev/vda1 / ext4 rw 0 0'' @ [CHR 0x0A] @
        ''proc /proc proc rw 0 0'' @ [CHR 0x0A] @ ''/dev/loop0 /snap squashfs ro 0 0'' @ [CHR 0x0A])),
      (''/dev/vda1'', RegK [])]"

lemma disk_world_mounts:
  "GetMountPoints disk_world = Inr [\<lparr>FSSpec = ''/dev/vda1'', FSFile = ''/'', FSType = ''ext4''\<rparr>]"
  by code_simp

theorem GetMountPoints_sound_witness:
  "\<exists>f line. os_Open disk_world ''/proc/self/mounts'' = Inr f \<and> line \<in> set (scan_tokens f) \<and>
     mount_entry_of disk_world line \<lparr>FSSpec = ''/dev/vda1'', FSFile = ''/'', FSType = ''ext4''\<rparr>"
  by (rule GetMountPoints_sound[OF disk_world_mounts]) simp

text \<open>When no path of the guest is a symbolic link, no device is listed twice.\<close>

theorem GetMountPoints_distinct:
  assumes "GetMountPoints w = Inr mps" "\<forall>p i t. nodes w p = Some i \<longrightarrow> ino_kind i \<noteq> LinkK t"
  shows "distinct (map FSSpec mps)"
proof -
  have "s = dev" if "mount_spec w dev = Inr s" for dev s
    using that assms(2)
    by (auto simp: mount_spec_def os_Readlink_def syscall_def
        split: sum.splits if_splits option.splits kind.splits)
  then show ?thesis
    using GetMountPoints_loop[OF assms(1)] mount_loop_distinct[where mps = "[]"] by fastforce
qed

theorem GetMountPoints_distinct_witness:
  "distinct (map FSSpec [\<lparr>FSSpec = ''/dev/vda1'', FSFile = ''/'', FSType = ''ext4''\<rparr>])"
  by (rule GetMountPoints_distinct[OF disk_world_mounts])
    (auto simp: disk_world_def mk_world_def map_of_Cons_code split: if_splits)

text \<open>A guest whose root device is a symbolic link and is mounted twice.\<close>

definition link_world :: world where
  "link_world = mk_world
     [(''/proc/self/mounts'', RegK (''/dev/root / ext4 rw 0 0'' @ [CHR 0x0A] @
        ''/dev/root /mnt ext4 rw 0 0'' @ [CHR 0x0A])),
      (''/dev/root'', LinkK ''vda1'')]"

text \<open>The test for devices already added compares the name in the file with the names stored,
  which are base names for symbolic links: a device mounted twice through a link is listed
  twice.\<close>

theorem GetMountPoints_duplicate:
  "map_sum id (map FSSpec) (GetMountPoints link_world) = Inr [''vda1'', ''vda1'']"
  by code_simp

text \<open>A line of exactly two fields whose device is an absolute path makes the reader panic with
  an index out of range, whatever follows it.\<close>

theorem GetMountPoints_two_fields:
  assumes "os_Open w ''/proc/self/mounts'' = Inr f" "scan_tokens f = line # rest"
    and "Fields line = [dev, mp]" "hd dev = CHR ''/''"
  shows "GetMountPoints w = Inl (Panic ''index out of range'')"
  using assms by (simp add: GetMountPoints_def mount_line_def Let_def)

theorem GetMountPoints_two_fields_witness:
  "GetMountPoints (mk_world [(''/proc/self/mounts'', RegK ''/dev/vda1 /'')]) =
     Inl (Panic ''index out of range'')"
proof (rule GetMountPoints_two_fields)
  show "os_Open (mk_world [(''/proc/self/mounts'', RegK ''/dev/vda1 /'')]) ''/proc/self/mounts'' =
      Inr \<lparr>bytes = ''/dev/vda1 /'', read_err = None\<rparr>" by code_simp
  show "scan_tokens \<lparr>bytes = ''/dev/vda1 /'', read_err = None\<rparr> = ''/dev/vda1 /'' # []" by code_simp
  show "Fields ''/dev/vda1 /'' = [''/dev/vda1'', ''/'']" by code_simp
qed simp

text \<open>The user table: a name maps to the id of its last line, an id to the name of its last line,
  and every id leads to a plain name that is itself in the table.\<close>

theorem GetOSUsers_spec:
  assumes "GetOSUsers w = Inr (names, uids)"
  shows "\<exists>f. os_Open w ''/etc/passwd'' = Inr f \<and>
    names = map_of (rev (table_entries passwd_entry (scan_tokens f))) \<and>
    uids = map_of (rev (map prod.swap (table_entries passwd_entry (scan_tokens f)))) \<and>
    (\<forall>i n. uids i = Some n \<longrightarrow> plain_name n \<and> n \<in> dom names)"
  using GetOSUsers_loop[OF assms] users.load_spec users.load_id_has_name by fastforce

definition passwd_world :: world where
  "passwd_world = mk_world
     [(''/etc/passwd'', RegK (''root:x:0:0:root:/root:/bin/bash'' @ [CHR 0x0A] @
        ''+nis:x:7:7:::'' @ [CHR 0x0A] @ ''alice:x:1005:1006::/home/alice:/bin/sh'' @ [CHR 0x0A])),
      (''/etc/group'', RegK (''root:x:0:'' @ [CHR 0x0A] @ ''wheel:*:10:root'' @ [CHR 0x0A]))]"

theorem GetOSUsers_spec_witness:
  "\<exists>names uids. GetOSUsers passwd_world = Inr (names, uids) \<and>
     (\<forall>i n. uids i = Some n \<longrightarrow> plain_name n \<and> n \<in> dom names)"
proof -
  have "ok (GetOSUsers passwd_world)" by code_simp
  then obtain m where m: "GetOSUsers passwd_world = Inr m" by (auto simp: ok_iff)
  then have "GetOSUsers passwd_world = Inr (fst m, snd m)" by simp
  then show ?thesis using GetOSUsers_spec[of passwd_world "fst m" "snd m"] by blast
qed

end
