(* ===== verification/Utmp.thy ===== *)
theory Utmp
  imports Go_Os
begin

text \<open>
  \<open>internal/utmp/utmp.go\<close>: the binary login records of \<open>/var/run/utmp\<close>. \<open>binary.Read\<close> takes 384
  bytes per record and decodes little-endian fields. The loop of \<open>ReadFile\<close> leaves only on
  \<open>io.EOF\<close>; every other error is skipped with \<open>continue\<close>, so it may run for ever, and the model is a
  partial function whose \<open>None\<close> is "does not return".
\<close>

section \<open>Records\<close>

record ExitStatus =
  Termination :: int
  Exit :: int

record TimeVal =
  Sec :: int
  Usec :: int

record UtmpEntry =
  Type :: int
  Pid :: int
  Device :: string
  Id :: string
  User :: string
  Host :: string
  ExitSt :: ExitStatus
  Session :: int
  Time :: TimeVal
  Addr :: "int list"
  Unused :: string

abbreviation UserProcess :: int where "UserProcess \<equiv> 7"
abbreviation LineSize :: nat where "LineSize \<equiv> 32"
abbreviation NameSize :: nat where "NameSize \<equiv> 32"
abbreviation HostSize :: nat where "HostSize \<equiv> 256"
abbreviation RecordSize :: nat where "RecordSize \<equiv> 384"

section \<open>Little-endian fields\<close>

fun le_uint :: "string \<Rightarrow> nat" where
  "le_uint [] = 0"
| "le_uint (c # cs) = of_char c + 256 * le_uint cs"

definition le_int :: "string \<Rightarrow> int" where
  "le_int cs = (let n = int (le_uint cs); k = 8 * length cs
                in if 2 * n < 2 ^ k then n else n - 2 ^ k)"

fun to_le :: "nat \<Rightarrow> nat \<Rightarrow> string" where
  "to_le 0 n = []"
| "to_le (Suc k) n = char_of (n mod 256) # to_le k (n div 256)"

definition le_bytes :: "nat \<Rightarrow> int \<Rightarrow> string" where
  "le_bytes k v = to_le k (nat (v mod 2 ^ (8 * k)))"

lemma length_to_le [simp]: "length (to_le k n) = k"
  by (induction k arbitrary: n) auto

lemma length_le_bytes [simp]: "length (le_bytes k v) = k"
  by (simp add: le_bytes_def)

lemma le_uint_to_le: "n < 256 ^ k \<Longrightarrow> le_uint (to_le k n) = n"
proof (induction k arbitrary: n)
  case (Suc k)
  then have "n div 256 < 256 ^ k" by (simp add: div_less_iff_less_mult mult.commute)
  then show ?case using Suc.IH by simp
qed simp

lemma le_int_le_bytes:
  assumes "- (2 ^ (8 * k)) \<le> 2 * v" "2 * v < 2 ^ (8 * k)"
  shows "le_int (le_bytes k v) = v"
proof -
  have p: "(2::int) ^ (8 * k) = 256 ^ k" by (simp add: power_mult)
  have lt: "v mod 256 ^ k < 256 ^ k" and ge: "0 \<le> v mod 256 ^ k" by simp_all
  then have "nat (v mod 256 ^ k) < 256 ^ k" by (metis nat_less_iff of_nat_numeral of_nat_power)
  then have u: "int (le_uint (le_bytes k v)) = v mod 256 ^ k"
    by (simp add: le_bytes_def p le_uint_to_le ge)
  show ?thesis
  proof (cases "0 \<le> v")
    case True
    then have "v mod 256 ^ k = v" using assms by (intro mod_pos_pos_trivial) (simp_all add: p)
    then show ?thesis using assms by (simp add: le_int_def u p)
  next
    case False
    then have "(v + 256 ^ k) mod 256 ^ k = v + 256 ^ k"
      using assms by (intro mod_pos_pos_trivial) (simp_all add: p)
    then have "v mod 256 ^ k = v + 256 ^ k" by simp
    then show ?thesis using assms by (simp add: le_int_def u p)
  qed
qed

text \<open>The shared codec contract, on the integers of a width of \<open>k\<close> bytes.\<close>

definition dec_le :: "nat \<Rightarrow> string \<Rightarrow> (int \<times> string) option" where
  "dec_le k bs = (if length bs < k then None else Some (le_int (take k bs), drop k bs))"

interpretation le16: codec "le_bytes 2" "dec_le 2" "\<lambda>v. - (2 ^ 16) \<le> 2 * v \<and> 2 * v < 2 ^ 16"
  by unfold_locales (simp add: dec_le_def le_int_le_bytes)

interpretation le32: codec "le_bytes 4" "dec_le 4" "\<lambda>v. - (2 ^ 32) \<le> 2 * v \<and> 2 * v < 2 ^ 32"
  by unfold_locales (simp add: dec_le_def le_int_le_bytes)

section \<open>Decoding a record\<close>

definition field :: "nat \<Rightarrow> nat \<Rightarrow> string \<Rightarrow> string" where
  "field off len bs = take len (drop off bs)"

text \<open>The layout of \<open>UtmpEntry\<close>: the blank \<open>int16\<close> after \<open>Type\<close> is skipped.\<close>

definition decode_entry :: "string \<Rightarrow> UtmpEntry" where
  "decode_entry bs =
     \<lparr>Type = le_int (field 0 2 bs),
      Pid = le_int (field 4 4 bs),
      Device = field 8 LineSize bs,
      Id = field 40 4 bs,
      User = field 44 NameSize bs,
      Host = field 76 HostSize bs,
      ExitSt = \<lparr>Termination = le_int (field 332 2 bs), Exit = le_int (field 334 2 bs)\<rparr>,
      Session = le_int (field 336 4 bs),
      Time = \<lparr>Sec = le_int (field 340 4 bs), Usec = le_int (field 344 4 bs)\<rparr>,
      Addr = [le_int (field 348 4 bs), le_int (field 352 4 bs),
              le_int (field 356 4 bs), le_int (field 360 4 bs)],
      Unused = field 364 20 bs\<rparr>"

text \<open>The loop of \<open>ReadFile\<close>: \<open>binary.Read\<close> fails with \<open>ErrUnexpectedEOF\<close> or with the read error of
  the file when fewer than 384 bytes are left, and with \<open>io.EOF\<close> only at a clean end.\<close>

partial_function (option) read_loop ::
  "go_file \<Rightarrow> UtmpEntry list \<Rightarrow> UtmpEntry list option" where
  "read_loop f entries =
     (if RecordSize \<le> length (bytes f)
      then read_loop (f\<lparr>bytes := drop RecordSize (bytes f)\<rparr>)
             (entries @ [decode_entry (take RecordSize (bytes f))])
      else if bytes f \<noteq> [] then read_loop (f\<lparr>bytes := []\<rparr>) entries
      else case read_err f of
             None \<Rightarrow> Some entries
           | Some _ \<Rightarrow> read_loop f entries)"

definition utmp_ReadFile :: "world \<Rightarrow> string \<Rightarrow> UtmpEntry list result option" where
  "utmp_ReadFile w p =
     (case os_Open w p of Inl e \<Rightarrow> Some (Inl e) | Inr f \<Rightarrow> map_option Inr (read_loop f []))"

section \<open>The loop as a function of the file's contents\<close>

fun records :: "nat \<Rightarrow> string \<Rightarrow> UtmpEntry list" where
  "records 0 bs = []"
| "records (Suc n) bs = decode_entry (take RecordSize bs) # records n (drop RecordSize bs)"

lemma read_loop_returns:
  "read_err f = None \<Longrightarrow>
     read_loop f es = Some (es @ records (length (bytes f) div RecordSize) (bytes f))"
proof (induction "length (bytes f)" arbitrary: f es rule: less_induct)
  case less
  show ?case
  proof (cases "RecordSize \<le> length (bytes f)")
    case True
    let ?f = "f\<lparr>bytes := drop RecordSize (bytes f)\<rparr>"
    have d: "length (bytes f) div RecordSize = Suc ((length (bytes f) - RecordSize) div RecordSize)"
      using True by (simp add: le_div_geq)
    have "read_loop ?f (es @ [decode_entry (take RecordSize (bytes f))]) =
        Some ((es @ [decode_entry (take RecordSize (bytes f))]) @
          records (length (bytes ?f) div RecordSize) (bytes ?f))"
      by (rule less(1)) (use True less(2) in simp_all)
    then show ?thesis using True d by (simp add: read_loop.simps[of f])
  next
    case False
    then have z: "length (bytes f) div RecordSize = 0" by simp
    have nil: "read_loop (f\<lparr>bytes := []\<rparr>) es = Some es"
      using less(2) by (simp add: read_loop.simps[of "f\<lparr>bytes := []\<rparr>"])
    show ?thesis
      using False z nil less(2) by (cases "bytes f = []") (simp_all add: read_loop.simps[of f])
  qed
qed

lemma read_loop_only_eof:
  assumes ret: "read_loop f es = Some r"
  shows "read_err f = None"
proof (rule read_loop.raw_induct[where P = "\<lambda>f es r. read_err f = None", OF _ ret])
  fix g f es r
  assume IH: "\<And>f es r. g f es = Some r \<Longrightarrow> read_err f = None"
    and eq: "(if RecordSize \<le> length (bytes f)
      then g (f\<lparr>bytes := drop RecordSize (bytes f)\<rparr>)
             (es @ [decode_entry (take RecordSize (bytes f))])
      else if bytes f \<noteq> [] then g (f\<lparr>bytes := []\<rparr>) es
      else case read_err f of None \<Rightarrow> Some es | Some _ \<Rightarrow> g f es) = Some r"
  show "read_err f = None"
    using eq IH by (auto split: if_splits option.splits dest!: IH)
qed

text \<open>Encoding, to state that decoding inverts it.\<close>

definition encode_entry :: "UtmpEntry \<Rightarrow> string" where
  "encode_entry e =
     le_bytes 2 (Type e) @ le_bytes 2 0 @ le_bytes 4 (Pid e) @ Device e @ Id e @ User e @ Host e @
     le_bytes 2 (Termination (ExitSt e)) @ le_bytes 2 (Exit (ExitSt e)) @ le_bytes 4 (Session e) @
     le_bytes 4 (Sec (Time e)) @ le_bytes 4 (Usec (Time e)) @ concat (map (le_bytes 4) (Addr e)) @
     Unused e"

definition in_bytes :: "nat \<Rightarrow> int \<Rightarrow> bool" where
  "in_bytes k v \<longleftrightarrow> - (2 ^ (8 * k)) \<le> 2 * v \<and> 2 * v < 2 ^ (8 * k)"

definition entry_wf :: "UtmpEntry \<Rightarrow> bool" where
  "entry_wf e \<longleftrightarrow> length (Device e) = LineSize \<and> length (Id e) = 4 \<and> length (User e) = NameSize \<and>
     length (Host e) = HostSize \<and> length (Unused e) = 20 \<and> length (Addr e) = 4 \<and>
     in_bytes 2 (Type e) \<and> in_bytes 4 (Pid e) \<and> in_bytes 2 (Termination (ExitSt e)) \<and>
     in_bytes 2 (Exit (ExitSt e)) \<and> in_bytes 4 (Session e) \<and> in_bytes 4 (Sec (Time e)) \<and>
     in_bytes 4 (Usec (Time e)) \<and> (\<forall>a \<in> set (Addr e). in_bytes 4 a)"

lemma field_append1: "length a \<le> off \<Longrightarrow> field off len (a @ b) = field (off - length a) len b"
  by (simp add: field_def)

lemma field_append0: "length a = len \<Longrightarrow> field 0 len (a @ b) = a"
  by (simp add: field_def)

lemma field_all: "length a = len \<Longrightarrow> field 0 len a = a"
  by (simp add: field_def)

lemma le_int_in_bytes: "in_bytes k v \<Longrightarrow> le_int (le_bytes k v) = v"
  by (simp add: in_bytes_def le_int_le_bytes)

lemma decode_encode: "entry_wf e \<Longrightarrow> decode_entry (encode_entry e) = e"
proof -
  assume wf: "entry_wf e"
  then have "length (Addr e) = 4" by (simp add: entry_wf_def)
  then obtain a b c d where ad: "Addr e = [a, b, c, d]"
    by (auto simp: numeral_eq_Suc length_Suc_conv)
  show ?thesis
    using wf
    by (simp add: decode_entry_def encode_entry_def entry_wf_def ad field_append1 field_append0
        field_all le_int_in_bytes)
qed

lemma length_encode_entry: "entry_wf e \<Longrightarrow> length (encode_entry e) = RecordSize"
proof -
  assume wf: "entry_wf e"
  then have "length (Addr e) = 4" by (simp add: entry_wf_def)
  then obtain a b c d where "Addr e = [a, b, c, d]"
    by (auto simp: numeral_eq_Suc length_Suc_conv)
  then show ?thesis using wf by (simp add: encode_entry_def entry_wf_def)
qed

lemma records_encode:
  "\<forall>e \<in> set es. entry_wf e \<Longrightarrow>
     records (length es) (concat (map encode_entry es) @ tail) = es"
  by (induction es) (simp_all add: length_encode_entry decode_encode)

lemma length_concat_encode:
  "\<forall>e \<in> set es. entry_wf e \<Longrightarrow> length (concat (map encode_entry es)) = RecordSize * length es"
  by (induction es) (simp_all add: length_encode_entry)

section \<open>Properties\<close>

text \<open>C17. A file of whole records, possibly followed by a truncated one, is read back record by
  record: the reader returns exactly the encoded entries and drops the truncated tail.\<close>

theorem utmp_roundtrip:
  assumes "os_Open w p = Inr \<lparr>bytes = concat (map encode_entry es) @ tail, read_err = None\<rparr>"
    and "\<forall>e \<in> set es. entry_wf e" "length tail < RecordSize"
  shows "utmp_ReadFile w p = Some (Inr es)"
proof -
  let ?f = "\<lparr>bytes = concat (map encode_entry es) @ tail, read_err = None\<rparr>"
  have "length (bytes ?f) div RecordSize = length es"
    using assms(2,3) by (simp add: length_concat_encode)
  then have "read_loop ?f [] = Some es"
    using read_loop_returns[of ?f "[]"] assms(2) by (simp add: records_encode)
  then show ?thesis using assms(1) by (simp add: utmp_ReadFile_def)
qed

definition sample_entry :: UtmpEntry where
  "sample_entry = \<lparr>Type = 7, Pid = 4321, Device = replicate 32 (CHR ''p''), Id = ''ts/0'',
     User = replicate 32 (CHR ''u''), Host = replicate 256 (CHR ''h''),
     ExitSt = \<lparr>Termination = 0, Exit = -1\<rparr>, Session = 99, Time = \<lparr>Sec = 1700000000, Usec = 5\<rparr>,
     Addr = [1, -2, 3, 4], Unused = replicate 20 (CHR 0x00)\<rparr>"

theorem utmp_roundtrip_witness:
  "utmp_ReadFile (mk_world [(''/var/run/utmp'', RegK (encode_entry sample_entry @ ''xyz''))])
     ''/var/run/utmp'' = Some (Inr [sample_entry])"
proof (rule utmp_roundtrip)
  show "os_Open (mk_world [(''/var/run/utmp'', RegK (encode_entry sample_entry @ ''xyz''))])
      ''/var/run/utmp'' =
      Inr \<lparr>bytes = concat (map encode_entry [sample_entry]) @ ''xyz'', read_err = None\<rparr>"
    by (simp add: os_Open_def mk_world_def numeral_eq_Suc)
  show "\<forall>e \<in> set [sample_entry]. entry_wf e"
    by (simp add: entry_wf_def sample_entry_def in_bytes_def)
qed simp

text \<open>C18. The reader returns if and only if the file cannot be opened or its end is a plain end of
  file: a read error makes the loop run for ever.\<close>

theorem utmp_returns_iff:
  "(\<exists>r. utmp_ReadFile w p = Some r) \<longleftrightarrow>
     (case os_Open w p of Inl e \<Rightarrow> True | Inr f \<Rightarrow> read_err f = None)"
proof (cases "os_Open w p")
  case (Inl e)
  then show ?thesis by (simp add: utmp_ReadFile_def)
next
  case (Inr f)
  have "(\<exists>r. read_loop f [] = Some r) \<longleftrightarrow> read_err f = None"
    using read_loop_returns[of f "[]"] read_loop_only_eof[of f "[]"] by auto
  then show ?thesis using Inr by (auto simp: utmp_ReadFile_def)
qed

end
