(* ===== verification/Stat_Poller.thy ===== *)
theory Stat_Poller
  imports Complex_Main Utmp
begin

text \<open>
  \<open>core/stat_poller.go\<close>, \<open>core/stat_poller_types.go\<close> and \<open>core/guest_stat.go\<close>: the background
  poller that refreshes the guest statistics, and the query that refuses to answer before the
  first refresh. Values of the kernel (\<open>sysinfo\<close>, \<open>uname\<close>, \<open>statfs\<close>) and of the systemd login
  service are inputs of a refresh; files are read from the world. Sizes are 64-bit words, load
  averages are exact rationals (the division by 65536 is exact in \<open>float64\<close> below \<open>2 ^ 53\<close>).
\<close>

section \<open>Data\<close>

record GuestInfo_Utsname =
  Sysname :: string
  Nodename :: string
  Release :: string
  VersionStr :: string
  Machine :: string
  Domainname :: string

record GuestInfo_LoadAverage =
  One :: rat
  Five :: rat
  Fifteen :: rat

record GuestInfo_MemStat =
  MTotal :: "64 word"
  MFree :: "64 word"
  Buffers :: "64 word"
  Cached :: "64 word"
  FreeTotal :: "64 word"

record GuestInfo_SwapStat =
  STotal :: "64 word"
  SFree :: "64 word"

record GuestInfo_LoggedUser =
  LUName :: string
  LUDevice :: string
  LUHost :: string
  LoginTime :: int

record GuestInfo_BlockDevice =
  BPath :: string
  IsMounted :: bool
  MountPoint :: string
  SizeTotal :: "64 word"
  SizeUsed :: "64 word"
  SizeAvail :: "64 word"
  InodesTotal :: "64 word"
  InodesUsed :: "64 word"
  InodesAvail :: "64 word"

record GuestInfo =
  Uname :: "GuestInfo_Utsname option"
  Uptime :: int
  Loadavg :: "GuestInfo_LoadAverage option"
  Memory :: "GuestInfo_MemStat option"
  Swap :: "GuestInfo_SwapStat option"
  Users :: "GuestInfo_LoggedUser list"
  Blockdevs :: "GuestInfo_BlockDevice list"

text \<open>What the kernel and the login service answer during one refresh.\<close>

record sysinfo_t =
  si_uptime :: int
  si_loads :: "64 word \<times> 64 word \<times> 64 word"
  si_totalswap :: "64 word"
  si_freeswap :: "64 word"
  si_unit :: "32 word"

record statfs_t =
  Bsize :: "64 word"
  Blocks :: "64 word"
  Bfree :: "64 word"
  Bavail :: "64 word"
  Files :: "64 word"
  Ffree :: "64 word"

record utsname_t =
  u_sysname :: "8 word list"
  u_nodename :: "8 word list"
  u_release :: "8 word list"
  u_version :: "8 word list"
  u_machine :: "8 word list"
  u_domainname :: "8 word list"

record variant =
  v_String :: string
  v_uint64 :: "64 word option"

record stat_env =
  files :: world
  k_sysinfo :: "sysinfo_t result"
  k_uname :: "utsname_t result"
  k_statfs :: "string \<Rightarrow> statfs_t result"
  login_sessions :: "(string \<times> string) list result"   \<comment> \<open>user, object path\<close>
  login_props :: "string \<Rightarrow> (string \<rightharpoonup> variant) result"

section \<open>Memory\<close>

text \<open>\<open>fmt.Sscanf(line, "Name:%d", &v)\<close> for a line that starts with the literal: spaces are
  skipped, then decimal digits are read into 64 bits.\<close>

definition sscanf_uint :: "string \<Rightarrow> string \<Rightarrow> 64 word result" where
  "sscanf_uint lit line =
     (let rest = dropWhile is_space (drop (length lit) line);
          tok = takeWhile (\<lambda>c. c \<in> set ''0123456789'') rest
      in if rest = [] then Inl ErrUnexpectedEOF
         else if tok = [] then Inl (Errorf ''expected integer'')
         else case ParseUint tok 10 64 of
                Inl _ \<Rightarrow> Inl (Errorf ''unsigned integer overflow on token'')
              | Inr n \<Rightarrow> Inr (of_nat n))"

text \<open>The switch of the loop: \<open>None\<close> for a line of no interest.\<close>

definition mem_line ::
  "string \<Rightarrow> GuestInfo_MemStat \<Rightarrow> (GuestInfo_MemStat result) option" where
  "mem_line line st =
     (if HasPrefix line ''MemTotal:''
      then Some (map_sum id (\<lambda>v. st\<lparr>MTotal := v\<rparr>) (sscanf_uint ''MemTotal:'' line))
      else if HasPrefix line ''MemFree:''
      then Some (map_sum id (\<lambda>v. st\<lparr>MFree := v\<rparr>) (sscanf_uint ''MemFree:'' line))
      else if HasPrefix line ''Buffers:''
      then Some (map_sum id (\<lambda>v. st\<lparr>Buffers := v\<rparr>) (sscanf_uint ''Buffers:'' line))
      else if HasPrefix line ''Cached:''
      then Some (map_sum id (\<lambda>v. st\<lparr>Cached := v\<rparr>) (sscanf_uint ''Cached:'' line))
      else None)"

text \<open>\<open>for scanner.Scan() && n > 0\<close>: at most \<open>n\<close> lines of interest. The last argument is the
  scanner's error once the tokens are used up.\<close>

fun mem_loop ::
  "string list \<Rightarrow> nat \<Rightarrow> error option \<Rightarrow> GuestInfo_MemStat \<Rightarrow> error option \<times> GuestInfo_MemStat" where
  "mem_loop [] n serr st = (serr, st)"
| "mem_loop (l # ls) n serr st =
     (if n = 0 then (None, st)
      else case mem_line l st of
             None \<Rightarrow> mem_loop ls n serr st
           | Some (Inl e) \<Rightarrow> (Some e, st)
           | Some (Inr st') \<Rightarrow> mem_loop ls (n - 1) serr st')"

definition updateMemStatFields ::
  "world \<Rightarrow> GuestInfo_MemStat \<Rightarrow> error option \<times> GuestInfo_MemStat" where
  "updateMemStatFields w st =
     (case os_Open w ''/proc/meminfo'' of
        Inl e \<Rightarrow> (Some e, st)
      | Inr f \<Rightarrow>
          (case mem_loop (scan_tokens f) 4 (scan_err f) st of
             (Some e, st') \<Rightarrow> (Some e, st')
           | (None, st') \<Rightarrow>
               (None, st'\<lparr>FreeTotal := MFree st' + Buffers st' + Cached st'\<rparr>)))"

section \<open>Names of the system\<close>

definition utsname_str :: "8 word list \<Rightarrow> string" where
  "utsname_str f = map (\<lambda>b. char_of (unat b)) (takeWhile (\<lambda>v. v \<noteq> 0) f)"

definition updateUtsnameFields ::
  "utsname_t result \<Rightarrow> GuestInfo_Utsname \<Rightarrow> error option \<times> GuestInfo_Utsname" where
  "updateUtsnameFields k st =
     (case k of
        Inl e \<Rightarrow> (Some e, st)
      | Inr tmp \<Rightarrow>
          (None, \<lparr>Sysname = utsname_str (u_sysname tmp), Nodename = utsname_str (u_nodename tmp),
                  Release = utsname_str (u_release tmp), VersionStr = utsname_str (u_version tmp),
                  Machine = utsname_str (u_machine tmp),
                  Domainname = utsname_str (u_domainname tmp)\<rparr>))"

section \<open>Block devices\<close>

text \<open>One line of the mounts table: the first mount point of a device wins.\<close>

definition blk_mount_line ::
  "world \<Rightarrow> string \<Rightarrow> (string \<rightharpoonup> string) \<Rightarrow> (string \<rightharpoonup> string) result" where
  "blk_mount_line w line mm =
     (let fields = Fields line in
      if length fields < 2 then Inr mm
      else let realname =
                 (case EvalSymlinks w (fields ! 0) of
                    Inr s \<Rightarrow> Inr s
                  | Inl e \<Rightarrow> if IsNotExist e then Inr (fields ! 0) else Inl e)
           in case realname of
                Inl e \<Rightarrow> Inl e
              | Inr r \<Rightarrow> Inr (if mm r = None then mm(r \<mapsto> fields ! 1) else mm))"

definition blk_mounts :: "world \<Rightarrow> (string \<rightharpoonup> string) result" where
  "blk_mounts w =
     (case os_Open w ''/proc/self/mounts'' of
        Inl e \<Rightarrow> Inl e
      | Inr f \<Rightarrow>
          (case fold_res (blk_mount_line w) (scan_tokens f) Map.empty of
             Inl e \<Rightarrow> Inl e
           | Inr mm \<Rightarrow> (case scan_err f of Some e \<Rightarrow> Inl e | None \<Rightarrow> Inr mm)))"

definition plain_device :: "string \<Rightarrow> GuestInfo_BlockDevice" where
  "plain_device p =
     \<lparr>BPath = p, IsMounted = False, MountPoint = [], SizeTotal = 0, SizeUsed = 0, SizeAvail = 0,
      InodesTotal = 0, InodesUsed = 0, InodesAvail = 0\<rparr>"

definition mounted_device :: "string \<Rightarrow> string \<Rightarrow> statfs_t \<Rightarrow> GuestInfo_BlockDevice" where
  "mounted_device p mp st =
     (let total = (Bsize st * Blocks st) div 1024 in
      \<lparr>BPath = p, IsMounted = True, MountPoint = mp,
       SizeTotal = total,
       SizeUsed = total - (Bsize st * Bfree st) div 1024,
       SizeAvail = (Bsize st * Bavail st) div 1024,
       InodesTotal = Files st,
       InodesUsed = Files st - Ffree st,
       InodesAvail = Ffree st\<rparr>)"

definition blk_device ::
  "stat_env \<Rightarrow> (string \<rightharpoonup> string) \<Rightarrow> string \<Rightarrow> GuestInfo_BlockDevice list \<Rightarrow>
     GuestInfo_BlockDevice list result" where
  "blk_device env mounts name devices =
     (case os_Stat (files env) (path_join [''/sys/class/block'', name, ''dev'']) of
        Inl _ \<Rightarrow> Inr devices
      | Inr _ \<Rightarrow>
          let p = path_join [''/dev'', name] in
          (case mounts p of
             None \<Rightarrow> Inr (devices @ [plain_device p])
           | Some mp \<Rightarrow>
               (case k_statfs env mp of
                  Inl e \<Rightarrow> Inl e
                | Inr st \<Rightarrow> Inr (devices @ [mounted_device p mp st]))))"

definition getBlockdevStat :: "stat_env \<Rightarrow> GuestInfo_BlockDevice list result" where
  "getBlockdevStat env =
     (case os_ReadDir (files env) ''/sys/class/block'' of
        Inl e \<Rightarrow> Inl e
      | Inr dir \<Rightarrow>
          (case blk_mounts (files env) of
             Inl e \<Rightarrow> Inl e
           | Inr mounts \<Rightarrow> fold_res (blk_device env mounts) dir []))"

section \<open>Logged-in users\<close>

definition shown_user :: "GuestInfo_LoggedUser \<Rightarrow> bool" where
  "shown_user u \<longleftrightarrow> LUName u \<noteq> [] \<and> LUHost u \<noteq> [] \<and> LUDevice u \<noteq> ''hvc0''"

text \<open>\<open>time.Unix(sec, nsec).Unix()\<close>.\<close>

definition unix_seconds :: "int \<Rightarrow> int \<Rightarrow> int" where
  "unix_seconds sec nsec = wrap64 (sec + nsec div 1000000000)"

definition trim_nul :: "string \<Rightarrow> string" where
  "trim_nul = trim_pred (\<lambda>c. c = CHR 0x00)"

definition utmp_user :: "UtmpEntry \<Rightarrow> GuestInfo_LoggedUser" where
  "utmp_user e =
     \<lparr>LUName = trim_nul (User e), LUDevice = trim_nul (Device e), LUHost = trim_nul (Host e),
      LoginTime = unix_seconds (Sec (Time e)) (Usec (Time e))\<rparr>"

definition viaUtmpFile :: "world \<Rightarrow> GuestInfo_LoggedUser list result option" where
  "viaUtmpFile w =
     (case utmp_ReadFile w ''/var/run/utmp'' of
        None \<Rightarrow> None
      | Some (Inl e) \<Rightarrow> Some (Inl e)
      | Some (Inr es) \<Rightarrow>
          Some (Inr (filter shown_user (map utmp_user (filter (\<lambda>e. Type e = UserProcess) es)))))"

definition prop_text :: "(string \<rightharpoonup> variant) \<Rightarrow> string \<Rightarrow> string" where
  "prop_text props k =
     (case props k of None \<Rightarrow> [] | Some x \<Rightarrow> trim_pred (\<lambda>c. c = CHR 0x22) (v_String x))"

definition systemd_user :: "string \<Rightarrow> (string \<rightharpoonup> variant) \<Rightarrow> GuestInfo_LoggedUser" where
  "systemd_user name props =
     (let tty = prop_text props ''TTY'';
          dev = (if tty = []
                 then prop_text props ''Service'' @ '':'' @ prop_text props ''Scope'' else tty);
          t = (case props ''Timestamp'' of
                 None \<Rightarrow> 0
               | Some x \<Rightarrow>
                   (case v_uint64 x of
                      None \<Rightarrow> 0
                    | Some us \<Rightarrow>
                        unix_seconds (uint (us div 1000000)) (uint ((us mod 1000000) * 1000))))
      in \<lparr>LUName = name, LUDevice = dev, LUHost = prop_text props ''RemoteHost'', LoginTime = t\<rparr>)"

definition systemd_session ::
  "stat_env \<Rightarrow> string \<times> string \<Rightarrow> GuestInfo_LoggedUser list \<Rightarrow> GuestInfo_LoggedUser list result" where
  "systemd_session env s users =
     (case login_props env (snd s) of
        Inl e \<Rightarrow> Inl e
      | Inr props \<Rightarrow>
          let u = systemd_user (fst s) props in Inr (if shown_user u then users @ [u] else users))"

definition viaSystemd :: "stat_env \<Rightarrow> GuestInfo_LoggedUser list result" where
  "viaSystemd env =
     (case login_sessions env of
        Inl e \<Rightarrow> Inl e
      | Inr ss \<Rightarrow> fold_res (systemd_session env) ss [])"

text \<open>A failing utmp file that exists yields no users and no error.\<close>

definition getLoggedUsers :: "stat_env \<Rightarrow> GuestInfo_LoggedUser list result option" where
  "getLoggedUsers env =
     (case viaUtmpFile (files env) of
        None \<Rightarrow> None
      | Some (Inl e) \<Rightarrow> if IsNotExist e then Some (viaSystemd env) else Some (Inr [])
      | Some (Inr users) \<Rightarrow> Some (Inr users))"

section \<open>One refresh\<close>

type_synonym upd = "GuestInfo \<Rightarrow> (error option \<times> GuestInfo) option"

text \<open>Steps of a refresh in sequence: the first error ends it, with what was written so far.\<close>

fun run_updates :: "upd list \<Rightarrow> upd" where
  "run_updates [] st = Some (None, st)"
| "run_updates (f # fs) st =
     (case f st of
        None \<Rightarrow> None
      | Some (Some e, st') \<Rightarrow> Some (Some e, st')
      | Some (None, st') \<Rightarrow> run_updates fs st')"

abbreviation nil_deref :: error where
  "nil_deref \<equiv> Panic ''invalid memory address or nil pointer dereference''"

definition upd_load :: "sysinfo_t \<Rightarrow> upd" where
  "upd_load si st =
     (case Loadavg st of
        None \<Rightarrow> Some (Some nil_deref, st\<lparr>Uptime := si_uptime si\<rparr>)
      | Some _ \<Rightarrow>
          (case si_loads si of (l0, l1, l2) \<Rightarrow>
             Some (None, st\<lparr>Uptime := si_uptime si,
               Loadavg := Some \<lparr>One = of_nat (unat l0) / 65536, Five = of_nat (unat l1) / 65536,
                                Fifteen = of_nat (unat l2) / 65536\<rparr>\<rparr>)))"

definition upd_mem :: "stat_env \<Rightarrow> upd" where
  "upd_mem env st =
     (case Memory st of
        None \<Rightarrow> Some (Some nil_deref, st)
      | Some m \<Rightarrow>
          (case updateMemStatFields (files env) m of (e, m') \<Rightarrow> Some (e, st\<lparr>Memory := Some m'\<rparr>)))"

definition swap_of :: "sysinfo_t \<Rightarrow> GuestInfo_SwapStat result" where
  "swap_of si =
     (let unit = (ucast (si_unit si) :: 64 word) * 1024 in
      if unit = 0 then Inl (Panic ''integer divide by zero'')
      else Inr \<lparr>STotal = si_totalswap si div unit, SFree = si_freeswap si div unit\<rparr>)"

definition upd_swap :: "sysinfo_t \<Rightarrow> upd" where
  "upd_swap si st =
     (case Swap st of
        None \<Rightarrow> Some (Some nil_deref, st)
      | Some _ \<Rightarrow>
          (case swap_of si of
             Inl e \<Rightarrow> Some (Some e, st)
           | Inr s \<Rightarrow> Some (None, st\<lparr>Swap := Some s\<rparr>)))"

definition upd_uname :: "stat_env \<Rightarrow> upd" where
  "upd_uname env st =
     (case Uname st of
        None \<Rightarrow> Some (Some nil_deref, st)
      | Some u \<Rightarrow>
          (case updateUtsnameFields (k_uname env) u of (e, u') \<Rightarrow> Some (e, st\<lparr>Uname := Some u'\<rparr>)))"

definition upd_blockdevs :: "stat_env \<Rightarrow> upd" where
  "upd_blockdevs env st =
     (case getBlockdevStat env of
        Inl e \<Rightarrow> Some (Some e, st)
      | Inr dd \<Rightarrow> Some (None, st\<lparr>Blockdevs := dd\<rparr>))"

definition upd_users :: "stat_env \<Rightarrow> upd" where
  "upd_users env st =
     (case getLoggedUsers env of
        None \<Rightarrow> None
      | Some (Inl e) \<Rightarrow> Some (Some e, st)
      | Some (Inr uu) \<Rightarrow> Some (None, st\<lparr>Users := uu\<rparr>))"

definition update :: "stat_env \<Rightarrow> upd" where
  "update env st =
     (case k_sysinfo env of
        Inl e \<Rightarrow> Some (Some e, st)
      | Inr si \<Rightarrow>
          run_updates
            [upd_load si, upd_mem env, upd_swap si, upd_uname env, upd_blockdevs env, upd_users env]
            st)"

section \<open>The poller as a state machine\<close>

text \<open>\<open>Returned (Some (Panic _))\<close> is a refresh that panicked: it ends the poller, and the whole process with it.\<close>

datatype run_state = NotStarted | Running | Blocked | Returned "error option"

record StatPoller =
  stat :: "GuestInfo option"
  run :: run_state

datatype poll_event = RunStart | Tick stat_env | CtxDone

definition new_GuestInfo :: GuestInfo where
  "new_GuestInfo =
     \<lparr>Uname = Some \<lparr>Sysname = [], Nodename = [], Release = [], VersionStr = [], Machine = [],
        Domainname = []\<rparr>,
      Uptime = 0, Loadavg = Some \<lparr>One = 0, Five = 0, Fifteen = 0\<rparr>,
      Memory = Some \<lparr>MTotal = 0, MFree = 0, Buffers = 0, Cached = 0, FreeTotal = 0\<rparr>,
      Swap = Some \<lparr>STotal = 0, SFree = 0\<rparr>, Users = [], Blockdevs = []\<rparr>"

text \<open>\<open>Run\<close>: the loop leaves on a cancelled context, and on the first error of a refresh. A
  refresh that does not return leaves the poller blocked with its mutex held.\<close>

fun poller_step :: "StatPoller \<Rightarrow> poll_event \<Rightarrow> StatPoller" where
  "poller_step p RunStart =
     (if run p = NotStarted then p\<lparr>stat := Some new_GuestInfo, run := Running\<rparr> else p)"
| "poller_step p CtxDone = (if run p = Running then p\<lparr>run := Returned None\<rparr> else p)"
| "poller_step p (Tick env) =
     (if run p = Running
      then (case stat p of
              None \<Rightarrow> p\<lparr>run := Returned (Some nil_deref)\<rparr>
            | Some st \<Rightarrow>
                (case update env st of
                   None \<Rightarrow> p\<lparr>run := Blocked\<rparr>
                 | Some (None, st') \<Rightarrow> p\<lparr>stat := Some st'\<rparr>
                 | Some (Some e, st') \<Rightarrow> p\<lparr>stat := Some st', run := Returned (Some e)\<rparr>))
      else p)"

definition StatPoller_zero :: StatPoller where
  "StatPoller_zero = \<lparr>stat = None, run = NotStarted\<rparr>"

text \<open>\<open>Stat\<close> locks the mutex; with the poller blocked inside a refresh it does not return.\<close>

definition poller_Stat :: "StatPoller \<Rightarrow> GuestInfo option option" where
  "poller_Stat p = (if run p = Blocked then None else Some (stat p))"

abbreviation ErrNotReadyNow :: error where
  "ErrNotReadyNow \<equiv> Errorf ''not ready yet''"

definition GetGuestInfo :: "GuestInfo option \<Rightarrow> GuestInfo result" where
  "GetGuestInfo s =
     (case s of
        None \<Rightarrow> Inl ErrNotReadyNow
      | Some st \<Rightarrow> if Uptime st = 0 then Inl ErrNotReadyNow else Inr st)"

section \<open>Helper lemmas\<close>

text \<open>The pointers that \<open>Run\<close> allocates stay allocated.\<close>

definition pointers_set :: "GuestInfo \<Rightarrow> bool" where
  "pointers_set st \<longleftrightarrow> Uname st \<noteq> None \<and> Loadavg st \<noteq> None \<and> Memory st \<noteq> None \<and> Swap st \<noteq> None"

lemma upd_pointers [inv_intros]:
  "pointers_set st \<Longrightarrow> upd_load si st = Some (e, st') \<Longrightarrow> pointers_set st'"
  "pointers_set st \<Longrightarrow> upd_mem env st = Some (e, st') \<Longrightarrow> pointers_set st'"
  "pointers_set st \<Longrightarrow> upd_swap si st = Some (e, st') \<Longrightarrow> pointers_set st'"
  "pointers_set st \<Longrightarrow> upd_uname env st = Some (e, st') \<Longrightarrow> pointers_set st'"
  "pointers_set st \<Longrightarrow> upd_blockdevs env st = Some (e, st') \<Longrightarrow> pointers_set st'"
  "pointers_set st \<Longrightarrow> upd_users env st = Some (e, st') \<Longrightarrow> pointers_set st'"
  by (auto simp: pointers_set_def upd_load_def upd_mem_def upd_swap_def upd_uname_def
      upd_blockdevs_def upd_users_def split: option.splits prod.splits sum.splits)

lemma run_updates_inv:
  assumes "\<And>f st e st'. f \<in> set fs \<Longrightarrow> P st \<Longrightarrow> f st = Some (e, st') \<Longrightarrow> P st'"
    and "P st" "run_updates fs st = Some (e, st')"
  shows "P st'"
  using assms
proof (induction fs arbitrary: st)
  case (Cons f fs)
  obtain e1 st1 where f: "f st = Some (e1, st1)"
    using Cons.prems(3) by (cases "f st") auto
  then have g: "P st1" using Cons.prems(1)[of f st e1 st1] Cons.prems(2) by simp
  show ?case
  proof (cases e1)
    case None
    have "run_updates fs st1 = Some (e, st')" using Cons.prems(3) f None by simp
    then show ?thesis using Cons.IH[of st1] Cons.prems(1) g by (meson list.set_intros(2))
  next
    case (Some x)
    then show ?thesis using Cons.prems(3) f g by simp
  qed
qed auto

lemma update_pointers:
  assumes "pointers_set st" "update env st = Some (e, st')"
  shows "pointers_set st'"
proof (cases "k_sysinfo env")
  case (Inl x)
  then show ?thesis using assms by (simp add: update_def)
next
  case (Inr si)
  let ?fs = "[upd_load si, upd_mem env, upd_swap si, upd_uname env, upd_blockdevs env, upd_users env]"
  show ?thesis
  proof (rule run_updates_inv[where fs = ?fs and P = pointers_set])
    show "run_updates ?fs st = Some (e, st')" using assms Inr by (simp add: update_def)
  next
    fix f u d v
    assume "f \<in> set ?fs" and u: "pointers_set u" and f: "f u = Some (d, v)"
    then consider "f = upd_load si" | "f = upd_mem env" | "f = upd_swap si" | "f = upd_uname env"
      | "f = upd_blockdevs env" | "f = upd_users env" by auto
    then show "pointers_set v" by cases (use u f in \<open>auto intro: inv_intros\<close>)
  qed (rule assms(1))
qed

definition poller_inv :: "StatPoller \<Rightarrow> bool" where
  "poller_inv p \<longleftrightarrow>
     (case stat p of None \<Rightarrow> run p = NotStarted | Some st \<Rightarrow> run p \<noteq> NotStarted \<and> pointers_set st)"

lemma poller_step_inv: "poller_inv p \<Longrightarrow> poller_inv (poller_step p e)"
proof (cases e)
  case (Tick env)
  assume inv: "poller_inv p"
  show ?thesis
  proof (cases "run p = Running \<and> stat p \<noteq> None")
    case True
    then obtain st where st: "stat p = Some st" by auto
    show ?thesis
    proof (cases "update env st")
      case None
      then show ?thesis using True st inv Tick by (simp add: poller_inv_def)
    next
      case (Some r)
      obtain x st' where r: "r = (x, st')" by fastforce
      have "pointers_set st" using inv st by (simp add: poller_inv_def)
      then have "pointers_set st'" by (rule update_pointers) (use Some r in simp)
      then show ?thesis using True st Tick Some r by (cases x) (simp_all add: poller_inv_def)
    qed
  next
    case False
    then show ?thesis using inv Tick by (auto simp: poller_inv_def split: option.splits)
  qed
qed (auto simp: poller_inv_def new_GuestInfo_def pointers_set_def split: option.splits)

interpretation poll: step_invariant poller_step poller_inv
  by unfold_locales (rule poller_step_inv)

text \<open>A poller that returned stays as it is.\<close>

definition returned_le :: "StatPoller \<Rightarrow> StatPoller \<Rightarrow> bool" where
  "returned_le p q \<longleftrightarrow> (\<forall>e. run p = Returned e \<longrightarrow> q = p)"

lemma poller_step_returned: "returned_le p (poller_step p e)"
  by (cases e) (auto simp: returned_le_def)

interpretation poll_end: step_progress poller_step returned_le
proof unfold_locales
  show "returned_le s (poller_step s e)" for s e by (rule poller_step_returned)
qed (auto simp: returned_le_def)

text \<open>The uptime that a refresh leaves is the old one or the one the kernel gave.\<close>

lemma update_uptime:
  assumes "update env st = Some (e, st')"
  shows "Uptime st' = Uptime st \<or> (\<exists>si. k_sysinfo env = Inr si \<and> Uptime st' = si_uptime si)"
proof (cases "k_sysinfo env")
  case (Inl x)
  then show ?thesis using assms by (simp add: update_def)
next
  case (Inr si)
  let ?fs = "[upd_load si, upd_mem env, upd_swap si, upd_uname env, upd_blockdevs env, upd_users env]"
  let ?P = "\<lambda>v. Uptime v = Uptime st \<or> Uptime v = si_uptime si"
  have "?P st'"
  proof (rule run_updates_inv[where fs = ?fs])
    show "run_updates ?fs st = Some (e, st')" using assms Inr by (simp add: update_def)
  next
    fix f u d v
    assume "f \<in> set ?fs" and "?P u" and "f u = Some (d, v)"
    then show "?P v"
      by (auto simp: upd_load_def upd_mem_def upd_swap_def upd_uname_def upd_blockdevs_def
          upd_users_def split: option.splits prod.splits sum.splits)
  qed simp
  then show ?thesis using Inr by blast
qed

lemma poller_uptime:
  "stat (foldl poller_step StatPoller_zero es) = Some st \<Longrightarrow> Uptime st \<noteq> 0 \<Longrightarrow>
     \<exists>env si. Tick env \<in> set es \<and> k_sysinfo env = Inr si \<and> Uptime st = si_uptime si"
proof (induction es arbitrary: st rule: rev_induct)
  case Nil
  then show ?case by (simp add: StatPoller_zero_def)
next
  case (snoc ev es)
  let ?p = "foldl poller_step StatPoller_zero es"
  have step: "stat (poller_step ?p ev) = Some st" using snoc.prems(1) by simp
  have "stat ?p = Some st \<or> (\<exists>env old e. ev = Tick env \<and> stat ?p = Some old \<and>
      update env old = Some (e, st))"
    using step snoc.prems(2)
    by (cases ev) (auto simp: new_GuestInfo_def split: if_splits option.splits prod.splits)
  then show ?case
  proof
    assume "stat ?p = Some st"
    then show ?thesis using snoc.IH snoc.prems(2) by fastforce
  next
    assume "\<exists>env old e. ev = Tick env \<and> stat ?p = Some old \<and> update env old = Some (e, st)"
    then obtain env old e where o: "ev = Tick env" "stat ?p = Some old" "update env old = Some (e, st)"
      by blast
    from update_uptime[OF o(3)] show ?thesis
      using o(1,2) snoc.IH[of old] snoc.prems(2) by fastforce
  qed
qed

text \<open>Lines of no interest do not change the loop.\<close>

definition mem_relevant :: "string \<Rightarrow> bool" where
  "mem_relevant l \<longleftrightarrow> HasPrefix l ''MemTotal:'' \<or> HasPrefix l ''MemFree:'' \<or>
     HasPrefix l ''Buffers:'' \<or> HasPrefix l ''Cached:''"

lemma mem_line_irrelevant: "\<not> mem_relevant l \<Longrightarrow> mem_line l st = None"
  by (simp add: mem_relevant_def mem_line_def)

lemma mem_loop_filter: "mem_loop ls n None st = mem_loop (filter mem_relevant ls) n None st"
proof (induction ls arbitrary: n st)
  case (Cons l ls)
  show ?case
  proof (cases "mem_relevant l")
    case True
    then show ?thesis using Cons by (auto split: option.splits sum.splits)
  next
    case False
    have "mem_loop ls 0 None st = (None, st)" by (cases ls) simp_all
    then have "mem_loop (l # ls) n None st = mem_loop ls n None st"
      using mem_line_irrelevant[OF False] by (cases "n = 0") simp_all
    then show ?thesis using False Cons[of n st] by simp
  qed
qed simp

lemma sscanf_lit: "sscanf_uint lit (lit @ a) = sscanf_uint [] a"
  by (simp add: sscanf_uint_def)

section \<open>Properties\<close>

text \<open>In every run of the poller from its zero value, a poller that has been started always
  holds a statistics object whose four pointers are set, so no refresh dereferences a nil
  pointer.\<close>

theorem poller_invariant: "poller_inv (foldl poller_step StatPoller_zero es)"
  by (rule poll.run_inv) (simp add: poller_inv_def StatPoller_zero_def)

text \<open>C19. The first failing refresh ends the poller for good: whatever ticks follow, the statistics
  stay as the failed refresh left them.\<close>

theorem poller_stops_on_error:
  assumes "run p = Running" "stat p = Some st" "update env st = Some (Some e, st')"
  shows "stat (foldl poller_step p (Tick env # es)) = Some st' \<and>
         run (foldl poller_step p (Tick env # es)) = Returned (Some e)"
proof -
  have "run (poller_step p (Tick env)) = Returned (Some e)" using assms by simp
  then have "foldl poller_step p (Tick env # es) = poller_step p (Tick env)"
    using poll_end.run_le[of "poller_step p (Tick env)" es] by (simp add: returned_le_def)
  then show ?thesis using assms by simp
qed

definition dead_env :: stat_env where
  "dead_env = \<lparr>files = mk_world [], k_sysinfo = Inl (SysErrno EIO), k_uname = Inl (SysErrno EIO),
     k_statfs = (\<lambda>_. Inl (SysErrno EIO)), login_sessions = Inl (Foreign 1),
     login_props = (\<lambda>_. Inl (Foreign 1))\<rparr>"

theorem poller_stops_on_error_witness:
  "run (foldl poller_step (poller_step StatPoller_zero RunStart) [Tick dead_env, Tick dead_env]) =
     Returned (Some (SysErrno EIO))"
  using poller_stops_on_error[of "poller_step StatPoller_zero RunStart" new_GuestInfo dead_env
      "SysErrno EIO" new_GuestInfo "[Tick dead_env]"]
  by (simp add: StatPoller_zero_def update_def dead_env_def)

text \<open>C22. All fields of a mounted device are exact as long as the byte count of the file system fits 64
  bits and the kernel reports no more available than free, and no more free than total blocks and
  inodes: total, used and available size are those of the blocks in kilobytes, rounded down, used and
  free add up to the total, used and available do not exceed it, and nothing wraps around.\<close>

theorem mounted_device_exact:
  assumes "unat (Bsize st) * unat (Blocks st) < 2 ^ 64" "Bfree st \<le> Blocks st" "Bavail st \<le> Bfree st"
    and "Ffree st \<le> Files st"
  shows "let d = mounted_device p mp st; b = unat (Bsize st) in
    BPath d = p \<and> IsMounted d \<and> MountPoint d = mp \<and>
    unat (SizeTotal d) = b * unat (Blocks st) div 1024 \<and>
    unat (SizeUsed d) + b * unat (Bfree st) div 1024 = unat (SizeTotal d) \<and>
    unat (SizeAvail d) = b * unat (Bavail st) div 1024 \<and>
    unat (SizeUsed d) + unat (SizeAvail d) \<le> unat (SizeTotal d) \<and>
    unat (InodesTotal d) = unat (Files st) \<and> unat (InodesAvail d) = unat (Ffree st) \<and>
    unat (InodesUsed d) = unat (Files st) - unat (Ffree st)"
proof -
  let ?b = "unat (Bsize st)"
  have le: "?b * unat (Bavail st) \<le> ?b * unat (Bfree st)" "?b * unat (Bfree st) \<le> ?b * unat (Blocks st)"
    using assms(2,3) by (simp_all add: word_le_nat_alt)
  have exact: "unat (Bsize st * x) = ?b * unat x" if "?b * unat x \<le> ?b * unat (Blocks st)" for x
    using le_less_trans[OF that assms(1)] by (simp add: unat_word_ariths)
  have t: "unat (Bsize st * Blocks st div 1024) = ?b * unat (Blocks st) div 1024"
    "unat (Bsize st * Bfree st div 1024) = ?b * unat (Bfree st) div 1024"
    "unat (Bsize st * Bavail st div 1024) = ?b * unat (Bavail st) div 1024"
    by (simp_all add: unat_div exact[OF order_refl] exact[OF le(2)] exact[OF order_trans[OF le]])
  have d: "?b * unat (Bavail st) div 1024 \<le> ?b * unat (Bfree st) div 1024"
    "?b * unat (Bfree st) div 1024 \<le> ?b * unat (Blocks st) div 1024"
    using le by (simp_all add: div_le_mono)
  then have "unat (Bsize st * Blocks st div 1024 - Bsize st * Bfree st div 1024) =
      ?b * unat (Blocks st) div 1024 - ?b * unat (Bfree st) div 1024"
    by (subst unat_sub) (simp_all add: word_le_nat_alt t)
  moreover have "unat (Files st - Ffree st) = unat (Files st) - unat (Ffree st)"
    using assms(4) by (rule unat_sub)
  moreover have "x - f + a \<le> x" if "a \<le> f" "f \<le> x" for x f a :: nat using that by arith
  note this[OF d]
  ultimately show ?thesis using d by (simp add: mounted_device_def Let_def t)
qed

definition small_fs :: statfs_t where
  "small_fs = \<lparr>Bsize = 4096, Blocks = 1000, Bfree = 250, Bavail = 200, Files = 64, Ffree = 60\<rparr>"

theorem mounted_device_exact_witness:
  "unat (SizeUsed (mounted_device ''/dev/vda1'' ''/'' small_fs)) + 1000 = 4000 \<and>
   unat (SizeAvail (mounted_device ''/dev/vda1'' ''/'' small_fs)) = 800"
  using mounted_device_exact[of small_fs "''/dev/vda1''" "''/''"] by (simp add: small_fs_def Let_def)

text \<open>A user list error is hidden: when the utmp file exists but cannot be opened, the refresh
  reports an empty list and no error, and only a missing file leads to systemd.\<close>

theorem getLoggedUsers_open_error:
  assumes "os_Open (files env) ''/var/run/utmp'' = Inl e"
  shows "getLoggedUsers env = Some (if IsNotExist e then viaSystemd env else Inr [])"
  using assms by (simp add: getLoggedUsers_def viaUtmpFile_def utmp_ReadFile_def)

theorem getLoggedUsers_open_error_witness:
  "getLoggedUsers dead_env = Some (Inl (Foreign 1))"
proof -
  have "os_Open (files dead_env) ''/var/run/utmp'' = Inl (PathError ''open'' ''/var/run/utmp'' ENOENT)"
    by code_simp
  from getLoggedUsers_open_error[OF this] show ?thesis by (simp add: viaSystemd_def dead_env_def)
qed

text \<open>The query answers only with the uptime of some refresh: in every run of the poller, when
  \<open>GetGuestInfo\<close> succeeds, one of the ticks got that non-zero uptime from the kernel; before it, the
  answer is \<open>ErrNotReadyNow\<close>.\<close>

theorem GetGuestInfo_ready:
  "case GetGuestInfo (stat (foldl poller_step StatPoller_zero es)) of
     Inl e \<Rightarrow> e = ErrNotReadyNow
   | Inr st \<Rightarrow> \<exists>env si. Tick env \<in> set es \<and> k_sysinfo env = Inr si \<and>
       Uptime st = si_uptime si \<and> si_uptime si \<noteq> 0"
  using poller_uptime[of es]
  by (fastforce simp: GetGuestInfo_def split: option.splits if_splits)

text \<open>A memory file whose lines of interest are the four expected ones yields exactly their
  values, with the sum of free, buffers and cached in \<open>FreeTotal\<close>, wherever the other lines
  stand.\<close>

theorem updateMemStatFields_values:
  assumes "os_Open w ''/proc/meminfo'' = Inr f" "scan_err f = None"
    and "filter mem_relevant (scan_tokens f) =
           [''MemTotal:'' @ a, ''MemFree:'' @ b, ''Buffers:'' @ c, ''Cached:'' @ d]"
    and "sscanf_uint [] a = Inr va" "sscanf_uint [] b = Inr vb"
    and "sscanf_uint [] c = Inr vc" "sscanf_uint [] d = Inr vd"
  shows "updateMemStatFields w st =
    (None, \<lparr>MTotal = va, MFree = vb, Buffers = vc, Cached = vd, FreeTotal = vb + vc + vd\<rparr>)"
proof -
  let ?ls = "[''MemTotal:'' @ a, ''MemFree:'' @ b, ''Buffers:'' @ c, ''Cached:'' @ d]"
  have "mem_loop (scan_tokens f) 4 None st = mem_loop ?ls 4 None st"
    using mem_loop_filter[of "scan_tokens f" 4 st] assms(3) by simp
  also have "\<dots> = (None, st\<lparr>MTotal := va, MFree := vb, Buffers := vc, Cached := vd\<rparr>)"
    using assms(4-7)
    by (simp add: mem_line_def HasPrefix_def sscanf_lit[of "''MemTotal:''", simplified]
        sscanf_lit[of "''MemFree:''", simplified] sscanf_lit[of "''Buffers:''", simplified]
        sscanf_lit[of "''Cached:''", simplified])
  finally show ?thesis using assms(1,2) by (simp add: updateMemStatFields_def)
qed

definition meminfo_text :: string where
  "meminfo_text =
     ''MemTotal:        2048 kB'' @ [CHR 0x0A] @ ''MemFree:          512 kB'' @ [CHR 0x0A] @
     ''MemAvailable:     99 kB'' @ [CHR 0x0A] @ ''Buffers:           10 kB'' @ [CHR 0x0A] @
     ''Cached:            20 kB'' @ [CHR 0x0A] @ ''SwapCached:         7 kB'' @ [CHR 0x0A]"

definition meminfo_world :: world where
  "meminfo_world = mk_world [(''/proc/meminfo'', RegK meminfo_text)]"

theorem updateMemStatFields_values_witness:
  "updateMemStatFields meminfo_world
     \<lparr>MTotal = 0, MFree = 0, Buffers = 0, Cached = 0, FreeTotal = 0\<rparr> =
     (None, \<lparr>MTotal = 2048, MFree = 512, Buffers = 10, Cached = 20, FreeTotal = 512 + 10 + 20\<rparr>)"
proof (rule updateMemStatFields_values)
  show "os_Open meminfo_world ''/proc/meminfo'' = Inr \<lparr>bytes = meminfo_text, read_err = None\<rparr>"
    by code_simp
  show "scan_err \<lparr>bytes = meminfo_text, read_err = None\<rparr> = None" by code_simp
  show "filter mem_relevant (scan_tokens \<lparr>bytes = meminfo_text, read_err = None\<rparr>) =
      [''MemTotal:'' @ ''        2048 kB'', ''MemFree:'' @ ''          512 kB'',
       ''Buffers:'' @ ''           10 kB'', ''Cached:'' @ ''            20 kB'']" by code_simp
qed code_simp+

text \<open>The swap sizes are kilobytes only for a kernel that counts memory in bytes: the code divides
  by the unit instead of multiplying by it. With the unit 1 the result is the size in kB; with
  pages of 4096 bytes, a swap of 4 GiB (\<open>2 ^ 20\<close> pages) is reported as 0 kB.\<close>

theorem swap_of_units:
  "(si_unit si = 1 \<longrightarrow> (\<exists>s. swap_of si = Inr s \<and> unat (STotal s) = unat (si_totalswap si) div 1024)) \<and>
   (si_unit si = 4096 \<and> si_totalswap si = 2 ^ 20 \<longrightarrow> (\<exists>s. swap_of si = Inr s \<and> STotal s = 0))"
  by (simp add: swap_of_def Let_def unat_div)

definition page_sysinfo :: sysinfo_t where
  "page_sysinfo = \<lparr>si_uptime = 5, si_loads = (0, 0, 0), si_totalswap = 2 ^ 20, si_freeswap = 0,
     si_unit = 4096\<rparr>"

theorem swap_of_units_witness: "\<exists>s. swap_of page_sysinfo = Inr s \<and> STotal s = 0"
  using swap_of_units[of page_sysinfo] by (simp add: page_sysinfo_def)

end
