(* ===== verification/Agent_Version.thy ===== *)
theory Agent_Version
  imports Go_Strconv
begin

text \<open>
  The version package (\<open>internal/version/version.go\<close>): parsing a version from a string or from
  its integer code, printing it, and packing it into an integer. Both parsers are inverse to the
  printers, and the integer code orders versions lexicographically.
\<close>

record Version =
  Major :: int
  Minor :: int
  Micro :: int

text \<open>The dynamic type that \<open>Parse\<close> switches on.\<close>

datatype any = AnyString string | AnyInt int | AnyOther string

abbreviation "ErrInvalidValue \<equiv> Errorf ''invalid value''"
abbreviation "ErrInvalidValueType \<equiv> Errorf ''invalid value type''"

text \<open>\<open>AgentVersion\<close> of \<open>core/version.go\<close>.\<close>

definition AgentVersion :: Version where
  "AgentVersion = \<lparr>Major = 2, Minor = 0, Micro = 2\<rparr>"

definition version_int :: "Version \<Rightarrow> int" where
  "version_int v = wrap64 (wrap64 (wrap64 (Major v * 10000) + wrap64 (Minor v * 100)) + Micro v)"

definition version_string :: "Version \<Rightarrow> string" where
  "version_string v = Itoa (Major v) @ ''.'' @ Itoa (Minor v) @ ''.'' @ Itoa (Micro v)"

definition parseInt :: "int \<Rightarrow> Version result" where
  "parseInt v =
     Inr \<lparr>Major = tdiv v 10000,
          Minor = tdiv (tmod v 10000) 100,
          Micro = tmod (tmod v 10000) 100\<rparr>"

text \<open>
  \<open>vv\<close> starts with one number per part; the padding loop appends zeros while \<open>i <= 3\<close>, so the
  three reads below are in range for one to three parts.
\<close>

definition parseString :: "string \<Rightarrow> Version result" where
  "parseString s =
     (let parts = Split (CHR ''.'') (TrimSpace s) in
      if 3 < length parts then Inl (Wrap s ErrInvalidValue)
      else case traverse_res Atoi parts of
             Inl e \<Rightarrow> Inl e
           | Inr vs \<Rightarrow>
               let vv = vs @ replicate (4 - length parts) 0
               in Inr \<lparr>Major = vv ! 0, Minor = vv ! 1, Micro = vv ! 2\<rparr>)"

fun parse :: "any \<Rightarrow> Version result" where
  "parse (AnyString s) = parseString s"
| "parse (AnyInt v) = parseInt v"
| "parse (AnyOther t) = Inl (Wrap t ErrInvalidValueType)"

definition MustParse :: "any \<Rightarrow> Version" where
  "MustParse a =
     (case parse a of Inl _ \<Rightarrow> \<lparr>Major = 0, Minor = 0, Micro = 0\<rparr> | Inr v \<Rightarrow> v)"

text \<open>Fields that a Go \<open>int\<close> can hold, and fields that the packed form can separate.\<close>

definition version_wf :: "Version \<Rightarrow> bool" where
  "version_wf v \<longleftrightarrow> in_int64 (Major v) \<and> in_int64 (Minor v) \<and> in_int64 (Micro v)"

definition version_packable :: "Version \<Rightarrow> bool" where
  "version_packable v \<longleftrightarrow> 0 \<le> Major v \<and> Major v < 2 ^ 49 \<and> 0 \<le> Minor v \<and> Minor v < 100 \<and>
     0 \<le> Micro v \<and> Micro v < 100"

section \<open>Helper lemmas\<close>

lemma version_string_Join:
  "version_string v = Join ''.'' [Itoa (Major v), Itoa (Minor v), Itoa (Micro v)]"
  by (simp add: version_string_def)

lemma version_string_trim: "TrimSpace (version_string v) = version_string v"
proof -
  have "\<not> is_space (hd (version_string v))" "\<not> is_space (last (version_string v))"
    using Itoa_no_space[of "hd (Itoa (Major v))" "Major v"]
      Itoa_no_space[of "last (Itoa (Micro v))" "Micro v"]
    by (simp_all add: version_string_def)
  then show ?thesis unfolding TrimSpace_def by (intro trim_pred_id) blast
qed

lemma version_string_parts:
  "Split (CHR ''.'') (version_string v) = [Itoa (Major v), Itoa (Minor v), Itoa (Micro v)]"
  unfolding version_string_Join by (rule Split_Join) simp_all

lemma version_int_exact:
  "version_packable v \<Longrightarrow> version_int v = Major v * 10000 + Minor v * 100 + Micro v"
  by (simp add: version_int_def version_packable_def wrap64_id in_int64_def)

lemma lex_pair_less:
  fixes a b c d k :: int
  assumes "0 \<le> b" "b < k" "0 \<le> d" "d < k"
  shows "a * k + b < c * k + d \<longleftrightarrow> a < c \<or> a = c \<and> b < d"
proof -
  have up: "x * k + k \<le> y * k" if "x < y" for x y :: int
  proof -
    have "(x + 1) * k \<le> y * k" using that assms by (intro mult_right_mono) simp_all
    then show ?thesis by (simp add: distrib_right)
  qed
  consider "a < c" | "a = c" | "c < a" by linarith
  then show ?thesis
  proof cases
    case 1
    then show ?thesis using up[of a c] assms by linarith
  next
    case 2
    then show ?thesis by simp
  next
    case 3
    then show ?thesis using up[of c a] assms by linarith
  qed
qed

lemma traverse_res_err: "traverse_res f xs = Inl e \<Longrightarrow> \<exists>x \<in> set xs. f x = Inl e"
  by (induction xs) (auto split: sum.splits)

section \<open>Properties\<close>

text \<open>C31. Parsing the printed form of a version gives the version back, for all field values of
  Go's 64-bit \<open>int\<close>, negative ones included.\<close>

theorem parse_String_roundtrip:
  assumes "version_wf v"
  shows "parse (AnyString (version_string v)) = Inr v"
proof -
  have "traverse_res Atoi [Itoa (Major v), Itoa (Minor v), Itoa (Micro v)] =
      Inr [Major v, Minor v, Micro v]"
    using assms by (simp add: version_wf_def Atoi_Itoa)
  then show ?thesis
    by (simp add: parseString_def version_string_trim version_string_parts Let_def)
qed

theorem parse_String_roundtrip_witness:
  "parse (AnyString (version_string \<lparr>Major = 2, Minor = 11, Micro = 1\<rparr>)) =
     Inr \<lparr>Major = 2, Minor = 11, Micro = 1\<rparr>"
  by (rule parse_String_roundtrip) (simp add: version_wf_def in_int64_def)

text \<open>The integer code of a version with two-digit minor and micro numbers decodes to the
  version.\<close>

theorem parseInt_Int_roundtrip:
  assumes "version_packable v"
  shows "parse (AnyInt (version_int v)) = Inr v"
proof -
  have *: "0 \<le> Major v * 10000 + Minor v * 100 + Micro v"
    using assms by (simp add: version_packable_def)
  have m: "0 \<le> Minor v * 100 + Micro v" "Minor v * 100 + Micro v < 10000"
    using assms by (simp_all add: version_packable_def)
  have hi: "(Major v * 10000 + (Minor v * 100 + Micro v)) div 10000 = Major v"
    "(Major v * 10000 + (Minor v * 100 + Micro v)) mod 10000 = Minor v * 100 + Micro v"
    using m by simp_all
  have lo: "(Minor v * 100 + Micro v) div 100 = Minor v" "(Minor v * 100 + Micro v) mod 100 = Micro v"
    using assms by (simp_all add: version_packable_def)
  show ?thesis
    using * m hi lo
    by (simp add: parseInt_def version_int_exact[OF assms] tdiv_nonneg tmod_nonneg add.assoc)
qed

theorem parseInt_Int_roundtrip_witness:
  "parse (AnyInt (version_int \<lparr>Major = 35, Minor = 4, Micro = 99\<rparr>)) =
     Inr \<lparr>Major = 35, Minor = 4, Micro = 99\<rparr>"
  by (rule parseInt_Int_roundtrip) (simp add: version_packable_def)

text \<open>On versions that can be packed the integer code is strictly monotone for the
  lexicographic order of the three numbers.\<close>

theorem version_int_order:
  assumes "version_packable v" "version_packable w"
  shows "version_int v < version_int w \<longleftrightarrow>
    Major v < Major w \<or> Major v = Major w \<and> Minor v < Minor w \<or>
    Major v = Major w \<and> Minor v = Minor w \<and> Micro v < Micro w"
proof -
  have v: "0 \<le> Minor v * 100 + Micro v" "Minor v * 100 + Micro v < 10000"
    and w: "0 \<le> Minor w * 100 + Micro w" "Minor w * 100 + Micro w < 10000"
    using assms by (simp_all add: version_packable_def)
  have "Minor v * 100 + Micro v < Minor w * 100 + Micro w \<longleftrightarrow>
      Minor v < Minor w \<or> Minor v = Minor w \<and> Micro v < Micro w"
    by (rule lex_pair_less) (use assms in \<open>simp_all add: version_packable_def\<close>)
  then show ?thesis
    using lex_pair_less[OF v w, of "Major v" "Major w"] assms
    by (auto simp: version_int_exact add.assoc)
qed

theorem version_int_order_witness:
  "version_int \<lparr>Major = 1, Minor = 9, Micro = 99\<rparr> < version_int AgentVersion"
  by (subst version_int_order) (simp_all add: version_packable_def AgentVersion_def)

text \<open>Every string is either parsed, or rejected with \<open>ErrInvalidValue\<close> exactly when it has
  more than three parts, or rejected with the \<open>strconv\<close> error of one of its parts.\<close>

theorem parseString_errors:
  "case parseString s of
     Inr v \<Rightarrow> length (Split (CHR ''.'') (TrimSpace s)) \<le> 3 \<and> version_wf v
   | Inl e \<Rightarrow>
       (if 3 < length (Split (CHR ''.'') (TrimSpace s)) then e = Wrap s ErrInvalidValue
        else \<exists>p \<in> set (Split (CHR ''.'') (TrimSpace s)). \<exists>k. e = NumError ''Atoi'' p k)"
proof (cases "3 < length (Split (CHR ''.'') (TrimSpace s))")
  case True
  then show ?thesis by (simp add: parseString_def Let_def)
next
  case small: False
  let ?ps = "Split (CHR ''.'') (TrimSpace s)"
  show ?thesis
  proof (cases "traverse_res Atoi ?ps")
    case (Inl e)
    then obtain p where "p \<in> set ?ps" "Atoi p = Inl e" by (auto dest: traverse_res_err)
    moreover from this have "\<exists>k. e = NumError ''Atoi'' p k" by (intro Atoi_err)
    ultimately show ?thesis using small Inl by (auto simp: parseString_def Let_def)
  next
    case (Inr vs)
    then have all: "list_all2 (\<lambda>x y. Atoi x = Inr y) ?ps vs" by (simp add: traverse_res_Inr)
    then have len: "length vs = length ?ps" by (simp add: list_all2_lengthD)
    have rng: "in_int64 v" if v: "v \<in> set vs" for v
      using all v Atoi_range by (auto simp: list_all2_conv_all_nth in_set_conv_nth)
    have "in_int64 ((vs @ replicate (4 - length ?ps) 0) ! i)" if "i < 3" for i
    proof (cases "i < length vs")
      case True
      then show ?thesis by (simp add: nth_append rng)
    next
      case False
      then show ?thesis using that small len by (simp add: nth_append in_int64_def)
    qed
    then show ?thesis using small Inr by (simp add: parseString_def Let_def version_wf_def)
  qed
qed

end
