(* ===== verification/Core_Server.thy ===== *)
theory Core_Server
  imports Fs_Utils Stat_Poller Agent_Version
begin

text \<open>
  \<open>core/server.go\<close>, \<open>core/filesystem.go\<close> and \<open>core/secure_shell.go\<close>: the server object with its
  lock flag, and the file-system operations behind the RPC services: hashing, stat, ownership,
  mode, directory creation, and freezing and thawing of all file systems. MD5 is a parameter
  (a function on byte strings).
\<close>

unbundle bit_operations_syntax

section \<open>The server\<close>

abbreviation DefaultGuestSerialPort :: string where
  "DefaultGuestSerialPort \<equiv> ''/dev/virtio-ports/org.guest-agent.0''"
abbreviation GRPCPort :: nat where "GRPCPort \<equiv> 8383"
abbreviation RCPPort :: nat where "RCPPort \<equiv> 4949"

record AgentFeatures =
  LegacyMode :: bool
  SerialPort :: string
  WithoutSSH :: bool
  WithoutTCP :: bool

record Server =
  SessionID :: string
  locked :: bool
  poller :: StatPoller
  sshUserKey :: "string option"
  features :: AgentFeatures

record AgentInfo =
  AISessionID :: string
  AIVersion :: Version
  AIIsLocked :: bool
  AIFeatures :: "AgentFeatures option"

text \<open>\<open>NewServer\<close>: the goroutine of the poller, and that of the SSH server unless it is disabled. The
  second result says whether the SSH goroutine was started; \<open>ssh_goroutine\<close> is its effect on the
  server, given the outcome of the key generation.\<close>

definition NewServer :: "string \<Rightarrow> AgentFeatures \<Rightarrow> Server \<times> bool" where
  "NewServer uuid f =
     (\<lparr>SessionID = uuid, locked = False, poller = poller_step StatPoller_zero RunStart,
       sshUserKey = None, features = f\<rparr>,
      \<not> WithoutSSH f \<and> \<not> LegacyMode f)"

definition ssh_goroutine :: "string result \<Rightarrow> Server \<Rightarrow> Server" where
  "ssh_goroutine keygen s = (case keygen of Inl _ \<Rightarrow> s | Inr k \<Rightarrow> s\<lparr>sshUserKey := Some k\<rparr>)"

definition lock :: "Server \<Rightarrow> Server" where
  "lock s = s\<lparr>locked := True\<rparr>"

definition unlock :: "Server \<Rightarrow> Server" where
  "unlock s = s\<lparr>locked := False\<rparr>"

definition IsLocked :: "Server \<Rightarrow> bool" where
  "IsLocked s = locked s"

definition GetAgentInfo :: "Server \<Rightarrow> AgentInfo" where
  "GetAgentInfo s =
     \<lparr>AISessionID = SessionID s, AIVersion = AgentVersion, AIIsLocked = locked s,
      AIFeatures = Some (features s)\<rparr>"

definition GetUserPrivateKey :: "Server \<Rightarrow> string" where
  "GetUserPrivateKey s = (case sshUserKey s of Some k \<Rightarrow> k | None \<Rightarrow> [])"

section \<open>File queries\<close>

definition GetFileMD5Hash :: "(string \<Rightarrow> string) \<Rightarrow> world \<Rightarrow> string \<Rightarrow> string result" where
  "GetFileMD5Hash md5 w fpath =
     (case os_Open w fpath of
        Inl e \<Rightarrow> Inl e
      | Inr fd \<Rightarrow>
          (case read_err fd of
             Some e \<Rightarrow> Inl e
           | None \<Rightarrow> Inr (hex_EncodeToString (md5 (bytes fd)))))"

record FileStat_Owner =
  UID :: "32 word"
  OwnerName :: string

record FileStat_Group =
  GID :: "32 word"
  GroupName :: string

record FileStat =
  FName :: string
  FMode :: "32 word"
  FIsDir :: bool
  FOwner :: "FileStat_Owner option"
  FGroup :: "FileStat_Group option"
  SizeBytes :: int

definition getStat :: "(32 word \<rightharpoonup> string) \<Rightarrow> (32 word \<rightharpoonup> string) \<Rightarrow> file_info \<Rightarrow> FileStat" where
  "getStat uids gids fi =
     \<lparr>FName = fi_name fi, FMode = fi_mode fi, FIsDir = fi_isdir fi,
      FOwner = Some \<lparr>UID = fi_uid fi,
        OwnerName = (case uids (fi_uid fi) of Some v \<Rightarrow> v | None \<Rightarrow> [])\<rparr>,
      FGroup = Some \<lparr>GID = fi_gid fi,
        GroupName = (case gids (fi_gid fi) of Some v \<Rightarrow> v | None \<Rightarrow> [])\<rparr>,
      SizeBytes = fi_size fi\<rparr>"

definition GetFileStat :: "world \<Rightarrow> string \<Rightarrow> bool \<Rightarrow> FileStat list result" where
  "GetFileStat w fpath withContent =
     (case os_Lstat w fpath of
        Inl e \<Rightarrow> Inl e
      | Inr info \<Rightarrow>
          (case GetOSUsers w of
             Inl e \<Rightarrow> Inl e
           | Inr (_, uids) \<Rightarrow>
               (case GetOSGroups w of
                  Inl e \<Rightarrow> Inl e
                | Inr (_, gids) \<Rightarrow>
                    if fi_isdir info \<and> withContent
                    then (case os_Open w fpath of
                            Inl e \<Rightarrow> Inl e
                          | Inr _ \<Rightarrow>
                              (case file_Readdir w fpath of
                                 Inl e \<Rightarrow> Inl e
                               | Inr ffi \<Rightarrow> Inr (map (getStat uids gids) ffi)))
                    else Inr [getStat uids gids info])))"

section \<open>Changing files\<close>

text \<open>A name in the table wins; anything else must be a number.\<close>

definition resolve_id ::
  "(string \<rightharpoonup> 32 word) \<Rightarrow> string \<Rightarrow> string \<Rightarrow> int result" where
  "resolve_id names what s =
     (case names s of
        Some v \<Rightarrow> Inr (uint v)
      | None \<Rightarrow>
          (case Atoi s of
             Inl _ \<Rightarrow> Inl (Errorf (''invalid '' @ what @ '': '' @ s))
           | Inr v \<Rightarrow> Inr v))"

definition SetFileOwner ::
  "string \<Rightarrow> string \<Rightarrow> string \<Rightarrow> world \<Rightarrow> unit result \<times> world" where
  "SetFileOwner fpath owner grp w =
     (case GetOSUsers w of
        Inl e \<Rightarrow> (Inl e, w)
      | Inr (users, _) \<Rightarrow>
          (case GetOSGroups w of
             Inl e \<Rightarrow> (Inl e, w)
           | Inr (groups, _) \<Rightarrow>
               (case resolve_id users ''user name/uid'' owner of
                  Inl e \<Rightarrow> (Inl e, w)
                | Inr uid \<Rightarrow>
                    (case resolve_id groups ''group name/gid'' grp of
                       Inl e \<Rightarrow> (Inl e, w)
                     | Inr gid \<Rightarrow> os_Chown fpath uid gid w))))"

text \<open>\<open>oldmask := Umask(0); defer Umask(oldmask)\<close> around a call.\<close>

definition with_umask0 ::
  "(world \<Rightarrow> unit result \<times> world) \<Rightarrow> world \<Rightarrow> unit result \<times> world" where
  "with_umask0 f w =
     (case set_umask 0 w of (oldmask, w1) \<Rightarrow>
        (case f w1 of (r, w2) \<Rightarrow> (r, snd (set_umask oldmask w2))))"

definition SetFileMode :: "string \<Rightarrow> 32 word \<Rightarrow> world \<Rightarrow> unit result \<times> world" where
  "SetFileMode fpath mode = with_umask0 (os_Chmod fpath mode)"

definition CreateDir :: "string \<Rightarrow> 32 word \<Rightarrow> world \<Rightarrow> unit result \<times> world" where
  "CreateDir fpath mode = with_umask0 (os_MkdirAll fpath mode)"

section \<open>Freezing and thawing\<close>

text \<open>The effect of the two requests on the superblock behind a mount point: the errnos of
  \<open>ioctl_fsfreeze(2)\<close>, after the fault oracle.\<close>

definition sys_ioctl :: "string \<Rightarrow> nat \<Rightarrow> world \<Rightarrow> errno option \<times> world" where
  "sys_ioctl p request w =
     (if request = FIFREEZE then
        (case fault w ''fifreeze'' p of
           Some e \<Rightarrow> (Some e, w)
         | None \<Rightarrow>
             if \<not> freezable w (sb_of w p) then (Some EOPNOTSUPP, w)
             else if sb_of w p \<in> frozen w then (Some EBUSY, w)
             else (None, w\<lparr>frozen := insert (sb_of w p) (frozen w)\<rparr>))
      else if request = FITHAW then
        (case fault w ''fithaw'' p of
           Some e \<Rightarrow> (Some e, w)
         | None \<Rightarrow>
             if sb_of w p \<notin> frozen w then (Some EINVAL, w)
             else (None, w\<lparr>frozen := frozen w - {sb_of w p}\<rparr>))
      else (Some (Errno 25), w))"

definition ioctl :: "string \<Rightarrow> nat \<Rightarrow> world \<Rightarrow> error option \<times> world" where
  "ioctl p request w =
     (case sys_ioctl p request w of (errno, w') \<Rightarrow> (map_option (SyscallError ''ioctl'') errno, w'))"

definition freeze :: "string \<Rightarrow> world \<Rightarrow> error option \<times> world" where
  "freeze s w =
     (case os_Open w s of
        Inl e \<Rightarrow> (Some e, w)
      | Inr _ \<Rightarrow>
          (case ioctl s FIFREEZE w of
             (Some (SyscallError op errno), w') \<Rightarrow>
               if errno \<noteq> EOPNOTSUPP \<and> errno \<noteq> EBUSY then (Some (SyscallError op errno), w')
               else (None, w')
           | (Some e, w') \<Rightarrow> (Some (Panic ''interface conversion''), w')
           | (None, w') \<Rightarrow> (None, w')))"

definition unfreeze :: "string \<Rightarrow> world \<Rightarrow> error option \<times> world" where
  "unfreeze s w =
     (case os_Open w s of
        Inl e \<Rightarrow> (Some e, w)
      | Inr _ \<Rightarrow>
          (case ioctl s FITHAW w of
             (Some (SyscallError op errno), w') \<Rightarrow>
               if errno \<noteq> EINVAL then (Some (SyscallError op errno), w') else (None, w')
           | (Some e, w') \<Rightarrow> (Some (Panic ''interface conversion''), w')
           | (None, w') \<Rightarrow> (None, w')))"

fun each_mount ::
  "(string \<Rightarrow> world \<Rightarrow> error option \<times> world) \<Rightarrow> MPEntry list \<Rightarrow> world \<Rightarrow> error option \<times> world" where
  "each_mount f [] w = (None, w)"
| "each_mount f (m # mm) w =
     (case f (FSFile m) w of
        (Some e, w') \<Rightarrow> (Some e, w')
      | (None, w') \<Rightarrow> each_mount f mm w')"

definition FreezeFileSystems :: "Server \<times> world \<Rightarrow> unit result \<times> Server \<times> world" where
  "FreezeFileSystems sw =
     (case sw of (s, w) \<Rightarrow>
       (case GetMountPoints w of
          Inl e \<Rightarrow> (Inl e, s, w)
        | Inr mm \<Rightarrow>
            (case each_mount freeze mm w of
               (Some e, w') \<Rightarrow> (Inl e, lock s, w')
             | (None, w') \<Rightarrow> (Inr (), lock s, w'))))"

definition UnfreezeFileSystems :: "Server \<times> world \<Rightarrow> unit result \<times> Server \<times> world" where
  "UnfreezeFileSystems sw =
     (case sw of (s, w) \<Rightarrow>
       (case GetMountPoints w of
          Inl e \<Rightarrow> (Inl e, s, w)
        | Inr mm \<Rightarrow>
            (case each_mount unfreeze mm w of
               (Some e, w') \<Rightarrow> (Inl e, s, w')
             | (None, w') \<Rightarrow> (Inr (), unlock s, w'))))"

definition SyncFileSystems :: "world \<Rightarrow> unit result \<times> world" where
  "SyncFileSystems w = (Inr (), w)"

section \<open>Frame: freezing touches the freeze state only\<close>

definition same_files :: "world \<Rightarrow> world \<Rightarrow> bool" where
  "same_files w w' \<longleftrightarrow> w' = w\<lparr>frozen := frozen w'\<rparr>"

lemma same_files_refl [simp]: "same_files w w"
  by (simp add: same_files_def)

lemma same_files_trans: "same_files u v \<Longrightarrow> same_files v w \<Longrightarrow> same_files u w"
  unfolding same_files_def by (metis world.surjective world.update_convs(7))

lemma same_files_fields:
  "same_files w w' \<Longrightarrow> nodes w' = nodes w \<and> fault w' = fault w \<and> sb_of w' = sb_of w \<and>
     freezable w' = freezable w \<and> dir_entries w' = dir_entries w \<and> umask w' = umask w"
  unfolding same_files_def by (metis (no_types, lifting) world.select_convs(1-6)
      world.surjective world.update_convs(7))

lemma os_same:
  assumes "same_files w w'"
  shows "os_Open w' p = os_Open w p" "os_Lstat w' p = os_Lstat w p"
    "os_Readlink w' p = os_Readlink w p"
  using same_files_fields[OF assms] follow_same[of w' w]
  by (simp_all add: os_Open_def os_Lstat_def os_Readlink_def syscall_def
      cong: option.case_cong sum.case_cong kind.case_cong)

lemma mount_line_same: "same_files w w' \<Longrightarrow> mount_line w' = mount_line w"
proof (intro ext)
  fix line mps
  assume "same_files w w'"
  then have eq: "mount_spec w' = mount_spec w"
    by (intro ext) (simp add: mount_spec_def os_same cong: sum.case_cong if_cong)
  show "mount_line w' line mps = mount_line w line mps" unfolding mount_line_def eq ..
qed

lemma GetMountPoints_same: "same_files w w' \<Longrightarrow> GetMountPoints w' = GetMountPoints w"
  by (simp add: GetMountPoints_def os_same mount_line_same cong: sum.case_cong)

section \<open>Freezing and thawing one mount point\<close>

text \<open>What a round of either loop does, on every branch.\<close>

lemma freeze_cases:
  assumes "freeze p w = (r, w')"
  shows "same_files w w' \<and> frozen w \<subseteq> frozen w' \<and> frozen w' \<subseteq> insert (sb_of w p) (frozen w) \<and>
    (r = None \<longrightarrow> fault w ''fifreeze'' p = None \<and> (freezable w (sb_of w p) \<longrightarrow> sb_of w p \<in> frozen w')
       \<or> fault w ''fifreeze'' p \<in> {Some EOPNOTSUPP, Some EBUSY})"
  using assms
  by (auto simp: freeze_def ioctl_def sys_ioctl_def same_files_def
      split: sum.splits option.splits if_splits)

lemma unfreeze_cases:
  assumes "unfreeze p w = (r, w')"
  shows "same_files w w' \<and> frozen w' \<subseteq> frozen w \<and> frozen w \<subseteq> insert (sb_of w p) (frozen w') \<and>
    (r = None \<longrightarrow> sb_of w p \<notin> frozen w' \<or> fault w ''fithaw'' p = Some EINVAL)"
  using assms
  by (auto simp: unfreeze_def ioctl_def sys_ioctl_def same_files_def
      split: sum.splits option.splits if_splits)

lemma freeze_loop:
  "each_mount freeze mm w = (r, w') \<Longrightarrow>
     same_files w w' \<and> frozen w \<subseteq> frozen w' \<and>
     frozen w' \<subseteq> frozen w \<union> (\<lambda>m. sb_of w (FSFile m)) ` set mm \<and>
     (r = None \<longrightarrow> (\<forall>m \<in> set mm. fault w ''fifreeze'' (FSFile m) = None \<longrightarrow>
        freezable w (sb_of w (FSFile m)) \<longrightarrow> sb_of w (FSFile m) \<in> frozen w'))"
proof (induction mm arbitrary: w)
  case (Cons m mm)
  obtain r1 w1 where f: "freeze (FSFile m) w = (r1, w1)" by fastforce
  note c = freeze_cases[OF f]
  then have flds: "fault w1 = fault w" "sb_of w1 = sb_of w" "freezable w1 = freezable w"
    using same_files_fields by blast+
  show ?case
  proof (cases r1)
    case (Some e)
    then show ?thesis using Cons.prems f c by auto
  next
    case None
    then have l: "each_mount freeze mm w1 = (r, w')" using Cons.prems f by simp
    note ih = Cons.IH[OF l, unfolded flds]
    then have sf: "same_files w w'" using c same_files_trans by blast
    have "sb_of w (FSFile m) \<in> frozen w'"
      if "fault w ''fifreeze'' (FSFile m) = None" "freezable w (sb_of w (FSFile m))"
      using that c ih None by auto
    then show ?thesis using sf ih c by auto
  qed
qed simp

lemma unfreeze_loop:
  "each_mount unfreeze mm w = (r, w') \<Longrightarrow>
     same_files w w' \<and> frozen w' \<subseteq> frozen w \<and>
     frozen w \<subseteq> frozen w' \<union> (\<lambda>m. sb_of w (FSFile m)) ` set mm \<and>
     (r = None \<longrightarrow> (\<forall>m \<in> set mm. fault w ''fithaw'' (FSFile m) \<noteq> Some EINVAL \<longrightarrow>
        sb_of w (FSFile m) \<notin> frozen w'))"
proof (induction mm arbitrary: w)
  case (Cons m mm)
  obtain r1 w1 where f: "unfreeze (FSFile m) w = (r1, w1)" by fastforce
  note c = unfreeze_cases[OF f]
  then have flds: "fault w1 = fault w" "sb_of w1 = sb_of w"
    using same_files_fields by blast+
  show ?case
  proof (cases r1)
    case (Some e)
    then show ?thesis using Cons.prems f c by auto
  next
    case None
    then have l: "each_mount unfreeze mm w1 = (r, w')" using Cons.prems f by simp
    note ih = Cons.IH[OF l, unfolded flds]
    then have sf: "same_files w w'" using c same_files_trans by blast
    have "sb_of w (FSFile m) \<notin> frozen w'" if "fault w ''fithaw'' (FSFile m) \<noteq> Some EINVAL"
      using that c ih None by auto
    then show ?thesis using sf ih c by auto
  qed
qed simp

lemma unfreeze_loop_succeeds:
  assumes "\<And>m. m \<in> set mm \<Longrightarrow> ok (os_Open w (FSFile m)) \<and> fault w ''fithaw'' (FSFile m) = None"
  shows "\<exists>w'. each_mount unfreeze mm w = (None, w')"
  using assms
proof (induction mm arbitrary: w)
  case (Cons m mm)
  have "ok (os_Open w (FSFile m))" "fault w ''fithaw'' (FSFile m) = None" using Cons.prems by simp_all
  then obtain w1 where f: "unfreeze (FSFile m) w = (None, w1)"
    by (cases "sb_of w (FSFile m) \<in> frozen w")
      (auto simp: unfreeze_def ioctl_def sys_ioctl_def ok_iff)
  then have "same_files w w1" using unfreeze_cases by blast
  then have "fault w1 = fault w" "\<And>p. os_Open w1 p = os_Open w p"
    using same_files_fields os_same by blast+
  then have "\<exists>w'. each_mount unfreeze mm w1 = (None, w')" using Cons.IH[of w1] Cons.prems by simp
  then show ?case using f by simp
qed simp

section \<open>Directories and modes\<close>

lemma with_umask0_frame:
  assumes "with_umask0 f w = (r, w')"
  shows "\<exists>w2. f (w\<lparr>umask := 0\<rparr>) = (r, w2) \<and> w' = w2\<lparr>umask := umask w\<rparr>"
  using assms by (auto simp: with_umask0_def set_umask_def split: prod.splits)

lemma os_MkdirAll_ok:
  assumes "os_MkdirAll p m w = (Inr (), w')"
  shows "(\<exists>fi. os_Stat w p = Inr fi \<and> fi_isdir fi) \<or> (\<exists>i. nodes w' p = Some i \<and> ino_kind i = DirK)"
proof (cases "os_Stat w p")
  case (Inr fi)
  then show ?thesis using assms by (auto simp: os_MkdirAll.simps[of p] split: if_splits)
next
  case (Inl e)
  obtain r1 w1 where pr: "(if mkdir_parent p = [] then (Inr (), w)
      else os_MkdirAll (mkdir_parent p) m w) = (r1, w1)" by fastforce
  obtain r2 w2 where mk: "os_Mkdir p m w1 = (r2, w2)" by fastforce
  have "\<exists>i. nodes w' p = Some i \<and> ino_kind i = DirK"
  proof (cases r1; cases r2)
    fix a b assume "r1 = Inr a" "r2 = Inr b"
    then have "w' = w2" "\<exists>d. nodes w2 p = Some (new_dir w1 d m)"
      using assms Inl pr mk
      by (auto simp: os_MkdirAll.simps[of p] os_Mkdir_def split: if_splits option.splits sum.splits)
    then show ?thesis by (auto simp: new_dir_def)
  next
    fix a b assume "r1 = Inr a" "r2 = Inl b"
    then have "w' = w2" "\<exists>fi. os_Lstat w2 p = Inr fi \<and> fi_isdir fi"
      using assms Inl pr mk
      by (auto simp: os_MkdirAll.simps[of p] split: if_splits sum.splits)
    then show ?thesis
      by (auto simp: os_Lstat_def syscall_Inr info_of_def split: option.splits)
  qed (use assms Inl pr mk in \<open>auto simp: os_MkdirAll.simps[of p]\<close>)
  then show ?thesis by blast
qed

section \<open>Properties\<close>

text \<open>C3. A successful freeze locks the server, leaves every file alone, thaws nothing, and leaves every
  mount point frozen whose file system can be frozen and whose ioctl does not fail.\<close>

theorem Freeze_success:
  assumes "FreezeFileSystems (s, w) = (Inr (), s', w')"
  shows "s' = s\<lparr>locked := True\<rparr> \<and> same_files w w' \<and> frozen w \<subseteq> frozen w' \<and>
    (\<exists>mm. GetMountPoints w = Inr mm \<and>
      (\<forall>m \<in> set mm. freezable w (sb_of w (FSFile m)) \<longrightarrow> fault w ''fifreeze'' (FSFile m) = None \<longrightarrow>
         sb_of w (FSFile m) \<in> frozen w'))"
  using assms freeze_loop
  by (fastforce simp: FreezeFileSystems_def lock_def split: sum.splits prod.splits option.splits)

text \<open>A guest with a frozen-capable root file system, and a server for it.\<close>

definition root_world :: world where
  "root_world = mk_world
     [(''/proc/self/mounts'', RegK (''/dev/vda1 / ext4 rw 0 0'' @ [CHR 0x0A])),
      (''/dev/vda1'', RegK []), (''/'', DirK)]"

definition idle_server :: Server where
  "idle_server = fst (NewServer ''id'' \<lparr>LegacyMode = False, SerialPort = [], WithoutSSH = False,
     WithoutTCP = False\<rparr>)"

lemma root_world_mounts:
  "GetMountPoints root_world = Inr [\<lparr>FSSpec = ''/dev/vda1'', FSFile = ''/'', FSType = ''ext4''\<rparr>]"
  by code_simp

lemma root_world_open: "os_Open root_world ''/'' = Inr \<lparr>bytes = [], read_err = Some (PathError ''read'' ''/'' EISDIR)\<rparr>"
  by code_simp

lemma root_world_fields:
  "fault root_world = (\<lambda>_ _. None)" "sb_of root_world = (\<lambda>m. m)" "frozen root_world = {}"
  "freezable root_world = (\<lambda>_. True)"
  by (simp_all add: root_world_def mk_world_def)

lemma root_world_freeze:
  "FreezeFileSystems (idle_server, root_world) =
     (Inr (), idle_server\<lparr>locked := True\<rparr>, root_world\<lparr>frozen := {''/''}\<rparr>)"
  by (simp add: FreezeFileSystems_def root_world_mounts freeze_def root_world_open ioctl_def
      sys_ioctl_def root_world_fields lock_def)

theorem Freeze_success_witness: "''/'' \<in> frozen (root_world\<lparr>frozen := {''/''}\<rparr>)"
  using Freeze_success[OF root_world_freeze] root_world_mounts
  by (auto simp: root_world_fields)

text \<open>C10. A failing freeze either changes nothing (the mount table could not be read) or leaves the
  server locked, with the mount points before the failing one frozen: only a later unfreeze clears
  the lock.\<close>

theorem Freeze_failure:
  assumes "FreezeFileSystems (s, w) = (Inl e, s', w')"
  shows "same_files w w' \<and> frozen w \<subseteq> frozen w' \<and>
    (case GetMountPoints w of
       Inl d \<Rightarrow> e = d \<and> s' = s \<and> w' = w
     | Inr mm \<Rightarrow> s' = s\<lparr>locked := True\<rparr>)"
  using assms freeze_loop
  by (fastforce simp: FreezeFileSystems_def lock_def split: sum.splits prod.splits option.splits)

theorem Freeze_failure_witness:
  "let w = root_world\<lparr>fault := (\<lambda>op p. if op = ''fifreeze'' then Some EIO else None)\<rparr>;
       r = FreezeFileSystems (idle_server, w)
   in fst r = Inl (SyscallError ''ioctl'' EIO) \<and> locked (fst (snd r))"
proof -
  let ?w = "root_world\<lparr>fault := (\<lambda>op p. if op = ''fifreeze'' then Some EIO else None)\<rparr>"
  have m: "GetMountPoints ?w = Inr [\<lparr>FSSpec = ''/dev/vda1'', FSFile = ''/'', FSType = ''ext4''\<rparr>]"
    by code_simp
  have "ok (os_Open ?w ''/'')" by code_simp
  then obtain f where f: "os_Open ?w ''/'' = Inr f" by (auto simp: ok_iff)
  have r: "FreezeFileSystems (idle_server, ?w) =
      (Inl (SyscallError ''ioctl'' EIO), lock idle_server, ?w)"
    by (simp add: FreezeFileSystems_def m freeze_def f ioctl_def sys_ioctl_def)
  from Freeze_failure[OF r] show ?thesis using m r by (simp add: Let_def)
qed

text \<open>A successful unfreeze clears the lock, leaves every file alone, freezes nothing, and leaves
  no listed mount point frozen whose ioctl does not fail.\<close>

theorem Unfreeze_success:
  assumes "UnfreezeFileSystems (s, w) = (Inr (), s', w')"
  shows "s' = s\<lparr>locked := False\<rparr> \<and> same_files w w' \<and> frozen w' \<subseteq> frozen w \<and>
    (\<exists>mm. GetMountPoints w = Inr mm \<and>
      (\<forall>m \<in> set mm. fault w ''fithaw'' (FSFile m) = None \<longrightarrow> sb_of w (FSFile m) \<notin> frozen w'))"
  using assms unfreeze_loop
  by (fastforce simp: UnfreezeFileSystems_def unlock_def split: sum.splits prod.splits option.splits)

lemma root_world_unfreeze:
  "UnfreezeFileSystems (idle_server\<lparr>locked := True\<rparr>, root_world\<lparr>frozen := {''/''}\<rparr>) =
     (Inr (), idle_server\<lparr>locked := False\<rparr>, root_world\<lparr>frozen := {}\<rparr>)"
proof -
  have sf: "same_files root_world (root_world\<lparr>frozen := {''/''}\<rparr>)" by (simp add: same_files_def)
  show ?thesis
    using GetMountPoints_same[OF sf] os_same(1)[OF sf, of "''/''"]
    by (simp add: UnfreezeFileSystems_def root_world_mounts root_world_open unfreeze_def ioctl_def
        sys_ioctl_def root_world_fields unlock_def)
qed

theorem Unfreeze_success_witness: "''/'' \<notin> frozen (root_world\<lparr>frozen := {}\<rparr>)"
  using Unfreeze_success[OF root_world_unfreeze] by (auto simp: root_world_fields)

text \<open>Recovery: after any freeze attempt that could read the mount table, whether it succeeded or
  failed half way, an unfreeze succeeds when the mount points can be opened and the kernel thaws
  them, and it restores the world and the lock flag exactly.\<close>

theorem Freeze_Unfreeze_restores:
  assumes "GetMountPoints w = Inr mm" "frozen w = {}"
    and "\<forall>m \<in> set mm. ok (os_Open w (FSFile m)) \<and> fault w ''fithaw'' (FSFile m) = None"
    and "FreezeFileSystems (s, w) = (r, s1, w1)"
  shows "UnfreezeFileSystems (s1, w1) = (Inr (), s\<lparr>locked := False\<rparr>, w)"
proof -
  obtain e where l: "each_mount freeze mm w = (e, w1)" and s1: "s1 = s\<lparr>locked := True\<rparr>"
    using assms(1,4) by (auto simp: FreezeFileSystems_def lock_def split: prod.splits option.splits)
  note fr = freeze_loop[OF l]
  then have sf: "same_files w w1" by blast
  have m1: "GetMountPoints w1 = Inr mm" using GetMountPoints_same[OF sf] assms(1) by simp
  have opens: "ok (os_Open w1 (FSFile m)) \<and> fault w1 ''fithaw'' (FSFile m) = None"
    if "m \<in> set mm" for m
    using that assms(3) os_same(1)[OF sf] same_files_fields[OF sf] by simp
  obtain w2 where u: "each_mount unfreeze mm w1 = (None, w2)"
    using unfreeze_loop_succeeds[of mm w1] opens by blast
  note un = unfreeze_loop[OF u]
  have "frozen w2 = {}"
    using fr un assms(2) opens same_files_fields[OF sf] by fastforce
  moreover have "same_files w w2" using same_files_trans[OF sf] un by blast
  ultimately have "w2 = w" using assms(2) by (simp add: same_files_def)
  then show ?thesis using m1 u s1 by (simp add: UnfreezeFileSystems_def unlock_def)
qed

theorem Freeze_Unfreeze_restores_witness:
  "UnfreezeFileSystems (idle_server\<lparr>locked := True\<rparr>, root_world\<lparr>frozen := {''/''}\<rparr>) =
     (Inr (), idle_server\<lparr>locked := False\<rparr>, root_world)"
  by (rule Freeze_Unfreeze_restores[OF root_world_mounts _ _ root_world_freeze])
    (simp_all add: root_world_fields root_world_open)

text \<open>The special bits of an octal mode (4755, 1777) are not those of Go's \<open>FileMode\<close>: a mode below 4096
  keeps its permission bits only.\<close>

lemma octal_special_bits_lost: "m < 0x1000 \<Longrightarrow> syscall_mode m = m AND 0x1FF"
proof -
  assume "m < 0x1000"
  then have "take_bit 12 m = m"
    by (simp add: word_unat_eq_iff unsigned_take_bit_eq take_bit_nat_eq_self_iff word_less_nat_alt)
  then have "\<not> bit m n" if "12 \<le> n" for n
    using that by (metis bit_take_bit_iff not_less)
  then show ?thesis by (simp add: syscall_mode_def)
qed

text \<open>C20. Creating directories restores the process umask on every path and changes no existing file. Every
  directory it creates belongs to root and has the permission bits and the sticky bit of the
  requested mode, whatever the umask of the process was; below a directory with the setgid bit it
  gets that group and the bit as well, and group 0 otherwise (setuid and setgid of the
  request itself are ignored by the kernel). When it succeeds the path is a directory.\<close>

theorem CreateDir_spec:
  assumes "CreateDir p m w = (r, w')"
  shows "umask w' = umask w \<and> frozen w' = frozen w \<and>
    (\<forall>q i. nodes w q = Some i \<longrightarrow> nodes w' q = Some i) \<and>
    (\<forall>q i. nodes w q = None \<longrightarrow> nodes w' q = Some i \<longrightarrow>
       ino_kind i = DirK \<and> ino_uid i = 0 \<and>
       (\<exists>d. parent_node w' q = Inr d \<and>
          (if bit (ino_perm d) 10
           then ino_gid i = ino_gid d \<and> ino_perm i = (syscall_mode m AND 0x3FF) OR 0x400
           else ino_gid i = 0 \<and> ino_perm i = syscall_mode m AND 0x3FF))) \<and>
    (r = Inr () \<longrightarrow> (\<exists>fi. os_Stat (w\<lparr>umask := 0\<rparr>) p = Inr fi \<and> fi_isdir fi) \<or>
       (\<exists>i. nodes w' p = Some i \<and> ino_kind i = DirK))"
proof -
  obtain w2 where w2: "os_MkdirAll p m (w\<lparr>umask := 0\<rparr>) = (r, w2)" "w' = w2\<lparr>umask := umask w\<rparr>"
    using with_umask0_frame[OF assms[unfolded CreateDir_def]] by blast
  note f = os_MkdirAll_frame[OF w2(1), unfolded made_dirs_def]
  have par: "\<exists>d. parent_node w' q = Inr d \<and> i = new_dir (w\<lparr>umask := 0\<rparr>) d m"
    if "nodes w q = None" "nodes w' q = Some i" for q i
    using f that w2(2) by simp
  have "ino_kind i = DirK \<and> ino_uid i = 0 \<and>
       (\<exists>d. parent_node w' q = Inr d \<and>
          (if bit (ino_perm d) 10
           then ino_gid i = ino_gid d \<and> ino_perm i = (syscall_mode m AND 0x3FF) OR 0x400
           else ino_gid i = 0 \<and> ino_perm i = syscall_mode m AND 0x3FF))"
    if new: "nodes w q = None" "nodes w' q = Some i" for q i
  proof -
    obtain d where "parent_node w' q = Inr d" "i = new_dir (w\<lparr>umask := 0\<rparr>) d m"
      using par[OF new] by blast
    then show ?thesis by (simp add: new_dir_def new_gid_def is_setgid_def mkdir_mode_def)
  qed
  moreover have "umask w' = umask w \<and> frozen w' = frozen w \<and> (\<forall>q i. nodes w q = Some i \<longrightarrow> nodes w' q = Some i)"
    using f w2(2) by (simp add: extends_def)
  moreover have "r = Inr () \<longrightarrow> (\<exists>fi. os_Stat (w\<lparr>umask := 0\<rparr>) p = Inr fi \<and> fi_isdir fi) \<or>
       (\<exists>i. nodes w' p = Some i \<and> ino_kind i = DirK)"
    using os_MkdirAll_ok[of p m "w\<lparr>umask := 0\<rparr>" w2] w2 by auto
  ultimately show ?thesis by blast
qed

text \<open>A setgid directory of group 7, and a directory tree requested in it with mode 777 under umask 022.\<close>

definition setgid_world :: world where
  "setgid_world = (mk_world [(''/'', DirK)])
     \<lparr>nodes := [''/srv'' \<mapsto> \<lparr>ino_kind = DirK, ino_perm = 0x5ED, ino_uid = 0, ino_gid = 7\<rparr>]\<rparr>"

theorem CreateDir_spec_witness:
  "umask (snd (CreateDir ''/srv/a/b'' 0x1FF setgid_world)) = 0x12 \<and>
   map_option ino_gid (nodes (snd (CreateDir ''/srv/a/b'' 0x1FF setgid_world)) ''/srv/a/b'') = Some 7"
proof -
  obtain r w' where r: "CreateDir ''/srv/a/b'' 0x1FF setgid_world = (r, w')" by fastforce
  have n: "map_option ino_perm (nodes (snd (CreateDir ''/srv/a/b'' 0x1FF setgid_world)) ''/srv/a/b'') = Some 0x5FF" by code_simp
  then obtain i where i: "nodes w' ''/srv/a/b'' = Some i" "ino_perm i = 0x5FF" using r by auto
  have "nodes setgid_world ''/srv/a/b'' = None" by (simp add: setgid_world_def)
  then obtain d where d: "parent_node w' ''/srv/a/b'' = Inr d"
      "if bit (ino_perm d) 10 then ino_gid i = ino_gid d \<and> ino_perm i = (syscall_mode 0x1FF AND 0x3FF) OR 0x400
       else ino_gid i = 0 \<and> ino_perm i = syscall_mode 0x1FF AND 0x3FF"
    using CreateDir_spec[OF r] i by blast
  have "map_sum id (\<lambda>d. (ino_gid d, ino_perm d)) (parent_node (snd (CreateDir ''/srv/a/b'' 0x1FF setgid_world)) ''/srv/a/b'') =
      Inr (7, 0x5FF)" by code_simp
  then have "ino_gid d = 7" "bit (ino_perm d) 10" using d(1) r by simp_all
  then have "ino_gid i = 7" using d(2) by simp
  moreover have "umask w' = umask setgid_world" using CreateDir_spec[OF r] by blast
  ultimately show ?thesis using r i by (simp add: setgid_world_def mk_world_def)
qed

text \<open>C23. Changing the owner: names are looked up in the tables first and read as numbers otherwise;
  the file that the path leads to gets the two ids, modulo \<open>2 ^ 32\<close>, keeps its content and, as the
  kernel does it, loses setuid (and setgid if the group may execute it) unless it is a directory; no
  other file changes, and on every error the world is unchanged.\<close>

theorem SetFileOwner_spec:
  assumes "SetFileOwner fpath owner grp w = (r, w')"
  shows "case r of
     Inl e \<Rightarrow> w' = w
   | Inr _ \<Rightarrow> \<exists>users uids groups gids uid gid q i.
       GetOSUsers w = Inr (users, uids) \<and> GetOSGroups w = Inr (groups, gids) \<and>
       (case users owner of Some v \<Rightarrow> uid = uint v | None \<Rightarrow> Atoi owner = Inr uid) \<and>
       (case groups grp of Some v \<Rightarrow> gid = uint v | None \<Rightarrow> Atoi grp = Inr gid) \<and>
       follow 40 w fpath = Inr q \<and> nodes w q = Some i \<and>
       (\<exists>j. nodes w' = (nodes w)(q \<mapsto> j) \<and> ino_kind j = ino_kind i \<and>
         ino_perm j = (if ino_kind i = DirK then ino_perm i
           else ino_perm i AND NOT (if bit (ino_perm i) 3 then 0xC00 else 0x800)) \<and>
         ino_uid j = (if word_of_int uid = (- 1 :: 32 word) then ino_uid i else word_of_int uid) \<and>
         ino_gid j = (if word_of_int gid = (- 1 :: 32 word) then ino_gid i else word_of_int gid))"
proof (cases r)
  case (Inl e)
  then show ?thesis
    using assms by (auto simp: SetFileOwner_def os_Chown_def split: sum.splits prod.splits
        dest: on_node_error)
next
  case (Inr u)
  with assms obtain users uids groups gids uid gid where h:
      "GetOSUsers w = Inr (users, uids)" "GetOSGroups w = Inr (groups, gids)"
      "resolve_id users ''user name/uid'' owner = Inr uid"
      "resolve_id groups ''group name/gid'' grp = Inr gid" "os_Chown fpath uid gid w = (r, w')"
    by (auto simp: SetFileOwner_def split: sum.splits prod.splits)
  have "case users owner of Some v \<Rightarrow> uid = uint v | None \<Rightarrow> Atoi owner = Inr uid"
    "case groups grp of Some v \<Rightarrow> gid = uint v | None \<Rightarrow> Atoi grp = Inr gid"
    using h(3,4) by (auto simp: resolve_id_def split: option.splits sum.splits)
  moreover obtain q i where "follow 40 w fpath = Inr q" "nodes w q = Some i"
    "nodes w' = (nodes w)(q \<mapsto> i\<lparr>ino_uid := (if word_of_int uid = (- 1 :: 32 word) then ino_uid i
       else word_of_int uid), ino_gid := (if word_of_int gid = (- 1 :: 32 word) then ino_gid i
       else word_of_int gid), ino_perm := chown_perm i\<rparr>)"
    using h(5) Inr by (auto simp: os_Chown_def on_node_def split: option.splits sum.splits)
  ultimately show ?thesis using h(1,2) Inr by (fastforce simp: chown_perm_def)
qed

text \<open>The group file of the sample guest goes to the user \<open>alice\<close> and the group \<open>wheel\<close>, both by name.\<close>

theorem SetFileOwner_spec_witness:
  "\<exists>j. nodes (snd (SetFileOwner ''/etc/group'' ''alice'' ''wheel'' passwd_world)) ''/etc/group'' = Some j \<and>
     ino_uid j = 1005 \<and> ino_gid j = 10"
proof -
  obtain r w' where r: "SetFileOwner ''/etc/group'' ''alice'' ''wheel'' passwd_world = (r, w')" by fastforce
  have "ok (fst (SetFileOwner ''/etc/group'' ''alice'' ''wheel'' passwd_world))" by code_simp
  then obtain u where u: "r = Inr u" using r by (auto simp: ok_iff)
  have t: "map_sum id (\<lambda>m. fst m ''alice'') (GetOSUsers passwd_world) = Inr (Some 1005)"
    "map_sum id (\<lambda>m. fst m ''wheel'') (GetOSGroups passwd_world) = Inr (Some 10)"
    "follow 40 passwd_world ''/etc/group'' = Inr ''/etc/group''" by code_simp+
  from SetFileOwner_spec[OF r] u t show ?thesis unfolding r by auto
qed

text \<open>A stat query on an existing path answers with one entry for the path itself, or with one
  entry per directory member when the content of a directory is asked for, and each entry carries
  the ids of the file and the names that the tables give for them.\<close>

theorem GetFileStat_spec:
  assumes "GetFileStat w p withContent = Inr fs"
  shows "\<exists>info users uids groups gids infos.
    os_Lstat w p = Inr info \<and> GetOSUsers w = Inr (users, uids) \<and> GetOSGroups w = Inr (groups, gids) \<and>
    (if fi_isdir info \<and> withContent then file_Readdir w p = Inr infos else infos = [info]) \<and>
    list_all2 (\<lambda>fi st. FName st = fi_name fi \<and> FMode st = fi_mode fi \<and> SizeBytes st = fi_size fi \<and>
      (\<exists>o'. FOwner st = Some o' \<and> UID o' = fi_uid fi \<and>
         (uids (fi_uid fi) \<noteq> None \<longrightarrow> OwnerName o' \<in> dom users)) \<and>
      (\<exists>g. FGroup st = Some g \<and> GID g = fi_gid fi \<and>
         (gids (fi_gid fi) \<noteq> None \<longrightarrow> GroupName g \<in> dom groups))) infos fs"
proof -
  from assms obtain info users uids groups gids infos where h:
      "os_Lstat w p = Inr info" "GetOSUsers w = Inr (users, uids)" "GetOSGroups w = Inr (groups, gids)"
      "if fi_isdir info \<and> withContent then file_Readdir w p = Inr infos else infos = [info]"
      "fs = map (getStat uids gids) infos"
    by (auto simp: GetFileStat_def split: sum.splits prod.splits if_splits)
  have "\<exists>v. users n = Some v" if "uids i = Some n" for i n
    using GetOSUsers_loop[OF h(2)] users.load_id_has_name that by blast
  moreover have "\<exists>v. groups n = Some v" if "gids i = Some n" for i n
    using GetOSGroups_loop[OF h(3)] groups.load_id_has_name that by blast
  ultimately show ?thesis
    using h by (intro exI conjI) (auto simp: getStat_def list_all2_map2 list_all2_same)
qed

theorem GetFileStat_spec_witness:
  "\<exists>fs info uids. GetFileStat passwd_world ''/etc/passwd'' True = Inr fs \<and>
     os_Lstat passwd_world ''/etc/passwd'' = Inr info \<and> GetOSUsers passwd_world = Inr uids"
proof -
  have "ok (GetFileStat passwd_world ''/etc/passwd'' True)" by code_simp
  then obtain fs where fs: "GetFileStat passwd_world ''/etc/passwd'' True = Inr fs"
    by (auto simp: ok_iff)
  from GetFileStat_spec[OF fs] show ?thesis using fs by blast
qed

end
