(* ===== verification/File_Transfer.thy ===== *)
theory File_Transfer
  imports Go_Os
begin

text \<open>
  File upload and download: the streaming handlers of \<open>services/filesystem/service.go\<close> and the client
  side of \<open>client/filesystem.go\<close> (\<open>streamTo\<close>, \<open>streamFrom\<close>, \<open>CopyFile\<close>). A stream that a side
  receives is the list of its messages followed by the error that ends it (\<open>EOF\<close> for a stream that
  the peer closed); gRPC's promise that messages arrive in order and unchanged is used by handing
  the list that one side sent to the other side.
\<close>

section \<open>Data\<close>

datatype upload_msg = UploadInfo string | UploadChunk string | UploadEmpty

datatype ctx_err = CtxCanceled | CtxDeadlineExceeded

record upload_stream =
  us_first :: "upload_msg result"
  us_msgs :: "(ctx_err option \<times> upload_msg) list"
  us_end :: "ctx_err option \<times> error"
  us_close :: "error option"

section \<open>The upload handler\<close>

definition ctx_status :: "ctx_err \<Rightarrow> error" where
  "ctx_status c =
     (case c of
        CtxCanceled \<Rightarrow> GrpcStatus CodeCanceled (Errorf ''request is canceled'')
      | CtxDeadlineExceeded \<Rightarrow> GrpcStatus CodeDeadlineExceeded (Errorf ''deadline is exceeded''))"

definition max_file_size :: nat where
  "max_file_size = 2 ^ 31"

fun upload_loop ::
  "string \<Rightarrow> (ctx_err option \<times> upload_msg) list \<Rightarrow> ctx_err option \<times> error \<Rightarrow> nat \<Rightarrow> world \<Rightarrow>
   error option \<times> world" where
  "upload_loop tmp [] fin fileSize w =
     (case fst fin of
        Some c \<Rightarrow> (Some (ctx_status c), w)
      | None \<Rightarrow>
          if snd fin = EOF then (None, w)
          else (Some (GrpcStatus CodeInternal (Fmt ''chunk recv failed'' (snd fin))), w))"
| "upload_loop tmp ((Some c, m) # ms) fin fileSize w = (Some (ctx_status c), w)"
| "upload_loop tmp ((None, m) # ms) fin fileSize w =
     (case m of
        UploadChunk chunk \<Rightarrow>
          let size = (fileSize + length chunk) mod 2 ^ 64 in
          if size > max_file_size
          then (Some (GrpcStatus CodeInvalidArgument (Errorf ''file is too large'')), w)
          else (case file_Write tmp chunk w of
                  (Some e, w1) \<Rightarrow> (Some (GrpcStatus CodeInternal (Fmt ''chunk write failed'' e)), w1)
                | (None, w1) \<Rightarrow> upload_loop tmp ms fin size w1)
      | _ \<Rightarrow> (Some (GrpcStatus CodeInternal (Errorf ''unexpected: chunk is nil'')), w))"

text \<open>After the temporary file exists: the loop, the sync and the rename.\<close>

definition upload_body :: "string \<Rightarrow> string \<Rightarrow> upload_stream \<Rightarrow> world \<Rightarrow> error option \<times> world" where
  "upload_body fullname tmp st w =
     (case upload_loop tmp (us_msgs st) (us_end st) 0 w of
        (Some e, w1) \<Rightarrow> (Some e, w1)
      | (None, w1) \<Rightarrow>
          (case file_Sync tmp w1 of
             Some e \<Rightarrow> (Some (GrpcStatus CodeInternal (Fmt ''file sync failed'' e)), w1)
           | None \<Rightarrow>
               (case os_Rename tmp fullname w1 of
                  (Inl e, w2) \<Rightarrow> (Some (GrpcStatus CodeInternal (Fmt ''rename temp file failed'' e)), w2)
                | (Inr _, w2) \<Rightarrow> (us_close st, w2))))"

definition UploadFile :: "nat list \<Rightarrow> upload_stream \<Rightarrow> world \<Rightarrow> error option \<times> world" where
  "UploadFile rnds st w =
     (case us_first st of
        Inl e \<Rightarrow> (Some (GrpcStatus CodeInternal (Fmt ''cannot create a new stream'' e)), w)
      | Inr req \<Rightarrow>
          let fullname = (case req of UploadInfo p \<Rightarrow> p | _ \<Rightarrow> []) in
          if fullname = [] then (Some (GrpcStatus CodeInvalidArgument (Errorf ''file name is undefined'')), w)
          else (case os_CreateTemp rnds (Dir fullname) (''.'' @ Base fullname @ ''.'') w of
                  (Inl e, w1) \<Rightarrow> (Some (GrpcStatus CodeInternal e), w1)
                | (Inr tmp, w1) \<Rightarrow>
                    (case upload_body fullname tmp st w1 of
                       (err, w2) \<Rightarrow> (err, snd (os_Remove tmp w2)))))"

section \<open>The download handler\<close>

definition buffer_size :: nat where
  "buffer_size = 2 * 1024 * 1024"

text \<open>\<open>Read\<close> into a buffer: at least one byte while some are left, at most the buffer; \<open>req k\<close> is the
  number of bytes that the \<open>k\<close>-th call would like to return.\<close>

definition read_len :: "(nat \<Rightarrow> nat) \<Rightarrow> nat \<Rightarrow> string \<Rightarrow> nat" where
  "read_len req k s = min (length s) (min buffer_size (max 1 (req k)))"

lemma read_len_pos: "s \<noteq> [] \<Longrightarrow> 0 < read_len req k s"
  by (simp add: read_len_def buffer_size_def)

function download_loop ::
  "(nat \<Rightarrow> nat) \<Rightarrow> (nat \<Rightarrow> error option) \<Rightarrow> error option \<Rightarrow> nat \<Rightarrow> string \<Rightarrow> string list \<times> error option" where
  "download_loop req send rerr k s =
     (if s = [] then ([], rerr)
      else let n = read_len req k s in
           case send k of
             Some e \<Rightarrow> ([], Some (GrpcStatus CodeInternal (Fmt ''chunk send failed'' e)))
           | None \<Rightarrow>
               (case download_loop req send rerr (Suc k) (drop n s) of
                  (cs, r) \<Rightarrow> (take n s # cs, r)))"
  by pat_completeness auto
termination
  by (relation "measure (\<lambda>(_, _, _, _, s). length s)") (auto simp: read_len_pos)

declare download_loop.simps [simp del]

text \<open>The chunks sent, and the result of the handler: a read error of the file is returned as it is.\<close>

definition DownloadFile ::
  "(nat \<Rightarrow> nat) \<Rightarrow> (nat \<Rightarrow> error option) \<Rightarrow> string \<Rightarrow> world \<Rightarrow> string list \<times> error option" where
  "DownloadFile req send path w =
     (case os_Open w path of
        Inl e \<Rightarrow> ([], Some e)
      | Inr f \<Rightarrow> download_loop req send (read_err f) 0 (bytes f))"

section \<open>The client\<close>

text \<open>\<open>streamTo\<close>: the messages sent, and the error. \<open>open_err\<close> is the outcome of opening the stream,
  \<open>send k\<close> that of the \<open>k\<close>-th send, \<open>final\<close> that of \<open>CloseAndRecv\<close>.\<close>

function stream_chunks ::
  "(nat \<Rightarrow> nat) \<Rightarrow> (nat \<Rightarrow> error option) \<Rightarrow> error option \<Rightarrow> nat \<Rightarrow> string \<Rightarrow> upload_msg list \<times> error option" where
  "stream_chunks req send rerr k s =
     (if s = [] then ([], map_option (Fmt ''chunk read failed'') rerr)
      else let n = read_len req k s in
           case send k of
             Some e \<Rightarrow> ([], Some (Fmt ''chunk send failed'' e))
           | None \<Rightarrow>
               (case stream_chunks req send rerr (Suc k) (drop n s) of
                  (cs, r) \<Rightarrow> (UploadChunk (take n s) # cs, r)))"
  by pat_completeness auto
termination
  by (relation "measure (\<lambda>(_, _, _, _, s). length s)") (auto simp: read_len_pos)

declare stream_chunks.simps [simp del]

definition streamTo ::
  "(nat \<Rightarrow> nat) \<Rightarrow> error option \<Rightarrow> (nat \<Rightarrow> error option) \<Rightarrow> error option \<Rightarrow> go_file \<Rightarrow> string \<Rightarrow>
   upload_msg list \<times> error option" where
  "streamTo req open_err send final src dst =
     (case open_err of
        Some e \<Rightarrow> ([], Some (Fmt ''cannot create new upload stream'' e))
      | None \<Rightarrow>
          (case send 0 of
             Some e \<Rightarrow> ([], Some (Fmt ''initial request failed'' e))
           | None \<Rightarrow>
               (case stream_chunks req send (read_err src) 1 (bytes src) of
                  (cs, Some e) \<Rightarrow> (UploadInfo dst # cs, Some e)
                | (cs, None) \<Rightarrow> (UploadInfo dst # cs, map_option (Fmt ''final request failed'') final))))"

text \<open>\<open>streamFrom\<close> into a file of the client's machine.\<close>

fun stream_into :: "string \<Rightarrow> string list \<Rightarrow> error option \<Rightarrow> world \<Rightarrow> error option \<times> world" where
  "stream_into dst [] fin w = (map_option (Fmt ''chunk recv failed'') fin, w)"
| "stream_into dst (c # cs) fin w =
     (case file_Write dst c w of
        (Some e, w1) \<Rightarrow> (Some (Fmt ''chunk write failed'' e), w1)
      | (None, w1) \<Rightarrow> stream_into dst cs fin w1)"

definition streamFrom ::
  "error option \<Rightarrow> string list \<times> error option \<Rightarrow> string \<Rightarrow> world \<Rightarrow> error option \<times> world" where
  "streamFrom open_err received dst w =
     (case open_err of
        Some e \<Rightarrow> (Some (Fmt ''cannot create new download stream'' e), w)
      | None \<Rightarrow> stream_into dst (fst received) (snd received) w)"

definition copyFrom ::
  "nat list \<Rightarrow> error option \<Rightarrow> (string \<Rightarrow> string list \<times> error option) \<Rightarrow> string \<Rightarrow> string \<Rightarrow> world \<Rightarrow>
   error option \<times> world" where
  "copyFrom rnds open_err server src dst0 w =
     (case (case os_Stat w dst0 of
              Inr st \<Rightarrow> Inr (if fi_isdir st then path_join [dst0, Base src] else dst0)
            | Inl e \<Rightarrow>
                if IsNotExist e \<and> \<not> HasSuffix dst0 ''/'' then Inr dst0 else Inl e) of
        Inl e \<Rightarrow> (Some e, w)
      | Inr dst \<Rightarrow>
          (case os_CreateTemp rnds (Dir dst) (''.'' @ Base src @ ''.'') w of
             (Inl e, w1) \<Rightarrow> (Some e, w1)
           | (Inr tmp, w1) \<Rightarrow>
               (case (case streamFrom open_err (server src) tmp w1 of
                        (Some e, w2) \<Rightarrow> (Some e, w2)
                      | (None, w2) \<Rightarrow>
                          (case os_Rename tmp dst w2 of (Inl e, w3) \<Rightarrow> (Some e, w3) | (Inr _, w3) \<Rightarrow> (None, w3))) of
                  (err, w4) \<Rightarrow> (err, snd (os_Remove tmp w4)))))"

text \<open>\<open>copyTo\<close> and \<open>CopyFile\<close>; \<open>upload\<close> stands for \<open>streamTo\<close> of a reader to a guest path.\<close>

definition copyTo ::
  "(go_file \<Rightarrow> string \<Rightarrow> error option) \<Rightarrow> go_file \<Rightarrow> string \<Rightarrow> string \<Rightarrow> world \<Rightarrow> error option" where
  "copyTo upload stdin src dst w =
     (if src = ''-'' then upload stdin dst
      else (case os_Open w src of Inl e \<Rightarrow> Some e | Inr f \<Rightarrow> upload f dst))"

definition guest_prefix :: string where
  "guest_prefix = ''guest:''"

definition CopyFile ::
  "nat list \<Rightarrow> error option \<Rightarrow> (string \<Rightarrow> string list \<times> error option) \<Rightarrow>
   (go_file \<Rightarrow> string \<Rightarrow> error option) \<Rightarrow> go_file \<Rightarrow> string \<Rightarrow> string \<Rightarrow> world \<Rightarrow> error option \<times> world" where
  "CopyFile rnds open_err server upload stdin srcname dstname w =
     (if HasPrefix srcname guest_prefix
      then copyFrom rnds open_err server (TrimPrefix srcname guest_prefix) dstname w
      else if HasPrefix dstname guest_prefix
      then (copyTo upload stdin srcname (TrimPrefix dstname guest_prefix) w, w)
      else (Some (Errorf ''must specify at least one 'guest:' source''), w))"

section \<open>The upload loop\<close>

definition good_stream :: "(ctx_err option \<times> upload_msg) list \<Rightarrow> string list \<Rightarrow> bool" where
  "good_stream ms cs \<longleftrightarrow> ms = map (\<lambda>c. (None, UploadChunk c)) cs"

lemma upload_loop_only_at:
  "upload_loop tmp ms fin n w = (r, w') \<Longrightarrow> only_at tmp w w'"
proof (induction tmp ms fin n w arbitrary: r w' rule: upload_loop.induct)
  case (3 tmp m ms fin fileSize w)
  show ?case
  proof (cases m)
    case (UploadChunk chunk)
    let ?n = "(fileSize + length chunk) mod 2 ^ 64"
    obtain e w1 where fw: "file_Write tmp chunk w = (e, w1)" by fastforce
    have a: "only_at tmp w w1" using file_Write_only_at[of tmp w chunk] fw by simp
    show ?thesis
    proof (cases "?n > max_file_size \<or> e \<noteq> None")
      case True
      then show ?thesis using "3.prems" UploadChunk fw a by (auto simp: Let_def split: if_splits)
    next
      case False
      then have "upload_loop tmp ms fin ?n w1 = (r, w')" using "3.prems" UploadChunk fw by (simp add: Let_def)
      then have "only_at tmp w1 w'" using "3.IH" UploadChunk fw False by simp
      with a show ?thesis by (rule only_at_trans)
    qed
  qed (use "3.prems" in auto)
qed (auto split: option.splits if_splits)

lemma upload_loop_ok:
  assumes "upload_loop tmp ms fin n w = (None, w')"
    and "nodes w tmp = Some i" "ino_kind i = RegK s" "n = length s" "n \<le> max_file_size"
    and "\<forall>c. (None, UploadChunk c) \<in> set ms \<longrightarrow> length c < 2 ^ 63"
  shows "\<exists>cs. good_stream ms cs \<and> fin = (None, EOF) \<and> length (s @ concat cs) \<le> max_file_size \<and>
    nodes w' tmp = Some (i\<lparr>ino_kind := RegK (s @ concat cs)\<rparr>)"
  using assms
proof (induction tmp ms fin n w arbitrary: w' i s rule: upload_loop.induct)
  case (1 tmp fin fileSize w)
  then show ?case by (cases fin) (auto simp: good_stream_def split: option.splits if_splits)
next
  case (3 tmp m ms fin fileSize w)
  obtain chunk where m: "m = UploadChunk chunk" using "3.prems"(1) by (cases m) auto
  have "length chunk < 2 ^ 63" using "3.prems"(6) m by simp
  then have nn: "(fileSize + length chunk) mod 2 ^ 64 = fileSize + length chunk"
    using "3.prems"(5) by (intro mod_less) (simp add: max_file_size_def)
  let ?i = "i\<lparr>ino_kind := RegK (s @ chunk)\<rparr>"
  from "3.prems" m nn have le: "fileSize + length chunk \<le> max_file_size"
    and fw: "file_Write tmp chunk w = (None, set_node tmp (Some ?i) w)"
    and rest: "upload_loop tmp ms fin (fileSize + length chunk) (set_node tmp (Some ?i) w) = (None, w')"
    by (auto simp: Let_def file_Write_def split: if_splits option.splits)
  have "\<exists>cs. good_stream ms cs \<and> fin = (None, EOF) \<and> length ((s @ chunk) @ concat cs) \<le> max_file_size \<and>
      nodes w' tmp = Some (?i\<lparr>ino_kind := RegK ((s @ chunk) @ concat cs)\<rparr>)"
    using "3.IH"[OF m refl _ fw[symmetric] refl, of w' ?i "s @ chunk"] rest le nn "3.prems"(4,6) by simp
  then obtain cs where "good_stream ms cs" "fin = (None, EOF)" "length (s @ chunk @ concat cs) \<le> max_file_size"
      "nodes w' tmp = Some (i\<lparr>ino_kind := RegK (s @ chunk @ concat cs)\<rparr>)" by auto
  then show ?case using m by (intro exI[of _ "chunk # cs"]) (simp add: good_stream_def)
qed simp

section \<open>The whole upload\<close>

lemma Base_temp_name:
  assumes "CHR ''/'' \<notin> set pre"
  shows "Base (temp_name d pre r) = pre @ Itoa (int r)"
proof -
  have n: "pre @ Itoa (int r) \<noteq> []" "CHR ''/'' \<notin> set (pre @ Itoa (int r))"
    using assms by (auto simp: Itoa_def dest!: show_nat_digits)
      (auto simp: digit_chr_def dest!: arg_cong[where f = "of_char :: char \<Rightarrow> nat"])
  show ?thesis
  proof (cases "HasSuffix d ''/''")
    case True
    then obtain d' where "rev d = CHR ''/'' # rev d'"
      unfolding HasSuffix_def HasPrefix_iff prefix_def by (metis append_Cons append_Nil rev_rev_ident rev_singleton_conv)
    then have "d = d' @ ''/''" by (metis rev_rev_ident rev.simps(2))
    then show ?thesis using True Base_append[OF n, of d'] by (simp add: temp_name_def)
  next
    case False
    then show ?thesis using Base_append[OF n, of d] by (simp add: temp_name_def)
  qed
qed

lemma temp_name_not_target:
  assumes "CHR ''/'' \<notin> set (''.'' @ Base p @ ''.'')"
  shows "temp_name d (''.'' @ Base p @ ''.'') r \<noteq> p"
proof
  assume "temp_name d (''.'' @ Base p @ ''.'') r = p"
  then have "''.'' @ Base p @ ''.'' @ Itoa (int r) = Base p"
    using Base_temp_name[OF assms, of d r] by simp
  then have "length (''.'' @ Base p @ ''.'' @ Itoa (int r)) = length (Base p)" by simp
  then show False by simp
qed

definition tmp_inode :: "string \<Rightarrow> world \<Rightarrow> string \<Rightarrow> inode" where
  "tmp_inode dir w s =
     \<lparr>ino_kind = RegK s, ino_perm = 0x180 AND NOT (umask w), ino_uid = 0, ino_gid = gid_in w dir\<rparr>"

lemma set_node_None [simp]: "nodes w p = None \<Longrightarrow> set_node p None w = w"
  by (simp add: set_node_def fun_upd_idem)

lemma set_node_commute: "p \<noteq> q \<Longrightarrow> set_node p i (set_node q j w) = set_node q j (set_node p i w)"
  by (simp add: set_node_def fun_upd_twist)

lemma os_Remove_tmp:
  assumes "only_at tmp w w1" "nodes w tmp = None" "fault w ''remove'' tmp = None"
  shows "snd (os_Remove tmp w1) = w"
  using assms by (auto simp: only_at_def os_Remove_def)

lemma upload_body_outcome:
  assumes "upload_body fullname tmp st (set_node tmp (Some (tmp_inode dir w [])) w) = (r, w2)"
    and "nodes w tmp = None" "tmp \<noteq> fullname" "fault w ''remove'' tmp = None"
    and "\<forall>c. (None, UploadChunk c) \<in> set (us_msgs st) \<longrightarrow> length c < 2 ^ 63"
  shows "snd (os_Remove tmp w2) = w \<and> r \<noteq> None \<or>
    (\<exists>cs. good_stream (us_msgs st) cs \<and> us_end st = (None, EOF) \<and> length (concat cs) \<le> max_file_size \<and>
       r = us_close st \<and> snd (os_Remove tmp w2) = set_node fullname (Some (tmp_inode dir w (concat cs))) w)"
proof -
  let ?w0 = "set_node tmp (Some (tmp_inode dir w [])) w"
  obtain r1 w1 where loop: "upload_loop tmp (us_msgs st) (us_end st) 0 ?w0 = (r1, w1)" by fastforce
  have "only_at tmp ?w0 w1" using upload_loop_only_at[OF loop] .
  then have at: "only_at tmp w w1" by (auto simp: only_at_def)
  note undo = os_Remove_tmp[OF at assms(2,4)]
  show ?thesis
  proof (cases "r1 = None \<and> file_Sync tmp w1 = None")
    case False
    then have "w2 = w1 \<and> r \<noteq> None" using assms(1) loop by (auto simp: upload_body_def split: option.splits)
    then show ?thesis using undo by simp
  next
    case True
    with loop have "upload_loop tmp (us_msgs st) (us_end st) 0 ?w0 = (None, w1)" by simp
    from upload_loop_ok[OF this, of "tmp_inode dir w []" "[]"] assms(5)
    obtain cs where cs: "good_stream (us_msgs st) cs" "us_end st = (None, EOF)"
        "length (concat cs) \<le> max_file_size" "nodes w1 tmp = Some (tmp_inode dir w (concat cs))"
      by (auto simp: tmp_inode_def)
    have rest: "(case os_Rename tmp fullname w1 of
        (Inl e, w2) \<Rightarrow> (Some (GrpcStatus CodeInternal (Fmt ''rename temp file failed'' e)), w2)
      | (Inr _, w2) \<Rightarrow> (us_close st, w2)) = (r, w2)"
      using assms(1) loop True by (simp add: upload_body_def)
    show ?thesis
    proof (cases "fst (os_Rename tmp fullname w1)")
      case (Inl e)
      then have "w2 = w1 \<and> r \<noteq> None" using rest
        by (auto simp: os_Rename_def split: option.splits if_splits prod.splits)
      then show ?thesis using undo by simp
    next
      case (Inr u)
      then have w2: "w2 = set_node fullname (Some (tmp_inode dir w (concat cs))) (set_node tmp None w1)" "r = us_close st"
        using rest cs(4) by (auto simp: os_Rename_def split: option.splits if_splits)
      from at have "set_node tmp None w1 = w" using assms(2) by (auto simp: only_at_def)
      then show ?thesis using cs w2 assms(2-4) by (auto simp: os_Remove_def)
    qed
  qed
qed

section \<open>Chunking\<close>

function pieces :: "(nat \<Rightarrow> nat) \<Rightarrow> nat \<Rightarrow> string \<Rightarrow> string list" where
  "pieces req k s =
     (if s = [] then [] else take (read_len req k s) s # pieces req (Suc k) (drop (read_len req k s) s))"
  by pat_completeness auto
termination by (relation "measure (\<lambda>(_, _, s). length s)") (auto simp: read_len_pos)

declare pieces.simps [simp del]

lemma read_len_bounds: "read_len req k s \<le> length s" "read_len req k s \<le> buffer_size"
  by (simp_all add: read_len_def)

lemma pieces_props:
  "concat (pieces req k s) = s \<and> (\<forall>c \<in> set (pieces req k s). c \<noteq> [] \<and> length c \<le> buffer_size)"
proof (induction req k s rule: pieces.induct)
  case (1 req k s)
  then show ?case using read_len_pos[of s req k] read_len_bounds[of req k s]
    by (subst (1 2) pieces.simps) auto
qed

lemma stream_chunks_ok: "stream_chunks req (\<lambda>_. None) None k s = (map UploadChunk (pieces req k s), None)"
proof (induction req k s rule: pieces.induct)
  case (1 req k s)
  then show ?case by (subst stream_chunks.simps, subst pieces.simps) (simp add: Let_def)
qed

lemma download_loop_ok: "download_loop req (\<lambda>_. None) rerr k s = (pieces req k s, rerr)"
proof (induction req k s rule: pieces.induct)
  case (1 req k s)
  then show ?case by (subst download_loop.simps, subst pieces.simps) (simp add: Let_def)
qed

text \<open>In every case what was sent is a prefix of the pieces; without an error it is all of them.\<close>

lemma download_loop_prefix:
  "prefix (fst (download_loop req send rerr k s)) (pieces req k s) \<and>
   (snd (download_loop req send rerr k s) = None \<longrightarrow> fst (download_loop req send rerr k s) = pieces req k s)"
proof (induction req k s rule: pieces.induct)
  case (1 req k s)
  show ?case
  proof (cases "s = [] \<or> send k \<noteq> None")
    case True
    then show ?thesis by (auto simp: download_loop.simps[of req send rerr k s] pieces.simps[of req k s])
  next
    case False
    then show ?thesis using 1
      by (simp add: download_loop.simps[of req send rerr k s] pieces.simps[of req k s] Let_def prod.case_eq_if)
  qed
qed

section \<open>Properties\<close>

text \<open>C4. An upload is atomic: whatever the stream carries and whichever calls fail, either an error is
  reported and no file of the guest has changed (the temporary file is gone as well), or the whole
  content, of at most 2 GiB, replaced exactly the named file; the size limit counts every chunk.
  Removing the temporary file is the one call assumed not to fail; a chunk is shorter than 2 to the
  63 because its length is a Go integer.\<close>

theorem UploadFile_atomic:
  assumes "UploadFile rnds st w = (r, w')"
    and "\<forall>p. fault w ''remove'' p = None"
    and "\<forall>c. (None, UploadChunk c) \<in> set (us_msgs st) \<longrightarrow> length c < 2 ^ 63"
  shows "w' = w \<and> r \<noteq> None \<or>
    (\<exists>fullname cs i. us_first st = Inr (UploadInfo fullname) \<and>
       us_msgs st = map (\<lambda>c. (None, UploadChunk c)) cs \<and> us_end st = (None, EOF) \<and>
       length (concat cs) \<le> 2 ^ 31 \<and> r = us_close st \<and>
       ino_kind i = RegK (concat cs) \<and> w' = set_node fullname (Some i) w)"
proof (cases "us_first st")
  case (Inl e)
  then show ?thesis using assms(1) by (auto simp: UploadFile_def)
next
  case (Inr req)
  let ?f = "case req of UploadInfo p \<Rightarrow> p | _ \<Rightarrow> []"
  let ?pre = "''.'' @ Base ?f @ ''.''"
  show ?thesis
  proof (cases "?f = []")
    case True
    then show ?thesis using assms(1) Inr by (auto simp: UploadFile_def)
  next
    case False
    then have req: "req = UploadInfo ?f" by (cases req) auto
    obtain t w1 where ct: "os_CreateTemp rnds (Dir ?f) ?pre w = (t, w1)" by fastforce
    show ?thesis
    proof (cases t)
      case (Inl e)
      then show ?thesis using assms(1) Inr False ct os_CreateTemp_err[of rnds "Dir ?f" ?pre w e w1]
        by (auto simp: UploadFile_def Let_def)
    next
      case t: (Inr tmp)
      note ok = os_CreateTemp_ok[OF ct[unfolded t]]
      have w1: "w1 = set_node tmp (Some (tmp_inode (Dir ?f) w [])) w" using ok(4) by (simp add: tmp_inode_def)
      have ne: "tmp \<noteq> ?f" using ok(1) temp_name_not_target[OF ok(3)] by auto
      obtain r2 w2 where body: "upload_body ?f tmp st w1 = (r2, w2)" by fastforce
      have "r = r2" "w' = snd (os_Remove tmp w2)"
        using assms(1) Inr False ct t body by (simp_all add: UploadFile_def Let_def)
      note res = this
      from upload_body_outcome[OF body[unfolded w1] ok(2) ne assms(2)[rule_format, of tmp] assms(3)]
      consider (undone) "snd (os_Remove tmp w2) = w" "r2 \<noteq> None"
        | (stored) cs where "good_stream (us_msgs st) cs" "us_end st = (None, EOF)"
            "length (concat cs) \<le> max_file_size" "r2 = us_close st"
            "snd (os_Remove tmp w2) = set_node ?f (Some (tmp_inode (Dir ?f) w (concat cs))) w" by blast
      then show ?thesis
      proof cases
        case undone
        then show ?thesis using res by simp
      next
        case stored
        have "us_first st = Inr (UploadInfo ?f)" using Inr req by simp
        moreover have "us_msgs st = map (\<lambda>c. (None, UploadChunk c)) cs" "length (concat cs) \<le> 2 ^ 31"
            "ino_kind (tmp_inode (Dir ?f) w (concat cs)) = RegK (concat cs)"
          using stored(1,3) by (simp_all add: good_stream_def max_file_size_def tmp_inode_def)
        ultimately show ?thesis using stored(2,4,5) res by blast
      qed
    qed
  qed
qed

definition demo_upload :: upload_stream where
  "demo_upload = \<lparr>us_first = Inr (UploadInfo ''/tmp/f''), us_msgs = [(None, UploadChunk ''ab''), (None, UploadChunk ''c'')],
     us_end = (None, EOF), us_close = None\<rparr>"

definition upload_world :: world where
  "upload_world = mk_world [(''/tmp'', DirK)]"

lemma demo_upload_result: "fst (UploadFile [7] demo_upload upload_world) = None"
  by code_simp

theorem UploadFile_atomic_witness:
  "\<exists>i. ino_kind i = RegK ''abc'' \<and> snd (UploadFile [7] demo_upload upload_world) = set_node ''/tmp/f'' (Some i) upload_world"
  using UploadFile_atomic[of "[7]" demo_upload upload_world None "snd (UploadFile [7] demo_upload upload_world)"]
    demo_upload_result
  by (auto simp: prod_eq_iff demo_upload_def upload_world_def mk_world_def Cons_eq_map_conv)

text \<open>Everything a download sends is a prefix of the file, in non-empty chunks of at most 2 MiB, and
  when the handler reports success the chunks are the whole file.\<close>

theorem DownloadFile_prefix:
  assumes "DownloadFile req send path w = (cs, r)" and "os_Open w path = Inr f"
  shows "prefix (concat cs) (bytes f) \<and> (\<forall>c \<in> set cs. c \<noteq> [] \<and> length c \<le> 2 * 1024 * 1024) \<and>
    (r = None \<longrightarrow> concat cs = bytes f)"
proof -
  have d: "download_loop req send (read_err f) 0 (bytes f) = (cs, r)"
    using assms by (simp add: DownloadFile_def)
  note p = pieces_props[of req 0 "bytes f"]
  have pre: "prefix cs (pieces req 0 (bytes f))" "r = None \<longrightarrow> cs = pieces req 0 (bytes f)"
    using download_loop_prefix[of req send "read_err f" 0 "bytes f"] d by auto
  then obtain ds where "pieces req 0 (bytes f) = cs @ ds" by (auto simp: prefix_def)
  with p have "bytes f = concat cs @ concat ds" "\<forall>c \<in> set cs. c \<noteq> [] \<and> length c \<le> buffer_size"
    by (metis concat_append, auto)
  then show ?thesis using pre(2) p by (auto simp: prefix_def buffer_size_def)
qed

theorem DownloadFile_prefix_witness:
  "concat (fst (DownloadFile (\<lambda>_. 2) (\<lambda>_. None) ''/f'' (mk_world [(''/f'', RegK ''abc'')]))) = ''abc''"
proof -
  have "os_Open (mk_world [(''/f'', RegK ''abc'')]) ''/f'' = Inr \<lparr>bytes = ''abc'', read_err = None\<rparr>"
    by code_simp
  moreover have "snd (DownloadFile (\<lambda>_. 2) (\<lambda>_. None) ''/f'' (mk_world [(''/f'', RegK ''abc'')])) = None"
    by code_simp
  ultimately show ?thesis
    using DownloadFile_prefix[of "\<lambda>_. 2" "\<lambda>_. None" "''/f''" "mk_world [(''/f'', RegK ''abc'')]"]
    by (metis go_file.select_convs(1) prod.collapse)
qed

text \<open>The stream that the server receives when the client closed it after these messages.\<close>

definition sent_stream :: "upload_msg list \<Rightarrow> upload_stream" where
  "sent_stream ms =
     \<lparr>us_first = (case ms of [] \<Rightarrow> Inl EOF | m # _ \<Rightarrow> Inr m), us_msgs = map (\<lambda>m. (None, m)) (tl ms),
      us_end = (None, EOF), us_close = None\<rparr>"

lemma upload_loop_complete:
  assumes "\<forall>op p. fault w op p = None" "nodes w tmp = Some i" "ino_kind i = RegK s" "n = length s"
    and "length s + length (concat cs) \<le> max_file_size"
  shows "upload_loop tmp (map (\<lambda>c. (None, UploadChunk c)) cs) (None, EOF) n w =
    (None, set_node tmp (Some (i\<lparr>ino_kind := RegK (s @ concat cs)\<rparr>)) w)"
  using assms
proof (induction cs arbitrary: n w i s)
  case Nil
  have "i\<lparr>ino_kind := RegK s\<rparr> = i" using Nil(3) by simp
  then show ?case using Nil by (simp add: set_node_def fun_upd_idem)
next
  case (Cons c cs)
  have "(n + length c) mod 2 ^ 64 = n + length c" "n + length c \<le> max_file_size"
    using Cons.prems(4,5) by (auto simp: max_file_size_def)
  then show ?case
    using Cons.prems Cons.IH[of "set_node tmp (Some (i\<lparr>ino_kind := RegK (s @ c)\<rparr>)) w" "i\<lparr>ino_kind := RegK (s @ c)\<rparr>" "s @ c" "n + length c"]
    by (simp add: file_Write_def Let_def)
qed

lemma UploadFile_complete:
  assumes nf: "\<forall>op p. fault w op p = None" and dst: "dst \<noteq> []" "CHR ''/'' \<notin> set (Base dst)"
    and dir: "\<forall>i. nodes w dst = Some i \<longrightarrow> ino_kind i \<noteq> DirK"
    and rnd: "r \<in> set rnds" "nodes w (temp_name (Dir dst) (''.'' @ Base dst @ ''.'') r) = None"
    and len: "length (concat cs) \<le> 2 ^ 31"
  shows "UploadFile rnds (sent_stream (UploadInfo dst # map UploadChunk cs)) w =
    (None, set_node dst (Some (tmp_inode (Dir dst) w (concat cs))) w)"
proof -
  let ?pre = "''.'' @ Base dst @ ''.''"
  have "find (\<lambda>r. nodes w (temp_name (Dir dst) ?pre r) = None) rnds \<noteq> None"
    using rnd by (auto simp: find_None_iff)
  then obtain k where k: "find (\<lambda>r. nodes w (temp_name (Dir dst) ?pre r) = None) rnds = Some k" by auto
  define tmp where "tmp = temp_name (Dir dst) ?pre k"
  have fresh: "nodes w tmp = None" using k by (auto simp: find_Some_iff tmp_def)
  have ct: "os_CreateTemp rnds (Dir dst) ?pre w = (Inr tmp, set_node tmp (Some (tmp_inode (Dir dst) w [])) w)"
    using k nf dst(2) by (simp add: os_CreateTemp_def tmp_def tmp_inode_def Let_def)
  have ne: "tmp \<noteq> dst" unfolding tmp_def by (rule temp_name_not_target) (use dst(2) in simp)
  let ?w1 = "set_node tmp (Some (tmp_inode (Dir dst) w (concat cs))) w"
  have "upload_loop tmp (map (\<lambda>c. (None, UploadChunk c)) cs) (None, EOF) 0 (set_node tmp (Some (tmp_inode (Dir dst) w [])) w) = (None, ?w1)"
    using upload_loop_complete[of "set_node tmp (Some (tmp_inode (Dir dst) w [])) w" tmp "tmp_inode (Dir dst) w []" "[]" 0 cs] nf len
    by (simp add: tmp_inode_def max_file_size_def)
  moreover have "os_Rename tmp dst ?w1 = (Inr (), set_node dst (Some (tmp_inode (Dir dst) w (concat cs))) w)"
    using nf ne fresh dir by (auto simp: os_Rename_def split: option.splits)
  ultimately have "upload_body dst tmp (sent_stream (UploadInfo dst # map UploadChunk cs)) (set_node tmp (Some (tmp_inode (Dir dst) w [])) w) =
      (None, set_node dst (Some (tmp_inode (Dir dst) w (concat cs))) w)"
    using nf by (simp add: upload_body_def sent_stream_def file_Sync_def comp_def)
  moreover have "snd (os_Remove tmp (set_node dst (Some (tmp_inode (Dir dst) w (concat cs))) w)) = set_node dst (Some (tmp_inode (Dir dst) w (concat cs))) w"
    using nf ne fresh by (simp add: os_Remove_def)
  ultimately show ?thesis using ct dst(1) by (simp add: UploadFile_def sent_stream_def Let_def)
qed

text \<open>C5. End to end, when no call fails: a file of at most 2 GiB that the client streams to the guest is
  stored under the requested name, and downloading it again, with any sizes of the reads on either
  side, yields the same bytes.\<close>

theorem transfer_roundtrip:
  assumes "\<forall>op p. fault w op p = None" and "dst \<noteq> []" "CHR ''/'' \<notin> set (Base dst)"
    and "\<forall>i. nodes w dst = Some i \<longrightarrow> ino_kind i \<noteq> DirK"
    and "r \<in> set rnds" "nodes w (temp_name (Dir dst) (''.'' @ Base dst @ ''.'') r) = None"
    and "length data \<le> 2 ^ 31"
    and "streamTo req None (\<lambda>_. None) None \<lparr>bytes = data, read_err = None\<rparr> dst = (sent, err)"
    and "UploadFile rnds (sent_stream sent) w = (err', w')"
  shows "err = None \<and> err' = None \<and>
    (\<exists>cs. DownloadFile req' (\<lambda>_. None) dst w' = (cs, None) \<and> concat cs = data)"
proof -
  have sent: "sent = UploadInfo dst # map UploadChunk (pieces req 1 data)" "err = None"
    using assms(8) by (simp_all add: streamTo_def stream_chunks_ok)
  have data: "concat (pieces req 1 data) = data" using pieces_props[of req 1 data] by simp
  have up: "err' = None" "w' = set_node dst (Some (tmp_inode (Dir dst) w data)) w"
    using UploadFile_complete[OF assms(1-6), of "pieces req 1 data"] assms(7,9) sent data by simp_all
  have "os_Open w' dst = Inr \<lparr>bytes = data, read_err = None\<rparr>"
    using assms(1) by (simp add: os_Open_def up tmp_inode_def numeral_eq_Suc)
  then have "DownloadFile req' (\<lambda>_. None) dst w' = (pieces req' 0 data, None)"
    by (simp add: DownloadFile_def download_loop_ok)
  then show ?thesis using sent up pieces_props[of req' 0 data] by simp
qed

theorem transfer_roundtrip_witness:
  "\<exists>cs. DownloadFile (\<lambda>_. 1) (\<lambda>_. None) ''/tmp/f''
      (snd (UploadFile [7] (sent_stream (fst (streamTo (\<lambda>_. 2) None (\<lambda>_. None) None \<lparr>bytes = ''abc'', read_err = None\<rparr> ''/tmp/f''))) upload_world)) =
      (cs, None) \<and> concat cs = ''abc''"
proof -
  have "fault upload_world op p = None" for op p by (simp add: upload_world_def mk_world_def)
  moreover have "CHR ''/'' \<notin> set (Base ''/tmp/f'')" "nodes upload_world ''/tmp/f'' = None"
      "nodes upload_world (temp_name (Dir ''/tmp/f'') (''.'' @ Base ''/tmp/f'' @ ''.'') 7) = None" by code_simp+
  ultimately show ?thesis
    using transfer_roundtrip[of upload_world "''/tmp/f''" 7 "[7]" "''abc''" "\<lambda>_. 2"
        "fst (streamTo (\<lambda>_. 2) None (\<lambda>_. None) None \<lparr>bytes = ''abc'', read_err = None\<rparr> ''/tmp/f'')"
        "snd (streamTo (\<lambda>_. 2) None (\<lambda>_. None) None \<lparr>bytes = ''abc'', read_err = None\<rparr> ''/tmp/f'')"
        "fst (UploadFile [7] (sent_stream (fst (streamTo (\<lambda>_. 2) None (\<lambda>_. None) None \<lparr>bytes = ''abc'', read_err = None\<rparr> ''/tmp/f''))) upload_world)"
        "snd (UploadFile [7] (sent_stream (fst (streamTo (\<lambda>_. 2) None (\<lambda>_. None) None \<lparr>bytes = ''abc'', read_err = None\<rparr> ''/tmp/f''))) upload_world)"
        "\<lambda>_. 1"]
    by simp
qed

end
