(* ===== verification/Go_IP.thy ===== *)
theory Go_IP
  imports Go_Strconv
begin

text \<open>
  IP addresses of Go's package \<open>net\<close>, as far as the agent and its client parse and print them:
  \<open>ParseIP\<close>, \<open>IP.To4\<close>, \<open>IP.String\<close>, \<open>ParseCIDR\<close> and \<open>IPNet.String\<close>. An address is the list of its
  16 bytes; an IPv4 address is the mapped form \<open>::ffff:a.b.c.d\<close>.
\<close>

type_synonym ip = "nat list"

section \<open>IPv4\<close>

definition dec_digit :: "char \<Rightarrow> bool" where
  "dec_digit c \<longleftrightarrow> (48 :: nat) \<le> of_char c \<and> of_char c \<le> (57 :: nat)"

definition octet :: "string \<Rightarrow> nat option" where
  "octet s =
     (if s \<noteq> [] \<and> length s \<le> 3 \<and> list_all dec_digit s \<and> (length s = 1 \<or> hd s \<noteq> CHR ''0'') \<and>
         digits_value 10 0 s \<le> 255
      then Some (digits_value 10 0 s) else None)"

definition parseIPv4 :: "string \<Rightarrow> nat list option" where
  "parseIPv4 s =
     (case Split (CHR ''.'') s of
        [a, b, c, d] \<Rightarrow>
          (case (octet a, octet b, octet c, octet d) of
             (Some a', Some b', Some c', Some d') \<Rightarrow> Some [a', b', c', d']
           | _ \<Rightarrow> None)
      | _ \<Rightarrow> None)"

definition v4_prefix :: "nat list" where
  "v4_prefix = replicate 10 0 @ [255, 255]"

definition To4 :: "ip \<Rightarrow> nat list option" where
  "To4 i = (if length i = 16 \<and> take 12 i = v4_prefix then Some (drop 12 i) else None)"

section \<open>IPv6\<close>

definition hex_val :: "char \<Rightarrow> nat option" where
  "hex_val c = (case digit_val c of Some d \<Rightarrow> if d < 16 then Some d else None | None \<Rightarrow> None)"

definition is_hex :: "char \<Rightarrow> bool" where
  "is_hex c \<longleftrightarrow> hex_val c \<noteq> None"

definition hex_value :: "string \<Rightarrow> nat" where
  "hex_value s = foldl (\<lambda>n c. n * 16 + the (hex_val c)) 0 s"

text \<open>The end of the loop: nothing may be left, and the ellipsis stands for at least one zero group.\<close>

definition v6_finish :: "string \<Rightarrow> nat list \<Rightarrow> nat option \<Rightarrow> ip option" where
  "v6_finish s acc ell =
     (if s \<noteq> [] then None
      else if length acc < 16
      then map_option (\<lambda>e. take e acc @ replicate (16 - length acc) 0 @ drop e acc) ell
      else if ell = None then Some acc else None)"

function v6_loop :: "string \<Rightarrow> nat list \<Rightarrow> nat option \<Rightarrow> ip option" where
  "v6_loop s acc ell =
     (if 16 \<le> length acc then v6_finish s acc ell
      else let h = takeWhile is_hex s; rest = dropWhile is_hex s;
               acc' = acc @ [hex_value h div 256, hex_value h mod 256] in
           if h = [] \<or> 4 < length h then None
           else if rest \<noteq> [] \<and> hd rest = CHR ''.'' then
             (if ell = None \<and> length acc \<noteq> 12 \<or> 16 < length acc + 4 then None
              else (case parseIPv4 s of None \<Rightarrow> None | Some q \<Rightarrow> v6_finish [] (acc @ q) ell))
           else if rest = [] then v6_finish [] acc' ell
           else if hd rest \<noteq> CHR '':'' \<or> tl rest = [] then None
           else if hd (tl rest) = CHR '':'' then
             (if ell \<noteq> None then None
              else if tl (tl rest) = [] then v6_finish [] acc' (Some (length acc'))
              else v6_loop (tl (tl rest)) acc' (Some (length acc')))
           else v6_loop (tl rest) acc' ell)"
  by pat_completeness auto
termination by (relation "measure (\<lambda>(_, acc, _). 16 - length acc)") auto

declare v6_loop.simps [simp del]

definition parseIPv6 :: "string \<Rightarrow> ip option" where
  "parseIPv6 s =
     (if HasPrefix s ''::'' then
        (if s = ''::'' then Some (replicate 16 0) else v6_loop (drop 2 s) [] (Some 0))
      else v6_loop s [] None)"

text \<open>\<open>net.ParseIP\<close>: the first separator decides; zones are refused.\<close>

definition ParseIP :: "string \<Rightarrow> ip option" where
  "ParseIP s =
     (if CHR ''%'' \<in> set s then None
      else (case find (\<lambda>c. c = CHR ''.'' \<or> c = CHR '':'') s of
              None \<Rightarrow> None
            | Some c \<Rightarrow>
                if c = CHR ''.'' then map_option (\<lambda>q. v4_prefix @ q) (parseIPv4 s) else parseIPv6 s))"

section \<open>Printing\<close>

definition dotted :: "nat list \<Rightarrow> string" where
  "dotted q = Join ''.'' (map (\<lambda>n. Itoa (int n)) q)"

fun show_hex :: "nat \<Rightarrow> string" where
  "show_hex n =
     (if n < 16 then [if n < 10 then char_of (48 + n) else char_of (87 + n)]
      else show_hex (n div 16) @ [if n mod 16 < 10 then char_of (48 + n mod 16) else char_of (87 + n mod 16)])"

fun groups16 :: "nat list \<Rightarrow> nat list" where
  "groups16 (a # b # r) = (a * 256 + b) # groups16 r"
| "groups16 _ = []"

definition zero_run :: "nat list \<Rightarrow> nat \<Rightarrow> nat" where
  "zero_run gs i = length (takeWhile (\<lambda>g. g = 0) (drop i gs))"

text \<open>The first longest run of at least two zero groups, as start and length.\<close>

definition best_run :: "nat list \<Rightarrow> nat \<times> nat" where
  "best_run gs =
     foldl (\<lambda>(st, len) i. if 2 \<le> zero_run gs i \<and> len < zero_run gs i then (i, zero_run gs i) else (st, len))
       (255, 0) [0..<length gs]"

definition v6_String :: "ip \<Rightarrow> string" where
  "v6_String i =
     (let gs = groups16 i; (st, len) = best_run gs in
      if len = 0 then Join '':'' (map show_hex gs)
      else Join '':'' (map show_hex (take st gs)) @ ''::'' @ Join '':'' (map show_hex (drop (st + len) gs)))"

definition ip_String :: "ip \<Rightarrow> string" where
  "ip_String i = (case To4 i of Some q \<Rightarrow> dotted q | None \<Rightarrow> v6_String i)"

section \<open>Prefixes\<close>

text \<open>An \<open>IPNet\<close> with the canonical mask of its prefix length.\<close>

record ipnet =
  net_ip :: ip
  net_ones :: nat
  net_bits :: nat

definition ipnet_String :: "ipnet \<Rightarrow> string" where
  "ipnet_String n = ip_String (net_ip n) @ ''/'' @ Itoa (int (net_ones n))"

text \<open>\<open>net.ParseCIDR\<close>, with the address itself kept in the network, as the caller sets it.\<close>

definition net_ParseCIDR :: "string \<Rightarrow> ipnet result" where
  "net_ParseCIDR s =
     (let err = Inl (Errorf (''invalid CIDR address: '' @ s));
          addr = takeWhile (\<lambda>c. c \<noteq> CHR ''/'') s;
          mask = drop (Suc (length addr)) s in
      if CHR ''/'' \<notin> set s then err
      else (case ParseIP addr of
              None \<Rightarrow> err
            | Some i \<Rightarrow>
                let bits = (if CHR '':'' \<in> set addr then 128 else 32) in
                if mask = [] \<or> \<not> list_all dec_digit mask \<or> digits_value 10 0 mask \<ge> 0xFFFFFF \<or>
                   digits_value 10 0 mask > bits then err
                else Inr \<lparr>net_ip = i, net_ones = digits_value 10 0 mask, net_bits = bits\<rparr>))"

section \<open>Lemmas\<close>

lemma digits_val_dec: "dec_digit c \<Longrightarrow> \<exists>d < 10. digit_val c = Some d"
  by (auto simp: dec_digit_def digit_val_def)

lemma dec_digit_chr: "d < 10 \<Longrightarrow> dec_digit (digit_chr d)"
  by (simp add: dec_digit_def digit_chr_def)

lemma show_nat_dec: "list_all dec_digit (show_nat n)"
  by (auto simp: list_all_iff dec_digit_chr dest!: show_nat_digits)

lemma digit_chr_zero: "d < 10 \<Longrightarrow> d \<noteq> 0 \<Longrightarrow> digit_chr d \<noteq> CHR ''0''"
  by (auto simp: digit_chr_def dest: arg_cong[where f = "of_char :: char \<Rightarrow> nat"])

lemma show_nat_octet:
  assumes "n < 256"
  shows "length (show_nat n) \<le> 3 \<and> (length (show_nat n) = 1 \<or> hd (show_nat n) \<noteq> CHR ''0'')"
proof -
  consider "n < 10" | "10 \<le> n" "n < 100" | "100 \<le> n" by linarith
  then show ?thesis
  proof cases
    case 2
    then have "n div 10 < 10" "n div 10 \<noteq> 0" by auto
    then show ?thesis using 2 by (simp add: show_nat.simps[of n] show_nat.simps[of "n div 10"] digit_chr_zero)
  next
    case 3
    then have "n div 10 div 10 < 10" "n div 10 div 10 \<noteq> 0" "\<not> n div 10 < 10" using assms by auto
    then show ?thesis using 3
      by (simp add: show_nat.simps[of n] show_nat.simps[of "n div 10"] show_nat.simps[of "n div 10 div 10"] digit_chr_zero)
  qed (simp add: show_nat.simps[of n])
qed

lemma octet_cases:
  assumes "n < 256"
  shows "octet (show_nat n) = Some n"
proof -
  have "show_nat n \<noteq> [] \<and> length (show_nat n) \<le> 3 \<and> list_all dec_digit (show_nat n) \<and>
      (length (show_nat n) = 1 \<or> hd (show_nat n) \<noteq> CHR ''0'') \<and> digits_value 10 0 (show_nat n) \<le> 255"
    using show_nat_octet[OF assms] show_nat_dec[of n] show_nat_not_Nil[of n] assms
    unfolding show_nat_value by simp
  then show ?thesis by (simp only: octet_def show_nat_value if_True simp_thms)
qed

lemma find_unique:
  assumes "y \<in> set xs" "P y" "\<forall>x \<in> set xs. x \<noteq> y \<longrightarrow> \<not> P x"
  shows "find P xs = Some y"
  using assms
proof (induction xs)
  case (Cons a xs)
  then show ?case by (cases "a = y") simp_all
qed simp

lemma Itoa_nat: "Itoa (int n) = show_nat n"
  by (simp add: Itoa_def)

lemma parseIPv4_dotted:
  assumes "a < 256" "b < 256" "c < 256" "d < 256"
  shows "parseIPv4 (dotted [a, b, c, d]) = Some [a, b, c, d]"
proof -
  have nd: "CHR ''.'' \<notin> set (show_nat n)" for n using Itoa_no_dot[of "int n"] by (simp add: Itoa_nat)
  have "Split (CHR ''.'') (Join ''.'' (map show_nat [a, b, c, d])) = map show_nat [a, b, c, d]"
    by (rule Split_Join) (auto simp: nd)
  then show ?thesis using assms by (simp add: parseIPv4_def dotted_def Itoa_nat octet_cases)
qed

text \<open>Printing an IPv4 address and parsing it gives it back.\<close>

lemma ParseIP_dotted:
  assumes "a < 256" "b < 256" "c < 256" "d < 256"
  shows "ParseIP (dotted [a, b, c, d]) = Some (v4_prefix @ [a, b, c, d])"
proof -
  have ch: "x = CHR ''.'' \<or> dec_digit x" if "x \<in> set (dotted [a, b, c, d])" for x
    using that show_nat_dec by (auto simp: dotted_def Itoa_nat list_all_iff)
  have nodec: "\<not> dec_digit (CHR ''%'')" "\<not> dec_digit (CHR '':'')" by (simp_all add: dec_digit_def)
  then have "CHR ''%'' \<notin> set (dotted [a, b, c, d])" "CHR '':'' \<notin> set (dotted [a, b, c, d])" using ch by auto
  moreover have "CHR ''.'' \<in> set (dotted [a, b, c, d])" by (simp add: dotted_def)
  ultimately have "find (\<lambda>c. c = CHR ''.'' \<or> c = CHR '':'') (dotted [a, b, c, d]) = Some (CHR ''.'')"
    by (intro find_unique) auto
  then show ?thesis using assms \<open>CHR ''%'' \<notin> _\<close> by (simp add: ParseIP_def parseIPv4_dotted)
qed

lemma To4_dotted: "To4 (v4_prefix @ [a, b, c, d]) = Some [a, b, c, d]"
  by (simp add: To4_def v4_prefix_def)

end
