(* ===== verification/Network.thy ===== *)
theory Network
  imports Go_IP
begin

text \<open>
  Network configuration: \<open>core/network.go\<close> and \<open>core/network_utils.go\<close>, the address handling of
  \<open>client/network.go\<close>, and the boot-time set-up of \<open>cmd/agent/netinit.go\<close>. The kernel behind the
  netlink library is a parameter: what a call answers may depend on the changes made so far, so the
  state is the list of the changes that succeeded, and \<open>nl_do\<close> says whether the next one succeeds.
  The library's own address parsers are parameters too.
\<close>

section \<open>Data\<close>

record link =
  ln_Index :: int
  ln_Name :: string
  ln_Type :: string
  ln_HwAddr :: string

record nl_route =
  rt_LinkIndex :: int
  rt_Dst :: "ipnet option"
  rt_Src :: "ip option"
  rt_Gw :: "ip option"
  rt_Scope :: int
  rt_Table :: int

datatype nl_op =
    LinkSetUp string | LinkSetDown string | AddrAdd link ipnet | AddrDel link ipnet
  | RouteAdd nl_route | RouteReplace nl_route | RouteDel nl_route

record net_iface =
  if_Index :: int
  if_Name :: string
  if_HwAddr :: string
  if_Flags :: "32 word"
  if_MTU :: int
  if_Addrs :: "ipnet list result"

record netlink =
  nl_do :: "nl_op list \<Rightarrow> nl_op \<Rightarrow> error option"
  nl_LinkByName :: "nl_op list \<Rightarrow> string \<Rightarrow> link result"
  nl_AddrList :: "nl_op list \<Rightarrow> link \<Rightarrow> ipnet list result"
  nl_RouteList :: "nl_op list \<Rightarrow> int \<Rightarrow> nl_route list result"
  nl_ParseIPNet :: "string \<Rightarrow> ipnet result"
  nl_ParseAddr :: "string \<Rightarrow> ipnet result"
  nl_InterfaceByIndex :: "nl_op list \<Rightarrow> int \<Rightarrow> string option"
  nl_Interfaces :: "nl_op list \<Rightarrow> net_iface list result"

record RouteInfo =
  ri_LinkIndex :: int
  ri_LinkName :: string
  ri_Scope :: int
  ri_Dst :: string
  ri_Src :: string
  ri_Gw :: string
  ri_Table :: int

record RouteAttrs =
  ra_LinkName :: string
  ra_Scope :: int
  ra_Dst :: string
  ra_Src :: string
  ra_Gw :: string
  ra_Table :: int

record InterfaceInfo =
  ii_Index :: int
  ii_Name :: string
  ii_HwAddr :: string
  ii_Flags :: "32 word"
  ii_MTU :: int
  ii_Addrs :: "string list"

section \<open>Changes\<close>

definition rtnetlink :: "error \<Rightarrow> error" where
  "rtnetlink e = Wrap ''rtnetlink'' e"

definition nl_run :: "netlink \<Rightarrow> nl_op \<Rightarrow> nl_op list \<Rightarrow> error option \<times> nl_op list" where
  "nl_run nl op h =
     (case nl_do nl h op of Some e \<Rightarrow> (Some (rtnetlink e), h) | None \<Rightarrow> (None, h @ [op]))"

definition UpdateRouteTable ::
  "netlink \<Rightarrow> string \<Rightarrow> link \<Rightarrow> string \<Rightarrow> string \<Rightarrow> string \<Rightarrow> int \<Rightarrow> int \<Rightarrow> nl_op list \<Rightarrow> error option \<times> nl_op list" where
  "UpdateRouteTable nl action link dst src gw scope table h =
     (case nl_ParseIPNet nl dst of
        Inl e \<Rightarrow> (Some e, h)
      | Inr dstNet \<Rightarrow>
          let r = \<lparr>rt_LinkIndex = ln_Index link, rt_Dst = Some dstNet, rt_Src = ParseIP src,
                   rt_Gw = ParseIP gw, rt_Scope = scope, rt_Table = table\<rparr> in
          if action = ''add'' then nl_run nl (RouteAdd r) h
          else if action = ''replace'' then nl_run nl (RouteReplace r) h
          else if action = ''del'' then nl_run nl (RouteDel r) h
          else (Some (Errorf (''invalid action: '' @ action)), h))"

definition SetInterfaceLinkUp :: "netlink \<Rightarrow> string \<Rightarrow> nl_op list \<Rightarrow> error option \<times> nl_op list" where
  "SetInterfaceLinkUp nl ifname h = nl_run nl (LinkSetUp ifname) h"

definition SetInterfaceLinkDown :: "netlink \<Rightarrow> string \<Rightarrow> nl_op list \<Rightarrow> error option \<times> nl_op list" where
  "SetInterfaceLinkDown nl ifname h = nl_run nl (LinkSetDown ifname) h"

definition UpdateAddrList ::
  "netlink \<Rightarrow> string \<Rightarrow> string \<Rightarrow> string \<Rightarrow> nl_op list \<Rightarrow> error option \<times> nl_op list" where
  "UpdateAddrList nl action ifname ipaddr h =
     (case nl_LinkByName nl h ifname of
        Inl e \<Rightarrow> (Some (rtnetlink e), h)
      | Inr iface \<Rightarrow>
          (case nl_ParseAddr nl ipaddr of
             Inl e \<Rightarrow> (Some e, h)
           | Inr addr \<Rightarrow>
               if action = ''add'' then nl_run nl (AddrAdd iface addr) h
               else if action = ''del'' then nl_run nl (AddrDel iface addr) h
               else (Some (Errorf (''invalid action: '' @ action)), h)))"

text \<open>\<open>ParseCIDR\<close> of the core and \<open>ParseIPNet\<close> of the client complete a bare address with the full
  prefix length.\<close>

definition with_prefix_length :: "string \<Rightarrow> string" where
  "with_prefix_length s =
     (if Contains s ''/'' then s
      else if (case ParseIP s of None \<Rightarrow> False | Some i \<Rightarrow> To4 i \<noteq> None) then s @ ''/32''
      else s @ ''/128'')"

definition core_ParseCIDR :: "string \<Rightarrow> ipnet result" where
  "core_ParseCIDR s = net_ParseCIDR (with_prefix_length s)"

definition client_ParseIPNet :: "netlink \<Rightarrow> string \<Rightarrow> ipnet result" where
  "client_ParseIPNet nl s = nl_ParseIPNet nl (with_prefix_length s)"

section \<open>Operations of the server\<close>

definition route_info :: "netlink \<Rightarrow> nl_op list \<Rightarrow> nl_route \<Rightarrow> RouteInfo result" where
  "route_info nl h x =
     (case nl_InterfaceByIndex nl h (rt_LinkIndex x) of
        None \<Rightarrow> Inl (Panic ''nil pointer dereference'')
      | Some name \<Rightarrow>
          Inr \<lparr>ri_LinkIndex = rt_LinkIndex x, ri_LinkName = name, ri_Scope = rt_Scope x,
               ri_Dst = (case rt_Dst x of None \<Rightarrow> ''0.0.0.0'' | Some d \<Rightarrow> ipnet_String d),
               ri_Src = (case rt_Src x of None \<Rightarrow> [] | Some i \<Rightarrow> ip_String i),
               ri_Gw = (case rt_Gw x of None \<Rightarrow> [] | Some i \<Rightarrow> ip_String i),
               ri_Table = rt_Table x\<rparr>)"

definition GetRouteList :: "netlink \<Rightarrow> int \<Rightarrow> nl_op list \<Rightarrow> RouteInfo list result" where
  "GetRouteList nl family h =
     (case nl_RouteList nl h family of
        Inl e \<Rightarrow> Inl (rtnetlink e)
      | Inr tmp \<Rightarrow> traverse_res (route_info nl h) tmp)"

definition updateRouteTable ::
  "netlink \<Rightarrow> string \<Rightarrow> RouteAttrs \<Rightarrow> nl_op list \<Rightarrow> RouteInfo result \<times> nl_op list" where
  "updateRouteTable nl action attrs h =
     (case nl_LinkByName nl h (ra_LinkName attrs) of
        Inl e \<Rightarrow> (Inl (rtnetlink e), h)
      | Inr link \<Rightarrow>
          (case UpdateRouteTable nl action link (ra_Dst attrs) (ra_Src attrs) (ra_Gw attrs) (ra_Scope attrs)
                  (ra_Table attrs) h of
             (Some e, h1) \<Rightarrow> (Inl e, h1)
           | (None, h1) \<Rightarrow>
               (Inr \<lparr>ri_LinkIndex = ln_Index link, ri_LinkName = ra_LinkName attrs, ri_Scope = ra_Scope attrs,
                     ri_Dst = ra_Dst attrs, ri_Src = ra_Src attrs, ri_Gw = ra_Gw attrs,
                     ri_Table = ra_Table attrs\<rparr>, h1)))"

definition AddRoute :: "netlink \<Rightarrow> RouteAttrs \<Rightarrow> nl_op list \<Rightarrow> RouteInfo result \<times> nl_op list" where
  "AddRoute nl = updateRouteTable nl ''add''"

definition DelRoute :: "netlink \<Rightarrow> RouteAttrs \<Rightarrow> nl_op list \<Rightarrow> RouteInfo result \<times> nl_op list" where
  "DelRoute nl = updateRouteTable nl ''del''"

definition interface_info :: "net_iface \<Rightarrow> InterfaceInfo result" where
  "interface_info x =
     (case if_Addrs x of
        Inl e \<Rightarrow> Inl e
      | Inr addrs \<Rightarrow>
          Inr \<lparr>ii_Index = if_Index x, ii_Name = if_Name x, ii_HwAddr = if_HwAddr x, ii_Flags = if_Flags x,
               ii_MTU = if_MTU x, ii_Addrs = map ipnet_String addrs\<rparr>)"

definition GetInterfaces :: "netlink \<Rightarrow> nl_op list \<Rightarrow> InterfaceInfo list result" where
  "GetInterfaces nl h =
     (case nl_Interfaces nl h of Inl e \<Rightarrow> Inl e | Inr tmp \<Rightarrow> traverse_res interface_info tmp)"

definition AddIPAddr :: "netlink \<Rightarrow> string \<Rightarrow> string \<Rightarrow> nl_op list \<Rightarrow> error option \<times> nl_op list" where
  "AddIPAddr nl ifname addr = UpdateAddrList nl ''add'' ifname addr"

definition DelIPAddr :: "netlink \<Rightarrow> string \<Rightarrow> string \<Rightarrow> nl_op list \<Rightarrow> error option \<times> nl_op list" where
  "DelIPAddr nl ifname addr = UpdateAddrList nl ''del'' ifname addr"

section \<open>The client's route request\<close>

definition SCOPE_LINK :: int where "SCOPE_LINK = 253"

definition client_route_request ::
  "netlink \<Rightarrow> string \<Rightarrow> string \<Rightarrow> string \<Rightarrow> RouteAttrs result" where
  "client_route_request nl dst gw ifname =
     (let base = \<lparr>ra_LinkName = ifname, ra_Scope = 0, ra_Dst = [], ra_Src = [], ra_Gw = [], ra_Table = 0\<rparr> in
      if gw = [] then
        (case client_ParseIPNet nl dst of
           Inl e \<Rightarrow> Inl e
         | Inr d \<Rightarrow> Inr (base\<lparr>ra_Scope := SCOPE_LINK, ra_Dst := ipnet_String d\<rparr>))
      else
        (case client_ParseIPNet nl gw of
           Inl e \<Rightarrow> Inl e
         | Inr g \<Rightarrow>
             let req = base\<lparr>ra_Gw := ip_String (net_ip g)\<rparr> in
             if dst = ''default''
             then Inr (req\<lparr>ra_Dst := (if To4 (net_ip g) \<noteq> None then ''0.0.0.0/0'' else ''::/0'')\<rparr>)
             else (case client_ParseIPNet nl dst of
                     Inl e \<Rightarrow> Inl e
                   | Inr d \<Rightarrow> Inr (req\<lparr>ra_Dst := ipnet_String d\<rparr>))))"

section \<open>Boot-time configuration\<close>

record EthernetConfig =
  ec_MacAddress :: string
  ec_Addresses :: "string list"
  ec_Gateway4 :: string
  ec_Gateway6 :: string
  ec_Routes :: "(string \<times> string) list"

text \<open>The loop over the configured addresses: the networks seen so far, by family.\<close>

fun assign_addrs ::
  "netlink \<Rightarrow> string \<Rightarrow> string list \<Rightarrow> string list \<Rightarrow> ipnet list \<times> ipnet list \<Rightarrow> nl_op list \<Rightarrow>
   (ipnet list \<times> ipnet list) result \<times> nl_op list" where
  "assign_addrs nl ifname assigned [] acc h = (Inr acc, h)"
| "assign_addrs nl ifname assigned (ipstr # rest) (v4, v6) h =
     (case core_ParseCIDR ipstr of
        Inl e \<Rightarrow> (Inl e, h)
      | Inr ipnet \<Rightarrow>
          let acc = (if To4 (net_ip ipnet) \<noteq> None then (v4 @ [ipnet], v6) else (v4, v6 @ [ipnet])) in
          if ipstr \<in> set assigned then assign_addrs nl ifname assigned rest acc h
          else (case UpdateAddrList nl ''add'' ifname ipstr h of
                  (Some e, h1) \<Rightarrow> (Inl (Wrap ''failed to assign'' e), h1)
                | (None, h1) \<Rightarrow> assign_addrs nl ifname assigned rest acc h1))"

definition gateway4 ::
  "netlink \<Rightarrow> link \<Rightarrow> EthernetConfig \<Rightarrow> ipnet list \<Rightarrow> nl_op list \<Rightarrow> error option \<times> nl_op list" where
  "gateway4 nl link ic v4 h =
     (if v4 = [] \<or> ec_Gateway4 ic = [] then (None, h)
      else (case (if net_ones (hd v4) = 32
                  then UpdateRouteTable nl ''replace'' link (ec_Gateway4 ic @ ''/32'') [] [] SCOPE_LINK 0 h
                  else (None, h)) of
              (Some e, h1) \<Rightarrow> (Some (Wrap ''failed to add a link route'' e), h1)
            | (None, h1) \<Rightarrow>
                (case UpdateRouteTable nl ''replace'' link ''0.0.0.0/0'' [] (ec_Gateway4 ic) 0 0 h1 of
                   (Some e, h2) \<Rightarrow> (Some (Wrap ''failed to add default route'' e), h2)
                 | (None, h2) \<Rightarrow> (None, h2))))"

definition gateway6 ::
  "netlink \<Rightarrow> link \<Rightarrow> EthernetConfig \<Rightarrow> ipnet list \<Rightarrow> nl_op list \<Rightarrow> error option \<times> nl_op list" where
  "gateway6 nl link ic v6 h =
     (if v6 = [] \<or> ec_Gateway6 ic = [] then (None, h)
      else (case UpdateRouteTable nl ''replace'' link ''::/0'' [] (ec_Gateway6 ic) 0 0 h of
              (Some e, h1) \<Rightarrow> (Some (Wrap ''failed to add default route'' e), h1)
            | (None, h1) \<Rightarrow> (None, h1)))"

text \<open>The last loop logs an error and goes on.\<close>

definition add_routes :: "netlink \<Rightarrow> link \<Rightarrow> (string \<times> string) list \<Rightarrow> nl_op list \<Rightarrow> nl_op list" where
  "add_routes nl link rs h =
     foldl (\<lambda>h (to, via). snd (UpdateRouteTable nl ''add'' link to [] via 0 0 h)) h rs"

definition find_config :: "string \<Rightarrow> string \<Rightarrow> EthernetConfig list option result \<Rightarrow> EthernetConfig result" where
  "find_config ifname mac data =
     (case data of
        Inl e \<Rightarrow> Inl e
      | Inr None \<Rightarrow> Inl (Errorf ''cloud-init network-config is empty'')
      | Inr (Some es) \<Rightarrow>
          (case find (\<lambda>v. ec_MacAddress v = mac) es of
             None \<Rightarrow> Inl (Errorf (''unable to find configuration for '' @ ifname @ '' by mac-address''))
           | Some v \<Rightarrow> Inr v))"

text \<open>\<open>marker\<close> and \<open>data\<close> are the answers of the cloud-init package.\<close>

definition netinitConfigureInterface ::
  "netlink \<Rightarrow> bool result \<Rightarrow> EthernetConfig list option result \<Rightarrow> string \<Rightarrow> nl_op list \<Rightarrow> error option \<times> nl_op list" where
  "netinitConfigureInterface nl marker data ifname h =
     (case marker of
        Inl e \<Rightarrow> (Some e, h)
      | Inr False \<Rightarrow> (Some (Errorf ''unable to find the cloud-init NoCloud datasource marker''), h)
      | Inr True \<Rightarrow>
          (case nl_LinkByName nl h ifname of
             Inl e \<Rightarrow> (Some (Wrap ''rtnetlink: not found'' e), h)
           | Inr link \<Rightarrow>
               if ln_Type link \<noteq> ''device'' then (Some (Errorf (''not a physical device: '' @ ifname)), h)
               else (case nl_AddrList nl h link of
                       Inl e \<Rightarrow> (Some (Errorf (''unable to get a list of assigned IP addresses: '' @ ifname)), h)
                     | Inr addrs \<Rightarrow>
                         (case find_config ifname (ln_HwAddr link) data of
                            Inl e \<Rightarrow> (Some e, h)
                          | Inr ic \<Rightarrow>
                              (case SetInterfaceLinkUp nl ifname h of
                                 (Some e, h1) \<Rightarrow> (Some (Wrap ''failed to change the link state'' e), h1)
                               | (None, h1) \<Rightarrow>
                                   (case assign_addrs nl ifname (map ipnet_String addrs) (ec_Addresses ic) ([], []) h1 of
                                      (Inl e, h2) \<Rightarrow> (Some e, h2)
                                    | (Inr (v4, v6), h2) \<Rightarrow>
                                        (case gateway4 nl link ic v4 h2 of
                                           (Some e, h3) \<Rightarrow> (Some e, h3)
                                         | (None, h3) \<Rightarrow>
                                             (case gateway6 nl link ic v6 h3 of
                                                (Some e, h4) \<Rightarrow> (Some e, h4)
                                              | (None, h4) \<Rightarrow>
                                                  (None, add_routes nl link (ec_Routes ic) h4)))))))))"

fun remove_addrs :: "netlink \<Rightarrow> string \<Rightarrow> ipnet list \<Rightarrow> nl_op list \<Rightarrow> error option \<times> nl_op list" where
  "remove_addrs nl ifname [] h = (None, h)"
| "remove_addrs nl ifname (a # as) h =
     (case UpdateAddrList nl ''del'' ifname (ipnet_String a) h of
        (Some e, h1) \<Rightarrow> (Some (Wrap ''failed to remove'' e), h1)
      | (None, h1) \<Rightarrow> remove_addrs nl ifname as h1)"

definition netinitDeconfigureInterface ::
  "netlink \<Rightarrow> string \<Rightarrow> nl_op list \<Rightarrow> error option \<times> nl_op list" where
  "netinitDeconfigureInterface nl ifname h =
     (case nl_LinkByName nl h ifname of
        Inl e \<Rightarrow> (Some (Wrap ''rtnetlink: not found'' e), h)
      | Inr link \<Rightarrow>
          if ln_Type link \<noteq> ''device'' then (Some (Errorf (''not a physical device: '' @ ifname)), h)
          else (case SetInterfaceLinkDown nl ifname h of
                  (Some e, h1) \<Rightarrow> (Some (Wrap ''failed to change the link state'' e), h1)
                | (None, h1) \<Rightarrow>
                    (case nl_AddrList nl h1 link of
                       Inl e \<Rightarrow> (Some e, h1)
                     | Inr assigned \<Rightarrow> remove_addrs nl ifname assigned h1)))"

definition runNetInit ::
  "netlink \<Rightarrow> bool result \<Rightarrow> EthernetConfig list option result \<Rightarrow> string option \<Rightarrow> string option \<Rightarrow> nl_op list \<Rightarrow>
   error option \<times> nl_op list" where
  "runNetInit nl marker data configure deconfigure h =
     (case configure of
        Some i \<Rightarrow> netinitConfigureInterface nl marker data i h
      | None \<Rightarrow> (case deconfigure of Some i \<Rightarrow> netinitDeconfigureInterface nl i h | None \<Rightarrow> (None, h)))"

section \<open>Lemmas\<close>

text \<open>Every operation only extends the history.\<close>

lemma nl_run_extends: "\<exists>ops. snd (nl_run nl op h) = h @ ops \<and> set ops \<subseteq> {op} \<and> (fst (nl_run nl op h) = None \<longleftrightarrow> ops = [op])"
  by (auto simp: nl_run_def split: option.split)

definition is_route :: "nl_op \<Rightarrow> bool" where
  "is_route op = (case op of RouteAdd _ \<Rightarrow> True | RouteReplace _ \<Rightarrow> True | RouteDel _ \<Rightarrow> True | _ \<Rightarrow> False)"

lemma UpdateRouteTable_extends:
  "\<exists>ops. snd (UpdateRouteTable nl a l d s g sc t h) = h @ ops \<and> list_all is_route ops \<and> length ops \<le> 1"
  by (auto simp: UpdateRouteTable_def nl_run_def Let_def is_route_def split: sum.split option.split)

lemma UpdateAddrList_add:
  assumes "UpdateAddrList nl ''add'' ifname a h = (None, h')"
  shows "\<exists>l p. nl_LinkByName nl h ifname = Inr l \<and> nl_ParseAddr nl a = Inr p \<and> h' = h @ [AddrAdd l p]"
  using assms by (auto simp: UpdateAddrList_def nl_run_def split: sum.splits option.splits)

definition added :: "nl_op list \<Rightarrow> ipnet list" where
  "added ops = List.map_filter (\<lambda>op. case op of AddrAdd _ p \<Rightarrow> Some p | _ \<Rightarrow> None) ops"

lemma added_simps [simp]:
  "added [] = []" "added (AddrAdd l p # ops) = p # added ops" "added (xs @ ys) = added xs @ added ys"
  by (simp_all add: added_def List.map_filter_def)

lemma added_LinkSetUp [simp]: "added [LinkSetUp i] = []"
  by (simp add: added_def List.map_filter_def)

lemma added_routes: "list_all is_route ops \<Longrightarrow> added ops = []"
  by (induction ops) (auto simp: added_def List.map_filter_def is_route_def split: nl_op.splits)

lemma assign_addrs_ok:
  "assign_addrs nl ifname assigned addrs acc h = (Inr acc', h') \<Longrightarrow>
     \<exists>ops. h' = h @ ops \<and>
       map Inr (added ops) = map (nl_ParseAddr nl) (filter (\<lambda>a. a \<notin> set assigned) addrs)"
proof (induction nl ifname assigned addrs acc h arbitrary: h' rule: assign_addrs.induct)
  case (2 nl ifname assigned ipstr rest v4 v6 h)
  obtain ipnet where cidr: "core_ParseCIDR ipstr = Inr ipnet"
    using "2.prems" by (cases "core_ParseCIDR ipstr") auto
  let ?acc = "if To4 (net_ip ipnet) \<noteq> None then (v4 @ [ipnet], v6) else (v4, v6 @ [ipnet])"
  show ?case
  proof (cases "ipstr \<in> set assigned")
    case True
    then have "assign_addrs nl ifname assigned rest ?acc h = (Inr acc', h')" using "2.prems" cidr by simp
    then show ?thesis using "2.IH"(1)[OF cidr refl True] True by simp
  next
    case False
    obtain e h1 where up: "UpdateAddrList nl ''add'' ifname ipstr h = (e, h1)" by fastforce
    with False "2.prems" cidr have e: "e = None" by (cases e) simp_all
    then have rest: "assign_addrs nl ifname assigned rest ?acc h1 = (Inr acc', h')"
      using "2.prems" cidr False up by simp
    obtain l p where "nl_ParseAddr nl ipstr = Inr p" "h1 = h @ [AddrAdd l p]"
      using UpdateAddrList_add up e by blast
    moreover obtain ops where "h' = h1 @ ops"
        "map Inr (added ops) = map (nl_ParseAddr nl) (filter (\<lambda>a. a \<notin> set assigned) rest)"
      using "2.IH"(2)[OF cidr refl False up[unfolded e, symmetric] refl rest] by blast
    ultimately have "h' = h @ AddrAdd l p # ops \<and> map Inr (added (AddrAdd l p # ops)) =
        map (nl_ParseAddr nl) (filter (\<lambda>a. a \<notin> set assigned) (ipstr # rest))" using False by simp
    then show ?thesis by blast
  qed
qed simp

lemma gateway_extends:
  "\<exists>ops. snd (gateway4 nl l ic v4 h) = h @ ops \<and> list_all is_route ops"
  "\<exists>ops. snd (gateway6 nl l ic v6 h) = h @ ops \<and> list_all is_route ops"
proof -
  show "\<exists>ops. snd (gateway6 nl l ic v6 h) = h @ ops \<and> list_all is_route ops"
    using UpdateRouteTable_extends[of nl "''replace''" l "''::/0''" "[]" "ec_Gateway6 ic" 0 0 h]
    by (auto simp: gateway6_def split: prod.split option.split)
  let ?first = "if net_ones (hd v4) = 32
      then UpdateRouteTable nl ''replace'' l (ec_Gateway4 ic @ ''/32'') [] [] SCOPE_LINK 0 h else (None, h)"
  obtain e h1 where first: "?first = (e, h1)" by fastforce
  have "\<exists>ops. h1 = h @ ops \<and> list_all is_route ops"
    using first UpdateRouteTable_extends[of nl "''replace''" l "ec_Gateway4 ic @ ''/32''" "[]" "[]" SCOPE_LINK 0 h]
    by (auto split: if_splits)
  then obtain ops1 where o1: "h1 = h @ ops1" "list_all is_route ops1" by blast
  obtain ops2 where "snd (UpdateRouteTable nl ''replace'' l ''0.0.0.0/0'' [] (ec_Gateway4 ic) 0 0 h1) = h1 @ ops2"
      "list_all is_route ops2"
    using UpdateRouteTable_extends by blast
  then show "\<exists>ops. snd (gateway4 nl l ic v4 h) = h @ ops \<and> list_all is_route ops"
    using o1 first by (auto simp: gateway4_def split: option.splits prod.splits)
qed

lemma add_routes_extends: "\<exists>ops. add_routes nl l rs h = h @ ops \<and> list_all is_route ops"
proof (induction rs arbitrary: h)
  case (Cons r rs)
  obtain to via where r: "r = (to, via)" by fastforce
  obtain ops where u: "snd (UpdateRouteTable nl ''add'' l to [] via 0 0 h) = h @ ops" "list_all is_route ops"
    using UpdateRouteTable_extends by blast
  obtain ops' where "add_routes nl l rs (h @ ops) = (h @ ops) @ ops'" "list_all is_route ops'"
    using Cons.IH by blast
  then have "add_routes nl l (r # rs) h = h @ (ops @ ops') \<and> list_all is_route (ops @ ops')"
    using u by (simp add: add_routes_def r)
  then show ?case by blast
qed (simp add: add_routes_def)

section \<open>Properties\<close>

text \<open>C16. The boot-time configuration changes nothing unless the data-source marker is present and the
  interface is a physical device with a configuration for its hardware address; when it succeeds it
  has brought the link up first and then assigned, in order, exactly the configured addresses that
  the interface did not have.\<close>

theorem netinit_configures:
  assumes "netinitConfigureInterface nl marker data ifname h = (r, h')"
  shows "h' = h \<and> r \<noteq> None \<or>
    (\<exists>link addrs ic ops. marker = Inr True \<and> nl_LinkByName nl h ifname = Inr link \<and> ln_Type link = ''device'' \<and>
       nl_AddrList nl h link = Inr addrs \<and> find_config ifname (ln_HwAddr link) data = Inr ic \<and>
       (r = None \<longrightarrow> h' = h @ LinkSetUp ifname # ops \<and>
          map Inr (added ops) =
            map (nl_ParseAddr nl) (filter (\<lambda>a. a \<notin> set (map ipnet_String addrs)) (ec_Addresses ic))))"
proof (cases "\<exists>link addrs ic. marker = Inr True \<and> nl_LinkByName nl h ifname = Inr link \<and>
    ln_Type link = ''device'' \<and> nl_AddrList nl h link = Inr addrs \<and> find_config ifname (ln_HwAddr link) data = Inr ic")
  case False
  then have "h' = h \<and> r \<noteq> None" using assms
    by (auto simp: netinitConfigureInterface_def split: sum.splits bool.splits if_splits)
  then show ?thesis ..
next
  case True
  then obtain link addrs ic where c: "marker = Inr True" "nl_LinkByName nl h ifname = Inr link"
      "ln_Type link = ''device''" "nl_AddrList nl h link = Inr addrs"
      "find_config ifname (ln_HwAddr link) data = Inr ic" by blast
  have "\<exists>ops. r = None \<longrightarrow> h' = h @ LinkSetUp ifname # ops \<and> map Inr (added ops) =
      map (nl_ParseAddr nl) (filter (\<lambda>a. a \<notin> set (map ipnet_String addrs)) (ec_Addresses ic))"
  proof (cases r)
    case None
    with assms c obtain h1 v4 v6 h2 h3 h4 where s:
        "SetInterfaceLinkUp nl ifname h = (None, h1)"
        "assign_addrs nl ifname (map ipnet_String addrs) (ec_Addresses ic) ([], []) h1 = (Inr (v4, v6), h2)"
        "gateway4 nl link ic v4 h2 = (None, h3)" "gateway6 nl link ic v6 h3 = (None, h4)"
        "h' = add_routes nl link (ec_Routes ic) h4"
      by (auto simp: netinitConfigureInterface_def split: prod.splits option.splits sum.splits)
    have "h1 = h @ [LinkSetUp ifname]"
      using s(1) by (auto simp: SetInterfaceLinkUp_def nl_run_def split: option.splits)
    moreover obtain o1 where "h2 = h1 @ o1" "map Inr (added o1) =
        map (nl_ParseAddr nl) (filter (\<lambda>a. a \<notin> set (map ipnet_String addrs)) (ec_Addresses ic))"
      using assign_addrs_ok[OF s(2)] by blast
    moreover obtain o2 where "h3 = h2 @ o2" "list_all is_route o2"
      using gateway_extends(1)[of nl link ic v4 h2] s(3) by auto
    moreover obtain o3 where "h4 = h3 @ o3" "list_all is_route o3"
      using gateway_extends(2)[of nl link ic v6 h3] s(4) by auto
    moreover obtain o4 where "h' = h4 @ o4" "list_all is_route o4"
      using add_routes_extends[of nl link "ec_Routes ic" h4] s(5) by auto
    ultimately have "h' = h @ LinkSetUp ifname # (o1 @ o2 @ o3 @ o4) \<and> map Inr (added (o1 @ o2 @ o3 @ o4)) =
        map (nl_ParseAddr nl) (filter (\<lambda>a. a \<notin> set (map ipnet_String addrs)) (ec_Addresses ic))"
      by (simp add: added_routes)
    then show ?thesis by blast
  qed simp
  then show ?thesis using c by blast
qed

definition demo_nl :: netlink where
  "demo_nl =
     \<lparr>nl_do = (\<lambda>_ _. None),
      nl_LinkByName = (\<lambda>_ n. if n = ''eth0'' then Inr \<lparr>ln_Index = 2, ln_Name = n, ln_Type = ''device'', ln_HwAddr = ''m''\<rparr>
                             else Inl (Errorf ''Link not found'')),
      nl_AddrList = (\<lambda>_ _. Inr [\<lparr>net_ip = v4_prefix @ [10, 0, 0, 1], net_ones = 24, net_bits = 32\<rparr>]),
      nl_RouteList = (\<lambda>_ _. Inr []), nl_ParseIPNet = net_ParseCIDR, nl_ParseAddr = net_ParseCIDR,
      nl_InterfaceByIndex = (\<lambda>_ i. if i = 2 then Some ''eth0'' else None), nl_Interfaces = (\<lambda>_. Inr [])\<rparr>"

definition demo_eth :: EthernetConfig where
  "demo_eth = \<lparr>ec_MacAddress = ''m'', ec_Addresses = [''10.0.0.1/24'', ''10.0.0.2/24''], ec_Gateway4 = ''10.0.0.254'',
     ec_Gateway6 = [], ec_Routes = []\<rparr>"

lemma demo_netinit: "fst (netinitConfigureInterface demo_nl (Inr True) (Inr (Some [demo_eth])) ''eth0'' []) = None"
  by code_simp

theorem netinit_configures_witness:
  "\<exists>ops. snd (netinitConfigureInterface demo_nl (Inr True) (Inr (Some [demo_eth])) ''eth0'' []) = LinkSetUp ''eth0'' # ops"
  using netinit_configures[of demo_nl "Inr True" "Inr (Some [demo_eth])" "''eth0''" "[]" None
      "snd (netinitConfigureInterface demo_nl (Inr True) (Inr (Some [demo_eth])) ''eth0'' [])"] demo_netinit
  by (auto simp: prod_eq_iff)

text \<open>The route list is the kernel's, in order, but a route whose interface index names no interface
  (a blackhole or multipath route has index 0) makes the request panic.\<close>

theorem GetRouteList_panics_iff:
  assumes "nl_RouteList nl h family = Inr rs"
  shows "((\<exists>msg. GetRouteList nl family h = Inl (Panic msg)) \<longleftrightarrow>
      (\<exists>x \<in> set rs. nl_InterfaceByIndex nl h (rt_LinkIndex x) = None)) \<and>
    (\<forall>infos. GetRouteList nl family h = Inr infos \<longrightarrow>
       map ri_LinkIndex infos = map rt_LinkIndex rs \<and> map ri_Table infos = map rt_Table rs)"
proof -
  have g: "GetRouteList nl family h = traverse_res (route_info nl h) rs" using assms by (simp add: GetRouteList_def)
  have "((\<exists>msg. traverse_res (route_info nl h) rs = Inl (Panic msg)) \<longleftrightarrow>
      (\<exists>x \<in> set rs. nl_InterfaceByIndex nl h (rt_LinkIndex x) = None)) \<and>
    (\<forall>infos. traverse_res (route_info nl h) rs = Inr infos \<longrightarrow>
       map ri_LinkIndex infos = map rt_LinkIndex rs \<and> map ri_Table infos = map rt_Table rs)"
  proof (induction rs)
    case (Cons x rs)
    show ?case
    proof (cases "nl_InterfaceByIndex nl h (rt_LinkIndex x)")
      case None
      then show ?thesis by (simp add: route_info_def)
    next
      case (Some n)
      then obtain i where i: "route_info nl h x = Inr i" "ri_LinkIndex i = rt_LinkIndex x" "ri_Table i = rt_Table x"
        by (simp add: route_info_def)
      show ?thesis using Cons Some i by (cases "traverse_res (route_info nl h) rs") auto
    qed
  qed simp
  then show ?thesis by (simp add: g)
qed

theorem GetRouteList_panics_iff_witness:
  "\<exists>msg. GetRouteList (demo_nl\<lparr>nl_RouteList := \<lambda>_ _. Inr [\<lparr>rt_LinkIndex = 0, rt_Dst = None, rt_Src = None, rt_Gw = None,
      rt_Scope = 0, rt_Table = 254\<rparr>]\<rparr>) 2 [] = Inl (Panic msg)"
  using GetRouteList_panics_iff[of "demo_nl\<lparr>nl_RouteList := \<lambda>_ _. Inr [\<lparr>rt_LinkIndex = 0, rt_Dst = None, rt_Src = None, rt_Gw = None,
      rt_Scope = 0, rt_Table = 254\<rparr>]\<rparr>" "[]" 2
      "[\<lparr>rt_LinkIndex = 0, rt_Dst = None, rt_Src = None, rt_Gw = None, rt_Scope = 0, rt_Table = 254\<rparr>]"]
  by (simp add: demo_nl_def)

text \<open>A bare IPv4 address is taken as a network of that single host, and a printed IPv4 address with
  a prefix length up to 32 is read back.\<close>

theorem core_ParseCIDR_IPv4:
  assumes "a < 256" "b < 256" "c < 256" "d < 256" "n \<le> 32"
  shows "core_ParseCIDR (dotted [a, b, c, d]) = Inr \<lparr>net_ip = v4_prefix @ [a, b, c, d], net_ones = 32, net_bits = 32\<rparr> \<and>
    core_ParseCIDR (ipnet_String \<lparr>net_ip = v4_prefix @ [a, b, c, d], net_ones = n, net_bits = 32\<rparr>) =
      Inr \<lparr>net_ip = v4_prefix @ [a, b, c, d], net_ones = n, net_bits = 32\<rparr>"
proof -
  let ?s = "dotted [a, b, c, d]"
  have ch: "x = CHR ''.'' \<or> dec_digit x" if "x \<in> set ?s" for x
    using that show_nat_dec by (auto simp: dotted_def Itoa_nat list_all_iff)
  have "\<not> dec_digit (CHR ''/'')" "\<not> dec_digit (CHR '':'')" by (simp_all add: dec_digit_def)
  then have nc: "CHR ''/'' \<notin> set ?s" "CHR '':'' \<notin> set ?s" using ch by auto
  have tw: "takeWhile (\<lambda>c. c \<noteq> CHR ''/'') (?s @ CHR ''/'' # t) = ?s" for t
    using nc(1) by (simp add: takeWhile_tail) (metis takeWhile_eq_all_conv)
  have read: "net_ParseCIDR (?s @ CHR ''/'' # show_nat k) =
      Inr \<lparr>net_ip = v4_prefix @ [a, b, c, d], net_ones = k, net_bits = 32\<rparr>" if "k \<le> 32" for k
    using that assms nc show_nat_dec[of k] show_nat_value[of k]
    by (simp add: net_ParseCIDR_def Let_def tw ParseIP_dotted del: show_nat.simps)
  have "show_nat 32 = ''32''" by code_simp
  moreover have "with_prefix_length ?s = ?s @ CHR ''/'' # ''32''"
    using nc assms by (simp add: with_prefix_length_def Contains_char ParseIP_dotted To4_dotted)
  moreover have "with_prefix_length (?s @ CHR ''/'' # t) = ?s @ CHR ''/'' # t" for t
    by (simp add: with_prefix_length_def Contains_char)
  ultimately show ?thesis using read[of 32] read[OF assms(5)]
    by (simp add: core_ParseCIDR_def ipnet_String_def ip_String_def To4_dotted Itoa_nat del: show_nat.simps)
qed

theorem core_ParseCIDR_IPv4_witness:
  "core_ParseCIDR (dotted [10, 0, 0, 7]) = Inr \<lparr>net_ip = v4_prefix @ [10, 0, 0, 7], net_ones = 32, net_bits = 32\<rparr>"
  using core_ParseCIDR_IPv4[of 10 0 0 7 24] by simp

end
