(* ===== verification/Services.thy ===== *)
theory Services
  imports Core_Server File_Transfer Network
begin

text \<open>
  The gRPC services of the agent (\<open>services/\<close>): the conversions to protocol messages, the handlers of
  every unary method, the two interceptors in the order in which \<open>cmd/agent/agent_server.go\<close> chains
  them (the lock gate outside, the error mapping inside), and the streaming methods behind their own
  interceptor. The state is that of the core server, the file systems and the network.
\<close>

section \<open>Protocol messages\<close>

record pb_Utsname =
  pu_Sysname :: string
  pu_Nodename :: string
  pu_Release :: string
  pu_Version :: string
  pu_Machine :: string
  pu_Domainname :: string

record pb_LoadAverage =
  pl_One :: rat
  pl_Five :: rat
  pl_Fifteen :: rat

record pb_MemStat =
  pm_Total :: "64 word"
  pm_Free :: "64 word"
  pm_Buffers :: "64 word"
  pm_Cached :: "64 word"
  pm_FreeTotal :: "64 word"

record pb_SwapStat =
  ps_Total :: "64 word"
  ps_Free :: "64 word"

record pb_LoggedUser =
  pl_Name :: string
  pl_Device :: string
  pl_Host :: string
  pl_LoginTime :: int

record pb_BlockDevice =
  pb_Path :: string
  pb_IsMounted :: bool
  pb_MountPoint :: string
  pb_SizeTotal :: int
  pb_SizeUsed :: int
  pb_SizeAvail :: int
  pb_InodesTotal :: int
  pb_InodesUsed :: int
  pb_InodesAvail :: int

record pb_GuestInfo =
  pg_Uname :: "pb_Utsname option"
  pg_Uptime :: int
  pg_Loadavg :: "pb_LoadAverage option"
  pg_Mem :: "pb_MemStat option"
  pg_Swap :: "pb_SwapStat option"
  pg_Users :: "pb_LoggedUser list"
  pg_BlockDevices :: "pb_BlockDevice list"

text \<open>\<open>int64(x)\<close> of an unsigned 64-bit number keeps the bits.\<close>

definition blockdev_proto :: "GuestInfo_BlockDevice \<Rightarrow> pb_BlockDevice" where
  "blockdev_proto d =
     \<lparr>pb_Path = BPath d, pb_IsMounted = IsMounted d, pb_MountPoint = MountPoint d,
      pb_SizeTotal = sint (SizeTotal d), pb_SizeUsed = sint (SizeUsed d), pb_SizeAvail = sint (SizeAvail d),
      pb_InodesTotal = sint (InodesTotal d), pb_InodesUsed = sint (InodesUsed d),
      pb_InodesAvail = sint (InodesAvail d)\<rparr>"

definition user_proto :: "GuestInfo_LoggedUser \<Rightarrow> pb_LoggedUser" where
  "user_proto u = \<lparr>pl_Name = LUName u, pl_Device = LUDevice u, pl_Host = LUHost u, pl_LoginTime = LoginTime u\<rparr>"

definition guestInfoToProto :: "GuestInfo \<Rightarrow> pb_GuestInfo" where
  "guestInfoToProto info =
     \<lparr>pg_Uname = map_option (\<lambda>u. \<lparr>pu_Sysname = Sysname u, pu_Nodename = Nodename u, pu_Release = Release u,
        pu_Version = VersionStr u, pu_Machine = Machine u, pu_Domainname = Domainname u\<rparr>) (Uname info),
      pg_Uptime = Uptime info,
      pg_Loadavg = map_option (\<lambda>l. \<lparr>pl_One = One l, pl_Five = Five l, pl_Fifteen = Fifteen l\<rparr>) (Loadavg info),
      pg_Mem = map_option (\<lambda>m. \<lparr>pm_Total = MTotal m, pm_Free = MFree m, pm_Buffers = Buffers m,
        pm_Cached = Cached m, pm_FreeTotal = FreeTotal m\<rparr>) (Memory info),
      pg_Swap = map_option (\<lambda>w. \<lparr>ps_Total = STotal w, ps_Free = SFree w\<rparr>) (Swap info),
      pg_Users = map user_proto (Users info),
      pg_BlockDevices = map blockdev_proto (Blockdevs info)\<rparr>"

record pb_Features =
  pf_LegacyMode :: bool
  pf_SerialPort :: string
  pf_WithoutSSH :: bool
  pf_WithoutTCP :: bool

record pb_AgentInfo =
  pa_Version :: string
  pa_IsLocked :: bool
  pa_Features :: "pb_Features option"

definition agentInfoToProto :: "AgentInfo \<Rightarrow> pb_AgentInfo" where
  "agentInfoToProto info =
     \<lparr>pa_Version = version_string (AIVersion info), pa_IsLocked = AIIsLocked info,
      pa_Features = map_option (\<lambda>f. \<lparr>pf_LegacyMode = LegacyMode f, pf_SerialPort = SerialPort f,
        pf_WithoutSSH = WithoutSSH f, pf_WithoutTCP = WithoutTCP f\<rparr>) (AIFeatures info)\<rparr>"

record pb_RouteInfo =
  pr_LinkIndex :: int
  pr_LinkName :: string
  pr_Scope :: int
  pr_Dst :: string
  pr_Src :: string
  pr_Gw :: string
  pr_Table :: int

definition routeToProto :: "RouteInfo \<Rightarrow> pb_RouteInfo" where
  "routeToProto r =
     \<lparr>pr_LinkIndex = wrap32 (ri_LinkIndex r), pr_LinkName = ri_LinkName r, pr_Scope = ri_Scope r,
      pr_Dst = ri_Dst r, pr_Src = ri_Src r, pr_Gw = ri_Gw r, pr_Table = wrap32 (ri_Table r)\<rparr>"

definition routesToProto :: "RouteInfo list \<Rightarrow> pb_RouteInfo list" where
  "routesToProto routes = map routeToProto routes"

record pb_InterfaceInfo =
  pi_Index :: int
  pi_Name :: string
  pi_HwAddr :: string
  pi_Flags :: "32 word"
  pi_MTU :: int
  pi_Addrs :: "string list"

definition ifaceToProto :: "InterfaceInfo \<Rightarrow> pb_InterfaceInfo" where
  "ifaceToProto i =
     \<lparr>pi_Index = wrap32 (ii_Index i), pi_Name = ii_Name i, pi_HwAddr = ii_HwAddr i, pi_Flags = ii_Flags i,
      pi_MTU = wrap32 (ii_MTU i), pi_Addrs = ii_Addrs i\<rparr>"

definition ifaceListToProto :: "InterfaceInfo list \<Rightarrow> pb_InterfaceInfo list" where
  "ifaceListToProto ifaces = map ifaceToProto ifaces"

record pb_FileStat =
  pf_Name :: string
  pf_Mode :: "32 word"
  pf_IsDir :: bool
  pf_Owner :: "(32 word \<times> string) option"
  pf_Group :: "(32 word \<times> string) option"
  pf_SizeBytes :: int

definition file_proto :: "FileStat \<Rightarrow> pb_FileStat" where
  "file_proto v =
     \<lparr>pf_Name = FName v, pf_Mode = FMode v, pf_IsDir = FIsDir v,
      pf_Owner = map_option (\<lambda>u. (UID u, OwnerName u)) (FOwner v),
      pf_Group = map_option (\<lambda>g. (GID g, GroupName g)) (FGroup v), pf_SizeBytes = SizeBytes v\<rparr>"

definition fileStatsToProto :: "FileStat list \<Rightarrow> pb_FileStat list" where
  "fileStatsToProto fstats = map file_proto fstats"

section \<open>Methods\<close>

datatype service = SystemService | AgentService | FileSystemService | NetworkService | SecureShellService

datatype rpc =
    SystemGetInfo | SystemShutdownAgent | AgentGetInfo
  | FsSync | FsFreeze | FsUnfreeze | FsGetFileMD5Hash string | FsGetFileStat string bool
  | FsSetFileOwner string string string | FsSetFileMode string "32 word" | FsCreateDir string "32 word"
  | NetGetRouteList int | NetAddRoute RouteAttrs | NetDelRoute RouteAttrs | NetGetInterfaces
  | NetSetLinkUp string | NetSetLinkDown string | NetAddIPAddr string string | NetDelIPAddr string string
  | ShellGetUserKey

text \<open>\<open>RNoReply\<close> stands for a call that does not return: the statistics are guarded by a mutex that a
  refresh blocked in the kernel keeps.\<close>

datatype response =
    REmpty | RAgentInfo pb_AgentInfo | RGuestInfo pb_GuestInfo | RHash string | RFiles "pb_FileStat list"
  | RRoutes "pb_RouteInfo list" | RRoute pb_RouteInfo | RInterfaces "pb_InterfaceInfo list" | RKey string | RNoReply

fun service_of :: "rpc \<Rightarrow> service" where
  "service_of SystemGetInfo = SystemService"
| "service_of SystemShutdownAgent = SystemService"
| "service_of AgentGetInfo = AgentService"
| "service_of FsSync = FileSystemService"
| "service_of FsFreeze = FileSystemService"
| "service_of FsUnfreeze = FileSystemService"
| "service_of (FsGetFileMD5Hash _) = FileSystemService"
| "service_of (FsGetFileStat _ _) = FileSystemService"
| "service_of (FsSetFileOwner _ _ _) = FileSystemService"
| "service_of (FsSetFileMode _ _) = FileSystemService"
| "service_of (FsCreateDir _ _) = FileSystemService"
| "service_of ShellGetUserKey = SecureShellService"
| "service_of _ = NetworkService"

fun method_name :: "rpc \<Rightarrow> string" where
  "method_name SystemGetInfo = ''GetInfo''"
| "method_name SystemShutdownAgent = ''ShutdownAgent''"
| "method_name AgentGetInfo = ''GetInfo''"
| "method_name FsSync = ''Sync''"
| "method_name FsFreeze = ''Freeze''"
| "method_name FsUnfreeze = ''Unfreeze''"
| "method_name (FsGetFileMD5Hash _) = ''GetFileMD5Hash''"
| "method_name (FsGetFileStat _ _) = ''GetFileStat''"
| "method_name (FsSetFileOwner _ _ _) = ''SetFileOwner''"
| "method_name (FsSetFileMode _ _) = ''SetFileMode''"
| "method_name (FsCreateDir _ _) = ''CreateDir''"
| "method_name (NetGetRouteList _) = ''GetRouteList''"
| "method_name (NetAddRoute _) = ''AddRoute''"
| "method_name (NetDelRoute _) = ''DelRoute''"
| "method_name NetGetInterfaces = ''GetInterfaces''"
| "method_name (NetSetLinkUp _) = ''SetInterfaceLinkUp''"
| "method_name (NetSetLinkDown _) = ''SetInterfaceLinkDown''"
| "method_name (NetAddIPAddr _ _) = ''AddIPAddr''"
| "method_name (NetDelIPAddr _ _) = ''DelIPAddr''"
| "method_name ShellGetUserKey = ''GetUserKey''"

definition service_prefix :: "service \<Rightarrow> string" where
  "service_prefix s =
     (case s of
        SystemService \<Rightarrow> ''/pga.api.services.system.v2.AgentSystemService/''
      | AgentService \<Rightarrow> ''/pga.api.services.agent.v2.AgentService/''
      | FileSystemService \<Rightarrow> ''/pga.api.services.agent.v2.AgentFileSystemService/''
      | NetworkService \<Rightarrow> ''/pga.api.services.agent.v2.AgentNetworkService/''
      | SecureShellService \<Rightarrow> ''/pga.api.services.secure_shell.v2.AgentSecureShellService/'')"

definition FullMethod :: "rpc \<Rightarrow> string" where
  "FullMethod r = service_prefix (service_of r) @ method_name r"

section \<open>Handlers\<close>

record agent_state =
  as_srv :: Server
  as_world :: world
  as_net :: "nl_op list"
  as_sigterm :: bool

record svc_env =
  sv_md5 :: "string \<Rightarrow> string"
  sv_netlink :: netlink

definition empty_or :: "error option \<Rightarrow> response result" where
  "empty_or e = (case e of None \<Rightarrow> Inr REmpty | Some x \<Rightarrow> Inl x)"

definition on_world :: "(world \<Rightarrow> unit result \<times> world) \<Rightarrow> agent_state \<Rightarrow> response result \<times> agent_state" where
  "on_world f s =
     (case f (as_world s) of (r, w) \<Rightarrow> (map_sum id (\<lambda>_. REmpty) r, s\<lparr>as_world := w\<rparr>))"

definition on_core ::
  "(Server \<times> world \<Rightarrow> unit result \<times> Server \<times> world) \<Rightarrow> agent_state \<Rightarrow> response result \<times> agent_state" where
  "on_core f s =
     (case f (as_srv s, as_world s) of
        (r, srv, w) \<Rightarrow> (map_sum id (\<lambda>_. REmpty) r, s\<lparr>as_srv := srv, as_world := w\<rparr>))"

definition on_net :: "(nl_op list \<Rightarrow> error option \<times> nl_op list) \<Rightarrow> agent_state \<Rightarrow> response result \<times> agent_state" where
  "on_net f s = (case f (as_net s) of (e, h) \<Rightarrow> (empty_or e, s\<lparr>as_net := h\<rparr>))"

definition route_reply ::
  "(nl_op list \<Rightarrow> RouteInfo result \<times> nl_op list) \<Rightarrow> agent_state \<Rightarrow> response result \<times> agent_state" where
  "route_reply f s = (case f (as_net s) of (r, h) \<Rightarrow> (map_sum id (RRoute \<circ> routeToProto) r, s\<lparr>as_net := h\<rparr>))"

text \<open>The route attributes that the network service builds: the scope is an 8-bit number.\<close>

definition route_attrs :: "RouteAttrs \<Rightarrow> RouteAttrs" where
  "route_attrs req = req\<lparr>ra_Scope := ra_Scope req mod 256\<rparr>"

definition system_GetInfo :: "agent_state \<Rightarrow> response result \<times> agent_state" where
  "system_GetInfo s = (Inr (RAgentInfo (agentInfoToProto (GetAgentInfo (as_srv s)))), s)"

text \<open>\<open>GracefulShutdown\<close> sends the terminating signal to its own process; the signal handler of
  \<open>cmd/agent/main.go\<close> does the rest.\<close>

definition GracefulShutdown :: "agent_state \<Rightarrow> error option \<times> agent_state" where
  "GracefulShutdown s = (None, s\<lparr>as_sigterm := True\<rparr>)"

definition system_ShutdownAgent :: "agent_state \<Rightarrow> response result \<times> agent_state" where
  "system_ShutdownAgent s = (case GracefulShutdown s of (e, s1) \<Rightarrow> (empty_or e, s1))"

definition agent_GetInfo :: "agent_state \<Rightarrow> response result \<times> agent_state" where
  "agent_GetInfo s =
     (case poller_Stat (poller (as_srv s)) of
        None \<Rightarrow> Inr RNoReply
      | Some st \<Rightarrow> map_sum id (RGuestInfo \<circ> guestInfoToProto) (GetGuestInfo st), s)"

definition fs_Sync :: "agent_state \<Rightarrow> response result \<times> agent_state" where
  "fs_Sync s = on_world SyncFileSystems s"

definition fs_Freeze :: "agent_state \<Rightarrow> response result \<times> agent_state" where
  "fs_Freeze s = on_core FreezeFileSystems s"

definition fs_Unfreeze :: "agent_state \<Rightarrow> response result \<times> agent_state" where
  "fs_Unfreeze s = on_core UnfreezeFileSystems s"

definition fs_GetFileMD5Hash :: "svc_env \<Rightarrow> string \<Rightarrow> agent_state \<Rightarrow> response result \<times> agent_state" where
  "fs_GetFileMD5Hash env p s = (map_sum id RHash (GetFileMD5Hash (sv_md5 env) (as_world s) p), s)"

definition fs_GetFileStat :: "string \<Rightarrow> bool \<Rightarrow> agent_state \<Rightarrow> response result \<times> agent_state" where
  "fs_GetFileStat p c s = (map_sum id (RFiles \<circ> fileStatsToProto) (GetFileStat (as_world s) p c), s)"

definition fs_SetFileOwner :: "string \<Rightarrow> string \<Rightarrow> string \<Rightarrow> agent_state \<Rightarrow> response result \<times> agent_state" where
  "fs_SetFileOwner p ow g s = on_world (SetFileOwner p ow g) s"

definition fs_SetFileMode :: "string \<Rightarrow> 32 word \<Rightarrow> agent_state \<Rightarrow> response result \<times> agent_state" where
  "fs_SetFileMode p m s = on_world (SetFileMode p m) s"

definition fs_CreateDir :: "string \<Rightarrow> 32 word \<Rightarrow> agent_state \<Rightarrow> response result \<times> agent_state" where
  "fs_CreateDir p m s = on_world (CreateDir p m) s"

definition net_GetRouteList :: "svc_env \<Rightarrow> int \<Rightarrow> agent_state \<Rightarrow> response result \<times> agent_state" where
  "net_GetRouteList env f s =
     (map_sum id (RRoutes \<circ> routesToProto) (GetRouteList (sv_netlink env) (f mod 65536) (as_net s)), s)"

definition net_AddRoute :: "svc_env \<Rightarrow> RouteAttrs \<Rightarrow> agent_state \<Rightarrow> response result \<times> agent_state" where
  "net_AddRoute env a s = route_reply (AddRoute (sv_netlink env) (route_attrs a)) s"

definition net_DelRoute :: "svc_env \<Rightarrow> RouteAttrs \<Rightarrow> agent_state \<Rightarrow> response result \<times> agent_state" where
  "net_DelRoute env a s = route_reply (DelRoute (sv_netlink env) (route_attrs a)) s"

definition net_GetInterfaces :: "svc_env \<Rightarrow> agent_state \<Rightarrow> response result \<times> agent_state" where
  "net_GetInterfaces env s =
     (map_sum id (RInterfaces \<circ> ifaceListToProto) (GetInterfaces (sv_netlink env) (as_net s)), s)"

definition net_SetInterfaceLinkUp :: "svc_env \<Rightarrow> string \<Rightarrow> agent_state \<Rightarrow> response result \<times> agent_state" where
  "net_SetInterfaceLinkUp env i s = on_net (SetInterfaceLinkUp (sv_netlink env) i) s"

definition net_SetInterfaceLinkDown :: "svc_env \<Rightarrow> string \<Rightarrow> agent_state \<Rightarrow> response result \<times> agent_state" where
  "net_SetInterfaceLinkDown env i s = on_net (SetInterfaceLinkDown (sv_netlink env) i) s"

definition net_AddIPAddr :: "svc_env \<Rightarrow> string \<Rightarrow> string \<Rightarrow> agent_state \<Rightarrow> response result \<times> agent_state" where
  "net_AddIPAddr env i a s = on_net (AddIPAddr (sv_netlink env) i a) s"

definition net_DelIPAddr :: "svc_env \<Rightarrow> string \<Rightarrow> string \<Rightarrow> agent_state \<Rightarrow> response result \<times> agent_state" where
  "net_DelIPAddr env i a s = on_net (DelIPAddr (sv_netlink env) i a) s"

definition shell_GetUserKey :: "agent_state \<Rightarrow> response result \<times> agent_state" where
  "shell_GetUserKey s = (Inr (RKey (GetUserPrivateKey (as_srv s))), s)"

text \<open>The method table that the generated registration code builds.\<close>

fun rpc_handler :: "svc_env \<Rightarrow> rpc \<Rightarrow> agent_state \<Rightarrow> response result \<times> agent_state" where
  "rpc_handler env SystemGetInfo = system_GetInfo"
| "rpc_handler env SystemShutdownAgent = system_ShutdownAgent"
| "rpc_handler env AgentGetInfo = agent_GetInfo"
| "rpc_handler env FsSync = fs_Sync"
| "rpc_handler env FsFreeze = fs_Freeze"
| "rpc_handler env FsUnfreeze = fs_Unfreeze"
| "rpc_handler env (FsGetFileMD5Hash p) = fs_GetFileMD5Hash env p"
| "rpc_handler env (FsGetFileStat p c) = fs_GetFileStat p c"
| "rpc_handler env (FsSetFileOwner p ow g) = fs_SetFileOwner p ow g"
| "rpc_handler env (FsSetFileMode p m) = fs_SetFileMode p m"
| "rpc_handler env (FsCreateDir p m) = fs_CreateDir p m"
| "rpc_handler env (NetGetRouteList f) = net_GetRouteList env f"
| "rpc_handler env (NetAddRoute a) = net_AddRoute env a"
| "rpc_handler env (NetDelRoute a) = net_DelRoute env a"
| "rpc_handler env NetGetInterfaces = net_GetInterfaces env"
| "rpc_handler env (NetSetLinkUp i) = net_SetInterfaceLinkUp env i"
| "rpc_handler env (NetSetLinkDown i) = net_SetInterfaceLinkDown env i"
| "rpc_handler env (NetAddIPAddr i a) = net_AddIPAddr env i a"
| "rpc_handler env (NetDelIPAddr i a) = net_DelIPAddr env i a"
| "rpc_handler env ShellGetUserKey = shell_GetUserKey"

lemmas handler_defs =
  system_GetInfo_def GracefulShutdown_def system_ShutdownAgent_def agent_GetInfo_def fs_Sync_def fs_Freeze_def fs_Unfreeze_def fs_GetFileMD5Hash_def fs_GetFileStat_def fs_SetFileOwner_def fs_SetFileMode_def fs_CreateDir_def net_GetRouteList_def net_AddRoute_def net_DelRoute_def net_GetInterfaces_def net_SetInterfaceLinkUp_def net_SetInterfaceLinkDown_def net_AddIPAddr_def net_DelIPAddr_def shell_GetUserKey_def

section \<open>Interceptors\<close>

fun status_code :: "error \<Rightarrow> grpc_code" where
  "status_code (GrpcStatus c _) = c"
| "status_code (Wrap _ e) = status_code e"
| "status_code _ = CodeUnknown"

fun is_NotReady :: "error \<Rightarrow> bool" where
  "is_NotReady (Wrap _ e) = is_NotReady e"
| "is_NotReady e = (e = ErrNotReadyNow)"

definition map_error :: "error \<Rightarrow> error" where
  "map_error err =
     (if status_code err = CodeNotFound then err
      else GrpcStatus (if is_ErrNotExist err then CodeNotFound
                       else if is_NotReady err then CodeNotFound else CodeInternal) err)"

definition MapErrors ::
  "(agent_state \<Rightarrow> response result \<times> agent_state) \<Rightarrow> agent_state \<Rightarrow> response result \<times> agent_state" where
  "MapErrors handler s = (case handler s of (r, s1) \<Rightarrow> (map_sum map_error id r, s1))"

definition PreHandler ::
  "rpc \<Rightarrow> (agent_state \<Rightarrow> response result \<times> agent_state) \<Rightarrow> agent_state \<Rightarrow> response result \<times> agent_state" where
  "PreHandler r handler s =
     (let lckd = (case service_of r of
                    SystemService \<Rightarrow> IsLocked (as_srv s)
                  | FileSystemService \<Rightarrow> IsLocked (as_srv s)
                  | _ \<Rightarrow> False) in
      if lckd \<and> FullMethod r \<noteq> ''/pga.api.services.system.v2.AgentSystemService/GetInfo'' \<and>
         FullMethod r \<noteq> ''/pga.api.services.agent.v2.AgentService/GetInfo'' \<and>
         FullMethod r \<noteq> ''/pga.api.services.agent.v2.AgentFileSystemService/Unfreeze''
      then (Inl (Errorf (''All filesystems are frozen. Unable to execute: '' @ FullMethod r)), s)
      else handler s)"

text \<open>\<open>newServer\<close>: the chain of unary interceptors, the outermost first. The default and the logging
  interceptors come from the gRPC server library.\<close>

type_synonym handler = "agent_state \<Rightarrow> response result \<times> agent_state"
type_synonym interceptor = "rpc \<Rightarrow> handler \<Rightarrow> handler"

definition newServer :: "interceptor list \<Rightarrow> interceptor list \<Rightarrow> interceptor \<Rightarrow> interceptor list" where
  "newServer defaults ui logging = defaults @ ui @ [logging]"

definition chain :: "interceptor list \<Rightarrow> interceptor" where
  "chain ics r h = foldr (\<lambda>i k. i r k) ics h"

definition agent_ui :: "interceptor list" where
  "agent_ui = [PreHandler, \<lambda>_. MapErrors]"

definition unary_call :: "svc_env \<Rightarrow> rpc \<Rightarrow> agent_state \<Rightarrow> response result \<times> agent_state" where
  "unary_call env r = chain agent_ui r (rpc_handler env r)"

lemma unary_call_unfold: "unary_call env r = PreHandler r (MapErrors (rpc_handler env r))"
  by (simp add: unary_call_def chain_def agent_ui_def)

lemma chain_append: "chain (xs @ ys) r h = chain xs r (chain ys r h)"
  by (simp add: chain_def)

lemma chain_transparent: "(\<And>i k. i \<in> set ics \<Longrightarrow> i r k = k) \<Longrightarrow> chain ics r h = h"
  by (induction ics) (simp_all add: chain_def)

text \<open>Library interceptors that only pass the call on leave the agent's own chain.\<close>

lemma newServer_unary:
  assumes "\<And>i r k. i \<in> set (logging # defaults) \<Longrightarrow> i r k = k"
  shows "chain (newServer defaults agent_ui logging) r (rpc_handler env r) = unary_call env r"
  using assms chain_transparent[of defaults r] chain_transparent[of "[logging]" r]
  by (simp add: newServer_def chain_append unary_call_def)

text \<open>The streaming methods: their interceptor only prints a line.\<close>

definition PreHandlerStream :: "(agent_state \<Rightarrow> 'a \<times> agent_state) \<Rightarrow> agent_state \<Rightarrow> 'a \<times> agent_state" where
  "PreHandlerStream handler s = handler s"

definition stream_upload :: "nat list \<Rightarrow> upload_stream \<Rightarrow> agent_state \<Rightarrow> error option \<times> agent_state" where
  "stream_upload rnds st =
     PreHandlerStream (\<lambda>s. case UploadFile rnds st (as_world s) of (e, w) \<Rightarrow> (e, s\<lparr>as_world := w\<rparr>))"

definition run_calls :: "svc_env \<Rightarrow> rpc list \<Rightarrow> agent_state \<Rightarrow> agent_state" where
  "run_calls env rs s = foldl (\<lambda>s r. snd (unary_call env r s)) s rs"

section \<open>Lemmas\<close>

lemma gate_names:
  "FullMethod r = ''/pga.api.services.system.v2.AgentSystemService/GetInfo'' \<longleftrightarrow> r = SystemGetInfo"
  "FullMethod r = ''/pga.api.services.agent.v2.AgentFileSystemService/Unfreeze'' \<longleftrightarrow> r = FsUnfreeze"
  "FullMethod r = ''/pga.api.services.agent.v2.AgentService/GetInfo'' \<longleftrightarrow> r = AgentGetInfo"
  by (cases r; simp add: FullMethod_def service_prefix_def)+

definition gated :: "rpc \<Rightarrow> bool" where
  "gated r \<longleftrightarrow> service_of r \<in> {SystemService, FileSystemService} \<and> r \<noteq> SystemGetInfo \<and> r \<noteq> FsUnfreeze"

lemma PreHandler_locked:
  assumes "IsLocked (as_srv s)"
  shows "PreHandler r h s =
    (if gated r then (Inl (Errorf (''All filesystems are frozen. Unable to execute: '' @ FullMethod r)), s) else h s)"
  using assms by (cases "service_of r") (auto simp: PreHandler_def gated_def gate_names)

lemma PreHandler_unlocked: "\<not> IsLocked (as_srv s) \<Longrightarrow> PreHandler r h s = h s"
  by (auto simp: PreHandler_def split: service.splits)

text \<open>A call that is not gated and does not thaw leaves the core server and the files alone.\<close>

lemma ungated_keeps:
  assumes "\<not> gated r" "r \<noteq> FsUnfreeze"
  shows "as_srv (snd (rpc_handler env r s)) = as_srv s \<and> as_world (snd (rpc_handler env r s)) = as_world s"
  using assms
  by (cases r) (auto simp: gated_def handler_defs on_net_def route_reply_def split: prod.split)

lemma locked_step:
  assumes "IsLocked (as_srv s)" "r \<noteq> FsUnfreeze"
  shows "as_srv (snd (unary_call env r s)) = as_srv s \<and> as_world (snd (unary_call env r s)) = as_world s"
  using assms ungated_keeps[of r env s]
  by (auto simp: unary_call_unfold PreHandler_locked MapErrors_def split: prod.splits)

lemma map_error_code:
  "\<exists>c m. map_error e = GrpcStatus c m \<and> (c = CodeNotFound \<or> c = CodeInternal) \<or> map_error e = e \<and> status_code e = CodeNotFound"
  by (auto simp: map_error_def)

text \<open>The unary calls are a lock gate in front of the server and the files.\<close>

interpretation locked_calls: lock_gate "\<lambda>s r. snd (unary_call env r s)" "\<lambda>s. IsLocked (as_srv s)"
  "\<lambda>s. (as_srv s, as_world s)" "\<lambda>r. r = FsUnfreeze" for env
  by unfold_locales (simp add: locked_step)

section \<open>Properties\<close>

text \<open>C2. Once the agent is locked by a freeze, no sequence of unary calls, of any of the five services and
  with any arguments, changes the file systems or releases the lock until an unfreeze is called:
  the calls of the system and file-system services other than the information query are refused,
  and the others do not touch files.\<close>

theorem frozen_until_unfreeze:
  assumes "IsLocked (as_srv s)" and "FsUnfreeze \<notin> set rs"
  shows "as_world (run_calls env rs s) = as_world s \<and> as_srv (run_calls env rs s) = as_srv s \<and>
    (\<forall>r \<in> set rs. service_of r \<in> {SystemService, FileSystemService} \<and> r \<noteq> SystemGetInfo \<longrightarrow>
       unary_call env r s =
         (Inl (Errorf (''All filesystems are frozen. Unable to execute: '' @ FullMethod r)), s))"
proof -
  have "unary_call env r s = (Inl (Errorf (''All filesystems are frozen. Unable to execute: '' @ FullMethod r)), s)"
    if "r \<in> set rs" "service_of r \<in> {SystemService, FileSystemService}" "r \<noteq> SystemGetInfo" for r
  proof -
    have "gated r" using that assms(2) by (auto simp: gated_def)
    then show ?thesis using assms(1) by (simp add: unary_call_unfold PreHandler_locked)
  qed
  then show ?thesis
    using locked_calls.until_release[of s rs env] assms by (auto simp: run_calls_def)
qed

definition locked_state :: agent_state where
  "locked_state = \<lparr>as_srv = lock (fst (NewServer ''id'' \<lparr>LegacyMode = False, SerialPort = [], WithoutSSH = True, WithoutTCP = False\<rparr>)),
     as_world = upload_world, as_net = [], as_sigterm = False\<rparr>"

lemma locked_state_locked: "IsLocked (as_srv locked_state)"
  by (simp add: locked_state_def IsLocked_def lock_def)

theorem frozen_until_unfreeze_witness:
  "as_world (run_calls \<lparr>sv_md5 = id, sv_netlink = demo_nl\<rparr> [FsCreateDir ''/x'' 0x1ED, FsFreeze, NetSetLinkUp ''eth0''] locked_state) =
     upload_world"
  using frozen_until_unfreeze[OF locked_state_locked, of "[FsCreateDir ''/x'' 0x1ED, FsFreeze, NetSetLinkUp ''eth0'']"
      "\<lparr>sv_md5 = id, sv_netlink = demo_nl\<rparr>"]
  by (simp add: locked_state_def)

text \<open>C37. The lock does not cover the streaming methods: an upload to a locked agent runs exactly as on an
  unlocked one, so it can change files between freeze and unfreeze.\<close>

theorem upload_ignores_lock:
  "stream_upload rnds st (s\<lparr>as_srv := lock (as_srv s)\<rparr>) =
     (let (e, s') = stream_upload rnds st s in (e, s'\<lparr>as_srv := lock (as_srv s)\<rparr>)) \<and>
   (\<exists>s'. IsLocked (as_srv locked_state) \<and> stream_upload [7] demo_upload locked_state = (None, s') \<and>
      as_world s' \<noteq> as_world locked_state)"
proof -
  have nodes_neq: "nodes (snd (UploadFile [7] demo_upload upload_world)) ''/tmp/f'' \<noteq> None"
      "nodes upload_world ''/tmp/f'' = None" "fst (UploadFile [7] demo_upload upload_world) = None"
    by code_simp+
  then have "snd (UploadFile [7] demo_upload upload_world) \<noteq> upload_world" by metis
  then have "\<exists>s'. stream_upload [7] demo_upload locked_state = (None, s') \<and> as_world s' \<noteq> as_world locked_state"
    using nodes_neq(3) by (auto simp: stream_upload_def PreHandlerStream_def locked_state_def prod.case_eq_if)
  then show ?thesis
    using locked_state_locked by (auto simp: stream_upload_def PreHandlerStream_def Let_def prod.case_eq_if)
qed

text \<open>C33. Every error of a handler reaches the client with a status code: not found for a missing file (also
  when wrapped), for statistics that are not ready and for an error that already carries that
  code, and internal for all others; the refusal of a locked agent alone has no code of its own.\<close>

theorem unary_error_codes:
  assumes "unary_call env r s = (Inl e, s')"
  shows "(\<exists>err. fst (rpc_handler env r s) = Inl err \<and>
      status_code e = (if is_ErrNotExist err \<or> is_NotReady err \<or> status_code err = CodeNotFound
                       then CodeNotFound else CodeInternal)) \<or>
    IsLocked (as_srv s) \<and> status_code e = CodeUnknown \<and> s' = s"
proof (cases "IsLocked (as_srv s) \<and> gated r")
  case True
  then show ?thesis using assms by (auto simp: unary_call_unfold PreHandler_locked)
next
  case False
  then have "MapErrors (rpc_handler env r) s = (Inl e, s')"
    using assms
    by (cases "IsLocked (as_srv s)") (simp_all add: unary_call_unfold PreHandler_locked PreHandler_unlocked)
  then obtain err where "fst (rpc_handler env r s) = Inl err" "e = map_error err"
    by (cases "fst (rpc_handler env r s)") (auto simp: MapErrors_def prod.case_eq_if)
  then show ?thesis by (auto simp: map_error_def)
qed

theorem unary_error_codes_witness:
  "\<exists>e. fst (unary_call \<lparr>sv_md5 = id, sv_netlink = demo_nl\<rparr> (FsGetFileMD5Hash ''/none'') (locked_state\<lparr>as_srv := unlock (as_srv locked_state)\<rparr>)) = Inl e \<and>
       status_code e = CodeNotFound"
proof -
  let ?env = "\<lparr>sv_md5 = id, sv_netlink = demo_nl\<rparr>"
  let ?s = "locked_state\<lparr>as_srv := unlock (as_srv locked_state)\<rparr>"
  have h: "fst (rpc_handler ?env (FsGetFileMD5Hash ''/none'') ?s) = Inl (PathError ''open'' ''/none'' ENOENT)" by code_simp
  have ul: "\<not> IsLocked (as_srv ?s)" by (simp add: IsLocked_def unlock_def)
  have m: "unary_call ?env (FsGetFileMD5Hash ''/none'') ?s =
      MapErrors (rpc_handler ?env (FsGetFileMD5Hash ''/none'')) ?s"
    unfolding unary_call_unfold by (rule PreHandler_unlocked[OF ul])
  have r: "unary_call ?env (FsGetFileMD5Hash ''/none'') ?s =
      (Inl (map_error (PathError ''open'' ''/none'' ENOENT)), snd (rpc_handler ?env (FsGetFileMD5Hash ''/none'') ?s))"
    unfolding m MapErrors_def prod.case_eq_if h by simp
  show ?thesis using unary_error_codes[OF r] h ul r by auto
qed

end
