(* ===== verification/Go_Net.thy ===== *)
theory Go_Net
  imports Go_Strconv
begin

text \<open>
  The address helpers of Go's package \<open>net\<close> that the code calls: joining and splitting of
  \<open>host:port\<close>, and \<open>strconv.Atoi\<close> with its error ignored.
\<close>

definition JoinHostPort :: "string \<Rightarrow> string \<Rightarrow> string" where
  "JoinHostPort host port =
     (if CHR '':'' \<in> set host then ''['' @ host @ '']:'' @ port else host @ '':'' @ port)"

fun split_last :: "char \<Rightarrow> string \<Rightarrow> (string \<times> string) option" where
  "split_last c [] = None"
| "split_last c (x # xs) =
     (case split_last c xs of
        Some (a, b) \<Rightarrow> Some (x # a, b)
      | None \<Rightarrow> if x = c then Some ([], xs) else None)"

definition addr_error :: "string \<Rightarrow> string \<Rightarrow> error" where
  "addr_error why addr = Errorf (''address '' @ addr @ '': '' @ why)"

definition SplitHostPort :: "string \<Rightarrow> (string \<times> string) result" where
  "SplitHostPort s =
     (case split_last (CHR '':'') s of
        None \<Rightarrow> Inl (addr_error ''missing port in address'' s)
      | Some (before, port) \<Rightarrow>
          if hd s = CHR ''['' then
            (let host = takeWhile (\<lambda>c. c \<noteq> CHR '']'') (tl s); e = Suc (length host) in
             if CHR '']'' \<notin> set s then Inl (addr_error ''missing ']' in address'' s)
             else if Suc e = length s then Inl (addr_error ''missing port in address'' s)
             else if Suc e \<noteq> length before
             then Inl (addr_error (if s ! Suc e = CHR '':'' then ''too many colons in address''
                                   else ''missing port in address'') s)
             else if CHR ''['' \<in> set (tl s) then Inl (addr_error ''unexpected '[' in address'' s)
             else if CHR '']'' \<in> set (drop (Suc e) s) then Inl (addr_error ''unexpected ']' in address'' s)
             else Inr (host, port))
          else if CHR '':'' \<in> set before then Inl (addr_error ''too many colons in address'' s)
          else if CHR ''['' \<in> set s then Inl (addr_error ''unexpected '[' in address'' s)
          else if CHR '']'' \<in> set s then Inl (addr_error ''unexpected ']' in address'' s)
          else Inr (before, port))"

text \<open>\<open>v, _ := strconv.Atoi(s)\<close>: zero on a syntax error, the nearest bound on a range error.\<close>

definition Atoi_value :: "string \<Rightarrow> int" where
  "Atoi_value s =
     (case Atoi s of
        Inr v \<Rightarrow> v
      | Inl (NumError _ _ ErrRange) \<Rightarrow> if HasPrefix s ''-'' then - (2 ^ 63) else 2 ^ 63 - 1
      | Inl _ \<Rightarrow> 0)"

lemma Atoi_value_Itoa: "in_int64 v \<Longrightarrow> Atoi_value (Itoa v) = v"
  by (simp add: Atoi_value_def Atoi_Itoa)

lemma split_last_None: "split_last c s = None \<longleftrightarrow> c \<notin> set s"
  by (induction s) (auto split: option.splits)

lemma split_last_append: "c \<notin> set p \<Longrightarrow> split_last c (h @ c # p) = Some (h, p)"
  by (induction h) (auto simp: split_last_None[THEN iffD2])

lemma split_last_Cons_append: "c \<notin> set p \<Longrightarrow> split_last c (x # h @ d # c # p) = Some (x # h @ [d], p)"
  using split_last_append[of c p "x # h @ [d]"] by simp

lemma SplitHostPort_JoinHostPort:
  assumes "CHR ''['' \<notin> set h" "CHR '']'' \<notin> set h"
    and "CHR '':'' \<notin> set p" "CHR ''['' \<notin> set p" "CHR '']'' \<notin> set p"
  shows "SplitHostPort (JoinHostPort h p) = Inr (h, p)"
proof (cases "CHR '':'' \<in> set h")
  case True
  have tw: "takeWhile (\<lambda>c. c \<noteq> CHR '']'') (h @ CHR '']'' # CHR '':'' # p) = h"
    using assms(2) by (induction h) auto
  show ?thesis
    using assms True split_last_Cons_append[of "CHR '':''" p "CHR ''[''" h "CHR '']''"]
    by (simp add: JoinHostPort_def SplitHostPort_def tw Let_def)
next
  case False
  then have "hd (h @ CHR '':'' # p) \<noteq> CHR ''[''" using assms(1) by (cases h) auto
  then show ?thesis
    using assms False split_last_append[of "CHR '':''" p h]
    by (simp add: JoinHostPort_def SplitHostPort_def)
qed

lemma Itoa_no_addr_chars: "CHR '':'' \<notin> set (Itoa v)" "CHR ''['' \<notin> set (Itoa v)" "CHR '']'' \<notin> set (Itoa v)"
proof -
  have "digit_chr d \<noteq> c" if "d < 10" "57 < (of_char c :: nat)" for d c
    using that by (auto simp: digit_chr_def)
  then have "digit_chr d \<noteq> CHR ''[''" "digit_chr d \<noteq> CHR '']''" if "d < 10" for d
    using that by simp_all
  note this [THEN not_sym, simp]
  show "CHR '':'' \<notin> set (Itoa v)" "CHR ''['' \<notin> set (Itoa v)" "CHR '']'' \<notin> set (Itoa v)"
    by (auto simp: Itoa_def dest!: show_nat_digits split: if_splits)
qed

lemma Itoa_inj: "in_int64 v \<Longrightarrow> in_int64 w \<Longrightarrow> Itoa v = Itoa w \<Longrightarrow> v = w"
  using Atoi_Itoa by (metis Inr_inject)

lemma JoinHostPort_inj:
  assumes "CHR '':'' \<notin> set p" "CHR '':'' \<notin> set q" "JoinHostPort h p = JoinHostPort h q"
  shows "p = q"
  using assms by (auto simp: JoinHostPort_def split: if_splits)

end
