(* ===== verification/Transport.thy ===== *)
theory Transport
  imports Go_IP Go_Net Go_Os
begin

text \<open>
  How agent and client reach each other: the TLS configuration of \<open>cert/cert.go\<close>, the listeners that
  \<open>cmd/agent/agent_server.go\<close> opens, and the endpoint handling of \<open>client/grpcclient\<close>. Certificates
  are opaque; the pool and key-pair parsers of \<open>crypto/tls\<close> are parameters.
\<close>

section \<open>Certificates\<close>

record tls_config =
  tc_cert :: string
  tc_key :: string
  tc_RootCAs :: string
  tc_ClientCAs :: "string option"
  tc_RequireClientCert :: bool
  tc_InsecureSkipVerify :: bool
  tc_MinVersion :: nat
  tc_NextProtos :: "string list"

type_synonym cert_store = "string \<Rightarrow> string result"

definition Dir_ReadFile :: "world \<Rightarrow> string \<Rightarrow> cert_store" where
  "Dir_ReadFile w d name =
     (case os_Open w (path_join [d, name]) of
        Inl e \<Rightarrow> Inl e
      | Inr f \<Rightarrow> (case read_err f of Some e \<Rightarrow> Inl e | None \<Rightarrow> Inr (bytes f)))"

definition newConfig ::
  "(string \<Rightarrow> bool) \<Rightarrow> (string \<Rightarrow> string \<Rightarrow> error option) \<Rightarrow> cert_store option \<Rightarrow> string \<Rightarrow> tls_config result" where
  "newConfig ca_ok X509KeyPair store name =
     (case store of
        None \<Rightarrow> Inl (Errorf ''no certificate store defined'')
      | Some rf \<Rightarrow>
          (case rf ''CA.crt'' of
             Inl e \<Rightarrow> Inl (Fmt ''unable to read CA certificate'' e)
           | Inr ca \<Rightarrow>
               if \<not> ca_ok ca then Inl (Errorf ''failed to append client certificates from CA.crt'')
               else (case rf (name @ ''.crt'') of
                       Inl e \<Rightarrow> Inl (Fmt ''unable to load crt file'' e)
                     | Inr crt \<Rightarrow>
                         (case rf (name @ ''.key'') of
                            Inl e \<Rightarrow> Inl (Fmt ''unable to load key file'' e)
                          | Inr key \<Rightarrow>
                              (case X509KeyPair crt key of
                                 Some e \<Rightarrow> Inl e
                               | None \<Rightarrow>
                                   Inr \<lparr>tc_cert = crt, tc_key = key, tc_RootCAs = ca, tc_ClientCAs = None,
                                        tc_RequireClientCert = False, tc_InsecureSkipVerify = False,
                                        tc_MinVersion = 0x303, tc_NextProtos = [''h2'']\<rparr>)))))"

definition NewClientConfig ::
  "(string \<Rightarrow> bool) \<Rightarrow> (string \<Rightarrow> string \<Rightarrow> error option) \<Rightarrow> cert_store option \<Rightarrow> tls_config result" where
  "NewClientConfig ca_ok kp store = newConfig ca_ok kp store ''client''"

definition NewServerConfig ::
  "(string \<Rightarrow> bool) \<Rightarrow> (string \<Rightarrow> string \<Rightarrow> error option) \<Rightarrow> cert_store option \<Rightarrow> tls_config result" where
  "NewServerConfig ca_ok kp store =
     (case newConfig ca_ok kp store ''agent'' of
        Inl e \<Rightarrow> Inl e
      | Inr cfg \<Rightarrow> Inr (cfg\<lparr>tc_RequireClientCert := True, tc_ClientCAs := Some (tc_RootCAs cfg)\<rparr>))"

text \<open>\<open>NewClient\<close> of the client package, and the choice of the store in both programs.\<close>

definition NewClient ::
  "(string \<Rightarrow> bool) \<Rightarrow> (string \<Rightarrow> string \<Rightarrow> error option) \<Rightarrow> cert_store option \<Rightarrow> string \<Rightarrow> (string \<times> tls_config) result" where
  "NewClient ca_ok kp store endpoint =
     (case NewClientConfig ca_ok kp store of
        Inl e \<Rightarrow> Inl e
      | Inr cfg \<Rightarrow> Inr (endpoint, cfg\<lparr>tc_InsecureSkipVerify := True\<rparr>))"

definition choose_store :: "world \<Rightarrow> cert_store \<Rightarrow> string \<Rightarrow> cert_store" where
  "choose_store w embedded certdir = (if certdir \<noteq> [] then Dir_ReadFile w certdir else embedded)"

section \<open>Endpoints\<close>

definition GRPCPort :: nat where "GRPCPort = 8383"
definition RCPPort :: nat where "RCPPort = 4949"
definition DefaultGuestSerialPort :: string where
  "DefaultGuestSerialPort = ''/dev/virtio-ports/org.guest-agent.0''"

datatype transport = Vsock "32 word" nat | Tcp string | UnixSocket string

text \<open>\<open>newConnection\<close>: where it dials (or the error of its dial function) and whether it uses TLS.\<close>

definition newConnection :: "string \<Rightarrow> tls_config option \<Rightarrow> (transport result \<times> bool) result" where
  "newConnection endpoint tlsConfig =
     (if tlsConfig = None then Inl (Errorf ''TLS config is not set'')
      else if HasPrefix endpoint ''cid:'' then
        (if length endpoint \<le> 4 then Inl (Errorf ''no context ID defined'')
         else Inr (case ParseUint (drop 4 endpoint) 10 32 of
                     Inl e \<Rightarrow> Inl (Fmt ''invalid socket context ID'' e)
                   | Inr cid \<Rightarrow> Inr (Vsock (of_nat cid) GRPCPort), True))
      else if HasPrefix endpoint ''tcp:'' then
        (if length endpoint \<le> 4 then Inl (Errorf ''no IP address defined'')
         else Inr (Inr (Tcp (JoinHostPort (drop 4 endpoint) (Itoa (int GRPCPort)))), True))
      else if Contains endpoint ''/'' then Inr (Inr (UnixSocket endpoint), False)
      else Inl (Errorf ''unknown endpoint''))"

definition ExecuteGRPC ::
  "string \<Rightarrow> tls_config option \<Rightarrow> (transport result \<times> bool \<Rightarrow> 's \<Rightarrow> 'a result \<times> 's) \<Rightarrow> 's \<Rightarrow> 'a result \<times> 's" where
  "ExecuteGRPC endpoint tlsConfig fn s =
     (case newConnection endpoint tlsConfig of Inl e \<Rightarrow> (Inl e, s) | Inr conn \<Rightarrow> fn conn s)"

section \<open>The agent's listeners\<close>

record net_if =
  ni_Name :: string
  ni_Addrs :: "ip list result"

definition IsLinkLocalUnicast :: "ip \<Rightarrow> bool" where
  "IsLinkLocalUnicast i =
     (case To4 i of
        Some q \<Rightarrow> q ! 0 = 169 \<and> q ! 1 = 254
      | None \<Rightarrow> length i = 16 \<and> i ! 0 = 0xFE \<and> i ! 1 div 64 = 2)"

definition lladdr_of :: "net_if \<Rightarrow> ip list \<Rightarrow> string list" where
  "lladdr_of n addrs =
     (case find (\<lambda>i. To4 i = None \<and> IsLinkLocalUnicast i) addrs of
        None \<Rightarrow> [] | Some i \<Rightarrow> [ip_String i @ ''%'' @ ni_Name n])"

definition getLinkLocalAddrs :: "net_if list result \<Rightarrow> string list result" where
  "getLinkLocalAddrs ifaces =
     (case ifaces of
        Inl e \<Rightarrow> Inl e
      | Inr ns \<Rightarrow>
          map_sum id concat (traverse_res (\<lambda>n. case ni_Addrs n of Inl e \<Rightarrow> Inl e | Inr as \<Rightarrow> Inr (lladdr_of n as)) ns))"

datatype agent_listener = SerialListener string | VsockListener nat | TcpListener string

text \<open>One round over the link-local addresses: an address that could not be bound is tried again in
  the next round.\<close>

definition bind_addr :: "(string \<Rightarrow> error option) \<Rightarrow> string list \<Rightarrow> string \<Rightarrow> string list" where
  "bind_addr listen processed addr =
     (if addr \<in> set processed then processed
      else if listen addr = None then processed @ [addr] else processed)"

record tcp_round =
  tr_ifaces :: "net_if list result"
  tr_listen :: "string \<Rightarrow> error option"
  tr_ctx_done :: bool

fun tcp_rounds :: "nat \<Rightarrow> tcp_round list \<Rightarrow> string list \<Rightarrow> nat \<times> string list" where
  "tcp_rounds attempt [] processed = (attempt, processed)"
| "tcp_rounds attempt (r # rs) processed =
     (case getLinkLocalAddrs (tr_ifaces r) of
        Inl _ \<Rightarrow> (attempt, processed)
      | Inr addrs \<Rightarrow>
          let p = foldl (bind_addr (tr_listen r)) processed addrs in
          if tr_ctx_done r then (attempt, p)
          else if attempt = 20 then (attempt, p)
          else tcp_rounds (Suc attempt) rs p)"

text \<open>What \<open>ListenAndServe\<close> finds in the guest. It asks for \<open>/dev/vsock\<close> twice: before it makes the gRPC
  server, and later in the goroutine that opens the listeners. The device may appear or vanish in
  between.\<close>

record agent_env =
  ae_vsock_stat :: "file_info result"
  ae_vsock_stat_again :: "file_info result"
  ae_LegacyMode :: bool
  ae_WithoutTCP :: bool
  ae_SerialPort :: string
  ae_device_err :: "error option"
  ae_vsock_err :: "error option"
  ae_rounds :: "tcp_round list"

definition serial_mode :: "file_info result \<Rightarrow> agent_env \<Rightarrow> bool" where
  "serial_mode st env \<longleftrightarrow>
     (case st of Inl e \<Rightarrow> IsNotExist e | Inr _ \<Rightarrow> False) \<or> ae_LegacyMode env"

definition serial_port :: "agent_env \<Rightarrow> string" where
  "serial_port env = (if ae_SerialPort env = [] then DefaultGuestSerialPort else ae_SerialPort env)"

text \<open>The credentials of the gRPC server, and the goroutine that feeds the listeners channel: each
  listener with the TLS layers around a connection on it, the listener's own first and then the
  server's credentials.\<close>

definition server_creds :: "agent_env \<Rightarrow> tls_config \<Rightarrow> tls_config list" where
  "server_creds env cfg = (if serial_mode (ae_vsock_stat env) env then [] else [cfg])"

definition agent_listeners :: "agent_env \<Rightarrow> tls_config \<Rightarrow> (agent_listener \<times> tls_config list) list" where
  "agent_listeners env cfg =
     (if serial_mode (ae_vsock_stat_again env) env then
        (case ae_device_err env of
           Some _ \<Rightarrow> []
         | None \<Rightarrow>
             (SerialListener (serial_port env), server_creds env cfg) #
             (if ae_WithoutTCP env then []
              else map (\<lambda>a. (TcpListener (JoinHostPort a (Itoa (int GRPCPort))), cfg # server_creds env cfg))
                     (snd (tcp_rounds 0 (ae_rounds env) []))))
      else (case ae_vsock_err env of Some _ \<Rightarrow> [] | None \<Rightarrow> [(VsockListener GRPCPort, server_creds env cfg)]))"

text \<open>\<open>ListenAndServe\<close> up to the accept loops: an error, or the listeners that are served. Its
  other steps (loading a kernel module, registering the services) do not influence them.\<close>

definition Agent_ListenAndServe ::
  "(string \<Rightarrow> bool) \<Rightarrow> (string \<Rightarrow> string \<Rightarrow> error option) \<Rightarrow> cert_store option \<Rightarrow> agent_env \<Rightarrow>
   (agent_listener \<times> tls_config list) list result" where
  "Agent_ListenAndServe ca_ok kp store env =
     (case NewServerConfig ca_ok kp store of Inl e \<Rightarrow> Inl e | Inr cfg \<Rightarrow> Inr (agent_listeners env cfg))"

definition runAgent ::
  "(string \<Rightarrow> bool) \<Rightarrow> (string \<Rightarrow> string \<Rightarrow> error option) \<Rightarrow> world \<Rightarrow> cert_store \<Rightarrow> string \<Rightarrow> agent_env \<Rightarrow>
   (agent_listener \<times> tls_config list) list result" where
  "runAgent ca_ok kp w embedded certdir env =
     Agent_ListenAndServe ca_ok kp (Some (choose_store w embedded certdir)) env"

section \<open>Lemmas\<close>

lemma bind_addrs_distinct: "distinct p \<Longrightarrow> distinct (foldl (bind_addr l) p as)"
  by (induction as arbitrary: p) (simp_all add: bind_addr_def)

lemma tcp_rounds_props:
  "attempt \<le> 20 \<Longrightarrow> distinct p \<Longrightarrow>
     fst (tcp_rounds attempt rs p) \<le> 20 \<and> distinct (snd (tcp_rounds attempt rs p))"
  by (induction attempt rs p rule: tcp_rounds.induct)
    (auto simp: Let_def bind_addrs_distinct split: sum.split)

text \<open>The agent's TLS configuration demands a client certificate that the authority of the store
  signed, and no protocol below 1.2; the client presents the certificate of its store but does not
  verify the agent's.\<close>

lemma NewServerConfig_mutual:
  assumes "NewServerConfig ca kp store = Inr s"
  shows "tc_RequireClientCert s \<and> tc_ClientCAs s = Some (tc_RootCAs s) \<and> tc_MinVersion s = 0x303 \<and>
    (\<exists>rf. store = Some rf \<and> rf ''CA.crt'' = Inr (tc_RootCAs s) \<and> ca (tc_RootCAs s) \<and>
       rf ''agent.crt'' = Inr (tc_cert s) \<and> rf ''agent.key'' = Inr (tc_key s) \<and> kp (tc_cert s) (tc_key s) = None)"
  using assms
  by (auto simp: NewServerConfig_def newConfig_def split: option.splits sum.splits if_splits)

lemma NewClient_unverified:
  assumes "NewClient ca kp store ep = Inr (ep', c)"
  shows "ep' = ep \<and> tc_InsecureSkipVerify c \<and> tc_MinVersion c = 0x303 \<and>
    (\<exists>rf. store = Some rf \<and> rf ''client.crt'' = Inr (tc_cert c) \<and> rf ''client.key'' = Inr (tc_key c))"
  using assms
  by (auto simp: NewClient_def NewClientConfig_def newConfig_def split: option.splits sum.splits if_splits)

lemma agent_listeners_tls:
  assumes "(l, layers) \<in> set (agent_listeners env cfg)"
  shows "layers = (case l of TcpListener _ \<Rightarrow> [cfg] | _ \<Rightarrow> []) @ server_creds env cfg"
    and "serial_mode (ae_vsock_stat_again env) env \<longleftrightarrow> (case l of VsockListener _ \<Rightarrow> False | _ \<Rightarrow> True)"
  using assms
  by (auto simp: agent_listeners_def split: if_splits option.splits)

lemma newConnection_tls:
  assumes "newConnection e (Some cfg) = Inr (Inr t, ctls)"
  shows "ctls = (case t of UnixSocket _ \<Rightarrow> False | Vsock _ _ \<Rightarrow> True | Tcp _ \<Rightarrow> True)"
  using assms by (auto simp: newConnection_def split: if_splits sum.splits)

section \<open>Properties\<close>

text \<open>The listener of the agent that a client's transport leads to; a unix socket is the host's end of
  the serial port.\<close>

fun leads_to :: "transport \<Rightarrow> agent_listener \<Rightarrow> bool" where
  "leads_to (Vsock _ _) (VsockListener _) = True"
| "leads_to (Tcp _) (TcpListener _) = True"
| "leads_to (UnixSocket _) (SerialListener _) = True"
| "leads_to _ _ = False"

text \<open>C13. Every TLS layer of a listener is a configuration that demands a client certificate signed by the
  authority of the certificate store and at least TLS 1.2, and a TCP listener always has one. The
  virtual socket and the serial port have one exactly if \<open>/dev/vsock\<close> was there (and legacy mode
  off) when the gRPC server was made: a virtual socket is served in plain text exactly if the device
  appeared between the two looks at it. If both looks agree, the virtual socket and TCP
  have one layer and the serial port none, which is what a client that dials the transport expects.
  No address is bound twice, and the search for link-local addresses makes at most 21 rounds.\<close>

theorem transport_security_agrees:
  assumes "Agent_ListenAndServe ca kp store env = Inr ls" and "(l, layers) \<in> set ls"
  shows "(\<forall>cfg \<in> set layers. tc_RequireClientCert cfg \<and> tc_MinVersion cfg = 0x303 \<and>
       (\<exists>rf authority. store = Some rf \<and> rf ''CA.crt'' = Inr authority \<and> tc_ClientCAs cfg = Some authority)) \<and>
    (case l of
       TcpListener _ \<Rightarrow> layers \<noteq> []
     | SerialListener _ \<Rightarrow> layers = [] \<longleftrightarrow> serial_mode (ae_vsock_stat env) env
     | VsockListener _ \<Rightarrow>
         \<not> serial_mode (ae_vsock_stat_again env) env \<and> (layers = [] \<longleftrightarrow> serial_mode (ae_vsock_stat env) env)) \<and>
    (serial_mode (ae_vsock_stat env) env = serial_mode (ae_vsock_stat_again env) env \<longrightarrow>
       length layers = (case l of SerialListener _ \<Rightarrow> 0 | _ \<Rightarrow> 1) \<and>
       (\<forall>e c t ctls. newConnection e (Some c) = Inr (Inr t, ctls) \<and> leads_to t l \<longrightarrow> ctls = (layers \<noteq> []))) \<and>
    distinct (snd (tcp_rounds 0 (ae_rounds env) [])) \<and> fst (tcp_rounds 0 (ae_rounds env) []) \<le> 20"
proof -
  obtain cfg where n: "NewServerConfig ca kp store = Inr cfg" and l: "ls = agent_listeners env cfg"
    using assms(1) by (auto simp: Agent_ListenAndServe_def split: sum.splits)
  note tls = agent_listeners_tls[of l layers env cfg, folded l, OF assms(2)]
  have "\<forall>c \<in> set layers. c = cfg" unfolding tls(1) by (auto simp: server_creds_def split: agent_listener.splits)
  then have "\<forall>c \<in> set layers. tc_RequireClientCert c \<and> tc_MinVersion c = 0x303 \<and>
      (\<exists>rf authority. store = Some rf \<and> rf ''CA.crt'' = Inr authority \<and> tc_ClientCAs c = Some authority)"
    using NewServerConfig_mutual[OF n] by auto
  moreover
  have "ctls = (layers \<noteq> [])"
    if "newConnection e (Some c) = Inr (Inr t, ctls)" "leads_to t l"
      "serial_mode (ae_vsock_stat env) env = serial_mode (ae_vsock_stat_again env) env" for e c t ctls
    using newConnection_tls[OF that(1)] that(2,3) tls by (cases t; cases l) (simp_all add: server_creds_def)
  then have "serial_mode (ae_vsock_stat env) env = serial_mode (ae_vsock_stat_again env) env \<longrightarrow>
      (\<forall>e c t ctls. newConnection e (Some c) = Inr (Inr t, ctls) \<and> leads_to t l \<longrightarrow> ctls = (layers \<noteq> []))"
    by blast
  moreover have "serial_mode (ae_vsock_stat env) env = serial_mode (ae_vsock_stat_again env) env \<longrightarrow>
      length layers = (case l of SerialListener _ \<Rightarrow> 0 | _ \<Rightarrow> 1)"
    using tls by (cases l) (auto simp: server_creds_def)
  moreover have "case l of
      TcpListener _ \<Rightarrow> layers \<noteq> []
    | SerialListener _ \<Rightarrow> layers = [] \<longleftrightarrow> serial_mode (ae_vsock_stat env) env
    | VsockListener _ \<Rightarrow>
        \<not> serial_mode (ae_vsock_stat_again env) env \<and> (layers = [] \<longleftrightarrow> serial_mode (ae_vsock_stat env) env)"
    using tls by (cases l) (auto simp: server_creds_def)
  ultimately show ?thesis using tcp_rounds_props[of 0 "[]" "ae_rounds env"] by simp
qed

definition demo_agent :: agent_env where
  "demo_agent = \<lparr>ae_vsock_stat = Inl (PathError ''stat'' ''/dev/vsock'' ENOENT),
     ae_vsock_stat_again = Inl (PathError ''stat'' ''/dev/vsock'' ENOENT), ae_LegacyMode = False, ae_WithoutTCP = False,
     ae_SerialPort = [], ae_device_err = None, ae_vsock_err = None,
     ae_rounds = [\<lparr>tr_ifaces = Inr [\<lparr>ni_Name = ''eth0'', ni_Addrs = Inr [[0xFE, 0x80, 0, 0, 0, 0, 0, 0, 0, 0, 0, 0, 0, 0, 0, 1]]\<rparr>],
       tr_listen = (\<lambda>_. None), tr_ctx_done = True\<rparr>]\<rparr>"

text \<open>The module is loaded late: the device is there at the second look only.\<close>

definition late_agent :: agent_env where
  "late_agent = demo_agent\<lparr>ae_vsock_stat_again := Inr \<lparr>fi_name = ''vsock'', fi_mode = 0x1B6, fi_size = 0,
     fi_isdir = False, fi_uid = 0, fi_gid = 0\<rparr>\<rparr>"

definition demo_tls :: tls_config where
  "demo_tls = \<lparr>tc_cert = ''agent.crt'', tc_key = ''agent.key'', tc_RootCAs = ''CA.crt'', tc_ClientCAs = Some ''CA.crt'',
     tc_RequireClientCert = True, tc_InsecureSkipVerify = False, tc_MinVersion = 0x303, tc_NextProtos = [''h2'']\<rparr>"

definition demo_store :: cert_store where
  "demo_store name = Inr name"

theorem transport_security_agrees_witness:
  "let serve = Agent_ListenAndServe (\<lambda>_. True) (\<lambda>_ _. None) (Some demo_store) in
   serve demo_agent = Inr (agent_listeners demo_agent demo_tls) \<and>
   (TcpListener ''[fe80::1%eth0]:8383'', [demo_tls]) \<in> set (agent_listeners demo_agent demo_tls) \<and>
   newConnection ''tcp:10.0.0.1'' (Some demo_tls) = Inr (Inr (Tcp ''10.0.0.1:8383''), True) \<and>
   serve late_agent = Inr [(VsockListener 8383, [])] \<and> serial_mode (ae_vsock_stat late_agent) late_agent"
proof -
  have "NewServerConfig (\<lambda>_. True) (\<lambda>_ _. None) (Some demo_store) = Inr demo_tls" by code_simp
  then have r: "Agent_ListenAndServe (\<lambda>_. True) (\<lambda>_ _. None) (Some demo_store) env =
      Inr (agent_listeners env demo_tls)" for env
    by (simp add: Agent_ListenAndServe_def)
  have a: "(TcpListener ''[fe80::1%eth0]:8383'', [demo_tls]) \<in> set (agent_listeners demo_agent demo_tls)" by code_simp
  have c: "newConnection ''tcp:10.0.0.1'' (Some demo_tls) = Inr (Inr (Tcp ''10.0.0.1:8383''), True)" by code_simp
  have v: "agent_listeners late_agent demo_tls = [(VsockListener 8383, [])]" by code_simp
  show ?thesis
    using transport_security_agrees[OF r a] transport_security_agrees[OF r, of "VsockListener 8383" "[]" late_agent] r a c v
    by simp
qed

end
