(* ===== verification/Client_Cli.thy ===== *)
theory Client_Cli
  imports Transport
begin

text \<open>
  The command line of the client (\<open>cmd/client\<close>) and the requests that \<open>client/filesystem.go\<close>,
  \<open>client/network.go\<close> and \<open>client/secure_shell.go\<close> build from it. A command is a value of \<open>cli_call\<close>:
  the client method that \<open>ExecuteCommand\<close> calls with its arguments.
\<close>

section \<open>Matching of arguments\<close>

definition argsMatch :: "string \<Rightarrow> string list \<Rightarrow> nat list \<Rightarrow> bool" where
  "argsMatch s1 s2 ignore =
     (let f1 = Fields s1 in
      length f1 = length s2 \<and>
      list_all (\<lambda>i. i \<in> set ignore \<or> s2 ! i \<in> set (Split (CHR ''|'') (f1 ! i))) [0..<length f1])"

definition getFirstN :: "string \<Rightarrow> nat \<Rightarrow> string" where
  "getFirstN s n = take n s"

section \<open>Flags\<close>

text \<open>\<open>flag.FlagSet.Parse\<close> with \<open>ExitOnError\<close>: \<open>None\<close> when the program exits. A flag starts with one or
  two dashes; a Boolean flag takes a value only after an equals sign; \<open>--\<close> ends the flags.\<close>

datatype flag_kind = BoolFlag | StringFlag

definition ParseBool :: "string \<Rightarrow> bool option" where
  "ParseBool s =
     (if s \<in> set [''1'', ''t'', ''T'', ''true'', ''TRUE'', ''True''] then Some True
      else if s \<in> set [''0'', ''f'', ''F'', ''false'', ''FALSE'', ''False''] then Some False
      else None)"

definition flag_body :: "string \<Rightarrow> string" where
  "flag_body s = (if HasPrefix s ''--'' then drop 2 s else drop 1 s)"

fun flag_parse ::
  "(string \<Rightarrow> flag_kind option) \<Rightarrow> string list \<Rightarrow> (string \<times> string) list \<Rightarrow>
   ((string \<times> string) list \<times> string list) option" where
  "flag_parse kinds [] vals = Some (vals, [])"
| "flag_parse kinds (s # rest) vals =
     (if length s < 2 \<or> hd s \<noteq> CHR ''-'' then Some (vals, s # rest)
      else if s = ''--'' then Some (vals, rest)
      else let b = flag_body s; name = takeWhile (\<lambda>c. c \<noteq> CHR ''='') b;
               has_value = (CHR ''='' \<in> set b); v = drop (Suc (length name)) b in
           if name = [] \<or> hd name = CHR ''-'' then None
           else (case kinds name of
                   None \<Rightarrow> None
                 | Some BoolFlag \<Rightarrow>
                     if has_value
                     then (case ParseBool v of
                             None \<Rightarrow> None
                           | Some t \<Rightarrow> flag_parse kinds rest (vals @ [(name, if t then ''true'' else ''false'')]))
                     else flag_parse kinds rest (vals @ [(name, ''true'')])
                 | Some StringFlag \<Rightarrow>
                     if has_value then flag_parse kinds rest (vals @ [(name, v)])
                     else (case rest of
                             [] \<Rightarrow> None
                           | w # ws \<Rightarrow> flag_parse kinds ws (vals @ [(name, w)]))))"

definition flag_value :: "(string \<times> string) list \<Rightarrow> string \<Rightarrow> string \<Rightarrow> string" where
  "flag_value vals name dflt = (case map_of (rev vals) name of Some v \<Rightarrow> v | None \<Rightarrow> dflt)"

definition ls_flags :: "string \<Rightarrow> flag_kind option" where
  "ls_flags = [''l'' \<mapsto> BoolFlag, ''d'' \<mapsto> BoolFlag]"

definition shell_flags :: "string \<Rightarrow> flag_kind option" where
  "shell_flags = [''u'' \<mapsto> StringFlag, ''shell'' \<mapsto> StringFlag, ''socat-binary'' \<mapsto> StringFlag]"

section \<open>The dispatcher\<close>

datatype cli_call =
    ShowVersion | ShutdownAgent | ShowAgentInfo | ShowGuestInfo
  | ShowRouteList string | ShowInterfaces | UpdateInterfaceAddrList string string string
  | UpdateInterfaceLinkState string string | UpdateRoutes string string string string
  | SyncAll | FreezeAll | UnfreezeAll | ShowFileMD5Hash string | MakeDir string string
  | ChangeMode string string | ChangeOwner string string | Copy string string | ShowFileContent string
  | ShowFileStat string bool bool
  | ExecSecureShell string string string "string list"
  | PrintUsage string | ExitUsage

definition cli_ls :: "string list \<Rightarrow> cli_call" where
  "cli_ls args =
     (case flag_parse ls_flags args [] of
        None \<Rightarrow> ExitUsage
      | Some (vals, rest) \<Rightarrow>
          ShowFileStat (case rest of [] \<Rightarrow> [] | a # _ \<Rightarrow> a)
            (flag_value vals ''l'' ''false'' = ''true'') (flag_value vals ''d'' ''false'' = ''true''))"

definition cli_shell :: "string list \<Rightarrow> cli_call" where
  "cli_shell args =
     (case flag_parse shell_flags args [] of
        None \<Rightarrow> ExitUsage
      | Some (vals, rest) \<Rightarrow>
          ExecSecureShell (flag_value vals ''u'' ''root'') (flag_value vals ''shell'' [])
            (flag_value vals ''socat-binary'' []) rest)"

text \<open>The commands with variable arguments, in the order of the switch.\<close>

definition dispatch_variable :: "string list \<Rightarrow> cli_call" where
  "dispatch_variable args =
     (if argsMatch ''ip -4 r|ro|route l|list'' args [] \<or> argsMatch ''ip r|ro|route l|list'' args [] then ShowRouteList ''4''
      else if argsMatch ''ip -6 r|ro|route l|list'' args [] then ShowRouteList ''6''
      else if argsMatch ''ip a|addr s|show'' args [] then ShowInterfaces
      else if argsMatch ''ip addr add|del ADDR dev IFNAME'' args [3, 5]
      then UpdateInterfaceAddrList (args ! 2) (args ! 3) (args ! 5)
      else if argsMatch ''ip l|link set up|down dev IFNAME'' args [5]
      then UpdateInterfaceLinkState (args ! 3) (args ! 5)
      else if argsMatch ''ip r|ro|route add|del PREFIX via ADDR dev IFNAME'' args [3, 5, 7]
      then UpdateRoutes (args ! 2) (args ! 3) (args ! 5) (args ! 7)
      else if argsMatch ''ip r|ro|route add|del PREFIX dev IFNAME'' args [3, 5]
      then UpdateRoutes (args ! 2) (args ! 3) [] (args ! 5)
      else if args ! 0 = ''fs-sync'' then SyncAll
      else if argsMatch ''fs-freeze'' args [] then FreezeAll
      else if argsMatch ''fs-unfreeze'' args [] then UnfreezeAll
      else if argsMatch ''md5sum FILE'' args [1] then ShowFileMD5Hash (args ! 1)
      else if argsMatch ''mkdir DIRECTORY'' args [1] then MakeDir (args ! 1) ''0755''
      else if argsMatch ''mkdir -m MODE DIRECTORY'' args [2, 3] then MakeDir (args ! 3) (args ! 2)
      else if argsMatch ''chmod MODE FILE'' args [1, 2] then ChangeMode (args ! 2) (args ! 1)
      else if argsMatch ''chown OWNER_GROUP FILE'' args [1, 2] then ChangeOwner (args ! 2) (args ! 1)
      else if argsMatch ''rcp SRCFILE DSTFILE'' args [1, 2] then Copy (args ! 1) (args ! 2)
      else if argsMatch ''cat FILE'' args [1] then ShowFileContent (args ! 1)
      else if args ! 0 = ''ls'' then cli_ls (drop 1 args)
      else if args ! 0 = ''ssh'' \<or> args ! 0 = ''secure-shell'' \<or> args ! 0 = ''shell'' then cli_shell (drop 1 args)
      else PrintUsage (getFirstN (Join '' '' args) 3))"

text \<open>\<open>ExecuteCommand\<close> after the client was created, for a non-empty argument list; \<open>main\<close> prints the
  usage and exits when there is none.\<close>

definition ExecuteCommand :: "string list \<Rightarrow> cli_call" where
  "ExecuteCommand args0 =
     (if Join '' '' args0 = ''version'' then ShowVersion
      else let args = drop 1 args0 in
           if args = [] then PrintUsage []
           else if Join '' '' args = ''agent-shutdown'' then ShutdownAgent
           else if Join '' '' args = ''agent-info'' then ShowAgentInfo
           else if Join '' '' args = ''guest-info'' then ShowGuestInfo
           else dispatch_variable args)"

definition client_main :: "string list \<Rightarrow> cli_call" where
  "client_main args = (if args = [] then PrintUsage [] else ExecuteCommand args)"

text \<open>\<open>printSectionUsage\<close>: the sections that start with the prefix, or all.\<close>

definition printSectionUsage :: "string list list \<Rightarrow> string \<Rightarrow> string list list" where
  "printSectionUsage usageContent pre =
     (let c = filter (\<lambda>v. 2 \<le> length v \<and> HasPrefix (v ! 0) pre) usageContent
      in if c = [] then usageContent else c)"

section \<open>Requests of the file commands\<close>

definition owner_request :: "string \<Rightarrow> string \<Rightarrow> (string \<times> string \<times> string) result" where
  "owner_request fname owner =
     (let parts = SplitN (CHR '':'') 2 owner in
      if length parts \<noteq> 2 then Inl (Errorf (''invalid owner/group value: '' @ owner))
      else Inr (fname, parts ! 0, if parts ! 1 = [] then parts ! 0 else parts ! 1))"

definition mode_request :: "string \<Rightarrow> string \<Rightarrow> (string \<times> 32 word) result" where
  "mode_request fname perm =
     (case ParseUint perm 8 32 of Inl e \<Rightarrow> Inl e | Inr m \<Rightarrow> Inr (fname, of_nat m))"

definition mkdir_request :: "string \<Rightarrow> string \<Rightarrow> (string \<times> 32 word) result" where
  "mkdir_request dirname perm =
     (if perm = [] then Inr (dirname, 0x1ED)
      else (case ParseUint perm 8 32 of Inl e \<Rightarrow> Inl e | Inr m \<Rightarrow> Inr (dirname, of_nat m)))"

definition stat_request :: "string \<Rightarrow> bool \<Rightarrow> string \<times> bool" where
  "stat_request fname withoutContent = (fname, \<not> withoutContent)"

section \<open>The secure shell command\<close>

record ssh_env =
  sx_LookPath :: "string \<Rightarrow> string result"
  sx_GetUserKey :: "string result"
  sx_CreateTemp :: "string result"
  sx_Write :: "error option"
  sx_Chmod :: "error option"
  sx_Exec :: "error option"

datatype key_action =
    CreateKey string | WriteKey string string | ChmodKey string "32 word" | CloseKey string | RemoveKey string
  | Exec string "string list"

definition ssh_args :: "string \<Rightarrow> string \<Rightarrow> string \<Rightarrow> string \<Rightarrow> string \<Rightarrow> string \<Rightarrow> string list \<Rightarrow> string list" where
  "ssh_args sshBinary socatBinary cid user shell keyfile command =
     [sshBinary, ''-o'', ''StrictHostKeyChecking=no'', ''-o'', ''UserKnownHostsFile=/dev/null'', ''-o'',
      ''ProxyCommand='' @ socatBinary @ '' - VSOCK-CONNECT:'' @ cid @ '':'' @ Itoa (int RCPPort)] @
     (if shell \<noteq> [] then [''-o'', ''SetEnv SHELL='' @ shell] else []) @
     [''-i'', keyfile, ''-l'', user, ''-p'', Itoa (int RCPPort), ''vm-cid-'' @ cid] @ command"

text \<open>The deferred calls, which run on every return, but not when \<open>syscall.Exec\<close> has replaced the
  process: then there is nothing to return to.\<close>

definition key_deferred :: "string \<Rightarrow> key_action list" where
  "key_deferred keyfile = [RemoveKey keyfile, CloseKey keyfile]"

text \<open>What happens to the private key once its file exists: the error that is returned, or \<open>None\<close>
  when the program was replaced; and the actions in order.\<close>

definition with_keyfile ::
  "ssh_env \<Rightarrow> string \<Rightarrow> string \<Rightarrow> string \<Rightarrow> string list \<Rightarrow> error option \<times> key_action list" where
  "with_keyfile env keyfile privateKey sshBinary sshArgs =
     (case sx_Write env of
        Some e \<Rightarrow> (Some e, [CreateKey keyfile, RemoveKey keyfile] @ key_deferred keyfile)
      | None \<Rightarrow>
          let written = [CreateKey keyfile, WriteKey keyfile privateKey, CloseKey keyfile] in
          (case sx_Chmod env of
             Some e \<Rightarrow> (Some e, written @ key_deferred keyfile)
           | None \<Rightarrow>
               (case sx_Exec env of
                  Some e \<Rightarrow> (Some e, written @ [ChmodKey keyfile 0x100] @ key_deferred keyfile)
                | None \<Rightarrow> (None, written @ [ChmodKey keyfile 0x100, Exec sshBinary sshArgs]))))"

definition ExecSecureShellClient ::
  "ssh_env \<Rightarrow> string \<Rightarrow> string \<Rightarrow> string \<Rightarrow> string \<Rightarrow> string list \<Rightarrow> error option \<times> key_action list" where
  "ExecSecureShellClient env endpoint0 user0 shell0 socat0 command =
     (let endpoint = TrimSpace endpoint0;
          user = (if TrimSpace user0 = [] then ''root'' else TrimSpace user0) in
      if \<not> HasPrefix endpoint ''cid:''
      then (Some (Errorf ''secure shell is only available through Linux VM sockets (AF_VSOCK)''), [])
      else (case (if TrimSpace socat0 = [] then sx_LookPath env ''socat'' else Inr (TrimSpace socat0)) of
              Inl e \<Rightarrow> (Some e, [])
            | Inr socatBinary \<Rightarrow>
                (case sx_LookPath env ''ssh'' of
                   Inl e \<Rightarrow> (Some e, [])
                 | Inr sshBinary \<Rightarrow>
                     (case sx_GetUserKey env of
                        Inl e \<Rightarrow> (Some e, [])
                      | Inr privateKey \<Rightarrow>
                          (case sx_CreateTemp env of
                             Inl e \<Rightarrow> (Some e, [])
                           | Inr keyfile \<Rightarrow>
                               with_keyfile env keyfile privateKey sshBinary
                                 (ssh_args sshBinary socatBinary (drop 4 endpoint) user (TrimSpace shell0)
                                    keyfile command))))))"

section \<open>Lemmas\<close>

lemma argsMatch_length: "argsMatch p args ign \<Longrightarrow> length args = length (Fields p)"
  by (simp add: argsMatch_def Let_def)

lemma argsMatch_nth:
  "argsMatch p args ign \<Longrightarrow> i < length args \<Longrightarrow> i \<notin> set ign \<Longrightarrow> args ! i \<in> set (Split (CHR ''|'') (Fields p ! i))"
  by (auto simp: argsMatch_def Let_def list_all_iff)

lemma Join_single: "CHR '' '' \<notin> set w \<Longrightarrow> args \<noteq> [] \<Longrightarrow> Join '' '' args = w \<longleftrightarrow> args = [w]"
  by (cases args rule: remdups_adj.cases) auto

text \<open>A call that freezes, thaws or shuts down.\<close>

definition critical :: "cli_call \<Rightarrow> bool" where
  "critical c \<longleftrightarrow> c = FreezeAll \<or> c = UnfreezeAll \<or> c = ShutdownAgent"

lemma argsMatch_word:
  assumes "Fields p = [p]" "CHR ''|'' \<notin> set p"
  shows "argsMatch p args [] \<longleftrightarrow> args = [p]"
proof -
  have "Split (CHR ''|'') p = [p]" using assms(2) by (auto simp: Split_def intro!: split_pred_id)
  then show ?thesis using assms(1) by (cases args) (auto simp: argsMatch_def)
qed

lemma freeze_words:
  "argsMatch ''fs-freeze'' args [] \<longleftrightarrow> args = [''fs-freeze'']"
  "argsMatch ''fs-unfreeze'' args [] \<longleftrightarrow> args = [''fs-unfreeze'']"
proof -
  have "Fields ''fs-freeze'' = [''fs-freeze'']" "Fields ''fs-unfreeze'' = [''fs-unfreeze'']" by code_simp+
  then show "argsMatch ''fs-freeze'' args [] \<longleftrightarrow> args = [''fs-freeze'']"
      "argsMatch ''fs-unfreeze'' args [] \<longleftrightarrow> args = [''fs-unfreeze'']"
    by (simp_all add: argsMatch_word)
qed

lemma cli_not_critical: "\<not> critical (cli_ls a)" "\<not> critical (cli_shell a)"
  by (auto simp: cli_ls_def cli_shell_def critical_def split: option.split)

section \<open>Properties\<close>

text \<open>The guest is frozen, thawed or its agent shut down only by the exact command word after the
  endpoint, with nothing before or after it.\<close>

theorem critical_commands_exact:
  assumes "args \<noteq> []"
  shows "(client_main args = FreezeAll \<longrightarrow> (\<exists>e. args = [e, ''fs-freeze''])) \<and>
    (client_main args = UnfreezeAll \<longrightarrow> (\<exists>e. args = [e, ''fs-unfreeze''])) \<and>
    (client_main args = ShutdownAgent \<longrightarrow> (\<exists>e. args = [e, ''agent-shutdown''])) \<and>
    client_main [ep, ''fs-freeze''] = FreezeAll \<and> client_main [ep, ''fs-unfreeze''] = UnfreezeAll \<and>
    client_main [ep, ''agent-shutdown''] = ShutdownAgent"
proof -
  have fwd: "\<exists>e. args = [e, w]"
    if "client_main args = c" "critical c" "w = (case c of FreezeAll \<Rightarrow> ''fs-freeze'' | UnfreezeAll \<Rightarrow> ''fs-unfreeze'' | _ \<Rightarrow> ''agent-shutdown'')"
    for c w
  proof -
    have "drop 1 args = [w]"
      using that assms cli_not_critical[of "drop 1 (drop 1 args)"]
      by (auto simp: client_main_def ExecuteCommand_def dispatch_variable_def critical_def Let_def freeze_words
          Join_single split: if_splits)
    then show ?thesis using assms by (cases args) auto
  qed
  have one: "ExecuteCommand [ep, w] = dispatch_variable [w]"
    if "w \<in> {''fs-freeze'', ''fs-unfreeze''}" for w
    using that by (auto simp: ExecuteCommand_def)
  have "dispatch_variable [''fs-freeze''] = FreezeAll" "dispatch_variable [''fs-unfreeze''] = UnfreezeAll" by code_simp+
  moreover have "client_main [ep, ''agent-shutdown''] = ShutdownAgent"
    by (simp add: client_main_def ExecuteCommand_def)
  ultimately show ?thesis using fwd[of FreezeAll] fwd[of UnfreezeAll] fwd[of ShutdownAgent] one
    by (simp add: critical_def client_main_def)
qed

theorem critical_commands_exact_witness:
  "client_main [''cid:3'', ''fs-freeze''] = FreezeAll"
  using critical_commands_exact[of "[''cid:3'', ''fs-freeze'']" "''cid:3''"] by simp

lemma SplitN_2_colon: "CHR '':'' \<notin> set u \<Longrightarrow> SplitN (CHR '':'') 2 (u @ CHR '':'' # g) = [u, g]"
  by (induction u) (auto simp: numeral_2_eq_2)

lemma SplitN_2_none: "c \<notin> set u \<Longrightarrow> SplitN c 2 u = [u]"
  by (induction u) (simp_all add: numeral_2_eq_2)

text \<open>An owner argument is \<open>user:group\<close> or \<open>user:\<close>, where the group defaults to the user's name, and the
  part after the first colon is the group as a whole; an argument without a colon is refused.\<close>

theorem owner_request_spec:
  "(CHR '':'' \<notin> set u \<longrightarrow> owner_request f (u @ '':'' @ g) = Inr (f, u, if g = [] then u else g)) \<and>
   (CHR '':'' \<notin> set u \<longrightarrow> owner_request f u = Inl (Errorf (''invalid owner/group value: '' @ u)))"
  by (simp add: owner_request_def SplitN_2_colon SplitN_2_none)

theorem owner_request_spec_witness:
  "owner_request ''/f'' ''root:wheel'' = Inr (''/f'', ''root'', ''wheel'')"
  using owner_request_spec[of "''root''" "''/f''" "''wheel''"] by simp

text \<open>C36. The secure shell command cleans the guest's private key up only when it fails: every error after
  the key file was created removes the file, but a successful start of the SSH program leaves it on
  disk, readable only by its owner, because the program replaces the process whose deferred call
  would have removed it.\<close>

theorem ssh_key_file_left:
  "case ExecSecureShellClient env ep user shell socat cmd of
     (Some _, acts) \<Rightarrow> (\<forall>f. CreateKey f \<in> set acts \<longrightarrow> RemoveKey f \<in> set acts)
   | (None, acts) \<Rightarrow>
       (\<exists>f key bin sargs. acts = [CreateKey f, WriteKey f key, CloseKey f, ChmodKey f 0x100, Exec bin sargs] \<and>
          sx_GetUserKey env = Inr key \<and> (\<forall>g. RemoveKey g \<notin> set acts) \<and> HasPrefix (TrimSpace ep) ''cid:'')"
  by (auto simp: ExecSecureShellClient_def with_keyfile_def key_deferred_def Let_def
      split: option.splits sum.splits)

theorem ssh_key_file_left_witness:
  "\<exists>acts. ExecSecureShellClient \<lparr>sx_LookPath = Inr, sx_GetUserKey = Inr ''k'', sx_CreateTemp = Inr ''/tmp/pga.1.key'',
      sx_Write = Some (Errorf ''write''), sx_Chmod = None, sx_Exec = None\<rparr> ''cid:3'' ''root'' [] [] [] = (Some (Errorf ''write''), acts) \<and>
    RemoveKey ''/tmp/pga.1.key'' \<in> set acts"
proof -
  let ?r = "ExecSecureShellClient \<lparr>sx_LookPath = Inr, sx_GetUserKey = Inr ''k'', sx_CreateTemp = Inr ''/tmp/pga.1.key'',
      sx_Write = Some (Errorf ''write''), sx_Chmod = None, sx_Exec = None\<rparr> ''cid:3'' ''root'' [] [] []"
  have e: "fst ?r = Some (Errorf ''write'')" "CreateKey ''/tmp/pga.1.key'' \<in> set (snd ?r)" by code_simp+
  then have "RemoveKey ''/tmp/pga.1.key'' \<in> set (snd ?r)"
    using ssh_key_file_left[of "\<lparr>sx_LookPath = Inr, sx_GetUserKey = Inr ''k'', sx_CreateTemp = Inr ''/tmp/pga.1.key'',
      sx_Write = Some (Errorf ''write''), sx_Chmod = None, sx_Exec = None\<rparr>" "''cid:3''" "''root''" "[]" "[]" "[]"]
    by (cases ?r) auto
  then show ?thesis using e(1) by (metis prod.collapse)
qed

end
