(* ===== verification/Agent_Client.thy ===== *)
theory Agent_Client
  imports Services Client_Cli
begin

text \<open>
  Client and agent together: the request that each client method builds (\<open>client/*.go\<close>), its way
  through \<open>executeGRPC\<close> to the agent, and sessions of command lines run one after the other. The
  commands that are not one unary request (copying, printing a file, the secure shell, the local
  ones) have no request here.
\<close>

section \<open>Requests\<close>

text \<open>The outer error is returned before a connection is made, the inner one after it.\<close>

type_synonym request_of_call = "rpc result result"

definition client_ShowRouteList :: "string \<Rightarrow> request_of_call" where
  "client_ShowRouteList family = Inr (Inr (NetGetRouteList (if family = ''6'' then 10 else 2)))"

definition client_UpdateRouteTable :: "netlink \<Rightarrow> string \<Rightarrow> string \<Rightarrow> string \<Rightarrow> string \<Rightarrow> request_of_call" where
  "client_UpdateRouteTable nl action dst gw ifname =
     (case client_route_request nl dst gw ifname of
        Inl e \<Rightarrow> Inl e
      | Inr req \<Rightarrow>
          Inr (if action = ''add'' then Inr (NetAddRoute req)
               else if action = ''del'' then Inr (NetDelRoute req)
               else Inl (Errorf (''invalid action: '' @ action))))"

definition client_ShowInterfaces :: request_of_call where
  "client_ShowInterfaces = Inr (Inr NetGetInterfaces)"

definition client_UpdateInterfaceLinkState :: "string \<Rightarrow> string \<Rightarrow> request_of_call" where
  "client_UpdateInterfaceLinkState action ifname =
     Inr (if action = ''up'' then Inr (NetSetLinkUp ifname)
          else if action = ''down'' then Inr (NetSetLinkDown ifname)
          else Inl (Errorf (''invalid action: '' @ action)))"

definition client_UpdateInterfaceAddrList :: "string \<Rightarrow> string \<Rightarrow> string \<Rightarrow> request_of_call" where
  "client_UpdateInterfaceAddrList action ipcidr ifname =
     Inr (if action = ''add'' then Inr (NetAddIPAddr ifname ipcidr)
          else if action = ''del'' then Inr (NetDelIPAddr ifname ipcidr)
          else Inl (Errorf (''invalid action: '' @ action)))"

definition client_SetFileOwner :: "string \<Rightarrow> string \<Rightarrow> request_of_call" where
  "client_SetFileOwner fname owner =
     (case owner_request fname owner of Inl e \<Rightarrow> Inl e | Inr (p, u, g) \<Rightarrow> Inr (Inr (FsSetFileOwner p u g)))"

definition client_SetFileMode :: "string \<Rightarrow> string \<Rightarrow> request_of_call" where
  "client_SetFileMode fname perm =
     (case mode_request fname perm of Inl e \<Rightarrow> Inl e | Inr (p, m) \<Rightarrow> Inr (Inr (FsSetFileMode p m)))"

definition client_CreateDir :: "string \<Rightarrow> string \<Rightarrow> request_of_call" where
  "client_CreateDir dirname perm =
     (case mkdir_request dirname perm of Inl e \<Rightarrow> Inl e | Inr (p, m) \<Rightarrow> Inr (Inr (FsCreateDir p m)))"

definition client_ShowFileStat :: "string \<Rightarrow> bool \<Rightarrow> request_of_call" where
  "client_ShowFileStat fname withoutContent =
     (case stat_request fname withoutContent of (p, c) \<Rightarrow> Inr (Inr (FsGetFileStat p c)))"

definition client_ShowFileMD5Hash :: "string \<Rightarrow> request_of_call" where
  "client_ShowFileMD5Hash fname = Inr (Inr (FsGetFileMD5Hash fname))"

definition client_SyncAll :: request_of_call where "client_SyncAll = Inr (Inr FsSync)"
definition client_FreezeAll :: request_of_call where "client_FreezeAll = Inr (Inr FsFreeze)"
definition client_UnfreezeAll :: request_of_call where "client_UnfreezeAll = Inr (Inr FsUnfreeze)"
definition client_ShowAgentInfo :: request_of_call where "client_ShowAgentInfo = Inr (Inr SystemGetInfo)"
definition client_ShutdownAgent :: request_of_call where "client_ShutdownAgent = Inr (Inr SystemShutdownAgent)"
definition client_ShowGuestInfo :: request_of_call where "client_ShowGuestInfo = Inr (Inr AgentGetInfo)"

fun client_request :: "netlink \<Rightarrow> cli_call \<Rightarrow> request_of_call option" where
  "client_request nl (ShowRouteList f) = Some (client_ShowRouteList f)"
| "client_request nl ShowInterfaces = Some client_ShowInterfaces"
| "client_request nl (UpdateInterfaceAddrList a ip i) = Some (client_UpdateInterfaceAddrList a ip i)"
| "client_request nl (UpdateInterfaceLinkState a i) = Some (client_UpdateInterfaceLinkState a i)"
| "client_request nl (UpdateRoutes a dst gw i) = Some (client_UpdateRouteTable nl a dst gw i)"
| "client_request nl SyncAll = Some client_SyncAll"
| "client_request nl FreezeAll = Some client_FreezeAll"
| "client_request nl UnfreezeAll = Some client_UnfreezeAll"
| "client_request nl (ShowFileMD5Hash f) = Some (client_ShowFileMD5Hash f)"
| "client_request nl (MakeDir d m) = Some (client_CreateDir d m)"
| "client_request nl (ChangeMode f m) = Some (client_SetFileMode f m)"
| "client_request nl (ChangeOwner f ow) = Some (client_SetFileOwner f ow)"
| "client_request nl (ShowFileStat f _ d) = Some (client_ShowFileStat f d)"
| "client_request nl ShowAgentInfo = Some client_ShowAgentInfo"
| "client_request nl ShutdownAgent = Some client_ShutdownAgent"
| "client_request nl ShowGuestInfo = Some client_ShowGuestInfo"
| "client_request nl _ = None"

section \<open>Running a command\<close>

text \<open>\<open>ce_reach\<close> tells whether the agent can be reached over a transport, with or without TLS.\<close>

record client_env =
  ce_ca_ok :: "string \<Rightarrow> bool"
  ce_keypair :: "string \<Rightarrow> string \<Rightarrow> error option"
  ce_store :: cert_store
  ce_netlink :: netlink
  ce_reach :: "transport \<Rightarrow> bool \<Rightarrow> error option"

definition client_executeGRPC ::
  "client_env \<Rightarrow> svc_env \<Rightarrow> string \<times> tls_config \<Rightarrow> rpc result \<Rightarrow> agent_state \<Rightarrow> response result \<times> agent_state" where
  "client_executeGRPC ce env c req =
     ExecuteGRPC (fst c) (Some (snd c))
       (\<lambda>conn s. case req of
          Inl e \<Rightarrow> (Inl e, s)
        | Inr r \<Rightarrow>
            (case conn of
               (Inl e, _) \<Rightarrow> (Inl e, s)
             | (Inr t, tls) \<Rightarrow> (case ce_reach ce t tls of Some e \<Rightarrow> (Inl e, s) | None \<Rightarrow> unary_call env r s)))"

text \<open>One command line; \<open>None\<close> when it is not a unary request.\<close>

definition run_command ::
  "client_env \<Rightarrow> svc_env \<Rightarrow> string list \<Rightarrow> agent_state \<Rightarrow> (response result \<times> agent_state) option" where
  "run_command ce env args s =
     (if args = [] then None
      else (case NewClient (ce_ca_ok ce) (ce_keypair ce) (Some (ce_store ce)) (args ! 0) of
              Inl e \<Rightarrow> Some (Inl e, s)
            | Inr c \<Rightarrow>
                (case client_request (ce_netlink ce) (client_main args) of
                   None \<Rightarrow> None
                 | Some (Inl e) \<Rightarrow> Some (Inl e, s)
                 | Some (Inr req) \<Rightarrow> Some (client_executeGRPC ce env c req s))))"

fun run_session :: "client_env \<Rightarrow> svc_env \<Rightarrow> string list list \<Rightarrow> agent_state \<Rightarrow> agent_state option" where
  "run_session ce env [] s = Some s"
| "run_session ce env (c # cs) s =
     (case run_command ce env c s of None \<Rightarrow> None | Some (_, s1) \<Rightarrow> run_session ce env cs s1)"

section \<open>Lemmas\<close>

lemma client_request_unfreeze:
  "client_request nl c = Some (Inr (Inr FsUnfreeze)) \<longleftrightarrow> c = UnfreezeAll"
  by (cases c) (auto simp: client_ShowRouteList_def client_ShowInterfaces_def client_UpdateInterfaceAddrList_def
      client_UpdateInterfaceLinkState_def client_UpdateRouteTable_def client_SyncAll_def client_FreezeAll_def
      client_UnfreezeAll_def client_ShowFileMD5Hash_def client_CreateDir_def client_SetFileMode_def
      client_SetFileOwner_def client_ShowFileStat_def client_ShowAgentInfo_def client_ShutdownAgent_def
      client_ShowGuestInfo_def stat_request_def split: sum.splits)

text \<open>A command either does not reach the agent, or is exactly one call of it.\<close>

lemma run_command_cases:
  assumes "run_command ce env args s = Some (r, s')"
  shows "s' = s \<and> (\<exists>e. r = Inl e) \<or>
    (\<exists>q. client_request (ce_netlink ce) (client_main args) = Some (Inr (Inr q)) \<and> (r, s') = unary_call env q s)"
  using assms
  by (auto simp: run_command_def client_executeGRPC_def ExecuteGRPC_def prod.case_eq_if
      split: if_splits sum.splits option.splits)

text \<open>An agent that is reachable gets the request of a command.\<close>

definition reachable :: "client_env \<Rightarrow> string \<Rightarrow> bool" where
  "reachable ce ep \<longleftrightarrow>
     (case NewClient (ce_ca_ok ce) (ce_keypair ce) (Some (ce_store ce)) ep of
        Inl _ \<Rightarrow> False
      | Inr c \<Rightarrow>
          (case newConnection ep (Some (snd c)) of
             Inr (Inr t, tls) \<Rightarrow> ce_reach ce t tls = None | _ \<Rightarrow> False))"

lemma run_command_reaches:
  assumes "reachable ce ep" "client_request (ce_netlink ce) (client_main (ep # w)) = Some (Inr (Inr q))"
  shows "run_command ce env (ep # w) s = Some (unary_call env q s)"
  using assms
  by (auto simp: reachable_def run_command_def client_executeGRPC_def ExecuteGRPC_def NewClient_def
      split: sum.splits prod.splits option.splits)

lemma freeze_commands:
  "client_main [ep, ''fs-freeze''] = FreezeAll" "client_main [ep, ''fs-unfreeze''] = UnfreezeAll"
proof -
  have "dispatch_variable [''fs-freeze''] = FreezeAll" "dispatch_variable [''fs-unfreeze''] = UnfreezeAll" by code_simp+
  then show "client_main [ep, ''fs-freeze''] = FreezeAll" "client_main [ep, ''fs-unfreeze''] = UnfreezeAll"
    by (simp_all add: client_main_def ExecuteCommand_def)
qed

text \<open>Command lines are a lock gate too: they reach the agent only as calls.\<close>

definition session_step :: "client_env \<Rightarrow> svc_env \<Rightarrow> agent_state \<Rightarrow> string list \<Rightarrow> agent_state" where
  "session_step ce env s c = (case run_command ce env c s of None \<Rightarrow> s | Some (_, s1) \<Rightarrow> s1)"

interpretation locked_commands: lock_gate "session_step ce env" "\<lambda>s. IsLocked (as_srv s)"
  "\<lambda>s. (as_srv s, as_world s)" "\<lambda>c. client_main c = UnfreezeAll" for ce env
proof unfold_locales
  fix s :: agent_state and c assume l: "IsLocked (as_srv s)" and n: "client_main c \<noteq> UnfreezeAll"
  show "(as_srv (session_step ce env s c), as_world (session_step ce env s c)) = (as_srv s, as_world s) \<and>
      IsLocked (as_srv (session_step ce env s c))"
  proof (cases "run_command ce env c s")
    case (Some x)
    obtain r s1 where x: "x = (r, s1)" by (cases x)
    have "as_srv s1 = as_srv s \<and> as_world s1 = as_world s"
      using run_command_cases[of ce env c s r s1] Some x locked_step[OF l, of _ env] n client_request_unfreeze
      by (metis snd_conv)
    then show ?thesis using Some x l by (simp add: session_step_def)
  qed (use l in \<open>simp add: session_step_def\<close>)
qed

lemma run_session_steps: "run_session ce env cs s = Some s' \<Longrightarrow> s' = foldl (session_step ce env) s cs"
  by (induction cs arbitrary: s) (auto simp: session_step_def split: option.splits)

lemma locked_session:
  assumes "run_session ce env cs s = Some s'" "\<forall>c \<in> set cs. client_main c \<noteq> UnfreezeAll" "IsLocked (as_srv s)"
  shows "as_srv s' = as_srv s \<and> as_world s' = as_world s"
  using locked_commands.until_release[of s cs ce env] run_session_steps[OF assms(1)] assms(2,3) by auto

text \<open>Freeze and unfreeze as calls of the agent.\<close>

lemma unary_freeze:
  assumes "\<not> IsLocked (as_srv s)" "FreezeFileSystems (as_srv s, as_world s) = (r, srv, w)"
  shows "snd (unary_call env FsFreeze s) = s\<lparr>as_srv := srv, as_world := w\<rparr>"
  using assms
  by (simp add: unary_call_unfold PreHandler_unlocked MapErrors_def handler_defs on_core_def)

lemma unary_unfreeze:
  assumes "UnfreezeFileSystems (as_srv s, as_world s) = (r, srv, w)"
  shows "snd (unary_call env FsUnfreeze s) = s\<lparr>as_srv := srv, as_world := w\<rparr>"
proof -
  have "PreHandler FsUnfreeze h s = h s" for h
    by (cases "IsLocked (as_srv s)") (simp_all add: PreHandler_locked PreHandler_unlocked gated_def)
  then show ?thesis using assms by (simp add: unary_call_unfold MapErrors_def handler_defs on_core_def)
qed

section \<open>Properties\<close>

text \<open>C1. A snapshot session, from the command line to the kernel and back: on a guest whose mount table
  can be read and whose mount points can be opened and thawed, a freeze command, any sequence of
  further unary commands without an unfreeze, and an unfreeze command leave the files and the
  frozen set as they were and the agent unlocked, whether or not the freeze itself succeeded.\<close>

theorem snapshot_session:
  assumes "reachable ce ep" and "\<not> IsLocked (as_srv s)"
    and "GetMountPoints (as_world s) = Inr mm" "frozen (as_world s) = {}"
    and "\<forall>m \<in> set mm. ok (os_Open (as_world s) (FSFile m)) \<and> fault (as_world s) ''fithaw'' (FSFile m) = None"
    and "\<forall>c \<in> set cs. client_main c \<noteq> UnfreezeAll"
    and "run_session ce env ([ep, ''fs-freeze''] # cs) s = Some s1"
  shows "IsLocked (as_srv s1) \<and>
    (\<exists>s2. run_session ce env [[ep, ''fs-unfreeze'']] s1 = Some s2 \<and> as_world s2 = as_world s \<and> as_srv s2 = as_srv s)"
proof -
  obtain r srv w where f: "FreezeFileSystems (as_srv s, as_world s) = (r, srv, w)" by (metis prod_cases3)
  have l: "srv = (as_srv s)\<lparr>locked := True\<rparr>"
    using f assms(3) by (auto simp: FreezeFileSystems_def lock_def split: prod.splits option.splits)
  let ?s0 = "s\<lparr>as_srv := srv, as_world := w\<rparr>"
  have "run_session ce env cs ?s0 = Some s1"
    using assms(7) run_command_reaches[OF assms(1), of "[''fs-freeze'']" FsFreeze env s] unary_freeze[OF assms(2) f, of env]
    by (auto simp: freeze_commands client_FreezeAll_def prod.case_eq_if)
  then have s1: "as_srv s1 = srv" "as_world s1 = w"
    using locked_session[of ce env cs ?s0 s1] assms(6) l by (auto simp: IsLocked_def)
  have u: "UnfreezeFileSystems (as_srv s1, as_world s1) = (Inr (), (as_srv s)\<lparr>locked := False\<rparr>, as_world s)"
    using Freeze_Unfreeze_restores[OF assms(3-5) f] s1 by simp
  have "(as_srv s)\<lparr>locked := False\<rparr> = as_srv s" using assms(2) by (simp add: IsLocked_def)
  then show ?thesis
    using run_command_reaches[OF assms(1), of "[''fs-unfreeze'']" FsUnfreeze env s1] unary_unfreeze[OF u, of env] s1 l
    by (auto simp: freeze_commands client_UnfreezeAll_def IsLocked_def prod.case_eq_if)
qed

definition demo_client :: client_env where
  "demo_client = \<lparr>ce_ca_ok = (\<lambda>_. True), ce_keypair = (\<lambda>_ _. None), ce_store = demo_store, ce_netlink = demo_nl,
     ce_reach = (\<lambda>_ _. None)\<rparr>"

definition demo_guest :: agent_state where
  "demo_guest = \<lparr>as_srv = idle_server, as_world = root_world, as_net = [], as_sigterm = False\<rparr>"

definition demo_svc :: svc_env where
  "demo_svc = \<lparr>sv_md5 = id, sv_netlink = demo_nl\<rparr>"

theorem snapshot_session_witness:
  "\<exists>s1 s2. run_session demo_client demo_svc [[''cid:3'', ''fs-freeze''], [''cid:3'', ''mkdir'', ''/x'']] demo_guest = Some s1 \<and>
     IsLocked (as_srv s1) \<and> run_session demo_client demo_svc [[''cid:3'', ''fs-unfreeze'']] s1 = Some s2 \<and>
     as_world s2 = root_world"
proof -
  have re: "reachable demo_client ''cid:3''" by code_simp
  have m: "client_main [''cid:3'', ''mkdir'', ''/x''] = MakeDir ''/x'' ''0755''" by code_simp
  have q: "client_request demo_nl (MakeDir ''/x'' ''0755'') = Some (Inr (Inr (FsCreateDir ''/x'' 0x1ED)))" by code_simp
  obtain s1 where s1: "run_session demo_client demo_svc [[''cid:3'', ''fs-freeze''], [''cid:3'', ''mkdir'', ''/x'']] demo_guest = Some s1"
    using run_command_reaches[OF re, of "[''fs-freeze'']" FsFreeze demo_svc] m q
      run_command_reaches[OF re, of "[''mkdir'', ''/x'']" "FsCreateDir ''/x'' 0x1ED" demo_svc]
    by (auto simp: freeze_commands client_FreezeAll_def demo_client_def prod.case_eq_if)
  have un: "\<not> IsLocked (as_srv demo_guest)" by code_simp
  show ?thesis
    using snapshot_session[OF re un _ _ _ _ s1] s1 m root_world_mounts
    by (auto simp: demo_guest_def root_world_fields root_world_open)
qed

end
