(* ===== verification/Agent_Inv.thy ===== *)
theory Agent_Inv
  imports Services
begin

text \<open>
  The invariant of the whole agent between its requests: whatever unary calls arrive and however
  the statistics are polled, a file system is frozen only while the agent is locked, only file
  systems of the mount table are, and the umask of the process is the one it was started with.
  (Uploads are left out: they pass the lock, see \<open>Services\<close>, and could replace any file.)
\<close>

section \<open>The invariant\<close>

definition mount_sbs :: "world \<Rightarrow> string set" where
  "mount_sbs w = (case GetMountPoints w of Inl _ \<Rightarrow> {} | Inr mm \<Rightarrow> (\<lambda>m. sb_of w (FSFile m)) ` set mm)"

definition frozen_ok :: "bool \<Rightarrow> world \<Rightarrow> bool" where
  "frozen_ok lckd w \<longleftrightarrow> (if lckd then frozen w \<subseteq> mount_sbs w else frozen w = {})"

definition agent_ok :: "32 word \<Rightarrow> agent_state \<Rightarrow> bool" where
  "agent_ok msk s \<longleftrightarrow>
     umask (as_world s) = msk \<and> (\<forall>p. fault (as_world s) ''fithaw'' p \<noteq> Some EINVAL) \<and>
     frozen_ok (locked (as_srv s)) (as_world s)"

lemma mount_sbs_same: "same_files w w' \<Longrightarrow> mount_sbs w' = mount_sbs w"
  using same_files_fields[of w w'] by (simp add: mount_sbs_def GetMountPoints_same split: sum.split)

section \<open>Calls on files\<close>

text \<open>What every operation on files keeps.\<close>

definition kept :: "world \<Rightarrow> world \<Rightarrow> bool" where
  "kept w w' \<longleftrightarrow> umask w' = umask w \<and> frozen w' = frozen w \<and> fault w' = fault w"

lemma kept_refl [simp]: "kept w w"
  by (simp add: kept_def)

lemma kept_with_umask0:
  assumes "\<And>w. kept w (snd (f w))"
  shows "kept w (snd (with_umask0 f w))"
  using assms[of "w\<lparr>umask := 0\<rparr>"] by (simp add: with_umask0_def set_umask_def kept_def prod.case_eq_if)

lemma kept_on_node: "kept w (snd (on_node op p f w))"
  using on_node_frame[of op p f w] by (cases "on_node op p f w") (simp add: kept_def)

lemma kept_MkdirAll: "kept w (snd (os_MkdirAll p m w))"
  using os_MkdirAll_frame[of p m w] by (cases "os_MkdirAll p m w") (simp add: kept_def made_dirs_def extends_def)

lemma kept_ops:
  "kept w (snd (SetFileOwner p u g w))" "kept w (snd (SetFileMode p m w))" "kept w (snd (CreateDir p m w))"
  "kept w (snd (SyncFileSystems w))"
  by (auto simp: SetFileOwner_def SetFileMode_def CreateDir_def SyncFileSystems_def os_Chown_def os_Chmod_def
      kept_on_node kept_MkdirAll intro!: kept_with_umask0 split: sum.splits prod.splits)

lemma ok_on_world:
  assumes "agent_ok msk s" "\<not> locked (as_srv s)" "\<And>w. kept w (snd (f w))"
  shows "agent_ok msk (snd (on_world f s))"
  using assms(1,2) assms(3)[of "as_world s"]
  by (simp add: agent_ok_def on_world_def kept_def frozen_ok_def prod.case_eq_if)

section \<open>Freezing and thawing\<close>

lemma Freeze_frozen_ok:
  assumes "FreezeFileSystems (s, w) = (r, s', w')" "frozen w = {}" "\<not> locked s"
  shows "same_files w w' \<and> frozen_ok (locked s') w'"
proof (cases "GetMountPoints w")
  case (Inl e)
  then show ?thesis using assms by (auto simp: FreezeFileSystems_def frozen_ok_def)
next
  case (Inr mm)
  then obtain e where l: "each_mount freeze mm w = (e, w')" and s': "locked s'"
    using assms(1) by (auto simp: FreezeFileSystems_def lock_def split: prod.splits option.splits)
  note f = freeze_loop[OF l]
  moreover have "mount_sbs w = (\<lambda>m. sb_of w (FSFile m)) ` set mm" using Inr by (simp add: mount_sbs_def)
  ultimately show ?thesis using s' assms(2) mount_sbs_same by (auto simp: frozen_ok_def)
qed

lemma Unfreeze_frozen_ok:
  assumes "UnfreezeFileSystems (s, w) = (r, s', w')" "frozen_ok (locked s) w"
    "\<forall>p. fault w ''fithaw'' p \<noteq> Some EINVAL"
  shows "same_files w w' \<and> frozen_ok (locked s') w'"
proof (cases "GetMountPoints w")
  case (Inl e)
  then show ?thesis using assms by (auto simp: UnfreezeFileSystems_def)
next
  case (Inr mm)
  obtain e w1 where l: "each_mount unfreeze mm w = (e, w1)" by fastforce
  then have w': "w' = w1" "locked s' = (e \<noteq> None \<and> locked s)"
    using assms(1) Inr by (auto simp: UnfreezeFileSystems_def unlock_def split: option.splits)
  note u = unfreeze_loop[OF l]
  have sbs: "mount_sbs w = (\<lambda>m. sb_of w (FSFile m)) ` set mm" using Inr by (simp add: mount_sbs_def)
  have m: "mount_sbs w1 = mount_sbs w" using u mount_sbs_same by blast
  have sub: "frozen w \<subseteq> mount_sbs w" using assms(2) by (auto simp: frozen_ok_def split: if_splits)
  have "frozen w1 = {}" if "e = None" using that u sub sbs assms(3) by fastforce
  moreover have "frozen w1 = {}" if "\<not> locked s" using that u assms(2) by (auto simp: frozen_ok_def)
  moreover have "frozen w1 \<subseteq> mount_sbs w1" using u sub m by blast
  ultimately show ?thesis using u w' by (auto simp: frozen_ok_def)
qed

lemma ok_on_core:
  assumes "agent_ok msk s"
    and "\<And>r srv w. f (as_srv s, as_world s) = (r, srv, w) \<Longrightarrow> same_files (as_world s) w \<and> frozen_ok (locked srv) w"
  shows "agent_ok msk (snd (on_core f s))"
proof -
  obtain r srv w where f: "f (as_srv s, as_world s) = (r, srv, w)" by (metis prod_cases3)
  then show ?thesis using assms(1) assms(2)[OF f] same_files_fields[of "as_world s" w] by (simp add: agent_ok_def on_core_def)
qed

section \<open>Events\<close>

lemma ok_rpc_handler:
  assumes "agent_ok msk s" "\<not> locked (as_srv s) \<or> \<not> gated r"
  shows "agent_ok msk (snd (rpc_handler env r s))"
proof (cases "\<not> gated r \<and> r \<noteq> FsUnfreeze")
  case True
  then show ?thesis using assms ungated_keeps[of r env s] by (simp add: agent_ok_def)
next
  case False
  have u: "agent_ok msk (snd (on_core UnfreezeFileSystems s))"
    using assms(1) Unfreeze_frozen_ok by (intro ok_on_core) (auto simp: agent_ok_def)
  have f: "agent_ok msk (snd (on_core FreezeFileSystems s))" if "\<not> locked (as_srv s)"
    using assms(1) that Freeze_frozen_ok by (intro ok_on_core) (auto simp: agent_ok_def frozen_ok_def)
  have w: "agent_ok msk (snd (on_world g s))" if "\<not> locked (as_srv s)" "\<And>w. kept w (snd (g w))" for g
    using ok_on_world[OF assms(1) that] .
  show ?thesis
  proof (cases "r = FsUnfreeze")
    case True
    then show ?thesis using u by (simp add: handler_defs)
  next
    case False
    then have g: "gated r" and n: "\<not> locked (as_srv s)"
      using assms(2) \<open>\<not> (\<not> gated r \<and> r \<noteq> FsUnfreeze)\<close> by blast+
    show ?thesis
      using assms(1) f[OF n] w[OF n] g
      by (cases r) (auto simp: gated_def handler_defs kept_ops agent_ok_def[of _ "s\<lparr>as_sigterm := True\<rparr>"] agent_ok_def[of _ s])
  qed
qed

lemma ok_unary_call:
  assumes "agent_ok msk s"
  shows "agent_ok msk (snd (unary_call env r s))"
proof (cases "locked (as_srv s) \<and> gated r")
  case True
  then show ?thesis using assms by (simp add: unary_call_unfold PreHandler_locked IsLocked_def)
next
  case False
  then have "snd (unary_call env r s) = snd (rpc_handler env r s)"
    by (cases "locked (as_srv s)")
      (auto simp: unary_call_unfold PreHandler_locked PreHandler_unlocked IsLocked_def MapErrors_def split: prod.splits sum.splits)
  then show ?thesis using ok_rpc_handler[OF assms] False by simp
qed

text \<open>An event of the agent: a unary call, or a start, tick or end of the poller.\<close>

datatype agent_event = Call rpc | Poll poll_event

definition agent_event_step :: "svc_env \<Rightarrow> agent_state \<Rightarrow> agent_event \<Rightarrow> agent_state" where
  "agent_event_step env s e =
     (case e of
        Call r \<Rightarrow> snd (unary_call env r s)
      | Poll t \<Rightarrow> s\<lparr>as_srv := (as_srv s)\<lparr>poller := poller_step (poller (as_srv s)) t\<rparr>\<rparr>)"

interpretation agent_events: step_invariant "agent_event_step env" "agent_ok msk" for env msk
proof unfold_locales
  fix s e assume "agent_ok msk s"
  then show "agent_ok msk (agent_event_step env s e)"
    by (cases e) (simp_all add: agent_event_step_def ok_unary_call, simp add: agent_ok_def)
qed

lemma unfreeze_recovers:
  assumes "agent_ok msk s" "GetMountPoints (as_world s) = Inr mm"
    and "\<And>m. m \<in> set mm \<Longrightarrow> ok (os_Open (as_world s) (FSFile m)) \<and> fault (as_world s) ''fithaw'' (FSFile m) = None"
  shows "\<not> locked (as_srv (snd (unary_call env FsUnfreeze s))) \<and> frozen (as_world (snd (unary_call env FsUnfreeze s))) = {}"
proof -
  obtain w' where "each_mount unfreeze mm (as_world s) = (None, w')"
    using unfreeze_loop_succeeds[of mm "as_world s"] assms(3) by blast
  then have "UnfreezeFileSystems (as_srv s, as_world s) = (Inr (), unlock (as_srv s), w')"
    using assms(2) by (simp add: UnfreezeFileSystems_def)
  then have "as_srv (snd (unary_call env FsUnfreeze s)) = unlock (as_srv s)"
    by (cases "locked (as_srv s)")
      (simp_all add: unary_call_unfold PreHandler_locked PreHandler_unlocked IsLocked_def gated_def MapErrors_def
        fs_Unfreeze_def on_core_def)
  moreover have "agent_ok msk (snd (unary_call env FsUnfreeze s))" by (rule ok_unary_call[OF assms(1)])
  ultimately show ?thesis by (simp add: agent_ok_def frozen_ok_def unlock_def)
qed

section \<open>Properties\<close>

text \<open>C15. No file system stays frozen behind the lock's back: from an unlocked agent with nothing frozen, in
  every sequence of unary calls and poller events, failing ones included, the umask of the process
  is unchanged, and whenever some file system is frozen the agent is locked, refuses every further
  call on files, and the frozen file systems are among those of the mount table; so from every
  reachable state one unfreeze, if the mount points can be opened and thawed, thaws all of them and
  clears the lock. (The kernel is assumed not to answer a thaw with EINVAL for another reason than
  that the file system is not frozen: the code takes it for success.)\<close>

theorem frozen_implies_locked:
  assumes "\<not> locked (as_srv s)" "frozen (as_world s) = {}" "\<forall>p. fault (as_world s) ''fithaw'' p \<noteq> Some EINVAL"
  shows "let s' = foldl (agent_event_step env) s es; w' = as_world s' in
    umask w' = umask (as_world s) \<and>
    (frozen w' \<noteq> {} \<longrightarrow>
       locked (as_srv s') \<and> frozen w' \<subseteq> mount_sbs w' \<and>
       (\<forall>r. gated r \<longrightarrow> as_world (snd (unary_call env r s')) = w' \<and> \<not> ok (fst (unary_call env r s')))) \<and>
    (\<forall>mm. GetMountPoints w' = Inr mm \<longrightarrow>
       (\<forall>m \<in> set mm. ok (os_Open w' (FSFile m)) \<and> fault w' ''fithaw'' (FSFile m) = None) \<longrightarrow>
       frozen (as_world (snd (unary_call env FsUnfreeze s'))) = {} \<and>
       \<not> locked (as_srv (snd (unary_call env FsUnfreeze s'))))"
proof -
  let ?s = "foldl (agent_event_step env) s es"
  have "agent_ok (umask (as_world s)) s" using assms by (simp add: agent_ok_def frozen_ok_def)
  from agent_events.run_inv[OF this] have i: "agent_ok (umask (as_world s)) ?s" .
  have "as_world (snd (unary_call env r ?s)) = as_world ?s \<and> \<not> ok (fst (unary_call env r ?s))"
    if "gated r" "locked (as_srv ?s)" for r
    using that by (simp add: unary_call_unfold PreHandler_locked IsLocked_def)
  then show ?thesis
    using i unfreeze_recovers[OF i, of _ env] unfolding Let_def agent_ok_def frozen_ok_def by (auto split: if_splits)
qed

definition frozen_demo :: agent_state where
  "frozen_demo = \<lparr>as_srv = idle_server, as_world = root_world, as_net = [], as_sigterm = False\<rparr>"

theorem frozen_implies_locked_witness:
  "locked (as_srv (foldl (agent_event_step \<lparr>sv_md5 = id, sv_netlink = demo_nl\<rparr>) frozen_demo [Call FsSync, Call FsFreeze]))"
proof -
  let ?env = "\<lparr>sv_md5 = id, sv_netlink = demo_nl\<rparr>"
  have n: "\<not> locked idle_server" by code_simp
  then have "as_world (foldl (agent_event_step ?env) frozen_demo [Call FsSync, Call FsFreeze]) = root_world\<lparr>frozen := {''/''}\<rparr>"
    by (simp add: agent_event_step_def frozen_demo_def unary_call_unfold PreHandler_unlocked IsLocked_def MapErrors_def
        handler_defs on_core_def on_world_def SyncFileSystems_def root_world_freeze)
  then show ?thesis
    using frozen_implies_locked[of frozen_demo ?env "[Call FsSync, Call FsFreeze]"] n
    by (simp add: frozen_demo_def root_world_fields Let_def)
qed

end
