(* ===== verification/Agent_Run.thy ===== *)
theory Agent_Run
  imports Transport Agent_Version
begin

text \<open>
  The life of the agent process: the command line of \<open>cmd/agent/main.go\<close> and the goroutines of
  \<open>ListenAndServe\<close> (\<open>cmd/agent/agent_server.go\<close>): the one that feeds the listeners, one \<open>Serve\<close> per
  listener in an error group, the one that stops gRPC when the context ends, the signal handler, and
  the function itself. Their interleavings are the step relation \<open>run_step\<close>. Of gRPC it uses what
  its documentation says: \<open>Serve\<close> may fail at any time, and returns without an error only once a
  stop has begun. Of the error group: the first error cancels the context and is what \<open>Wait\<close> returns.
\<close>

section \<open>The command line\<close>

record agent_flags =
  fl_without_ssh :: bool
  fl_without_tcp :: bool
  fl_legacy :: bool
  fl_path :: string
  fl_cert_dir :: string

text \<open>The \<open>Agent\<close> value that \<open>runAgent\<close> builds, on a guest whose devices and rounds are those of the
  environment.\<close>

definition agent_of_flags :: "agent_flags \<Rightarrow> agent_env \<Rightarrow> agent_env" where
  "agent_of_flags f env =
     env\<lparr>ae_LegacyMode := fl_legacy f, ae_WithoutTCP := fl_without_tcp f, ae_SerialPort := fl_path f\<rparr>"

definition serve_command ::
  "(string \<Rightarrow> bool) \<Rightarrow> (string \<Rightarrow> string \<Rightarrow> error option) \<Rightarrow> world \<Rightarrow> cert_store \<Rightarrow> agent_flags \<Rightarrow> agent_env \<Rightarrow>
   (agent_listener \<times> tls_config list) list result" where
  "serve_command ca_ok kp w embedded f env =
     runAgent ca_ok kp w embedded (fl_cert_dir f) (agent_of_flags f env)"

definition version_line :: "string \<Rightarrow> string" where
  "version_line runtime_version =
     ''v'' @ version_string AgentVersion @ '', (built '' @ runtime_version @ '')'' @ [CHR 0x0A]"

text \<open>\<open>LoadVSockModule\<close>: the caller only logs its error.\<close>

definition LoadVSockModule :: "(string list \<Rightarrow> error option) \<Rightarrow> error option" where
  "LoadVSockModule command =
     (case command [''modprobe'', ''vmw_vsock_virtio_transport''] of
        Some e \<Rightarrow> Some (Fmt ''could not load vsock module: modprobe failed with '' e)
      | None \<Rightarrow> None)"

section \<open>Goroutines\<close>

datatype server_state = Running | Ended | Failed error
datatype stop_state = NotStopped | Stopping | IdleClosed
datatype main_state = Ranging | AwaitIdle | GroupWait | Returned "error option"

record run =
  r_ctx_done :: bool
  r_feed :: "agent_listener list"
  r_served :: "(agent_listener \<times> server_state) list"
  r_group_err :: "error option"
  r_stop :: stop_state
  r_main :: main_state

definition run_init :: "agent_listener list \<Rightarrow> run" where
  "run_init ls =
     \<lparr>r_ctx_done = False, r_feed = ls, r_served = [], r_group_err = None, r_stop = NotStopped, r_main = Ranging\<rparr>"

definition set_served :: "nat \<Rightarrow> server_state \<Rightarrow> run \<Rightarrow> run" where
  "set_served i st m = m\<lparr>r_served := (r_served m)[i := (fst (r_served m ! i), st)]\<rparr>"

definition group_fail :: "error \<Rightarrow> run \<Rightarrow> run" where
  "group_fail e m =
     (if r_group_err m = None then m\<lparr>r_group_err := Some e, r_ctx_done := True\<rparr> else m)"

definition is_running :: "run \<Rightarrow> nat \<Rightarrow> bool" where
  "is_running m i \<longleftrightarrow> i < length (r_served m) \<and> snd (r_served m ! i) = Running"

text \<open>The steps: a signal; a listener taken from the channel by the ranging loop, which starts \<open>Serve\<close> for
  it; the feeder giving up in its \<open>select\<close>, possible only after the main listener was delivered; the
  channel closed; \<open>Serve\<close> failing, or ending after a stop; the stopping goroutine; and the rest of
  \<open>ListenAndServe\<close>.\<close>

inductive run_step :: "run \<Rightarrow> run \<Rightarrow> bool" where
  Signal: "run_step m (m\<lparr>r_ctx_done := True\<rparr>)"
| Feed: "r_main m = Ranging \<Longrightarrow> r_feed m = l # ls \<Longrightarrow>
    run_step m (m\<lparr>r_feed := ls, r_served := r_served m @ [(l, Running)]\<rparr>)"
| FeedCancel: "r_ctx_done m \<Longrightarrow> r_served m \<noteq> [] \<Longrightarrow> run_step m (m\<lparr>r_feed := []\<rparr>)"
| FeedClosed: "r_main m = Ranging \<Longrightarrow> r_feed m = [] \<Longrightarrow> run_step m (m\<lparr>r_main := AwaitIdle\<rparr>)"
| ServeFails: "is_running m i \<Longrightarrow> run_step m (group_fail e (set_served i (Failed e) m))"
| ServeEnds: "is_running m i \<Longrightarrow> r_stop m \<noteq> NotStopped \<Longrightarrow> run_step m (set_served i Ended m)"
| StopBegins: "r_ctx_done m \<Longrightarrow> r_stop m = NotStopped \<Longrightarrow> run_step m (m\<lparr>r_stop := Stopping\<rparr>)"
| StopDone: "r_stop m = Stopping \<Longrightarrow> run_step m (m\<lparr>r_stop := IdleClosed\<rparr>)"
| IdleSeen: "r_main m = AwaitIdle \<Longrightarrow> r_stop m = IdleClosed \<Longrightarrow> run_step m (m\<lparr>r_main := GroupWait\<rparr>)"
| WaitReturns: "r_main m = GroupWait \<Longrightarrow> \<forall>i. \<not> is_running m i \<Longrightarrow>
    run_step m (m\<lparr>r_main := Returned (r_group_err m)\<rparr>)"

section \<open>Invariant\<close>

text \<open>The stop begins only after the context ended; \<open>ListenAndServe\<close> is past the idle channel only
  after it was closed; the group's error is one of a failed \<open>Serve\<close>, which also ended the context; and
  when the function has returned, no \<open>Serve\<close> runs.\<close>

definition run_ok :: "run \<Rightarrow> bool" where
  "run_ok m \<longleftrightarrow>
     (r_stop m \<noteq> NotStopped \<longrightarrow> r_ctx_done m) \<and>
     (r_main m \<notin> {Ranging, AwaitIdle} \<longrightarrow> r_stop m = IdleClosed) \<and>
     (r_main m \<noteq> Ranging \<longrightarrow> r_feed m = []) \<and>
     (r_group_err m \<noteq> None \<longleftrightarrow> (\<exists>l e. (l, Failed e) \<in> set (r_served m))) \<and>
     (\<forall>e. r_group_err m = Some e \<longrightarrow> r_ctx_done m \<and> (\<exists>l. (l, Failed e) \<in> set (r_served m))) \<and>
     (\<forall>r. r_main m = Returned r \<longrightarrow> r = r_group_err m \<and> (\<forall>i. \<not> is_running m i))"

lemma run_init_inv: "run_ok (run_init ls)"
  by (simp add: run_ok_def run_init_def is_running_def)

lemma failed_set_served:
  assumes "is_running m i"
  shows "(l, Failed e) \<in> set (r_served (set_served i st m)) \<longleftrightarrow>
    (l, Failed e) \<in> set (r_served m) \<or> st = Failed e \<and> l = fst (r_served m ! i)"
  using assms
  by (auto simp: set_served_def is_running_def in_set_conv_nth nth_list_update split: if_splits)
    (metis nth_list_update_neq nth_list_update_eq snd_conv server_state.distinct(3) length_list_update)+

lemma not_running_set_served:
  "st \<noteq> Running \<Longrightarrow> is_running (set_served i st m) j \<longleftrightarrow> is_running m j \<and> (j \<noteq> i)"
  by (cases "i = j") (auto simp: set_served_def is_running_def)

lemma set_served_simps [simp]:
  "r_ctx_done (set_served i st m) = r_ctx_done m" "r_feed (set_served i st m) = r_feed m"
  "r_group_err (set_served i st m) = r_group_err m" "r_stop (set_served i st m) = r_stop m"
  "r_main (set_served i st m) = r_main m"
  by (simp_all add: set_served_def)

lemma is_running_cong: "r_served m' = r_served m \<Longrightarrow> is_running m' i = is_running m i"
  by (simp add: is_running_def)

lemma run_step_inv:
  assumes "run_ok m" "run_step m m'"
  shows "run_ok m'"
  using assms(2)
proof (cases rule: run_step.cases)
  case (ServeFails i e)
  then have "r_main m \<noteq> Returned r" for r using assms(1) by (auto simp: run_ok_def)
  then show ?thesis
    using assms(1) ServeFails failed_set_served[OF ServeFails(2), of _ _ "Failed e"]
    by (auto simp: run_ok_def group_fail_def)
next
  case (ServeEnds i)
  then show ?thesis
    using assms(1) failed_set_served[OF ServeEnds(2), of _ _ Ended]
    by (auto simp: run_ok_def not_running_set_served)
qed (use assms(1) in \<open>auto simp: run_ok_def is_running_def\<close>)

interpretation agent_runs: rel_invariant run_step run_ok
  by unfold_locales (rule run_step_inv)

section \<open>Progress\<close>

definition running :: "run \<Rightarrow> nat set" where
  "running m = {i. is_running m i}"

lemma finite_running [simp]: "finite (running m)"
  by (rule finite_subset[of _ "{..<length (r_served m)}"]) (auto simp: running_def is_running_def)

lemma running_Feed:
  "r_served m' = r_served m @ [(l, Running)] \<Longrightarrow> card (running m') = Suc (card (running m))"
proof -
  assume s: "r_served m' = r_served m @ [(l, Running)]"
  then have "running m' = insert (length (r_served m)) (running m)"
    by (auto simp: running_def is_running_def nth_append)
  moreover have "length (r_served m) \<notin> running m" by (simp add: running_def is_running_def)
  ultimately show ?thesis by simp
qed

lemma running_ServeEnds: "is_running m i \<Longrightarrow> card (running (set_served i Ended m)) < card (running m)"
proof -
  assume r: "is_running m i"
  then have "running (set_served i Ended m) = running m - {i}"
    by (auto simp: running_def not_running_set_served)
  moreover have "i \<in> running m" using r by (simp add: running_def)
  ultimately show ?thesis by (metis card_Diff1_less finite_running)
qed

text \<open>How much is left to do before the agent can return.\<close>

definition work :: "run \<Rightarrow> nat" where
  "work m =
     2 * length (r_feed m) + card (running m) +
     (case r_stop m of NotStopped \<Rightarrow> 2 | Stopping \<Rightarrow> 1 | IdleClosed \<Rightarrow> 0) +
     (case r_main m of Ranging \<Rightarrow> 3 | AwaitIdle \<Rightarrow> 2 | GroupWait \<Rightarrow> 1 | Returned _ \<Rightarrow> 0)"

lemma running_cong: "r_served m' = r_served m \<Longrightarrow> running m' = running m"
  by (simp add: running_def is_running_def)

lemma run_progress:
  assumes "run_ok m" "r_ctx_done m" "\<nexists>r. r_main m = Returned r"
  shows "\<exists>m'. run_step m m' \<and> r_ctx_done m' \<and> work m' < work m"
proof (cases "r_main m")
  case Ranging
  show ?thesis
  proof (cases "r_feed m")
    case Nil
    then show ?thesis
      using FeedClosed[OF Ranging Nil] Ranging assms(2) running_cong[of "m\<lparr>r_main := AwaitIdle\<rparr>" m]
      by (intro exI[of _ "m\<lparr>r_main := AwaitIdle\<rparr>"]) (simp add: work_def)
  next
    case (Cons l ls)
    let ?m = "m\<lparr>r_feed := ls, r_served := r_served m @ [(l, Running)]\<rparr>"
    show ?thesis
      using Feed[OF Ranging Cons] Ranging Cons assms(2) running_Feed[of ?m m l]
      by (intro exI[of _ ?m]) (simp add: work_def)
  qed
next
  case AwaitIdle
  show ?thesis
  proof (cases "r_stop m")
    case NotStopped
    then show ?thesis
      using StopBegins[OF assms(2) NotStopped] AwaitIdle assms(2) running_cong[of "m\<lparr>r_stop := Stopping\<rparr>" m]
      by (intro exI[of _ "m\<lparr>r_stop := Stopping\<rparr>"]) (simp add: work_def)
  next
    case Stopping
    then show ?thesis
      using StopDone[OF Stopping] AwaitIdle assms(2) running_cong[of "m\<lparr>r_stop := IdleClosed\<rparr>" m]
      by (intro exI[of _ "m\<lparr>r_stop := IdleClosed\<rparr>"]) (simp add: work_def)
  next
    case IdleClosed
    then show ?thesis
      using IdleSeen[OF AwaitIdle IdleClosed] AwaitIdle assms(2) running_cong[of "m\<lparr>r_main := GroupWait\<rparr>" m]
      by (intro exI[of _ "m\<lparr>r_main := GroupWait\<rparr>"]) (simp add: work_def)
  qed
next
  case GroupWait
  then have stop: "r_stop m = IdleClosed" using assms(1) by (simp add: run_ok_def)
  show ?thesis
  proof (cases "\<exists>i. is_running m i")
    case True
    then obtain i where i: "is_running m i" by blast
    then show ?thesis
      using ServeEnds[OF i] stop assms(2) running_ServeEnds[OF i]
      by (intro exI[of _ "set_served i Ended m"]) (simp add: work_def)
  next
    case False
    let ?m = "m\<lparr>r_main := Returned (r_group_err m)\<rparr>"
    show ?thesis
      using WaitReturns[OF GroupWait] False GroupWait assms(2) running_cong[of ?m m]
      by (intro exI[of _ ?m]) (simp add: work_def)
  qed
next
  case (Returned r)
  then show ?thesis using assms(3) by blast
qed

lemma run_can_return:
  assumes "run_ok m" "r_ctx_done m"
  shows "\<exists>m' r. run_step\<^sup>*\<^sup>* m m' \<and> r_main m' = Returned r"
  using assms
proof (induction m rule: measure_induct_rule[of work])
  case (less m)
  show ?case
  proof (cases "\<exists>r. r_main m = Returned r")
    case False
    then obtain m1 where m1: "run_step m m1" "r_ctx_done m1" "work m1 < work m"
      using run_progress[OF less.prems] by blast
    then show ?thesis
      using less.IH[of m1] run_step_inv[OF less.prems(1)] by (meson converse_rtranclp_into_rtranclp)
  qed blast
qed

section \<open>Properties\<close>

text \<open>C14. Under every interleaving the agent returns only after its context ended (by a signal or a failed
  listener) and gRPC was stopped, with no server running any more and every listener's goroutine
  accounted for; it reports an error exactly when a listener failed, and then the error of one that
  did. Once the context has ended it can always run to its end, and while it has not, the
  agent goes on, even when no listener could be opened at all.\<close>

theorem agent_shutdown:
  assumes "run_step\<^sup>*\<^sup>* (run_init ls) m"
  shows "(\<forall>r. r_main m = Returned r \<longrightarrow>
      r_ctx_done m \<and> r_stop m = IdleClosed \<and> (\<forall>i. \<not> is_running m i) \<and> r = r_group_err m \<and>
      (r = None \<longleftrightarrow> (\<forall>(l, st) \<in> set (r_served m). st = Ended)) \<and>
      (\<forall>e. r = Some e \<longrightarrow> (\<exists>l. (l, Failed e) \<in> set (r_served m)))) \<and>
    (r_ctx_done m \<longrightarrow> (\<exists>m' r. run_step\<^sup>*\<^sup>* m m' \<and> r_main m' = Returned r)) \<and>
    (\<not> r_ctx_done m \<longrightarrow> r_main m = Ranging \<or> r_main m = AwaitIdle)"
proof -
  have i: "run_ok m" using agent_runs.star_inv[OF assms run_init_inv] .
  have "st = Ended" if "\<forall>i. \<not> is_running m i" "r_group_err m = None" "(l, st) \<in> set (r_served m)" for l st
    using that i by (cases st) (auto simp: run_ok_def is_running_def in_set_conv_nth)
  moreover have "r_group_err m = None" if "\<forall>(l, st) \<in> set (r_served m). st = Ended"
    using that i by (fastforce simp: run_ok_def)
  ultimately show ?thesis
    using i run_can_return[OF i] unfolding run_ok_def by (cases "r_main m") auto
qed

text \<open>No listener, then a signal: the agent waits for the signal and returns without an error.\<close>

lemma idle_agent_run: "run_step\<^sup>*\<^sup>* (run_init []) (run_init []\<lparr>r_main := AwaitIdle\<rparr>)"
  by (rule r_into_rtranclp, rule FeedClosed) (simp_all add: run_init_def)

theorem agent_shutdown_witness:
  "(\<exists>m' r. run_step\<^sup>*\<^sup>* (run_init []\<lparr>r_main := AwaitIdle, r_ctx_done := True\<rparr>) m' \<and> r_main m' = Returned r) \<and>
   \<not> r_ctx_done (run_init []\<lparr>r_main := AwaitIdle\<rparr>)"
proof -
  have "run_step\<^sup>*\<^sup>* (run_init []) (run_init []\<lparr>r_main := AwaitIdle, r_ctx_done := True\<rparr>)"
    using idle_agent_run Signal[of "run_init []\<lparr>r_main := AwaitIdle\<rparr>"] by (simp add: rtranclp.rtrancl_into_rtrancl)
  from agent_shutdown[OF this] show ?thesis by (simp add: run_init_def)
qed

end
