(* ===== verification/Service_Registry.thy ===== *)
theory Service_Registry
  imports Services
begin

text \<open>
  How the five services reach the gRPC server (\<open>services/service.go\<close>, the \<open>init\<close>, \<open>Init\<close>, \<open>Name\<close> and
  \<open>RegisterGRPC\<close> functions of \<open>services/*/service.go\<close>, and the registration loop of
  \<open>cmd/agent/agent_server.go\<close>), and the stubs with which a client addresses them
  (\<open>internal/grpc/interfaces/agent.go\<close>, with the literals of the generated \<open>api/services\<close>). The registry
  and the gRPC server are libraries: what the registry holds under the name \<open>pga\<close> when the agent
  starts is an argument, and so is the split of a call's path into service and method.
\<close>

section \<open>Registered services\<close>

text \<open>The \<open>Service\<close> type of a package: which service it implements, and the pointer to the shared
  \<open>ServiceServer\<close>, which is nil until \<open>Init\<close>. The library accepts any type; \<open>Other\<close> is one without an
  \<open>Init\<close> method, with its name.\<close>

record Service =
  sv_package :: service
  sv_ServiceServer :: "nat option"





definition package_name :: "service \<Rightarrow> string" where
  "package_name p =
     (case p of
        SystemService \<Rightarrow> ''system'' | AgentService \<Rightarrow> ''agent'' | FileSystemService \<Rightarrow> ''filesystem''
      | NetworkService \<Rightarrow> ''network'' | SecureShellService \<Rightarrow> ''secure_shell'')"

definition Service_Name :: "Service \<Rightarrow> string" where
  "Service_Name s = ''*'' @ package_name (sv_package s) @ ''.Service''"



section \<open>The gRPC server\<close>

text \<open>The generated service descriptions: the name under which a service is registered, and its unary
  methods.\<close>

definition serviceDesc :: "service \<Rightarrow> string \<times> string list" where
  "serviceDesc p =
     (case p of
        SystemService \<Rightarrow> (''pga.api.services.system.v2.AgentSystemService'', [''GetInfo'', ''ShutdownAgent''])
      | AgentService \<Rightarrow> (''pga.api.services.agent.v2.AgentService'', [''GetInfo''])
      | FileSystemService \<Rightarrow>
          (''pga.api.services.agent.v2.AgentFileSystemService'',
           [''Sync'', ''Freeze'', ''Unfreeze'', ''GetFileMD5Hash'', ''GetFileStat'', ''SetFileOwner'', ''SetFileMode'',
            ''CreateDir''])
      | NetworkService \<Rightarrow>
          (''pga.api.services.agent.v2.AgentNetworkService'',
           [''GetRouteList'', ''AddRoute'', ''DelRoute'', ''GetInterfaces'', ''SetInterfaceLinkUp'',
            ''SetInterfaceLinkDown'', ''AddIPAddr'', ''DelIPAddr''])
      | SecureShellService \<Rightarrow> (''pga.api.services.secure_shell.v2.AgentSecureShellService'', [''GetUserKey'']))"








section \<open>The client's stubs\<close>







section \<open>Lemmas\<close>

lemma serviceDesc_inject [simp]: "fst (serviceDesc p) = fst (serviceDesc q) \<longleftrightarrow> p = q"
  by (cases p; cases q) (simp_all add: serviceDesc_def)

lemma Service_Name_inject: "Service_Name s = Service_Name t \<longleftrightarrow> sv_package s = sv_package t"
  by (cases "sv_package s"; cases "sv_package t") (simp_all add: Service_Name_def package_name_def)

















section \<open>Properties\<close>





end
