(* ===== verification/Umask_Race.thy ===== *)
theory Umask_Race
  imports Core_Server
begin

text \<open>
  \<open>CreateDir\<close> and \<open>SetFileMode\<close> (\<open>core/filesystem.go\<close>) clear the umask of the process and restore it
  with a deferred call, without a lock, while gRPC runs every request in its own goroutine. Here the
  requests interleave at their system calls: \<open>Umask(0)\<close>, each \<open>mkdir\<close> of a directory tree or the
  \<open>chmod\<close>, and \<open>Umask(oldmask)\<close>. The mode of a new directory is that of \<open>Go_Os\<close>.
\<close>

section \<open>Requests that interleave\<close>

datatype mode_request = ReqCreateDir "32 word" | ReqSetFileMode "32 word"

datatype umask_pc = Waiting | Inside "32 word" | Answered

text \<open>\<open>u_made\<close> lists the modes that files were given, with the request that did it and, for a new
  directory, whether its parent has the setgid bit.\<close>

record umask_run =
  u_mask :: "32 word"
  u_pcs :: "umask_pc list"
  u_made :: "(nat \<times> bool \<times> 32 word) list"

definition umask_init :: "32 word \<Rightarrow> nat \<Rightarrow> umask_run" where
  "umask_init m0 n = \<lparr>u_mask = m0, u_pcs = replicate n Waiting, u_made = []\<rparr>"

definition at_pc :: "umask_run \<Rightarrow> nat \<Rightarrow> umask_pc \<Rightarrow> bool" where
  "at_pc s i pc \<longleftrightarrow> i < length (u_pcs s) \<and> u_pcs s ! i = pc"

definition goto_pc :: "nat \<Rightarrow> umask_pc \<Rightarrow> umask_run \<Rightarrow> umask_run" where
  "goto_pc i pc s = s\<lparr>u_pcs := (u_pcs s)[i := pc]\<rparr>"

text \<open>The mode that the body of a request gives to a file under the umask of the moment: \<open>chmod\<close> does not
  look at it.\<close>

fun made_mode :: "mode_request \<Rightarrow> bool \<Rightarrow> 32 word \<Rightarrow> 32 word" where
  "made_mode (ReqCreateDir m) sgid msk = mkdir_mode m sgid msk"
| "made_mode (ReqSetFileMode m) sgid msk = syscall_mode m"

inductive umask_step :: "(nat \<Rightarrow> mode_request) \<Rightarrow> umask_run \<Rightarrow> umask_run \<Rightarrow> bool" for req where
  Enter: "at_pc s i Waiting \<Longrightarrow> umask_step req s (goto_pc i (Inside (u_mask s)) (s\<lparr>u_mask := 0\<rparr>))"
| Make: "at_pc s i (Inside old) \<Longrightarrow>
    umask_step req s (s\<lparr>u_made := u_made s @ [(i, sgid, made_mode (req i) sgid (u_mask s))]\<rparr>)"
| Leave: "at_pc s i (Inside old) \<Longrightarrow> umask_step req s (goto_pc i Answered (s\<lparr>u_mask := old\<rparr>))"

lemma made_mode_new_dir:
  "ino_perm (new_dir w d mode) = made_mode (ReqCreateDir mode) (is_setgid d) (umask w)"
  by (simp add: new_dir_def)

text \<open>A request alone does what the sequential model does: the mode as under umask 0, and the umask as
  before.\<close>

lemma umask_alone:
  assumes "at_pc s i Waiting"
  shows "\<exists>s'. (umask_step req)\<^sup>*\<^sup>* s s' \<and> u_mask s' = u_mask s \<and>
    u_made s' = u_made s @ [(i, sgid, made_mode (req i) sgid 0)] \<and> at_pc s' i Answered"
proof -
  let ?s1 = "goto_pc i (Inside (u_mask s)) (s\<lparr>u_mask := 0\<rparr>)"
  let ?s2 = "?s1\<lparr>u_made := u_made ?s1 @ [(i, sgid, made_mode (req i) sgid (u_mask ?s1))]\<rparr>"
  let ?s3 = "goto_pc i Answered (?s2\<lparr>u_mask := u_mask s\<rparr>)"
  have "umask_step req s ?s1" using assms by (rule Enter)
  moreover have "umask_step req ?s1 ?s2"
    using assms by (intro Make[of _ _ "u_mask s"]) (simp add: at_pc_def goto_pc_def)
  moreover have "umask_step req ?s2 ?s3" using assms by (intro Leave) (simp add: at_pc_def goto_pc_def)
  ultimately have "(umask_step req)\<^sup>*\<^sup>* s ?s3" by (meson converse_rtranclp_into_rtranclp rtranclp.rtrancl_refl)
  then show ?thesis using assms by (intro exI[of _ ?s3]) (simp add: goto_pc_def at_pc_def)
qed

section \<open>Invariant\<close>

definition umask_inv :: "32 word \<Rightarrow> (nat \<Rightarrow> mode_request) \<Rightarrow> umask_run \<Rightarrow> bool" where
  "umask_inv m0 req s \<longleftrightarrow>
     u_mask s \<in> {m0, 0} \<and>
     (\<forall>old. Inside old \<in> set (u_pcs s) \<longrightarrow> old \<in> {m0, 0}) \<and>
     (\<forall>(i, g, p) \<in> set (u_made s). p \<in> {made_mode (req i) g 0, made_mode (req i) g m0})"

lemma goto_pc_set: "pc \<in> set (u_pcs (goto_pc i q s)) \<Longrightarrow> pc = q \<or> pc \<in> set (u_pcs s)"
  using set_update_subset_insert[of "u_pcs s" i q] by (auto simp: goto_pc_def)

lemma goto_pc_fields [simp]:
  "u_mask (goto_pc i q s) = u_mask s" "u_made (goto_pc i q s) = u_made s"
  by (simp_all add: goto_pc_def)

lemma at_pc_set: "at_pc s i pc \<Longrightarrow> pc \<in> set (u_pcs s)"
  by (auto simp: at_pc_def)

lemma umask_step_inv:
  assumes "umask_inv m0 req s" "umask_step req s s'"
  shows "umask_inv m0 req s'"
  using assms(2)
proof (cases rule: umask_step.cases)
  case (Enter i)
  then show ?thesis
    using assms(1) unfolding umask_inv_def Enter(1) by (auto dest!: goto_pc_set)
next
  case (Make i old sgid)
  then show ?thesis using assms(1) unfolding umask_inv_def Make(1) by auto
next
  case (Leave i old)
  then show ?thesis
    using assms(1) at_pc_set[OF Leave(2)] unfolding umask_inv_def Leave(1) by (auto dest!: goto_pc_set)
qed

interpretation umask_runs: rel_invariant "umask_step req" "umask_inv m0 req" for req m0
  by unfold_locales (rule umask_step_inv)

lemma umask_init_inv: "umask_inv m0 req (umask_init m0 n)"
  by (auto simp: umask_inv_def umask_init_def)

section \<open>Two requests at once\<close>

text \<open>Both enter, then the first finishes before the second runs its body.\<close>

definition race_end :: "(nat \<Rightarrow> mode_request) \<Rightarrow> bool \<Rightarrow> 32 word \<Rightarrow> umask_run" where
  "race_end req g m0 =
     \<lparr>u_mask = 0, u_pcs = [Answered, Answered],
      u_made = [(0, g, made_mode (req 0) g 0), (1, g, made_mode (req 1) g m0)]\<rparr>"

lemma race_reached: "(umask_step req)\<^sup>*\<^sup>* (umask_init m0 2) (race_end req g m0)"
proof -
  note defs = at_pc_def goto_pc_def umask_init_def race_end_def numeral_2_eq_2
  let ?a = "\<lparr>u_mask = 0, u_pcs = [Inside m0, Waiting], u_made = []\<rparr>"
  let ?b = "\<lparr>u_mask = 0, u_pcs = [Inside m0, Inside 0], u_made = []\<rparr>"
  let ?c = "\<lparr>u_mask = 0, u_pcs = [Inside m0, Inside 0], u_made = [(0, g, made_mode (req 0) g 0)]\<rparr>"
  let ?d = "\<lparr>u_mask = m0, u_pcs = [Answered, Inside 0], u_made = [(0, g, made_mode (req 0) g 0)]\<rparr>"
  let ?e = "\<lparr>u_mask = m0, u_pcs = [Answered, Inside 0],
      u_made = [(0, g, made_mode (req 0) g 0), (1, g, made_mode (req 1) g m0)]\<rparr>"
  have "umask_step req (umask_init m0 2) ?a" using Enter[of "umask_init m0 2" 0 req] by (simp add: defs)
  moreover have "umask_step req ?a ?b" using Enter[of ?a 1 req] by (simp add: defs)
  moreover have "umask_step req ?b ?c" using Make[of ?b 0 m0 req g] by (simp add: defs)
  moreover have "umask_step req ?c ?d" using Leave[of ?c 0 m0 req] by (simp add: defs)
  moreover have "umask_step req ?d ?e" using Make[of ?d 1 0 req g] by (simp add: defs)
  moreover have "umask_step req ?e (race_end req g m0)" using Leave[of ?e 1 0 req] by (simp add: defs)
  ultimately show ?thesis by (meson converse_rtranclp_into_rtranclp rtranclp.rtrancl_refl)
qed

section \<open>Properties\<close>

text \<open>C21. Requests that change modes race for the umask of the process. Under every interleaving the umask is
  the original one or zero; a file whose mode is set gets exactly that mode; and a new directory gets
  what \<open>mkdir\<close> gives it under umask zero, as it should, or under the original umask, and nothing else.
  The two wrong outcomes do happen, and in one execution: of two requests that create directories
  the second loses the bits of the umask, and when both have been answered the process, and every
  shell it starts later, keeps an umask of zero.\<close>

theorem umask_race:
  "((umask_step req)\<^sup>*\<^sup>* (umask_init m0 n) s \<longrightarrow>
      u_mask s \<in> {m0, 0} \<and>
      (\<forall>(i, sgid, p) \<in> set (u_made s).
         case req i of
           ReqSetFileMode m \<Rightarrow> p = syscall_mode m
         | ReqCreateDir m \<Rightarrow> p = mkdir_mode m sgid 0 \<or> p = mkdir_mode m sgid m0)) \<and>
   (req 1 = ReqCreateDir m1 \<longrightarrow>
      (\<exists>t. (umask_step req)\<^sup>*\<^sup>* (umask_init m0 2) t \<and> u_pcs t = [Answered, Answered] \<and> u_mask t = 0 \<and>
         (1, g, mkdir_mode m1 g m0) \<in> set (u_made t)))"
proof (intro conjI impI)
  assume "(umask_step req)\<^sup>*\<^sup>* (umask_init m0 n) s"
  from umask_runs.star_inv[OF this umask_init_inv] have i: "umask_inv m0 req s" .
  then show "u_mask s \<in> {m0, 0}" by (simp add: umask_inv_def)
  have "case r of ReqSetFileMode m \<Rightarrow> p = syscall_mode m | ReqCreateDir m \<Rightarrow> p = mkdir_mode m b 0 \<or> p = mkdir_mode m b m0"
    if "p \<in> {made_mode r b 0, made_mode r b m0}" for p r b
    using that by (cases r) auto
  then show "\<forall>(i, sgid, p) \<in> set (u_made s). case req i of ReqSetFileMode m \<Rightarrow> p = syscall_mode m
      | ReqCreateDir m \<Rightarrow> p = mkdir_mode m sgid 0 \<or> p = mkdir_mode m sgid m0"
    using i unfolding umask_inv_def by fast
next
  assume "req 1 = ReqCreateDir m1"
  then show "\<exists>t. (umask_step req)\<^sup>*\<^sup>* (umask_init m0 2) t \<and> u_pcs t = [Answered, Answered] \<and> u_mask t = 0 \<and>
      (1, g, mkdir_mode m1 g m0) \<in> set (u_made t)"
    using race_reached[of req m0 g] by (intro exI[of _ "race_end req g m0"]) (simp add: race_end_def)
qed

theorem umask_race_witness:
  "\<exists>t. (umask_step (\<lambda>_. ReqCreateDir 0x1FF))\<^sup>*\<^sup>* (umask_init 0x12 2) t \<and> u_mask t = 0 \<and>
     (1, False, 0x1ED) \<in> set (u_made t)"
  using umask_race[where req = "\<lambda>_. ReqCreateDir 0x1FF" and ?m0.0 = "0x12" and ?m1.0 = "0x1FF" and g = False
      and n = 2 and s = "umask_init 0x12 2"]
  by (auto simp: syscall_mode_def mkdir_mode_def)

end
