(* ===== verification/Client_Usage.thy ===== *)
theory Client_Usage
  imports Client_Cli Agent_Version
begin

text \<open>
  The usage text of the client (\<open>cmd/client/usage.go\<close>) against its dispatcher
  (\<open>cmd/client/command.go\<close>): a grammar whose lines print as the text, the command lines that fit it,
  and the call that each of them makes.
\<close>

definition usageContent :: "string list list" where
  "usageContent =
     [[''version'', ''print version''],
      [''agent-info'', ''print information about the Agent running inside a guest''],
      [''guest-info'', ''print system information and statistics of a guest OS'', ''(uptime, la, mem/swap/disks statistics, logged-in users)''],
      [''secure-shell [-u username] [--shell SHELL] -- [command [argument ...]]'', ''start SSH connection to the built-in PGA Secure Shell Server''],
      [''ip addr show'', ''print summary info about network interfaces''],
      [''ip addr add|del ADDR dev IFNAME'', ''add or remove IPv4/IPv6 address''],
      [''ip link set up|down dev IFNAME'', ''bring interface link up or down''],
      [''ip [-4|-6] route list'', ''print the routing table entries''],
      [''ip route add|del PREFIX via GWADDR dev IFNAME'', ''add or remove route''],
      [''ls [-l] [-d] FILE|DIRECTORY'', ''print file stat or directory content''],
      [''cat FILE'', ''print file content''],
      [''mkdir [-m OCTAL-MODE] DIRECTORY'', ''create new directory''],
      [''chmod OCTAL-MODE FILE|DIRECTORY'', ''change file/directory mode bits''],
      [''chown OWNER:GROUP FILE|DIRECTORY'', ''change file/directory owner and group''],
      [''md5sum FILE'', ''print file md5 checksum''],
      [''rcp guest:SRCFILE DSTFILE'', ''copy file from a guest system''],
      [''rcp SRCFILE|- guest:DSTFILE'', ''copy local file to a guest system''],
      [''fs-sync'', ''sync cached writes to persistent storage''],
      [''fs-freeze'', ''sync and freeze all freezable guest filesystems''],
      [''fs-unfreeze'', ''unfreeze all frozen guest filesystems'']]"

section \<open>The grammar of the usage text\<close>

text \<open>A word of a synopsis: alternatives, an argument, an argument that must not look like a flag, an
  argument behind a fixed prefix, an optional group, or all remaining words.\<close>

datatype usage_item =
    Kw "string list" | Arg string | Operand string | Pre string string | Opt "usage_item list" | Rest string

fun show_item :: "usage_item \<Rightarrow> string" where
  "show_item (Kw alts) = Join ''|'' alts"
| "show_item (Arg n) = n"
| "show_item (Operand n) = n"
| "show_item (Pre p n) = p @ n"
| "show_item (Opt ws) = ''['' @ Join '' '' (map show_item ws) @ '']''"
| "show_item (Rest n) = n"

definition looks_like_flag :: "string \<Rightarrow> bool" where
  "looks_like_flag v \<longleftrightarrow> 2 \<le> length v \<and> hd v = CHR ''-''"

text \<open>Which command lines a synopsis describes, with the words it names and the remaining words.\<close>

inductive fits :: "usage_item list \<Rightarrow> string list \<Rightarrow> (string \<times> string) list \<Rightarrow> string list \<Rightarrow> bool" where
  FitsEnd: "fits [] [] [] []"
| FitsKw: "w \<in> set alts \<Longrightarrow> fits is ws b r \<Longrightarrow> fits (Kw alts # is) (w # ws) ((Join ''|'' alts, w) # b) r"
| FitsArg: "fits is ws b r \<Longrightarrow> fits (Arg n # is) (v # ws) ((n, v) # b) r"
| FitsOperand: "\<not> looks_like_flag v \<Longrightarrow> fits is ws b r \<Longrightarrow> fits (Operand n # is) (v # ws) ((n, v) # b) r"
| FitsPre: "fits is ws b r \<Longrightarrow> fits (Pre p n # is) ((p @ v) # ws) ((n, v) # b) r"
| FitsAbsent: "fits is ws b r \<Longrightarrow> fits (Opt os # is) ws b r"
| FitsPresent: "fits (os @ is) ws b r \<Longrightarrow> fits (Opt os # is) ws b r"
| FitsRest: "fits [Rest n] r [] r"

inductive_simps fits_simps:
  "fits [] ws b r" "fits (Kw alts # is) ws b r" "fits (Arg n # is) ws b r" "fits (Operand n # is) ws b r"
  "fits (Pre p n # is) ws b r" "fits (Opt os # is) ws b r" "fits (Rest n # is) ws b r"

definition val :: "(string \<times> string) list \<Rightarrow> string \<Rightarrow> string \<Rightarrow> string" where
  "val b n dflt = (case map_of b n of Some v \<Rightarrow> v | None \<Rightarrow> dflt)"

definition has :: "(string \<times> string) list \<Rightarrow> string \<Rightarrow> bool" where
  "has b n \<longleftrightarrow> n \<in> fst ` set b"

text \<open>Every documented command but \<open>version\<close>, with the call that its description promises.\<close>

type_synonym usage_form = "usage_item list \<times> ((string \<times> string) list \<Rightarrow> string list \<Rightarrow> cli_call)"

definition info_forms :: "usage_form list" where
  "info_forms =
     [([Kw [''agent-info'']], \<lambda>b r. ShowAgentInfo),
      ([Kw [''guest-info'']], \<lambda>b r. ShowGuestInfo)]"

definition shell_form :: usage_form where
  "shell_form =
     ([Kw [''secure-shell''], Opt [Kw [''-u''], Arg ''username''], Opt [Kw [''--shell''], Arg ''SHELL''], Kw [''--''],
       Rest ''[command [argument ...]]''],
      \<lambda>b r. ExecSecureShell (val b ''username'' ''root'') (val b ''SHELL'' []) [] r)"

definition net_forms :: "usage_form list" where
  "net_forms =
     [([Kw [''ip''], Kw [''addr''], Kw [''show'']], \<lambda>b r. ShowInterfaces),
      ([Kw [''ip''], Kw [''addr''], Kw [''add'', ''del''], Arg ''ADDR'', Kw [''dev''], Arg ''IFNAME''],
       \<lambda>b r. UpdateInterfaceAddrList (val b ''add|del'' []) (val b ''ADDR'' []) (val b ''IFNAME'' [])),
      ([Kw [''ip''], Kw [''link''], Kw [''set''], Kw [''up'', ''down''], Kw [''dev''], Arg ''IFNAME''],
       \<lambda>b r. UpdateInterfaceLinkState (val b ''up|down'' []) (val b ''IFNAME'' [])),
      ([Kw [''ip''], Opt [Kw [''-4'', ''-6'']], Kw [''route''], Kw [''list'']],
       \<lambda>b r. ShowRouteList (drop 1 (val b ''-4|-6'' ''-4''))),
      ([Kw [''ip''], Kw [''route''], Kw [''add'', ''del''], Arg ''PREFIX'', Kw [''via''], Arg ''GWADDR'', Kw [''dev''],
        Arg ''IFNAME''],
       \<lambda>b r. UpdateRoutes (val b ''add|del'' []) (val b ''PREFIX'' []) (val b ''GWADDR'' []) (val b ''IFNAME'' []))]"

definition ls_form :: usage_form where
  "ls_form =
     ([Kw [''ls''], Opt [Kw [''-l'']], Opt [Kw [''-d'']], Operand ''FILE|DIRECTORY''],
      \<lambda>b r. ShowFileStat (val b ''FILE|DIRECTORY'' []) (has b ''-l'') (has b ''-d''))"

definition file_forms :: "usage_form list" where
  "file_forms =
     [([Kw [''cat''], Arg ''FILE''], \<lambda>b r. ShowFileContent (val b ''FILE'' [])),
      ([Kw [''mkdir''], Opt [Kw [''-m''], Arg ''OCTAL-MODE''], Arg ''DIRECTORY''],
       \<lambda>b r. MakeDir (val b ''DIRECTORY'' []) (val b ''OCTAL-MODE'' ''0755'')),
      ([Kw [''chmod''], Arg ''OCTAL-MODE'', Arg ''FILE|DIRECTORY''],
       \<lambda>b r. ChangeMode (val b ''FILE|DIRECTORY'' []) (val b ''OCTAL-MODE'' [])),
      ([Kw [''chown''], Arg ''OWNER:GROUP'', Arg ''FILE|DIRECTORY''],
       \<lambda>b r. ChangeOwner (val b ''FILE|DIRECTORY'' []) (val b ''OWNER:GROUP'' [])),
      ([Kw [''md5sum''], Arg ''FILE''], \<lambda>b r. ShowFileMD5Hash (val b ''FILE'' [])),
      ([Kw [''rcp''], Pre ''guest:'' ''SRCFILE'', Arg ''DSTFILE''],
       \<lambda>b r. Copy (''guest:'' @ val b ''SRCFILE'' []) (val b ''DSTFILE'' [])),
      ([Kw [''rcp''], Arg ''SRCFILE|-'', Pre ''guest:'' ''DSTFILE''],
       \<lambda>b r. Copy (val b ''SRCFILE|-'' []) (''guest:'' @ val b ''DSTFILE'' []))]"

definition fs_forms :: "usage_form list" where
  "fs_forms =
     [([Kw [''fs-sync'']], \<lambda>b r. SyncAll),
      ([Kw [''fs-freeze'']], \<lambda>b r. FreezeAll),
      ([Kw [''fs-unfreeze'']], \<lambda>b r. UnfreezeAll)]"

definition usage_forms :: "usage_form list" where
  "usage_forms = info_forms @ [shell_form] @ net_forms @ [ls_form] @ file_forms @ fs_forms"

section \<open>Output\<close>

text \<open>What the client prints for the lone \<open>version\<close> and for the answers that it shows as JSON; the encoder is
  that of the library.\<close>

definition ShowVersion_line :: "string \<Rightarrow> string" where
  "ShowVersion_line runtime_version =
     ''v'' @ version_string AgentVersion @ '' (built w/'' @ runtime_version @ '')'' @ [CHR 0x0A]"

definition PrintJSON :: "('v \<Rightarrow> string result) \<Rightarrow> 'v \<Rightarrow> error option \<times> string" where
  "PrintJSON MarshalIndent v =
     (case MarshalIndent v of Inl e \<Rightarrow> (Some e, []) | Inr b \<Rightarrow> (None, b @ [CHR 0x0A]))"

section \<open>Lemmas\<close>

text \<open>The printed version is the agent's: what stands between the first letter and the first blank parses
  to it.\<close>

lemma ShowVersion_parses:
  "parse (AnyString (takeWhile (\<lambda>c. c \<noteq> CHR '' '') (tl (ShowVersion_line rv)))) = Inr AgentVersion"
  by code_simp

text \<open>With an endpoint in front, a command is never taken for the lone \<open>version\<close>.\<close>

lemma Join_space: "args \<noteq> [] \<Longrightarrow> Join '' '' (ep # args) \<noteq> ''version''"
proof
  assume "args \<noteq> []" "Join '' '' (ep # args) = ''version''"
  then have "CHR '' '' \<in> set ''version''" by (cases args) (metis Join.simps(3) in_set_conv_decomp append_Cons append_Nil)+
  then show False by simp
qed

lemma client_main_dispatch:
  assumes "args \<noteq> []" "Join '' '' args \<noteq> ''agent-shutdown''" "Join '' '' args \<noteq> ''agent-info''" "Join '' '' args \<noteq> ''guest-info''"
  shows "client_main (ep # args) = dispatch_variable args"
  using assms Join_space[OF assms(1)] by (simp add: client_main_def ExecuteCommand_def)

text \<open>A command line whose first word a pattern does not have does not match it; the first words of the
  dispatcher's patterns.\<close>

lemma argsMatch_head:
  assumes "Fields p = f # fs" "a \<notin> set (Split (CHR ''|'') f)" "0 \<notin> set ign"
  shows "\<not> argsMatch p (a # ws) ign"
proof
  assume "argsMatch p (a # ws) ign"
  from argsMatch_nth[OF this, of 0] show False using assms by simp
qed

lemma pattern_fields:
  "Fields ''ip -4 r|ro|route l|list'' = [''ip'', ''-4'', ''r|ro|route'', ''l|list'']"
  "Fields ''ip r|ro|route l|list'' = [''ip'', ''r|ro|route'', ''l|list'']"
  "Fields ''ip -6 r|ro|route l|list'' = [''ip'', ''-6'', ''r|ro|route'', ''l|list'']"
  "Fields ''ip a|addr s|show'' = [''ip'', ''a|addr'', ''s|show'']"
  "Fields ''ip addr add|del ADDR dev IFNAME'' = [''ip'', ''addr'', ''add|del'', ''ADDR'', ''dev'', ''IFNAME'']"
  "Fields ''ip l|link set up|down dev IFNAME'' = [''ip'', ''l|link'', ''set'', ''up|down'', ''dev'', ''IFNAME'']"
  "Fields ''ip r|ro|route add|del PREFIX via ADDR dev IFNAME'' =
     [''ip'', ''r|ro|route'', ''add|del'', ''PREFIX'', ''via'', ''ADDR'', ''dev'', ''IFNAME'']"
  "Fields ''ip r|ro|route add|del PREFIX dev IFNAME'' = [''ip'', ''r|ro|route'', ''add|del'', ''PREFIX'', ''dev'', ''IFNAME'']"
  "Fields ''fs-freeze'' = [''fs-freeze'']" "Fields ''fs-unfreeze'' = [''fs-unfreeze'']"
  "Fields ''md5sum FILE'' = [''md5sum'', ''FILE'']" "Fields ''mkdir DIRECTORY'' = [''mkdir'', ''DIRECTORY'']"
  "Fields ''mkdir -m MODE DIRECTORY'' = [''mkdir'', ''-m'', ''MODE'', ''DIRECTORY'']"
  "Fields ''chmod MODE FILE'' = [''chmod'', ''MODE'', ''FILE'']"
  "Fields ''chown OWNER_GROUP FILE'' = [''chown'', ''OWNER_GROUP'', ''FILE'']"
  "Fields ''rcp SRCFILE DSTFILE'' = [''rcp'', ''SRCFILE'', ''DSTFILE'']" "Fields ''cat FILE'' = [''cat'', ''FILE'']"
  by code_simp+

lemma word_alternatives:
  "Split (CHR ''|'') ''ip'' = [''ip'']" "Split (CHR ''|'') ''fs-freeze'' = [''fs-freeze'']"
  "Split (CHR ''|'') ''fs-unfreeze'' = [''fs-unfreeze'']" "Split (CHR ''|'') ''md5sum'' = [''md5sum'']"
  "Split (CHR ''|'') ''mkdir'' = [''mkdir'']" "Split (CHR ''|'') ''chmod'' = [''chmod'']"
  "Split (CHR ''|'') ''chown'' = [''chown'']" "Split (CHR ''|'') ''rcp'' = [''rcp'']" "Split (CHR ''|'') ''cat'' = [''cat'']"
  by code_simp+

lemmas head_differs = pattern_fields[THEN argsMatch_head]

lemma flag_command_heads:
  "dispatch_variable (''ls'' # ws) = cli_ls ws" "dispatch_variable (''secure-shell'' # ws) = cli_shell ws"
  by (simp_all add: dispatch_variable_def head_differs word_alternatives)

lemma dispatch_net:
  "dispatch_variable [''ip'', ''addr'', ''show''] = ShowInterfaces"
  "dispatch_variable [''ip'', ''addr'', ''add'', addr, ''dev'', ifn] = UpdateInterfaceAddrList ''add'' addr ifn"
  "dispatch_variable [''ip'', ''addr'', ''del'', addr, ''dev'', ifn] = UpdateInterfaceAddrList ''del'' addr ifn"
  "dispatch_variable [''ip'', ''link'', ''set'', ''up'', ''dev'', ifn] = UpdateInterfaceLinkState ''up'' ifn"
  "dispatch_variable [''ip'', ''link'', ''set'', ''down'', ''dev'', ifn] = UpdateInterfaceLinkState ''down'' ifn"
  by code_simp+

lemma dispatch_routes:
  "dispatch_variable [''ip'', ''route'', ''list''] = ShowRouteList ''4''"
  "dispatch_variable [''ip'', ''-4'', ''route'', ''list''] = ShowRouteList ''4''"
  "dispatch_variable [''ip'', ''-6'', ''route'', ''list''] = ShowRouteList ''6''"
  "dispatch_variable [''ip'', ''route'', ''add'', addr, ''via'', gw, ''dev'', ifn] = UpdateRoutes ''add'' addr gw ifn"
  "dispatch_variable [''ip'', ''route'', ''del'', addr, ''via'', gw, ''dev'', ifn] = UpdateRoutes ''del'' addr gw ifn"
  by code_simp+

lemma dispatch_files:
  "dispatch_variable [''cat'', file] = ShowFileContent file"
  "dispatch_variable [''mkdir'', file] = MakeDir file ''0755''"
  "dispatch_variable [''mkdir'', ''-m'', mode, file] = MakeDir file mode"
  "dispatch_variable [''chmod'', mode, file] = ChangeMode file mode"
  "dispatch_variable [''chown'', user, file] = ChangeOwner file user"
  "dispatch_variable [''md5sum'', file] = ShowFileMD5Hash file"
  "dispatch_variable [''rcp'', src, dst] = Copy src dst"
  by code_simp+

lemma dispatch_fs:
  "dispatch_variable [''fs-sync''] = SyncAll"
  "dispatch_variable [''fs-freeze''] = FreezeAll"
  "dispatch_variable [''fs-unfreeze''] = UnfreezeAll"
  by code_simp+

lemma info_commands:
  "client_main [ep, ''agent-info''] = ShowAgentInfo" "client_main [ep, ''guest-info''] = ShowGuestInfo"
  using Join_space[of "[''agent-info'']" ep] Join_space[of "[''guest-info'']" ep]
  by (simp_all add: client_main_def ExecuteCommand_def)

text \<open>The commands that parse flags: the operand of \<open>ls\<close> ends them, \<open>--\<close> ends those of the shell.\<close>

lemma ls_calls:
  assumes "\<not> looks_like_flag v"
  shows "cli_ls [v] = ShowFileStat v False False" "cli_ls [''-l'', v] = ShowFileStat v True False"
    "cli_ls [''-d'', v] = ShowFileStat v False True" "cli_ls [''-l'', ''-d'', v] = ShowFileStat v True True"
  using assms
  by (auto simp: cli_ls_def flag_body_def HasPrefix_def ls_flags_def flag_value_def looks_like_flag_def)

lemma shell_calls:
  "cli_shell (''--'' # r) = ExecSecureShell ''root'' [] [] r"
  "cli_shell (''-u'' # u # ''--'' # r) = ExecSecureShell u [] [] r"
  "cli_shell (''--shell'' # sh # ''--'' # r) = ExecSecureShell ''root'' sh [] r"
  "cli_shell (''-u'' # u # ''--shell'' # sh # ''--'' # r) = ExecSecureShell u sh [] r"
  by (simp_all add: cli_shell_def flag_body_def HasPrefix_def shell_flags_def flag_value_def)

text \<open>Every command line that fits a synopsis makes the promised call.\<close>

definition form_ok :: "usage_form \<Rightarrow> bool" where
  "form_ok f \<longleftrightarrow> (\<forall>ep args b r. fits (fst f) args b r \<longrightarrow> client_main (ep # args) = snd f b r)"

lemmas form_simps = form_ok_def fits_simps val_def has_def client_main_dispatch

lemma info_forms_ok: "list_all form_ok info_forms"
  by (simp add: info_forms_def form_simps) (auto simp: info_commands)

lemma shell_form_ok: "form_ok shell_form"
  by (auto simp: shell_form_def form_simps flag_command_heads shell_calls)

lemma ls_form_ok: "form_ok ls_form"
  by (auto simp: ls_form_def form_simps flag_command_heads ls_calls)

lemma net_forms_ok: "list_all form_ok net_forms"
  unfolding net_forms_def list.pred_inject
  by (intro conjI TrueI) (auto simp: form_simps dispatch_net dispatch_routes)

lemma file_forms_ok: "list_all form_ok file_forms"
  unfolding file_forms_def list.pred_inject
  by (intro conjI TrueI) (auto simp: form_simps dispatch_files)

lemma fs_forms_ok: "list_all form_ok fs_forms"
  unfolding fs_forms_def list.pred_inject
  by (intro conjI TrueI) (auto simp: form_simps dispatch_fs)

section \<open>Properties\<close>

text \<open>C35. The usage text is true to the dispatcher: its synopses but the first are, in order, those of the
  grammar, and every command line that fits one of them, with any choice among its alternatives, any
  optional parts and any arguments, makes after any endpoint the call that is described (an
  operand of \<open>ls\<close> must not look like a flag). The one exception is \<open>version\<close>, which is recognised only
  when it stands alone, without the endpoint that the text demands, and otherwise ends in the usage text.\<close>

theorem usage_matches_dispatcher:
  "map (\<lambda>(items, _). Join '' '' (map show_item items)) usage_forms = tl (map hd usageContent) \<and>
   (\<forall>(items, call) \<in> set usage_forms. \<forall>args b r. fits items args b r \<longrightarrow> client_main (ep # args) = call b r) \<and>
   hd (map hd usageContent) = ''version'' \<and> client_main [''version''] = ShowVersion \<and>
   client_main [ep, ''version''] = PrintUsage ''ver''"
proof -
  have "dispatch_variable [''version''] = PrintUsage ''ver''" by code_simp
  then have v: "client_main [ep, ''version''] = PrintUsage ''ver''" by (simp add: client_main_dispatch)
  have a: "client_main [''version''] = ShowVersion" by (simp add: client_main_def ExecuteCommand_def)
  have "list_all form_ok usage_forms"
    using info_forms_ok shell_form_ok net_forms_ok ls_form_ok file_forms_ok fs_forms_ok by (simp add: usage_forms_def)
  then have "\<forall>(items, call) \<in> set usage_forms. \<forall>args b r. fits items args b r \<longrightarrow> client_main (ep # args) = call b r"
    by (auto simp: list_all_iff form_ok_def)
  moreover have "map (\<lambda>(items, _). Join '' '' (map show_item items)) usage_forms = tl (map hd usageContent)"
    by (simp add: usage_forms_def info_forms_def shell_form_def net_forms_def ls_form_def file_forms_def fs_forms_def
        usageContent_def)
  ultimately show ?thesis using v a by (simp add: usageContent_def)
qed

theorem usage_matches_dispatcher_witness:
  "client_main [''cid:3'', ''ip'', ''link'', ''set'', ''down'', ''dev'', ''eth0''] = UpdateInterfaceLinkState ''down'' ''eth0''"
proof -
  let ?items = "[Kw [''ip''], Kw [''link''], Kw [''set''], Kw [''up'', ''down''], Kw [''dev''], Arg ''IFNAME'']"
  let ?call = "\<lambda>b r. UpdateInterfaceLinkState (val b ''up|down'' []) (val b ''IFNAME'' [])"
  have "(?items, ?call) \<in> set usage_forms" by (simp add: usage_forms_def net_forms_def)
  moreover have "fits ?items [''ip'', ''link'', ''set'', ''down'', ''dev'', ''eth0'']
      [(''ip'', ''ip''), (''link'', ''link''), (''set'', ''set''), (''up|down'', ''down''), (''dev'', ''dev''), (''IFNAME'', ''eth0'')] []"
    by (simp add: fits_simps)
  ultimately show ?thesis using usage_matches_dispatcher[of "''cid:3''"] by (fastforce simp: val_def)
qed

end
