(* ===== verification/Ssh_Wire.thy ===== *)
theory Ssh_Wire
  imports Prelude Go_Strings
begin

text \<open>
  \<open>internal/secure_shell/utils.go\<close>: the decoders for the payloads of \<open>pty-req\<close> and
  \<open>window-change\<close> requests, and the key comparison of \<open>ssh.go\<close>. Lengths are 32-bit words, so
  the bounds test \<open>uint32(len(in)) < 4+length\<close> wraps; a slice expression out of range is a
  \<open>Panic\<close>.
\<close>

section \<open>Data\<close>

record Window =
  Width :: int
  Height :: int

record Pty =
  Term :: string
  PtyWindow :: Window

section \<open>Decoders\<close>

text \<open>\<open>binary.BigEndian.Uint32\<close> on the first four bytes.\<close>

definition be_uint32 :: "string \<Rightarrow> 32 word" where
  "be_uint32 bs =
     of_nat (foldl (\<lambda>acc c. acc * 256 + of_char c) 0 (take 4 bs))"

definition ssh_parseUint32 :: "string \<Rightarrow> 32 word \<times> string \<times> bool" where
  "ssh_parseUint32 inp =
     (if length inp < 4 then (0, [], False) else (be_uint32 inp, drop 4 inp, True))"

definition ssh_parseString :: "string \<Rightarrow> (string \<times> string \<times> bool) result" where
  "ssh_parseString inp =
     (if length inp < 4 then Inr ([], [], False)
      else let len = be_uint32 inp; hi = 4 + len in
           if (of_nat (length inp) :: 32 word) < hi then Inr ([], [], False)
           else if 4 \<le> unat hi \<and> unat hi \<le> length inp
           then Inr (take (unat hi - 4) (drop 4 inp), drop (unat hi) inp, True)
           else Inl (Panic ''slice bounds out of range''))"

definition zero_Pty :: Pty where
  "zero_Pty = \<lparr>Term = [], PtyWindow = \<lparr>Width = 0, Height = 0\<rparr>\<rparr>"

definition parsePtyRequest :: "string \<Rightarrow> (Pty \<times> bool) result" where
  "parsePtyRequest s =
     (case ssh_parseString s of
        Inl e \<Rightarrow> Inl e
      | Inr (term, s1, ok1) \<Rightarrow>
          if \<not> ok1 then Inr (zero_Pty, False)
          else (case ssh_parseUint32 s1 of
                  (width32, s2, ok2) \<Rightarrow>
                    if \<not> ok2 then Inr (zero_Pty, False)
                    else (case ssh_parseUint32 s2 of
                            (height32, _, ok3) \<Rightarrow>
                              if \<not> ok3 then Inr (zero_Pty, False)
                              else Inr (\<lparr>Term = term,
                                     PtyWindow = \<lparr>Width = uint width32, Height = uint height32\<rparr>\<rparr>,
                                     True))))"

definition parseWinchRequest :: "string \<Rightarrow> Window \<times> bool" where
  "parseWinchRequest s =
     (case ssh_parseUint32 s of
        (width32, s1, ok1) \<Rightarrow>
          if width32 < 1 \<or> \<not> ok1 then (\<lparr>Width = 0, Height = 0\<rparr>, False)
          else (case ssh_parseUint32 s1 of
                  (height32, _, ok2) \<Rightarrow>
                    if height32 < 1 \<or> \<not> ok2 then (\<lparr>Width = 0, Height = 0\<rparr>, False)
                    else (\<lparr>Width = uint width32, Height = uint height32\<rparr>, True)))"

text \<open>\<open>KeysEqual\<close> of \<open>ssh.go\<close>: keys are given by their wire form, \<open>None\<close> is a nil key.\<close>

definition KeysEqual :: "string option \<Rightarrow> string option \<Rightarrow> bool" where
  "KeysEqual ak bk =
     (case ak of None \<Rightarrow> False
      | Some a \<Rightarrow> (case bk of None \<Rightarrow> False
                  | Some b \<Rightarrow> length a = length b \<and> a = b))"

section \<open>Encoders, and the codec contract\<close>

definition be_bytes :: "32 word \<Rightarrow> string" where
  "be_bytes v =
     (let n = unat v in
      [char_of (n div 16777216), char_of (n div 65536 mod 256), char_of (n div 256 mod 256),
       char_of (n mod 256)])"

definition enc_string :: "string \<Rightarrow> string" where
  "enc_string s = be_bytes (of_nat (length s)) @ s"

lemma length_be_bytes [simp]: "length (be_bytes v) = 4"
  by (simp add: be_bytes_def Let_def)

lemma be_uint32_be_bytes [simp]: "be_uint32 (be_bytes v @ rest) = v"
proof -
  have lt: "unat v < 4294967296" using unsigned_less[of v, where ?'a = nat] by simp
  define n where "n = unat v"
  have "n div 16777216 < 256" using lt by (simp add: n_def div_less_iff_less_mult)
  then have c: "of_char (char_of (n div 16777216) :: char) = n div 16777216" by simp
  have d: "n div 65536 = n div 256 div 256" "n div 16777216 = n div 256 div 256 div 256"
    by (simp_all add: div_mult2_eq[symmetric])
  have "((n div 16777216 * 256 + n div 65536 mod 256) * 256 + n div 256 mod 256) * 256 + n mod 256 = n"
    by (simp only: d div_mult_mod_eq)
  then have "foldl (\<lambda>acc c. acc * 256 + of_char c) 0 (take 4 (be_bytes v @ rest)) = n"
    using c by (simp add: be_bytes_def Let_def n_def[symmetric])
  then show ?thesis by (simp add: be_uint32_def n_def)
qed

lemma parseUint32_be_bytes [simp]: "ssh_parseUint32 (be_bytes v @ rest) = (v, rest, True)"
  by (simp add: ssh_parseUint32_def)

text \<open>The two decoders as instances of the codec contract.\<close>

definition dec_u32 :: "string \<Rightarrow> (32 word \<times> string) option" where
  "dec_u32 s = (case ssh_parseUint32 s of (v, r, k) \<Rightarrow> if k then Some (v, r) else None)"

interpretation u32: codec be_bytes dec_u32 "\<lambda>_. True"
  by unfold_locales (simp add: dec_u32_def)

lemma parseString_enc:
  assumes "length (enc_string s @ rest) < 2 ^ 32"
  shows "ssh_parseString (enc_string s @ rest) = Inr (s, rest, True)"
proof -
  have len: "4 + length s + length rest < 2 ^ 32" using assms by (simp add: enc_string_def)
  then have hi: "unat (4 + of_nat (length s) :: 32 word) = 4 + length s"
    by (simp add: unat_word_ariths unat_of_nat)
  have l: "unat (of_nat (4 + length s + length rest) :: 32 word) = 4 + length s + length rest"
    unfolding unat_of_nat using len by (intro mod_less) simp
  have "\<not> (of_nat (4 + length s + length rest) :: 32 word) < 4 + of_nat (length s)"
    unfolding word_less_nat_alt l hi by simp
  then show ?thesis
    using hi by (simp add: ssh_parseString_def enc_string_def Let_def add.assoc)
qed

text \<open>A string that the decoder accepts is the encoding of what it returns.\<close>

lemma take4_be_bytes:
  assumes "4 \<le> length s"
  shows "be_bytes (be_uint32 s) = take 4 s"
proof -
  have "length xs = 4 \<Longrightarrow> \<exists>a b c d. xs = [a, b, c, d]" for xs :: string
    by (auto simp: numeral_eq_Suc length_Suc_conv)
  moreover have "length (take 4 s) = 4" using assms by simp
  ultimately obtain a b c d where t: "take 4 s = [a, b, c, d]" by blast
  define na nb nc nd :: nat where "na = of_char a" "nb = of_char b" "nc = of_char c" "nd = of_char d"
  note nat_bytes = this
  have bounds: "na < 256" "nb < 256" "nc < 256" "nd < 256" unfolding nat_bytes by simp_all
  let ?n = "((na * 256 + nb) * 256 + nc) * 256 + nd"
  have "na * 256 + nb < 65536" using bounds by simp
  then have "(na * 256 + nb) * 256 + nc < 16777216" using bounds by simp
  then have "?n < 4294967296" using bounds by simp
  then have "unat (of_nat ?n :: 32 word) = ?n" unfolding unat_of_nat by (intro mod_less) simp
  moreover have "foldl (\<lambda>acc c. acc * 256 + of_char c) 0 (take 4 s) = ?n"
    by (simp add: t nat_bytes)
  ultimately have u: "unat (be_uint32 s) = ?n" unfolding be_uint32_def by metis
  have q: "(x * 256 + r) div 256 = x" "(x * 256 + r) mod 256 = r" if "r < 256" for x r :: nat
    using that by simp_all
  have d: "k div 65536 = k div 256 div 256" "k div 16777216 = k div 256 div 256 div 256" for k :: nat
    by (simp_all add: div_mult2_eq[symmetric])
  have "?n div 16777216 = na" "?n div 65536 mod 256 = nb" "?n div 256 mod 256 = nc" "?n mod 256 = nd"
    by (simp_all only: d q bounds)
  then have "be_bytes (be_uint32 s) = [char_of na, char_of nb, char_of nc, char_of nd]"
    by (simp only: be_bytes_def Let_def u)
  then show ?thesis by (simp add: t nat_bytes)
qed

section \<open>Properties\<close>

text \<open>A \<open>pty-req\<close> payload built from a terminal name, a width and a height decodes to them,
  whatever terminal modes follow.\<close>

theorem parsePtyRequest_roundtrip:
  assumes "length (enc_string term @ be_bytes w @ be_bytes h @ modes) < 2 ^ 32"
  shows "parsePtyRequest (enc_string term @ be_bytes w @ be_bytes h @ modes) =
    Inr (\<lparr>Term = term, PtyWindow = \<lparr>Width = uint w, Height = uint h\<rparr>\<rparr>, True)"
  using parseString_enc[OF assms] by (simp add: parsePtyRequest_def)

theorem parsePtyRequest_roundtrip_witness:
  "parsePtyRequest (enc_string ''xterm'' @ be_bytes 80 @ be_bytes 24 @ ''m'') =
    Inr (\<lparr>Term = ''xterm'', PtyWindow = \<lparr>Width = 80, Height = 24\<rparr>\<rparr>, True)"
  using parsePtyRequest_roundtrip[of "''xterm''" 80 24 "''m''"] by (simp add: enc_string_def)

text \<open>C40. The bounds test of the string decoder wraps around: on a payload of at least four bytes
  (and less than 4 GiB) the decoder panics exactly when the length field is one of the four largest
  32-bit numbers, so a remote client can crash the connection's goroutine with a \<open>pty-req\<close>.\<close>

theorem parsePtyRequest_panics_iff:
  assumes "length s < 2 ^ 32"
  shows "(\<exists>e. parsePtyRequest s = Inl e) \<longleftrightarrow> 4 \<le> length s \<and> 2 ^ 32 - 4 \<le> unat (be_uint32 s)"
proof -
  let ?len = "be_uint32 s"
  have big: "unat ?len < 2 ^ 32" using unsigned_less[of ?len, where ?'a = nat] by simp
  have inl: "(\<exists>e. parsePtyRequest s = Inl e) \<longleftrightarrow> (\<exists>e. ssh_parseString s = Inl e)"
    by (auto simp: parsePtyRequest_def split: sum.splits prod.splits if_splits)
  show ?thesis
  proof (cases "4 \<le> length s")
    case False
    then show ?thesis unfolding inl by (simp add: ssh_parseString_def)
  next
    case ge: True
    have l: "unat (of_nat (length s) :: 32 word) = length s" using assms by (simp add: unat_of_nat)
    show ?thesis
    proof (cases "2 ^ 32 - 4 \<le> unat ?len")
      case True
      have hi: "unat (4 + ?len) = unat ?len + 4 - 2 ^ 32"
        using True big by (simp add: unat_word_ariths mod_if)
      then have small: "unat (4 + ?len) < 4" using big by simp
      have "\<not> (of_nat (length s) :: 32 word) < 4 + ?len"
        unfolding word_less_nat_alt l using small ge by simp
      then show ?thesis unfolding inl using ge small True by (simp add: ssh_parseString_def Let_def)
    next
      case False
      have hi: "unat (4 + ?len) = 4 + unat ?len" using False by (simp add: unat_word_ariths)
      then have "\<not> (of_nat (length s) :: 32 word) < 4 + ?len \<Longrightarrow> unat (4 + ?len) \<le> length s"
        unfolding word_less_nat_alt l by simp
      then show ?thesis unfolding inl using False hi by (auto simp: ssh_parseString_def Let_def)
    qed
  qed
qed

theorem parsePtyRequest_panics_iff_witness:
  "\<exists>e. parsePtyRequest (be_bytes 0xFFFFFFFE @ ''abc'') = Inl e"
  using parsePtyRequest_panics_iff[of "be_bytes 0xFFFFFFFE @ ''abc''"] by simp

text \<open>A \<open>window-change\<close> payload is accepted exactly when it holds two positive 32-bit numbers,
  and then the window has these sizes.\<close>

theorem parseWinchRequest_iff:
  "parseWinchRequest s = (win, True) \<longleftrightarrow>
     (\<exists>w h rest. s = be_bytes w @ be_bytes h @ rest \<and> 0 < w \<and> 0 < h \<and>
        win = \<lparr>Width = uint w, Height = uint h\<rparr>)"
proof
  assume r: "parseWinchRequest s = (win, True)"
  let ?w = "be_uint32 s" and ?s1 = "drop 4 s"
  let ?h = "be_uint32 ?s1"
  have a: "4 \<le> length s" "4 \<le> length ?s1" "?w \<noteq> 0" "?h \<noteq> 0"
      "win = \<lparr>Width = uint ?w, Height = uint ?h\<rparr>"
    using r by (auto simp: parseWinchRequest_def ssh_parseUint32_def word_less_1 split: if_splits)
  have "s = be_bytes ?w @ ?s1" using take4_be_bytes[OF a(1)] by simp
  also have "?s1 = be_bytes ?h @ drop 4 ?s1" using take4_be_bytes[OF a(2)] by (metis append_take_drop_id)
  finally show "\<exists>w h rest. s = be_bytes w @ be_bytes h @ rest \<and> 0 < w \<and> 0 < h \<and>
      win = \<lparr>Width = uint w, Height = uint h\<rparr>"
    using a(3-5) by (metis word_gt_0)
next
  assume "\<exists>w h rest. s = be_bytes w @ be_bytes h @ rest \<and> 0 < w \<and> 0 < h \<and>
      win = \<lparr>Width = uint w, Height = uint h\<rparr>"
  then show "parseWinchRequest s = (win, True)"
    by (auto simp: parseWinchRequest_def word_less_1 word_gt_0)
qed

end
