(* ===== verification/Ssh_Context.thy ===== *)
theory Ssh_Context
  imports Go_Strings
begin

text \<open>
  The connection context of the embedded SSH server (\<open>internal/secure_shell/context.go\<close>) and the
  agent-forwarding mark that \<open>agent.go\<close> keeps in it. A context is a table from the package's keys
  to dynamically typed values over a plain cancellable context, whose own table is empty; a type
  assertion on a missing or differently typed value is a panic. Pointers (the server, the
  permissions object, the SSH connection) are numbers that name the object.
\<close>

section \<open>Data\<close>

datatype contextKey =
    ContextKeyUser | ContextKeySessionID | ContextKeyPermissions | ContextKeyClientVersion
  | ContextKeyServerVersion | ContextKeyLocalAddr | ContextKeyRemoteAddr | ContextKeyServer
  | ContextKeyConn | ContextKeyPublicKey | contextKeyAgentRequest

datatype ctx_value =
    VString string | VAddr string | VServer nat | VPermissions nat | VConn nat
  | VPublicKey string | VBool bool

record sshContext =
  ctx_values :: "contextKey \<Rightarrow> ctx_value option"
  cancelled :: bool

record ConnMetadata =
  md_User :: string
  md_SessionID :: string
  md_ClientVersion :: string
  md_ServerVersion :: string
  md_RemoteAddr :: string
  md_LocalAddr :: string

section \<open>Operations\<close>

definition SetValue :: "contextKey \<Rightarrow> ctx_value \<Rightarrow> sshContext \<Rightarrow> sshContext" where
  "SetValue key v ctx = ctx\<lparr>ctx_values := (ctx_values ctx)(key := Some v)\<rparr>"

definition ctx_Value :: "sshContext \<Rightarrow> contextKey \<Rightarrow> ctx_value option" where
  "ctx_Value ctx key = ctx_values ctx key"

definition newContext :: "nat \<Rightarrow> nat \<Rightarrow> sshContext" where
  "newContext srv perms =
     SetValue ContextKeyPermissions (VPermissions perms)
       (SetValue ContextKeyServer (VServer srv) \<lparr>ctx_values = (\<lambda>_. None), cancelled = False\<rparr>)"

definition applyConnMetadata :: "ConnMetadata \<Rightarrow> sshContext \<Rightarrow> sshContext" where
  "applyConnMetadata conn ctx =
     (if ctx_Value ctx ContextKeySessionID \<noteq> None then ctx
      else SetValue ContextKeyRemoteAddr (VAddr (md_RemoteAddr conn))
            (SetValue ContextKeyLocalAddr (VAddr (md_LocalAddr conn))
              (SetValue ContextKeyUser (VString (md_User conn))
                (SetValue ContextKeyServerVersion (VString (md_ServerVersion conn))
                  (SetValue ContextKeyClientVersion (VString (md_ClientVersion conn))
                    (SetValue ContextKeySessionID
                      (VString (hex_EncodeToString (md_SessionID conn))) ctx))))))"

definition assert_string :: "ctx_value option \<Rightarrow> string result" where
  "assert_string v = (case v of Some (VString s) \<Rightarrow> Inr s | _ \<Rightarrow> Inl (Panic ''interface conversion''))"

definition ctx_User :: "sshContext \<Rightarrow> string result" where
  "ctx_User ctx = assert_string (ctx_Value ctx ContextKeyUser)"

definition ctx_SessionID :: "sshContext \<Rightarrow> string result" where
  "ctx_SessionID ctx = assert_string (ctx_Value ctx ContextKeySessionID)"

definition ctx_ClientVersion :: "sshContext \<Rightarrow> string result" where
  "ctx_ClientVersion ctx = assert_string (ctx_Value ctx ContextKeyClientVersion)"

definition ctx_ServerVersion :: "sshContext \<Rightarrow> string result" where
  "ctx_ServerVersion ctx = assert_string (ctx_Value ctx ContextKeyServerVersion)"

definition ctx_RemoteAddr :: "sshContext \<Rightarrow> string option" where
  "ctx_RemoteAddr ctx =
     (case ctx_Value ctx ContextKeyRemoteAddr of Some (VAddr a) \<Rightarrow> Some a | _ \<Rightarrow> None)"

definition ctx_LocalAddr :: "sshContext \<Rightarrow> string result" where
  "ctx_LocalAddr ctx =
     (case ctx_Value ctx ContextKeyLocalAddr of
        Some (VAddr a) \<Rightarrow> Inr a | _ \<Rightarrow> Inl (Panic ''interface conversion''))"

definition ctx_Permissions :: "sshContext \<Rightarrow> nat result" where
  "ctx_Permissions ctx =
     (case ctx_Value ctx ContextKeyPermissions of
        Some (VPermissions p) \<Rightarrow> Inr p | _ \<Rightarrow> Inl (Panic ''interface conversion''))"

text \<open>\<open>agent.go\<close>.\<close>

definition agentRequestType :: string where
  "agentRequestType = ''auth-agent-req@openssh.com''"

definition SetAgentRequested :: "sshContext \<Rightarrow> sshContext" where
  "SetAgentRequested ctx = SetValue contextKeyAgentRequest (VBool True) ctx"

definition AgentRequested :: "sshContext \<Rightarrow> bool" where
  "AgentRequested ctx \<longleftrightarrow> ctx_Value ctx contextKeyAgentRequest = Some (VBool True)"

section \<open>Lemmas\<close>

lemma Value_SetValue [simp]:
  "ctx_Value (SetValue k v ctx) k' = (if k' = k then Some v else ctx_Value ctx k')"
  by (simp add: ctx_Value_def SetValue_def)

lemma cancelled_SetValue [simp]: "cancelled (SetValue k v ctx) = cancelled ctx"
  by (simp add: SetValue_def)

lemma Value_newContext [simp]:
  "ctx_Value (newContext srv perms) k =
     (if k = ContextKeyPermissions then Some (VPermissions perms)
      else if k = ContextKeyServer then Some (VServer srv) else None)"
  by (simp add: newContext_def) (simp add: ctx_Value_def)

lemma applyConnMetadata_first_wins:
  "applyConnMetadata c2 (applyConnMetadata c1 ctx) = applyConnMetadata c1 ctx"
  by (simp add: applyConnMetadata_def)

lemma applyConnMetadata_other [simp]:
  assumes "k \<notin> {ContextKeySessionID, ContextKeyClientVersion, ContextKeyServerVersion,
      ContextKeyUser, ContextKeyLocalAddr, ContextKeyRemoteAddr}"
  shows "ctx_Value (applyConnMetadata c ctx) k = ctx_Value ctx k"
  using assms by (simp add: applyConnMetadata_def)

lemmas ctx_accessor_defs =
  ctx_User_def ctx_SessionID_def ctx_ClientVersion_def ctx_ServerVersion_def ctx_RemoteAddr_def
  ctx_LocalAddr_def ctx_Permissions_def assert_string_def

lemma newContext_accessors:
  "ctx_Permissions (newContext srv p) = Inr p" "ctx_RemoteAddr (newContext srv p) = None"
  "\<not> ok (ctx_User (newContext srv p))" "\<not> ok (ctx_LocalAddr (newContext srv p))"
  by (simp_all add: ctx_accessor_defs)

lemma applyConnMetadata_accessors:
  assumes "ctx_Value ctx ContextKeySessionID = None"
  shows "ctx_User (applyConnMetadata c ctx) = Inr (md_User c)"
    and "ctx_SessionID (applyConnMetadata c ctx) = Inr (hex_EncodeToString (md_SessionID c))"
    and "ctx_ClientVersion (applyConnMetadata c ctx) = Inr (md_ClientVersion c)"
    and "ctx_ServerVersion (applyConnMetadata c ctx) = Inr (md_ServerVersion c)"
    and "ctx_LocalAddr (applyConnMetadata c ctx) = Inr (md_LocalAddr c)"
    and "ctx_RemoteAddr (applyConnMetadata c ctx) = Some (md_RemoteAddr c)"
  using assms by (simp_all add: applyConnMetadata_def ctx_accessor_defs)

lemma AgentRequested_set [simp]: "AgentRequested (SetAgentRequested ctx)"
  by (simp add: AgentRequested_def SetAgentRequested_def)

lemma AgentRequested_frame [simp]:
  "\<not> AgentRequested (newContext srv p)"
  "AgentRequested (applyConnMetadata c ctx) = AgentRequested ctx"
  by (simp_all add: AgentRequested_def)

end
