(* ===== verification/Ssh_Session.thy ===== *)
theory Ssh_Session
  imports Ssh_Wire Ssh_Context
begin

text \<open>
  The session of the embedded SSH server (\<open>internal/secure_shell/session.go\<close>). The request loop
  \<open>handleRequests\<close> is one goroutine, the session handler (which may call \<open>Exit\<close>, \<open>Signals\<close> and
  \<open>Break\<close> and receives from the channels) another, and every \<open>Signals\<close> call on a non-empty buffer
  starts a third kind. Their interleavings are the step relation \<open>sess_step\<close>; a send on a channel
  is a state of the sender that is left when the channel has room or a receiver takes the value.
  The callbacks, the handlers and \<open>gossh.Unmarshal\<close> (golang.org/x/crypto/ssh) are parameters.
\<close>

section \<open>Data\<close>

record 'a chan =
  ch_cap :: nat
  ch_buf :: "'a list"
  ch_closed :: bool

definition has_room :: "'a chan \<Rightarrow> bool" where
  "has_room c \<longleftrightarrow> \<not> ch_closed c \<and> length (ch_buf c) < ch_cap c"

definition ch_push :: "'a \<Rightarrow> 'a chan \<Rightarrow> 'a chan" where
  "ch_push v c = c\<lparr>ch_buf := ch_buf c @ [v]\<rparr>"

record request =
  rq_Type :: string
  rq_Payload :: string

record session =
  s_handled :: bool
  s_exited :: bool
  s_pty :: "Pty option"
  s_winch :: "Window chan option"
  s_env :: "string list"
  s_rawCmd :: string
  s_subsystem :: string
  s_ctx :: sshContext
  s_sigCh :: "nat option"
  s_sigBuf :: "string list"
  s_breakCh :: "nat option"

text \<open>What the session is configured with: the fields that \<open>DefaultSessionHandler\<close> copies from the
  server, and the decoding of request payloads into a struct of one or of two strings (the value
  of the struct after the call, whose error the code ignores).\<close>

record 'h sess_cfg =
  c_handler :: "'h option"
  c_subsystemHandlers :: "string \<Rightarrow> 'h option"
  c_ptyCb :: "(sshContext \<Rightarrow> Pty \<Rightarrow> bool) option"
  c_sessReqCb :: "(session \<Rightarrow> string \<Rightarrow> bool) option"
  c_unmarshal1 :: "string \<Rightarrow> string"
  c_unmarshal2 :: "string \<Rightarrow> string \<times> string"

text \<open>The state of the request loop: between two requests, blocked in (or about to do) a send, at
  the end, or dead after a panic.\<close>

datatype loop_state =
    Idle | SendSig nat string | SendWinch Window | SendBreak nat | Ended | Crashed error

text \<open>A goroutine started by \<open>Signals\<close>: not yet scheduled, before a send, in a send on a channel, or
  in a send on a nil channel.\<close>

datatype flusher = FNew | FRun "string list" | FSend nat string "string list" | FStuck

record 'h machine =
  m_sess :: session
  m_loop :: loop_state
  m_replies :: "(string \<times> bool) list"
  m_started :: "'h list"
  m_statuses :: "32 word list"
  m_closes :: nat
  m_flushers :: "flusher list"
  m_sigs :: "nat \<Rightarrow> string chan"
  m_breaks :: "nat \<Rightarrow> bool chan"
  m_signals_got :: "string list"

definition maxSigBufSize :: nat where
  "maxSigBufSize = 128"

definition new_session :: "sshContext \<Rightarrow> session" where
  "new_session ctx =
     \<lparr>s_handled = False, s_exited = False, s_pty = None, s_winch = None, s_env = [], s_rawCmd = [],
      s_subsystem = [], s_ctx = ctx, s_sigCh = None, s_sigBuf = [], s_breakCh = None\<rparr>"

definition new_machine ::
  "sshContext \<Rightarrow> (nat \<Rightarrow> string chan) \<Rightarrow> (nat \<Rightarrow> bool chan) \<Rightarrow> 'h machine" where
  "new_machine ctx sigs brks =
     \<lparr>m_sess = new_session ctx, m_loop = Idle, m_replies = [], m_started = [], m_statuses = [],
      m_closes = 0, m_flushers = [], m_sigs = sigs, m_breaks = brks, m_signals_got = []\<rparr>"

section \<open>Methods of the session\<close>

text \<open>\<open>Write\<close>: what goes to the channel, and the count that the caller sees when the channel
  reports \<open>n\<close> bytes.\<close>

definition CR :: char where "CR = char_of (13 :: nat)"
definition LF :: char where "LF = char_of (10 :: nat)"

definition Write_normalize :: "string \<Rightarrow> string" where
  "Write_normalize p = Replace_all (Replace_all p [LF] [CR, LF]) [CR, CR, LF] [CR, LF]"

definition session_Write ::
  "session \<Rightarrow> (string \<Rightarrow> nat \<times> error option) \<Rightarrow> string \<Rightarrow> nat \<times> error option" where
  "session_Write s channel_Write p =
     (if s_pty s \<noteq> None
      then (case channel_Write (Write_normalize p) of
              (n, err) \<Rightarrow> (if n > length p then length p else n, err))
      else channel_Write p)"

definition session_PublicKey :: "session \<Rightarrow> string option result" where
  "session_PublicKey s =
     (case ctx_Value (s_ctx s) ContextKeyPublicKey of
        None \<Rightarrow> Inr None
      | Some (VPublicKey k) \<Rightarrow> Inr (Some k)
      | Some _ \<Rightarrow> Inl (Panic ''interface conversion''))"

definition session_Permissions :: "session \<Rightarrow> nat result" where
  "session_Permissions s =
     (case ctx_Value (s_ctx s) ContextKeyPermissions of
        Some (VPermissions p) \<Rightarrow> Inr p | _ \<Rightarrow> Inl (Panic ''interface conversion''))"

text \<open>\<open>Exit\<close>, given the outcomes of \<open>SendRequest\<close> and \<open>Close\<close> of the channel.\<close>

definition session_Exit ::
  "error option \<Rightarrow> error option \<Rightarrow> int \<Rightarrow> 'h machine \<Rightarrow> error option \<times> 'h machine" where
  "session_Exit send_err close_err code m =
     (if s_exited (m_sess m) then (Some (Errorf ''Session.Exit called multiple times''), m)
      else let m1 = m\<lparr>m_sess := (m_sess m)\<lparr>s_exited := True\<rparr>,
                      m_statuses := m_statuses m @ [of_int code]\<rparr>
           in (case send_err of
                 Some e \<Rightarrow> (Some e, m1)
               | None \<Rightarrow> (close_err, m1\<lparr>m_closes := m_closes m1 + 1\<rparr>)))"

text \<open>The methods that read a field, or ask the connection for its metadata.\<close>

definition session_Context :: "session \<Rightarrow> sshContext" where "session_Context s = s_ctx s"
definition session_RawCommand :: "session \<Rightarrow> string" where "session_RawCommand s = s_rawCmd s"
definition session_Subsystem :: "session \<Rightarrow> string" where "session_Subsystem s = s_subsystem s"
definition session_User :: "ConnMetadata \<Rightarrow> string" where "session_User conn = md_User conn"
definition session_RemoteAddr :: "ConnMetadata \<Rightarrow> string" where "session_RemoteAddr conn = md_RemoteAddr conn"
definition session_LocalAddr :: "ConnMetadata \<Rightarrow> string" where "session_LocalAddr conn = md_LocalAddr conn"

definition session_Environ :: "session \<Rightarrow> string list" where
  "session_Environ s = s_env s"

definition session_Pty :: "session \<Rightarrow> Pty \<times> Window chan option \<times> bool" where
  "session_Pty s =
     (case s_pty s of Some p \<Rightarrow> (p, s_winch s, True) | None \<Rightarrow> (zero_Pty, s_winch s, False))"

definition session_Command :: "(string \<Rightarrow> string list) \<Rightarrow> session \<Rightarrow> string list" where
  "session_Command shlex_Split s = shlex_Split (s_rawCmd s)"

definition session_Signals :: "nat option \<Rightarrow> 'h machine \<Rightarrow> 'h machine" where
  "session_Signals c m =
     (let m1 = m\<lparr>m_sess := (m_sess m)\<lparr>s_sigCh := c\<rparr>\<rparr>
      in if s_sigBuf (m_sess m) \<noteq> [] then m1\<lparr>m_flushers := m_flushers m @ [FNew]\<rparr> else m1)"

definition session_Break :: "nat option \<Rightarrow> 'h machine \<Rightarrow> 'h machine" where
  "session_Break c m = m\<lparr>m_sess := (m_sess m)\<lparr>s_breakCh := c\<rparr>\<rparr>"

section \<open>The request loop\<close>

definition reply :: "request \<Rightarrow> bool \<Rightarrow> 'h machine \<Rightarrow> 'h machine" where
  "reply req b m = m\<lparr>m_replies := m_replies m @ [(rq_Type req, b)]\<rparr>"

definition put_sess :: "session \<Rightarrow> 'h machine \<Rightarrow> 'h machine" where
  "put_sess s m = m\<lparr>m_sess := s\<rparr>"

text \<open>\<open>go func() { handler(sess); sess.Exit(0) }()\<close>: a nil handler panics in its goroutine.\<close>

definition go_handler :: "'h option \<Rightarrow> 'h machine \<Rightarrow> 'h machine" where
  "go_handler h m =
     (case h of None \<Rightarrow> m\<lparr>m_loop := Crashed (Panic ''nil handler'')\<rparr>
      | Some f \<Rightarrow> m\<lparr>m_started := m_started m @ [f]\<rparr>)"

definition sess_allowed :: "'h sess_cfg \<Rightarrow> request \<Rightarrow> session \<Rightarrow> bool" where
  "sess_allowed cfg req s =
     (case c_sessReqCb cfg of None \<Rightarrow> True | Some cb \<Rightarrow> cb s (rq_Type req))"

definition req_shell :: "'h sess_cfg \<Rightarrow> request \<Rightarrow> 'h machine \<Rightarrow> 'h machine" where
  "req_shell cfg req m =
     (let s = m_sess m in
      if s_handled s then reply req False m
      else let s1 = s\<lparr>s_rawCmd := c_unmarshal1 cfg (rq_Payload req)\<rparr> in
           if \<not> sess_allowed cfg req s1
           then reply req False (put_sess (s1\<lparr>s_rawCmd := []\<rparr>) m)
           else go_handler (c_handler cfg)
                  (reply req True (put_sess (s1\<lparr>s_handled := True\<rparr>) m)))"

definition req_subsystem :: "'h sess_cfg \<Rightarrow> request \<Rightarrow> 'h machine \<Rightarrow> 'h machine" where
  "req_subsystem cfg req m =
     (let s = m_sess m in
      if s_handled s then reply req False m
      else let name = c_unmarshal1 cfg (rq_Payload req);
               s1 = s\<lparr>s_subsystem := name\<rparr> in
           if \<not> sess_allowed cfg req s1
           then reply req False (put_sess (s1\<lparr>s_rawCmd := []\<rparr>) m)
           else (case c_subsystemHandlers cfg name of
                   None \<Rightarrow> reply req False (put_sess s1 m)
                 | Some h \<Rightarrow>
                     go_handler (Some h)
                       (reply req True (put_sess (s1\<lparr>s_handled := True\<rparr>) m))))"

definition req_env :: "'h sess_cfg \<Rightarrow> request \<Rightarrow> 'h machine \<Rightarrow> 'h machine" where
  "req_env cfg req m =
     (let s = m_sess m in
      if s_handled s then reply req False m
      else (case c_unmarshal2 cfg (rq_Payload req) of
              (k, v) \<Rightarrow> reply req True (put_sess (s\<lparr>s_env := s_env s @ [k @ ''='' @ v]\<rparr>) m)))"

definition req_signal :: "'h sess_cfg \<Rightarrow> request \<Rightarrow> 'h machine \<Rightarrow> 'h machine" where
  "req_signal cfg req m =
     (let s = m_sess m; sig = c_unmarshal1 cfg (rq_Payload req) in
      case s_sigCh s of
        Some c \<Rightarrow> m\<lparr>m_loop := SendSig c sig\<rparr>
      | None \<Rightarrow> if length (s_sigBuf s) < maxSigBufSize
                then put_sess (s\<lparr>s_sigBuf := s_sigBuf s @ [sig]\<rparr>) m else m)"

definition req_pty :: "'h sess_cfg \<Rightarrow> request \<Rightarrow> 'h machine \<Rightarrow> 'h machine" where
  "req_pty cfg req m =
     (let s = m_sess m in
      if s_handled s \<or> s_pty s \<noteq> None then reply req False m
      else (case parsePtyRequest (rq_Payload req) of
              Inl e \<Rightarrow> m\<lparr>m_loop := Crashed e\<rparr>
            | Inr (ptyReq, ok1) \<Rightarrow>
                if \<not> ok1 then reply req False m
                else if \<not> (case c_ptyCb cfg of None \<Rightarrow> True | Some cb \<Rightarrow> cb (s_ctx s) ptyReq)
                then reply req False m
                else reply req True
                       (put_sess (s\<lparr>s_pty := Some ptyReq,
                          s_winch := Some \<lparr>ch_cap = 1, ch_buf = [PtyWindow ptyReq], ch_closed = False\<rparr>\<rparr>) m)))"

definition req_winch :: "request \<Rightarrow> 'h machine \<Rightarrow> 'h machine" where
  "req_winch req m =
     (let s = m_sess m in
      case s_pty s of
        None \<Rightarrow> reply req False m
      | Some p \<Rightarrow>
          (case parseWinchRequest (rq_Payload req) of
             (win, ok1) \<Rightarrow>
               if ok1 then put_sess (s\<lparr>s_pty := Some (p\<lparr>PtyWindow := win\<rparr>)\<rparr>) (m\<lparr>m_loop := SendWinch win\<rparr>)
               else reply req False m))"

definition req_agent :: "request \<Rightarrow> 'h machine \<Rightarrow> 'h machine" where
  "req_agent req m =
     reply req True (put_sess ((m_sess m)\<lparr>s_ctx := SetAgentRequested (s_ctx (m_sess m))\<rparr>) m)"

definition req_break :: "request \<Rightarrow> 'h machine \<Rightarrow> 'h machine" where
  "req_break req m =
     (case s_breakCh (m_sess m) of
        Some c \<Rightarrow> m\<lparr>m_loop := SendBreak c\<rparr>
      | None \<Rightarrow> reply req False m)"

definition handle_request :: "'h sess_cfg \<Rightarrow> request \<Rightarrow> 'h machine \<Rightarrow> 'h machine" where
  "handle_request cfg req m =
     (let t = rq_Type req in
      if t = ''shell'' \<or> t = ''exec'' then req_shell cfg req m
      else if t = ''subsystem'' then req_subsystem cfg req m
      else if t = ''env'' then req_env cfg req m
      else if t = ''signal'' then req_signal cfg req m
      else if t = ''pty-req'' then req_pty cfg req m
      else if t = ''window-change'' then req_winch req m
      else if t = agentRequestType then req_agent req m
      else if t = ''break'' then req_break req m
      else reply req False m)"

text \<open>What follows a completed send in the \<open>window-change\<close>, \<open>signal\<close> and \<open>break\<close> cases, and the
  deferred close of the window channel when the requests end.\<close>

definition after_winch :: "'h machine \<Rightarrow> 'h machine" where
  "after_winch m = m\<lparr>m_loop := Idle, m_replies := m_replies m @ [(''window-change'', True)]\<rparr>"

definition after_break :: "'h machine \<Rightarrow> 'h machine" where
  "after_break m = m\<lparr>m_loop := Idle, m_replies := m_replies m @ [(''break'', True)]\<rparr>"

definition end_requests :: "'h machine \<Rightarrow> 'h machine" where
  "end_requests m =
     (m\<lparr>m_loop := Ended,
        m_sess := (m_sess m)\<lparr>s_winch := map_option (\<lambda>c. c\<lparr>ch_closed := True\<rparr>) (s_winch (m_sess m))\<rparr>\<rparr>)"

text \<open>The session mutex is held while the loop is inside a \<open>signal\<close> or a \<open>break\<close> case.\<close>

definition sess_locked :: "'h machine \<Rightarrow> bool" where
  "sess_locked m = (case m_loop m of SendSig _ _ \<Rightarrow> True | SendBreak _ \<Rightarrow> True | _ \<Rightarrow> False)"

definition handler_runs :: "'h machine \<Rightarrow> bool" where
  "handler_runs m \<longleftrightarrow> m_started m \<noteq> []"

definition set_winch :: "Window chan \<Rightarrow> 'h machine \<Rightarrow> 'h machine" where
  "set_winch c m = put_sess ((m_sess m)\<lparr>s_winch := Some c\<rparr>) m"

definition set_flusher :: "nat \<Rightarrow> flusher \<Rightarrow> 'h machine \<Rightarrow> 'h machine" where
  "set_flusher i f m = m\<lparr>m_flushers := (m_flushers m)[i := f]\<rparr>"

definition got_signal :: "string \<Rightarrow> 'h machine \<Rightarrow> 'h machine" where
  "got_signal g m = m\<lparr>m_signals_got := m_signals_got m @ [g]\<rparr>"

definition set_sig :: "nat \<Rightarrow> string chan \<Rightarrow> 'h machine \<Rightarrow> 'h machine" where
  "set_sig i c m = m\<lparr>m_sigs := (m_sigs m)(i := c)\<rparr>"

definition set_brk :: "nat \<Rightarrow> bool chan \<Rightarrow> 'h machine \<Rightarrow> 'h machine" where
  "set_brk i c m = m\<lparr>m_breaks := (m_breaks m)(i := c)\<rparr>"

text \<open>The goroutine of \<open>Signals\<close> picks the channel that is registered at the moment of each send.\<close>

definition flusher_pick :: "session \<Rightarrow> string list \<Rightarrow> flusher" where
  "flusher_pick s gs =
     (case gs of [] \<Rightarrow> FRun []
      | g # gs' \<Rightarrow> (case s_sigCh s of None \<Rightarrow> FStuck | Some c \<Rightarrow> FSend c g gs'))"

inductive sess_step :: "'h sess_cfg \<Rightarrow> 'h machine \<Rightarrow> 'h machine \<Rightarrow> bool" for cfg where
  Request: "m_loop m = Idle \<Longrightarrow> sess_step cfg m (handle_request cfg req m)"
| RequestsClosed: "m_loop m = Idle \<Longrightarrow> sess_step cfg m (end_requests m)"
| WinchSent: "m_loop m = SendWinch w \<Longrightarrow> s_winch (m_sess m) = Some c \<Longrightarrow> has_room c \<Longrightarrow>
    sess_step cfg m (after_winch (set_winch (ch_push w c) m))"
| SigSent: "m_loop m = SendSig i g \<Longrightarrow> has_room (m_sigs m i) \<Longrightarrow>
    sess_step cfg m ((set_sig i (ch_push g (m_sigs m i)) m)\<lparr>m_loop := Idle\<rparr>)"
| SigHandoff: "m_loop m = SendSig i g \<Longrightarrow> ch_cap (m_sigs m i) = 0 \<Longrightarrow> handler_runs m \<Longrightarrow>
    sess_step cfg m ((got_signal g m)\<lparr>m_loop := Idle\<rparr>)"
| BreakSent: "m_loop m = SendBreak i \<Longrightarrow> has_room (m_breaks m i) \<Longrightarrow>
    sess_step cfg m (after_break (set_brk i (ch_push True (m_breaks m i)) m))"
| BreakHandoff: "m_loop m = SendBreak i \<Longrightarrow> ch_cap (m_breaks m i) = 0 \<Longrightarrow> handler_runs m \<Longrightarrow>
    sess_step cfg m (after_break m)"
| RecvWinch: "handler_runs m \<Longrightarrow> s_winch (m_sess m) = Some c \<Longrightarrow> ch_buf c = w # ws \<Longrightarrow>
    sess_step cfg m (set_winch (c\<lparr>ch_buf := ws\<rparr>) m)"
| RecvSig: "handler_runs m \<Longrightarrow> ch_buf (m_sigs m i) = g # gs \<Longrightarrow>
    sess_step cfg m (got_signal g (set_sig i ((m_sigs m i)\<lparr>ch_buf := gs\<rparr>) m))"
| RecvBreak: "handler_runs m \<Longrightarrow> ch_buf (m_breaks m i) = b # bs \<Longrightarrow>
    sess_step cfg m (set_brk i ((m_breaks m i)\<lparr>ch_buf := bs\<rparr>) m)"
| CallSignals: "handler_runs m \<Longrightarrow> \<not> sess_locked m \<Longrightarrow> sess_step cfg m (session_Signals ch m)"
| CallBreak: "handler_runs m \<Longrightarrow> \<not> sess_locked m \<Longrightarrow> sess_step cfg m (session_Break ch m)"
| CallExit: "handler_runs m \<Longrightarrow> \<not> sess_locked m \<Longrightarrow> session_Exit se ce code m = (r, m') \<Longrightarrow>
    sess_step cfg m m'"
| FlushStart: "i < length (m_flushers m) \<Longrightarrow> m_flushers m ! i = FNew \<Longrightarrow>
    sess_step cfg m (set_flusher i (FRun (s_sigBuf (m_sess m))) m)"
| FlushPick: "i < length (m_flushers m) \<Longrightarrow> m_flushers m ! i = FRun gs \<Longrightarrow>
    sess_step cfg m (set_flusher i (flusher_pick (m_sess m) gs) m)"
| FlushSent: "i < length (m_flushers m) \<Longrightarrow> m_flushers m ! i = FSend k g gs \<Longrightarrow> has_room (m_sigs m k) \<Longrightarrow>
    sess_step cfg m (set_flusher i (FRun gs) (set_sig k (ch_push g (m_sigs m k)) m))"
| FlushHandoff: "i < length (m_flushers m) \<Longrightarrow> m_flushers m ! i = FSend k g gs \<Longrightarrow>
    ch_cap (m_sigs m k) = 0 \<Longrightarrow> handler_runs m \<Longrightarrow>
    sess_step cfg m (set_flusher i (FRun gs) (got_signal g m))"

section \<open>Lemmas on one step\<close>

lemmas helper_defs =
  reply_def put_sess_def go_handler_def after_winch_def after_break_def end_requests_def
  set_winch_def set_flusher_def got_signal_def set_sig_def set_brk_def session_Signals_def
  session_Break_def ch_push_def has_room_def

lemmas req_defs =
  req_shell_def req_subsystem_def req_env_def req_signal_def req_pty_def req_winch_def
  req_agent_def req_break_def

lemma handle_request_cases [case_names shell subsystem env signal pty winch agent break other]:
  assumes "P (req_shell cfg req m)" "P (req_subsystem cfg req m)" "P (req_env cfg req m)"
    "P (req_signal cfg req m)" "P (req_pty cfg req m)" "P (req_winch req m)" "P (req_agent req m)"
    "P (req_break req m)" "P (reply req False m)"
  shows "P (handle_request cfg req m)"
  using assms unfolding handle_request_def Let_def by (auto simp del: not_None_eq)

lemma session_Exit_simps:
  assumes "session_Exit se ce code m = (r, m')"
  shows "m_started m' = m_started m" "m_loop m' = m_loop m" "m_flushers m' = m_flushers m"
    "m_replies m' = m_replies m" "s_exited (m_sess m')"
    "m_sess m' = (m_sess m)\<lparr>s_exited := True\<rparr>"
    "m_statuses m' = (if s_exited (m_sess m) then m_statuses m else m_statuses m @ [of_int code])"
  using assms by (auto simp: session_Exit_def Let_def split: if_splits option.splits)

section \<open>The invariant of a session\<close>

definition winch_ok :: "session \<Rightarrow> bool" where
  "winch_ok s =
     (case s_winch s of None \<Rightarrow> s_pty s = None
      | Some c \<Rightarrow> s_pty s \<noteq> None \<and> ch_cap c = 1 \<and> length (ch_buf c) \<le> 1)"

definition started_ok :: "'h machine \<Rightarrow> bool" where
  "started_ok m =
     (if s_handled (m_sess m) then length (m_started m) = 1 \<or> (\<exists>e. m_loop m = Crashed e) \<and> m_started m = []
      else m_started m = [])"

definition status_ok :: "'h machine \<Rightarrow> bool" where
  "status_ok m \<longleftrightarrow> length (m_statuses m) = (if s_exited (m_sess m) then 1 else 0)"

text \<open>Before the handler runs nothing has been taken from the window channel.\<close>

definition unread_ok :: "'h machine \<Rightarrow> bool" where
  "unread_ok m \<longleftrightarrow>
     (m_started m = [] \<longrightarrow>
        m_flushers m = [] \<and> (\<forall>c. s_winch (m_sess m) = Some c \<longrightarrow> \<not> has_room c))"

definition sess_inv :: "'h machine \<Rightarrow> bool" where
  "sess_inv m \<longleftrightarrow>
     started_ok m \<and> status_ok m \<and> unread_ok m \<and> winch_ok (m_sess m) \<and> length (s_sigBuf (m_sess m)) \<le> maxSigBufSize"

lemma winch_ok_exited [simp]: "winch_ok (s\<lparr>s_exited := b\<rparr>) = winch_ok s"
  by (simp add: winch_ok_def split: option.splits)

lemma handle_request_inv [inv_intros]:
  assumes "sess_inv m" "m_loop m = Idle"
  shows "sess_inv (handle_request cfg req m)"
  using assms
  by (cases rule: handle_request_cases)
    (auto simp: sess_inv_def started_ok_def status_ok_def unread_ok_def winch_ok_def req_defs helper_defs Let_def
      split: option.splits sum.splits prod.splits if_splits)

lemma sess_step_inv:
  assumes "sess_inv m" "sess_step cfg m m'"
  shows "sess_inv m'"
  using assms(2,1)
proof (cases rule: sess_step.cases)
  case (CallExit se ce code r)
  then show ?thesis
    using assms(1) session_Exit_simps[OF CallExit(3)]
    by (simp add: sess_inv_def started_ok_def status_ok_def unread_ok_def split: if_splits)
next
  case (Request req)
  then show ?thesis using assms(1) by (simp add: handle_request_inv)
qed (simp_all add: sess_inv_def started_ok_def status_ok_def unread_ok_def winch_ok_def helper_defs handler_runs_def
      Let_def split: option.splits if_splits)

interpretation sess_invariant: rel_invariant "sess_step cfg" sess_inv
  for cfg :: "'h sess_cfg"
  by unfold_locales (rule sess_step_inv)

lemma new_machine_inv: "sess_inv (new_machine ctx sigs brks)"
  by (simp add: new_machine_def new_session_def sess_inv_def started_ok_def status_ok_def unread_ok_def winch_ok_def)

section \<open>What a started session can no longer change\<close>

definition same_setup :: "'h machine \<Rightarrow> 'h machine \<Rightarrow> bool" where
  "same_setup m m' \<longleftrightarrow>
     s_handled (m_sess m') \<and> m_started m' = m_started m \<and> s_env (m_sess m') = s_env (m_sess m) \<and>
     s_rawCmd (m_sess m') = s_rawCmd (m_sess m) \<and> s_subsystem (m_sess m') = s_subsystem (m_sess m) \<and>
     map_option Term (s_pty (m_sess m')) = map_option Term (s_pty (m_sess m))"

lemma handle_request_same_setup:
  assumes "same_setup m0 m"
  shows "same_setup m0 (handle_request cfg req m)"
  using assms
  by (cases rule: handle_request_cases)
    (auto simp: same_setup_def req_defs helper_defs Let_def split: option.splits sum.splits prod.splits)

lemma sess_step_same_setup:
  assumes "same_setup m0 m" "sess_step cfg m m'"
  shows "same_setup m0 m'"
  using assms(2,1)
proof (cases rule: sess_step.cases)
  case (CallExit se ce code r)
  then show ?thesis
    using assms(1) session_Exit_simps[OF CallExit(3)] by (simp add: same_setup_def)
next
  case (Request req)
  then show ?thesis using assms(1) by (simp add: handle_request_same_setup)
qed (simp_all add: same_setup_def helper_defs Let_def)

interpretation sess_setup: rel_invariant "sess_step cfg" "same_setup m0"
  for cfg :: "'h sess_cfg" and m0
  by unfold_locales (rule sess_step_same_setup)

section \<open>The window channel stays open\<close>

text \<open>The deferred call that closes the window channel runs when the request loop is over, and only that
  loop sends on the channel: the panic of a send on a closed channel cannot happen there, so that the
  step relation has no case for it.\<close>

definition winch_open :: "'h machine \<Rightarrow> bool" where
  "winch_open m \<longleftrightarrow> (m_loop m \<noteq> Ended \<longrightarrow> (\<forall>c. s_winch (m_sess m) = Some c \<longrightarrow> \<not> ch_closed c))"

lemma handle_request_open:
  assumes "winch_open m" "m_loop m = Idle"
  shows "winch_open (handle_request cfg req m)"
  using assms
  by (cases rule: handle_request_cases)
    (auto simp: winch_open_def req_defs helper_defs Let_def split: option.splits sum.splits prod.splits if_splits)

lemma sess_step_open:
  assumes "winch_open m" "sess_step cfg m m'"
  shows "winch_open m'"
  using assms(2,1)
proof (cases rule: sess_step.cases)
  case (CallExit se ce code r)
  then show ?thesis using assms(1) session_Exit_simps[OF CallExit(3)] by (simp add: winch_open_def)
next
  case (Request req)
  then show ?thesis using assms(1) by (simp add: handle_request_open)
qed (simp_all add: winch_open_def helper_defs Let_def split: option.splits if_splits)

interpretation sess_open: rel_invariant "sess_step cfg" winch_open
  for cfg :: "'h sess_cfg"
  by unfold_locales (rule sess_step_open)

lemma winch_send_safe:
  assumes "(sess_step cfg)\<^sup>*\<^sup>* (new_machine ctx sigs brks) m" "m_loop m = SendWinch w" "s_winch (m_sess m) = Some c"
  shows "\<not> ch_closed c"
proof -
  have "winch_open (new_machine ctx sigs brks)" by (simp add: winch_open_def new_machine_def new_session_def)
  from sess_open.star_inv[OF assms(1) this] show ?thesis using assms(2,3) by (simp add: winch_open_def)
qed

section \<open>A blocked request loop\<close>

definition winch_stuck :: "Window \<Rightarrow> 'h machine \<Rightarrow> bool" where
  "winch_stuck w m \<longleftrightarrow>
     m_loop m = SendWinch w \<and> m_started m = [] \<and> m_flushers m = [] \<and>
     (\<exists>c. s_winch (m_sess m) = Some c \<and> \<not> has_room c)"

lemma winch_stuck_step: "winch_stuck w m \<Longrightarrow> sess_step cfg m m' \<Longrightarrow> winch_stuck w m'"
  by (erule sess_step.cases) (auto simp: winch_stuck_def handler_runs_def)

interpretation sess_stuck: rel_invariant "sess_step cfg" "winch_stuck w"
  for cfg :: "'h sess_cfg" and w
  by unfold_locales (rule winch_stuck_step)

section \<open>Line ends\<close>

text \<open>The reference: a line feed that does not follow a carriage return gets one.\<close>

fun crlf :: "bool \<Rightarrow> string \<Rightarrow> string" where
  "crlf after_cr [] = []"
| "crlf after_cr (c # cs) =
     (if c = LF then (if after_cr then [LF] else [CR, LF]) @ crlf False cs
      else c # crlf (c = CR) cs)"

lemma CR_LF [simp]: "CR \<noteq> LF" "LF \<noteq> CR"
  by (simp_all add: CR_def LF_def)

definition lf_to_crlf :: "string \<Rightarrow> string" where
  "lf_to_crlf s = Replace_all s [LF] [CR, LF]"

lemma lf_to_crlf_simps [simp]:
  "lf_to_crlf [] = []"
  "lf_to_crlf (c # cs) = (if c = LF then CR # LF # lf_to_crlf cs else c # lf_to_crlf cs)"
  by (simp_all add: lf_to_crlf_def HasPrefix_def)

lemma lf_to_crlf_not_LF: "lf_to_crlf s \<noteq> LF # t"
  by (cases s) auto

lemma crlf_not_LF: "(\<forall>t. s \<noteq> LF # t) \<Longrightarrow> crlf True s = crlf False s"
  by (cases s) auto

lemma HasPrefix_CR_CR_LF:
  "HasPrefix (c # lf_to_crlf s) [CR, CR, LF] \<longleftrightarrow> c = CR \<and> (\<exists>t. s = LF # t)"
proof (cases s)
  case (Cons d t)
  then show ?thesis using lf_to_crlf_not_LF[of t]
    by (auto simp: HasPrefix_iff prefix_def)
qed (simp add: HasPrefix_def)

lemma Replace_CR_CR_LF:
  "Replace_all (lf_to_crlf s) [CR, CR, LF] [CR, LF] = crlf False s"
proof (induction s rule: length_induct)
  case (1 s)
  show ?case
  proof (cases s)
    case (Cons c cs)
    consider (lf) "c = LF" | (crlf) ds where "c = CR" "cs = LF # ds"
      | (other) "c \<noteq> LF" "\<not> (c = CR \<and> (\<exists>ds. cs = LF # ds))" by blast
    then show ?thesis
    proof cases
      case lf
      then show ?thesis using 1 Cons by (simp add: HasPrefix_def)
    next
      case crlf
      then show ?thesis using 1 Cons by (simp add: HasPrefix_def)
    next
      case other
      then have "\<not> HasPrefix (c # lf_to_crlf cs) [CR, CR, LF]" by (simp add: HasPrefix_CR_CR_LF)
      moreover have "crlf (c = CR) cs = crlf False cs"
        using other crlf_not_LF[of cs] by (cases "c = CR") auto
      ultimately show ?thesis using 1 Cons other by simp
    qed
  qed simp
qed

lemma Write_normalize_crlf: "Write_normalize p = crlf False p"
  using Replace_CR_CR_LF[of p] by (simp add: Write_normalize_def lf_to_crlf_def)

lemma crlf_idem: "crlf b (crlf b s) = crlf b s"
  by (induction b s rule: crlf.induct) auto

lemma crlf_erases: "filter (\<lambda>c. c \<noteq> CR) (crlf b s) = filter (\<lambda>c. c \<noteq> CR) s"
  by (induction b s rule: crlf.induct) auto

section \<open>Properties\<close>

text \<open>C6. Whatever requests a client sends and however the goroutines interleave, a session starts
  at most one handler, and marks itself handled exactly when it did (or its handler is nil and the
  process panicked); at most one exit status is sent; the signal buffer never exceeds 128 entries;
  the window channel exists exactly when a terminal was granted and holds at most one window.\<close>

theorem session_invariant:
  assumes "(sess_step cfg)\<^sup>*\<^sup>* (new_machine ctx sigs brks) m"
  shows "length (m_started m) \<le> 1 \<and>
    (m_started m \<noteq> [] \<longrightarrow> s_handled (m_sess m)) \<and>
    (s_handled (m_sess m) \<longrightarrow> m_started m \<noteq> [] \<or> (\<exists>e. m_loop m = Crashed e)) \<and>
    length (m_statuses m) = (if s_exited (m_sess m) then 1 else 0) \<and>
    length (s_sigBuf (m_sess m)) \<le> 128 \<and>
    (s_winch (m_sess m) = None \<longleftrightarrow> s_pty (m_sess m) = None) \<and>
    (\<forall>c. s_winch (m_sess m) = Some c \<longrightarrow> length (ch_buf c) \<le> 1)"
  using sess_invariant.star_inv[OF assms new_machine_inv]
  by (auto simp: sess_inv_def started_ok_def status_ok_def winch_ok_def maxSigBufSize_def
      split: if_splits option.splits)

text \<open>A concrete configuration and the machines after \<open>pty-req\<close> and after \<open>shell\<close>.\<close>

definition demo_value :: "string \<Rightarrow> string" where
  "demo_value s = (case ssh_parseString s of Inr (v, _, True) \<Rightarrow> v | _ \<Rightarrow> [])"

definition demo_cfg :: "nat sess_cfg" where
  "demo_cfg = \<lparr>c_handler = Some 1, c_subsystemHandlers = (\<lambda>n. if n = ''sftp'' then Some 2 else None),
     c_ptyCb = None, c_sessReqCb = None, c_unmarshal1 = demo_value,
     c_unmarshal2 = (\<lambda>s. (demo_value s, []))\<rparr>"

definition no_chan :: "nat \<Rightarrow> 'a chan" where
  "no_chan _ = \<lparr>ch_cap = 0, ch_buf = [], ch_closed = False\<rparr>"

definition demo_start :: "nat machine" where
  "demo_start = new_machine (newContext 1 2) no_chan no_chan"

definition pty_request :: request where
  "pty_request = \<lparr>rq_Type = ''pty-req'', rq_Payload = enc_string ''xterm'' @ be_bytes 80 @ be_bytes 24\<rparr>"

definition winch_request :: request where
  "winch_request = \<lparr>rq_Type = ''window-change'', rq_Payload = be_bytes 132 @ be_bytes 43\<rparr>"

definition shell_request :: request where
  "shell_request = \<lparr>rq_Type = ''shell'', rq_Payload = []\<rparr>"

definition demo_pty :: "nat machine" where
  "demo_pty = handle_request demo_cfg pty_request demo_start"

definition demo_shell :: "nat machine" where
  "demo_shell = handle_request demo_cfg shell_request demo_pty"

lemma demo_start_Idle: "m_loop demo_start = Idle"
  by (simp add: demo_start_def new_machine_def)

lemma demo_pty_state:
  "m_loop demo_pty = Idle" "m_started demo_pty = []"
  "map_option Term (s_pty (m_sess demo_pty)) = Some ''xterm''"
  by code_simp+

lemma demo_shell_state:
  "m_loop demo_shell = Idle" "m_started demo_shell = [1]" "s_handled (m_sess demo_shell)"
  "s_env (m_sess demo_shell) = []" "s_rawCmd (m_sess demo_shell) = []"
  by code_simp+

lemma winch_request_parses:
  "parseWinchRequest (rq_Payload winch_request) = (\<lparr>Width = 132, Height = 43\<rparr>, True)"
  "rq_Type winch_request = ''window-change''"
  by code_simp+

lemma demo_pty_reachable: "(sess_step demo_cfg)\<^sup>*\<^sup>* demo_start demo_pty"
  unfolding demo_pty_def by (rule r_into_rtranclp, rule Request, rule demo_start_Idle)

lemma demo_shell_reachable: "(sess_step demo_cfg)\<^sup>*\<^sup>* demo_start demo_shell"
  using demo_pty_reachable Request[OF demo_pty_state(1), of demo_cfg shell_request]
  unfolding demo_shell_def by (rule rtranclp.rtrancl_into_rtrancl)

theorem session_invariant_witness:
  "length (m_started demo_shell) \<le> 1 \<and> length (s_sigBuf (m_sess demo_shell)) \<le> 128 \<and>
   m_started demo_shell = [1]"
  using session_invariant[OF demo_shell_reachable[unfolded demo_start_def]] demo_shell_state(2)
  by blast

text \<open>Once a session is handled no request, and no interleaving, changes its environment, its
  command, its subsystem, the terminal type or the set of started handlers.\<close>

theorem session_setup_frozen:
  assumes "s_handled (m_sess m)" and "(sess_step cfg)\<^sup>*\<^sup>* m m'"
  shows "s_handled (m_sess m') \<and> m_started m' = m_started m \<and> s_env (m_sess m') = s_env (m_sess m) \<and>
    s_rawCmd (m_sess m') = s_rawCmd (m_sess m) \<and> s_subsystem (m_sess m') = s_subsystem (m_sess m) \<and>
    map_option Term (s_pty (m_sess m')) = map_option Term (s_pty (m_sess m))"
proof -
  have "same_setup m m" using assms(1) by (simp add: same_setup_def)
  with assms(2) have "same_setup m m'" by (rule sess_setup.star_inv)
  then show ?thesis by (simp add: same_setup_def)
qed

theorem session_setup_frozen_witness:
  "m_started (handle_request demo_cfg shell_request demo_shell) = [1] \<and>
   s_env (m_sess (handle_request demo_cfg \<lparr>rq_Type = ''env'', rq_Payload = enc_string ''LANG''\<rparr> demo_shell)) = []"
  using session_setup_frozen[OF demo_shell_state(3) r_into_rtranclp[of "sess_step demo_cfg", OF Request[OF demo_shell_state(1)]],
      of shell_request]
    session_setup_frozen[OF demo_shell_state(3) r_into_rtranclp[of "sess_step demo_cfg", OF Request[OF demo_shell_state(1)]],
      of "\<lparr>rq_Type = ''env'', rq_Payload = enc_string ''LANG''\<rparr>"]
  by (simp add: demo_shell_state)

text \<open>C39. A valid \<open>window-change\<close> that arrives after the terminal was granted but before the shell was
  requested blocks the request loop for ever: the window channel already holds the initial size,
  only the handler drains it, and the loop that would start the handler is the one that waits.\<close>

theorem early_window_change_blocks:
  assumes "(sess_step cfg)\<^sup>*\<^sup>* (new_machine ctx sigs brks) m"
    and "m_loop m = Idle" and "m_started m = []" and "s_pty (m_sess m) \<noteq> None"
    and "rq_Type req = ''window-change''" and "parseWinchRequest (rq_Payload req) = (w, True)"
    and "(sess_step cfg)\<^sup>*\<^sup>* (handle_request cfg req m) m'"
  shows "m_loop m' = SendWinch w \<and> m_started m' = []"
proof -
  have "sess_inv m" using sess_invariant.star_inv[OF assms(1) new_machine_inv] .
  then have "winch_stuck w (handle_request cfg req m)"
    using assms(3-6)
    by (auto simp: sess_inv_def unread_ok_def winch_ok_def winch_stuck_def handle_request_def
        req_winch_def put_sess_def split: option.splits)
  then show ?thesis using sess_stuck.star_inv[OF assms(7)] by (auto simp: winch_stuck_def)
qed

theorem early_window_change_blocks_witness:
  "m_loop (handle_request demo_cfg winch_request demo_pty) = SendWinch \<lparr>Width = 132, Height = 43\<rparr>"
  using early_window_change_blocks[OF demo_pty_reachable[unfolded demo_start_def] demo_pty_state(1,2) _
      winch_request_parses(2,1) rtranclp.rtrancl_refl] demo_pty_state(3)
  by auto

text \<open>C27. With a terminal, what reaches the channel is the text with every bare line feed turned into
  carriage return and line feed, no byte but carriage returns added; doing it twice changes
  nothing more; and the count that the caller sees never exceeds the length of its buffer.\<close>

theorem session_Write_normalizes:
  "Write_normalize p = crlf False p \<and> Write_normalize (Write_normalize p) = Write_normalize p \<and>
   filter (\<lambda>c. c \<noteq> CR) (Write_normalize p) = filter (\<lambda>c. c \<noteq> CR) p \<and>
   session_Write (s\<lparr>s_pty := Some t\<rparr>) W p =
     (min (fst (W (crlf False p))) (length p), snd (W (crlf False p)))"
  by (simp add: Write_normalize_crlf crlf_idem crlf_erases session_Write_def min_def split: prod.split)

end
