(* ===== verification/Ssh_Server.thy ===== *)
theory Ssh_Server
  imports Ssh_Session
begin

text \<open>
  The embedded SSH server: \<open>server.go\<close>, \<open>options.go\<close>, \<open>conn.go\<close> and the entry points of \<open>ssh.go\<close>
  under \<open>internal/secure_shell\<close>. Listeners, connections and signers are named by numbers; a Go map
  used as a set is the list of its keys in the order in which a \<open>range\<close> visits them; the done
  channel is \<open>None\<close> while nil and otherwise says whether it is closed; instants are nanoseconds and
  the zero \<open>time.Time\<close> is \<open>None\<close>. The SSH protocol itself (golang.org/x/crypto/ssh) is a parameter.
\<close>

section \<open>Data\<close>

record signer =
  sg_Type :: string
  sg_key :: nat

datatype channel_handler = DefaultSession | DirectTCPIP | CustomChannel nat

datatype request_handler = ForwardedTCP | CustomRequest nat

type_synonym conn_id = nat

text \<open>\<open>gossh.ServerConfig\<close>: the fields that \<open>config\<close> sets. A callback returns the permissions
  reference and an error, and may change the context.\<close>

type_synonym auth_result = "nat result \<times> error option"

record 'k ServerConfig =
  cf_hostKeys :: "signer list"
  cf_NoClientAuth :: bool
  cf_ServerVersion :: string
  cf_BannerCallback :: "(ConnMetadata \<Rightarrow> sshContext \<Rightarrow> sshContext \<times> string) option"
  cf_PasswordCallback :: "(ConnMetadata \<Rightarrow> string \<Rightarrow> sshContext \<Rightarrow> sshContext \<times> auth_result) option"
  cf_PublicKeyCallback :: "(ConnMetadata \<Rightarrow> string \<Rightarrow> sshContext \<Rightarrow> sshContext \<times> auth_result) option"
  cf_KeyboardCallback :: "(ConnMetadata \<Rightarrow> 'k \<Rightarrow> sshContext \<Rightarrow> sshContext \<times> auth_result) option"

record ('h, 'k) ssh_server =
  Addr :: string
  Handler :: "'h option"
  HostSigners :: "signer list"
  srv_Version :: string
  Banner :: string
  BannerHandler :: "(sshContext \<Rightarrow> string) option"
  KeyboardInteractiveHandler :: "(sshContext \<Rightarrow> 'k \<Rightarrow> bool) option"
  PasswordHandler :: "(sshContext \<Rightarrow> string \<Rightarrow> bool) option"
  PublicKeyHandler :: "(sshContext \<Rightarrow> string \<Rightarrow> bool) option"
  PtyCallback :: "(sshContext \<Rightarrow> Pty \<Rightarrow> bool) option"
  ConnCallback :: "(conn_id \<Rightarrow> conn_id option) option"
  LocalPortForwardingCallback :: "(sshContext \<Rightarrow> string \<Rightarrow> 32 word \<Rightarrow> bool) option"
  ReversePortForwardingCallback :: "(sshContext \<Rightarrow> string \<Rightarrow> 32 word \<Rightarrow> bool) option"
  ServerConfigCallback :: "(sshContext \<Rightarrow> 'k ServerConfig) option"
  SessionRequestCallback :: "(session \<Rightarrow> string \<Rightarrow> bool) option"
  has_ConnectionFailedCallback :: bool
  HandshakeTimeout :: int
  IdleTimeout :: int
  MaxTimeout :: int
  ChannelHandlers :: "(string \<Rightarrow> channel_handler option) option"
  RequestHandlers :: "(string \<Rightarrow> request_handler option) option"
  SubsystemHandlers :: "(string \<Rightarrow> 'h option) option"
  listenerWg :: int
  listeners :: "nat list option"
  conns :: "nat list option"
  connWg :: int
  doneChan :: "bool option"

definition ErrServerClosed :: error where
  "ErrServerClosed = Errorf ''ssh: Server closed''"

definition zero_Server :: "('h, 'k) ssh_server" where
  "zero_Server =
     \<lparr>Addr = [], Handler = None, HostSigners = [], srv_Version = [], Banner = [],
      BannerHandler = None, KeyboardInteractiveHandler = None, PasswordHandler = None,
      PublicKeyHandler = None, PtyCallback = None, ConnCallback = None,
      LocalPortForwardingCallback = None, ReversePortForwardingCallback = None,
      ServerConfigCallback = None, SessionRequestCallback = None,
      has_ConnectionFailedCallback = False, HandshakeTimeout = 0, IdleTimeout = 0, MaxTimeout = 0,
      ChannelHandlers = None, RequestHandlers = None, SubsystemHandlers = None, listenerWg = 0,
      listeners = None, conns = None, connWg = 0, doneChan = None\<rparr>"

section \<open>Handlers, host keys and options\<close>

definition ensureHostSigner ::
  "signer result \<Rightarrow> ('h, 'k) ssh_server \<Rightarrow> error option \<times> ('h, 'k) ssh_server" where
  "ensureHostSigner generateSigner srv =
     (if HostSigners srv = []
      then (case generateSigner of
              Inl e \<Rightarrow> (Some e, srv)
            | Inr s \<Rightarrow> (None, srv\<lparr>HostSigners := HostSigners srv @ [s]\<rparr>))
      else (None, srv))"

definition DefaultChannelHandlers :: "string \<Rightarrow> channel_handler option" where
  "DefaultChannelHandlers = [''session'' \<mapsto> DefaultSession]"

definition DefaultRequestHandlers :: "string \<Rightarrow> request_handler option" where
  [simp]: "DefaultRequestHandlers = Map.empty"

definition DefaultSubsystemHandlers :: "string \<Rightarrow> 'h option" where
  [simp]: "DefaultSubsystemHandlers = Map.empty"

definition ensureHandlers :: "('h, 'k) ssh_server \<Rightarrow> ('h, 'k) ssh_server" where
  "ensureHandlers srv =
     srv\<lparr>RequestHandlers := Some (case RequestHandlers srv of None \<Rightarrow> DefaultRequestHandlers | Some m \<Rightarrow> m),
         ChannelHandlers := Some (case ChannelHandlers srv of None \<Rightarrow> DefaultChannelHandlers | Some m \<Rightarrow> m),
         SubsystemHandlers := Some (case SubsystemHandlers srv of None \<Rightarrow> DefaultSubsystemHandlers | Some m \<Rightarrow> m)\<rparr>"

primrec replace_key :: "signer \<Rightarrow> signer list \<Rightarrow> signer list option" where
  "replace_key key [] = None"
| "replace_key key (k # ks) =
     (if sg_Type k = sg_Type key then Some (key # ks)
      else map_option ((#) k) (replace_key key ks))"

definition AddHostKey :: "signer \<Rightarrow> ('h, 'k) ssh_server \<Rightarrow> ('h, 'k) ssh_server" where
  "AddHostKey key srv =
     (case replace_key key (HostSigners srv) of
        Some ks \<Rightarrow> srv\<lparr>HostSigners := ks\<rparr>
      | None \<Rightarrow> srv\<lparr>HostSigners := HostSigners srv @ [key]\<rparr>)"

type_synonym ('h, 'k) srv_option = "('h, 'k) ssh_server \<Rightarrow> error option \<times> ('h, 'k) ssh_server"

definition PasswordAuth :: "(sshContext \<Rightarrow> string \<Rightarrow> bool) \<Rightarrow> ('h, 'k) srv_option" where
  "PasswordAuth fn srv = (None, srv\<lparr>PasswordHandler := Some fn\<rparr>)"

definition PublicKeyAuth :: "(sshContext \<Rightarrow> string \<Rightarrow> bool) \<Rightarrow> ('h, 'k) srv_option" where
  "PublicKeyAuth fn srv = (None, srv\<lparr>PublicKeyHandler := Some fn\<rparr>)"

definition KeyboardInteractiveAuth :: "(sshContext \<Rightarrow> 'k \<Rightarrow> bool) \<Rightarrow> ('h, 'k) srv_option" where
  "KeyboardInteractiveAuth fn srv = (None, srv\<lparr>KeyboardInteractiveHandler := Some fn\<rparr>)"

definition HostKeyPEM :: "(string \<Rightarrow> signer result) \<Rightarrow> string \<Rightarrow> ('h, 'k) srv_option" where
  "HostKeyPEM ParsePrivateKey pem srv =
     (case ParsePrivateKey pem of Inl e \<Rightarrow> (Some e, srv) | Inr s \<Rightarrow> (None, AddHostKey s srv))"

definition HostKeyFile ::
  "(string \<Rightarrow> string result) \<Rightarrow> (string \<Rightarrow> signer result) \<Rightarrow> string \<Rightarrow> ('h, 'k) srv_option" where
  "HostKeyFile ReadFile ParsePrivateKey filepath srv =
     (case ReadFile filepath of
        Inl e \<Rightarrow> (Some e, srv)
      | Inr pem \<Rightarrow> (case ParsePrivateKey pem of
                      Inl e \<Rightarrow> (Some e, srv) | Inr s \<Rightarrow> (None, AddHostKey s srv)))"

definition NoPty :: "('h, 'k) srv_option" where
  "NoPty srv = (None, srv\<lparr>PtyCallback := Some (\<lambda>ctx pty. False)\<rparr>)"

definition WrapConn :: "(conn_id \<Rightarrow> conn_id option) \<Rightarrow> ('h, 'k) srv_option" where
  "WrapConn fn srv = (None, srv\<lparr>ConnCallback := Some fn\<rparr>)"

definition SetOption :: "('h, 'k) srv_option \<Rightarrow> ('h, 'k) srv_option" where
  "SetOption option srv = option srv"

primrec apply_options :: "('h, 'k) srv_option list \<Rightarrow> ('h, 'k) srv_option" where
  "apply_options [] srv = (None, srv)"
| "apply_options (opt # opts) srv =
     (case SetOption opt srv of
        (Some e, srv1) \<Rightarrow> (Some e, srv1)
      | (None, srv1) \<Rightarrow> apply_options opts srv1)"

definition srv_Handle :: "'h option \<Rightarrow> ('h, 'k) ssh_server \<Rightarrow> ('h, 'k) ssh_server" where
  "srv_Handle fn srv = srv\<lparr>Handler := fn\<rparr>"

section \<open>The protocol configuration\<close>

definition auth_callback ::
  "(sshContext \<Rightarrow> 'c \<Rightarrow> bool) \<Rightarrow> (sshContext \<Rightarrow> 'c \<Rightarrow> sshContext) \<Rightarrow>
   ConnMetadata \<Rightarrow> 'c \<Rightarrow> sshContext \<Rightarrow> sshContext \<times> auth_result" where
  "auth_callback handler on_success conn cred ctx =
     (let ctx1 = applyConnMetadata conn ctx in
      if \<not> handler ctx1 cred then (ctx1, ctx_Permissions ctx1, Some (Errorf ''permission denied''))
      else let ctx2 = on_success ctx1 cred in (ctx2, ctx_Permissions ctx2, None))"

definition empty_ServerConfig :: "'k ServerConfig" where
  "empty_ServerConfig =
     \<lparr>cf_hostKeys = [], cf_NoClientAuth = False, cf_ServerVersion = [], cf_BannerCallback = None,
      cf_PasswordCallback = None, cf_PublicKeyCallback = None, cf_KeyboardCallback = None\<rparr>"

definition srv_config ::
  "(signer \<Rightarrow> signer list \<Rightarrow> signer list) \<Rightarrow> ('h, 'k) ssh_server \<Rightarrow> sshContext \<Rightarrow> 'k ServerConfig" where
  "srv_config cfgAddHostKey srv ctx =
     (let c0 = (case ServerConfigCallback srv of None \<Rightarrow> empty_ServerConfig | Some cb \<Rightarrow> cb ctx);
          c1 = c0\<lparr>cf_hostKeys := fold cfgAddHostKey (HostSigners srv) (cf_hostKeys c0)\<rparr>;
          c2 = (if Option.is_none (PasswordHandler srv) \<and> Option.is_none (PublicKeyHandler srv) \<and>
                   Option.is_none (KeyboardInteractiveHandler srv)
                then c1\<lparr>cf_NoClientAuth := True\<rparr> else c1);
          c3 = (if srv_Version srv \<noteq> [] then c2\<lparr>cf_ServerVersion := ''SSH-2.0-'' @ srv_Version srv\<rparr> else c2);
          c4 = (if Banner srv \<noteq> [] then c3\<lparr>cf_BannerCallback := Some (\<lambda>_ ctx. (ctx, Banner srv))\<rparr> else c3);
          c5 = (case BannerHandler srv of None \<Rightarrow> c4
                | Some h \<Rightarrow> c4\<lparr>cf_BannerCallback :=
                    Some (\<lambda>conn ctx. let ctx1 = applyConnMetadata conn ctx in (ctx1, h ctx1))\<rparr>);
          c6 = (case PasswordHandler srv of None \<Rightarrow> c5
                | Some h \<Rightarrow> c5\<lparr>cf_PasswordCallback := Some (auth_callback h (\<lambda>ctx _. ctx))\<rparr>);
          c7 = (case PublicKeyHandler srv of None \<Rightarrow> c6
                | Some h \<Rightarrow> c6\<lparr>cf_PublicKeyCallback :=
                    Some (auth_callback h (\<lambda>ctx key. SetValue ContextKeyPublicKey (VPublicKey key) ctx))\<rparr>)
      in (case KeyboardInteractiveHandler srv of None \<Rightarrow> c7
          | Some h \<Rightarrow> c7\<lparr>cf_KeyboardCallback := Some (auth_callback h (\<lambda>ctx _. ctx))\<rparr>))"

section \<open>Tracking of listeners and connections\<close>

definition members :: "nat list option \<Rightarrow> nat list" where
  "members s = (case s of None \<Rightarrow> [] | Some xs \<Rightarrow> xs)"

definition set_add :: "nat \<Rightarrow> nat list \<Rightarrow> nat list" where
  "set_add x xs = (if x \<in> set xs then xs else xs @ [x])"

definition set_del :: "nat \<Rightarrow> nat list \<Rightarrow> nat list" where
  "set_del x xs = filter (\<lambda>y. y \<noteq> x) xs"

definition getDoneChanLocked :: "('h, 'k) ssh_server \<Rightarrow> bool \<times> ('h, 'k) ssh_server" where
  "getDoneChanLocked srv =
     (case doneChan srv of None \<Rightarrow> (False, srv\<lparr>doneChan := Some False\<rparr>) | Some c \<Rightarrow> (c, srv))"

definition closeDoneChanLocked :: "('h, 'k) ssh_server \<Rightarrow> ('h, 'k) ssh_server" where
  "closeDoneChanLocked srv =
     (case getDoneChanLocked srv of
        (True, srv1) \<Rightarrow> srv1
      | (False, srv1) \<Rightarrow> srv1\<lparr>doneChan := Some True\<rparr>)"

primrec close_each :: "(nat \<Rightarrow> error option) \<Rightarrow> nat list \<Rightarrow> error option \<Rightarrow> error option" where
  "close_each cl [] err = err"
| "close_each cl (x # xs) err =
     close_each cl xs (case cl x of None \<Rightarrow> err | Some ce \<Rightarrow> if err = None then Some ce else err)"

definition closeListenersLocked ::
  "(nat \<Rightarrow> error option) \<Rightarrow> ('h, 'k) ssh_server \<Rightarrow> error option \<times> ('h, 'k) ssh_server" where
  "closeListenersLocked cl srv =
     (close_each cl (members (listeners srv)) None, srv\<lparr>listeners := map_option (\<lambda>_. []) (listeners srv)\<rparr>)"

definition trackListener :: "nat \<Rightarrow> bool \<Rightarrow> ('h, 'k) ssh_server \<Rightarrow> ('h, 'k) ssh_server" where
  "trackListener ln add srv =
     (let srv1 = srv\<lparr>listeners := Some (members (listeners srv))\<rparr> in
      if add
      then let srv2 = (if members (listeners srv1) = [] \<and> members (conns srv1) = []
                       then srv1\<lparr>doneChan := None\<rparr> else srv1)
           in srv2\<lparr>listeners := Some (set_add ln (members (listeners srv2))), listenerWg := listenerWg srv2 + 1\<rparr>
      else srv1\<lparr>listeners := Some (set_del ln (members (listeners srv1))), listenerWg := listenerWg srv1 - 1\<rparr>)"

definition trackConn :: "nat \<Rightarrow> bool \<Rightarrow> ('h, 'k) ssh_server \<Rightarrow> ('h, 'k) ssh_server" where
  "trackConn c add srv =
     (let srv1 = srv\<lparr>conns := Some (members (conns srv))\<rparr> in
      if add
      then srv1\<lparr>conns := Some (set_add c (members (conns srv1))), connWg := connWg srv1 + 1\<rparr>
      else srv1\<lparr>conns := Some (set_del c (members (conns srv1))), connWg := connWg srv1 - 1\<rparr>)"

text \<open>\<open>Close\<close>: also returns the connections that it closes.\<close>

definition srv_Close ::
  "(nat \<Rightarrow> error option) \<Rightarrow> ('h, 'k) ssh_server \<Rightarrow> error option \<times> nat list \<times> ('h, 'k) ssh_server" where
  "srv_Close cl srv =
     (case closeListenersLocked cl (closeDoneChanLocked srv) of
        (err, srv1) \<Rightarrow>
          (err, members (conns srv1), srv1\<lparr>conns := map_option (\<lambda>_. []) (conns srv1)\<rparr>))"

text \<open>\<open>Shutdown\<close>: the locked part.\<close>

definition Shutdown_begin ::
  "(nat \<Rightarrow> error option) \<Rightarrow> ('h, 'k) ssh_server \<Rightarrow> error option \<times> ('h, 'k) ssh_server" where
  "Shutdown_begin cl srv =
     (case closeListenersLocked cl srv of (lnerr, srv1) \<Rightarrow> (lnerr, closeDoneChanLocked srv1))"

text \<open>The goroutine that waits, one group after the other, between its two waits.\<close>

datatype shutdown_pc = NotCalled | WaitListeners | WaitConns | Finished

fun Shutdown_wait :: "('h, 'k) ssh_server \<Rightarrow> shutdown_pc \<Rightarrow> shutdown_pc" where
  "Shutdown_wait srv WaitListeners = (if listenerWg srv = 0 then WaitConns else WaitListeners)"
| "Shutdown_wait srv WaitConns = (if connWg srv = 0 then Finished else WaitConns)"
| "Shutdown_wait srv pc = pc"

section \<open>The accept loop\<close>

datatype accepted = NewConn conn_id | TempError error | PermError error

record serve_state =
  sv_delay :: int
  sv_slept :: "int list"
  sv_spawned :: "conn_id list"
  sv_result :: "error option"

definition backoff :: "int \<Rightarrow> int" where
  "backoff tempDelay =
     (let d = (if tempDelay = 0 then 5000000 else tempDelay * 2)
      in if d > 1000000000 then 1000000000 else d)"

text \<open>One turn of the loop: the result of \<open>Accept\<close> and whether the done channel was closed at that
  moment. A loop that returned stays where it is.\<close>

definition serve_turn :: "serve_state \<Rightarrow> accepted \<times> bool \<Rightarrow> serve_state" where
  "serve_turn st ev =
     (if sv_result st \<noteq> None then st
      else (case ev of
              (NewConn c, _) \<Rightarrow> st\<lparr>sv_spawned := sv_spawned st @ [c]\<rparr>
            | (TempError e, isdone) \<Rightarrow>
                if isdone then st\<lparr>sv_result := Some ErrServerClosed\<rparr>
                else st\<lparr>sv_delay := backoff (sv_delay st), sv_slept := sv_slept st @ [backoff (sv_delay st)]\<rparr>
            | (PermError e, isdone) \<Rightarrow>
                st\<lparr>sv_result := Some (if isdone then ErrServerClosed else e)\<rparr>))"

definition serve_init :: serve_state where
  "serve_init = \<lparr>sv_delay = 0, sv_slept = [], sv_spawned = [], sv_result = None\<rparr>"

text \<open>\<open>Serve\<close> up to its loop.\<close>

definition Serve_begin ::
  "signer result \<Rightarrow> 'h option \<Rightarrow> nat \<Rightarrow> ('h, 'k) ssh_server \<Rightarrow> error option \<times> ('h, 'k) ssh_server" where
  "Serve_begin generateSigner DefaultHandler l srv =
     (case ensureHostSigner generateSigner (ensureHandlers srv) of
        (Some e, srv1) \<Rightarrow> (Some e, srv1)
      | (None, srv1) \<Rightarrow>
          (None, trackListener l True (if Option.is_none (Handler srv1) then srv1\<lparr>Handler := DefaultHandler\<rparr> else srv1)))"

text \<open>\<open>Serve\<close> on a finite history of its \<open>Accept\<close> calls: the result (\<open>None\<close> while the loop still
  runs), the connections handed to goroutines, whether the listener was closed by the deferred
  call, and the server.\<close>

definition srv_Serve ::
  "signer result \<Rightarrow> 'h option \<Rightarrow> nat \<Rightarrow> (accepted \<times> bool) list \<Rightarrow> ('h, 'k) ssh_server \<Rightarrow>
   error option \<times> conn_id list \<times> bool \<times> ('h, 'k) ssh_server" where
  "srv_Serve generateSigner DefaultHandler l evs srv =
     (case Serve_begin generateSigner DefaultHandler l srv of
        (Some e, srv1) \<Rightarrow> (Some e, [], True, srv1)
      | (None, srv1) \<Rightarrow>
          let st = foldl serve_turn serve_init evs
          in if sv_result st = None then (None, sv_spawned st, False, srv1)
             else (sv_result st, sv_spawned st, True, trackListener l False srv1))"

definition ListenAndServe_addr :: "('h, 'k) ssh_server \<Rightarrow> string" where
  "ListenAndServe_addr srv = (if Addr srv = [] then '':22'' else Addr srv)"

text \<open>\<open>ListenAndServe\<close>, and the functions of the package that build a server from a handler and options
  and run it; \<open>net_Listen\<close> gives the listener for an address.\<close>

definition srv_ListenAndServe ::
  "(string \<Rightarrow> nat result) \<Rightarrow> signer result \<Rightarrow> 'h option \<Rightarrow> (accepted \<times> bool) list \<Rightarrow> ('h, 'k) ssh_server \<Rightarrow>
   error option \<times> conn_id list \<times> bool \<times> ('h, 'k) ssh_server" where
  "srv_ListenAndServe net_Listen generateSigner DefaultHandler evs srv =
     (case net_Listen (ListenAndServe_addr srv) of
        Inl e \<Rightarrow> (Some e, [], False, srv)
      | Inr l \<Rightarrow> srv_Serve generateSigner DefaultHandler l evs srv)"

definition ssh_Serve ::
  "signer result \<Rightarrow> 'h option \<Rightarrow> nat \<Rightarrow> (accepted \<times> bool) list \<Rightarrow> 'h option \<Rightarrow> ('h, 'k) srv_option list \<Rightarrow>
   error option \<times> conn_id list \<times> bool \<times> ('h, 'k) ssh_server" where
  "ssh_Serve generateSigner DefaultHandler l evs handler options =
     (case apply_options options (zero_Server\<lparr>Handler := handler\<rparr>) of
        (Some e, srv) \<Rightarrow> (Some e, [], False, srv)
      | (None, srv) \<Rightarrow> srv_Serve generateSigner DefaultHandler l evs srv)"

definition ssh_ListenAndServe ::
  "(string \<Rightarrow> nat result) \<Rightarrow> signer result \<Rightarrow> 'h option \<Rightarrow> (accepted \<times> bool) list \<Rightarrow> string \<Rightarrow> 'h option \<Rightarrow>
   ('h, 'k) srv_option list \<Rightarrow> error option \<times> conn_id list \<times> bool \<times> ('h, 'k) ssh_server" where
  "ssh_ListenAndServe net_Listen generateSigner DefaultHandler evs addr handler options =
     (case apply_options options (zero_Server\<lparr>Addr := addr, Handler := handler\<rparr>) of
        (Some e, srv) \<Rightarrow> (Some e, [], False, srv)
      | (None, srv) \<Rightarrow> srv_ListenAndServe net_Listen generateSigner DefaultHandler evs srv)"

text \<open>\<open>Handle\<close> of the package replaces the default handler.\<close>

definition ssh_Handle :: "'h option \<Rightarrow> 'h option \<Rightarrow> 'h option" where
  "ssh_Handle handler DefaultHandler = handler"

definition getDoneChan :: "('h, 'k) ssh_server \<Rightarrow> bool \<times> ('h, 'k) ssh_server" where
  "getDoneChan srv = getDoneChanLocked srv"

text \<open>The explicit handler wins over the default one, which is used only when none is set.\<close>

lemma trackListener_Handler [simp]: "Handler (trackListener l b srv) = Handler srv"
  by (simp add: trackListener_def Let_def split: option.split)

lemma ensureHostSigner_Handler: "ensureHostSigner gen srv = (r, srv') \<Longrightarrow> Handler srv' = Handler srv"
  by (auto simp: ensureHostSigner_def split: sum.splits if_splits)

lemma Serve_begin_handler:
  assumes "Serve_begin gen dh l srv = (None, srv')"
  shows "Handler srv' = (case Handler srv of None \<Rightarrow> dh | Some h \<Rightarrow> Some h)"
proof -
  obtain r srv1 where e: "ensureHostSigner gen (ensureHandlers srv) = (r, srv1)" by fastforce
  then have "Handler srv1 = Handler srv" using ensureHostSigner_Handler by (fastforce simp: ensureHandlers_def)
  then show ?thesis using assms e by (cases r) (auto simp: Serve_begin_def split: option.split)
qed

section \<open>Connections\<close>

record serverConn =
  sc_conn :: conn_id
  idleTimeout :: int
  handshakeDeadline :: "int option"
  maxDeadline :: "int option"
  sc_deadline :: "int option"
  sc_closed :: bool
  sc_cancelled :: bool

definition before :: "int \<Rightarrow> int option \<Rightarrow> bool" where
  "before t d = (case d of None \<Rightarrow> True | Some u \<Rightarrow> t < u)"

definition updateDeadline :: "int \<Rightarrow> serverConn \<Rightarrow> serverConn" where
  "updateDeadline now c =
     (let d0 = maxDeadline c;
          d1 = (case handshakeDeadline c of None \<Rightarrow> d0 | Some h \<Rightarrow> if before h d0 then Some h else d0);
          d2 = (if idleTimeout c > 0 \<and> before (now + idleTimeout c) d1 then Some (now + idleTimeout c) else d1)
      in c\<lparr>sc_deadline := d2\<rparr>)"

text \<open>\<open>Read\<close> and \<open>Write\<close>, given the outcome of the underlying call and whether its error is a
  \<open>net.Error\<close>; the canceler is always set by \<open>HandleConn\<close>.\<close>

definition serverConn_io ::
  "int \<Rightarrow> nat \<times> error option \<Rightarrow> (error \<Rightarrow> bool) \<Rightarrow> serverConn \<Rightarrow> (nat \<times> error option) \<times> serverConn" where
  "serverConn_io now outcome isNetErr c =
     (let c1 = (if idleTimeout c > 0 then updateDeadline now c else c) in
      (outcome, case snd outcome of
         Some e \<Rightarrow> if isNetErr e then c1\<lparr>sc_cancelled := True\<rparr> else c1
       | None \<Rightarrow> c1))"

definition serverConn_Close :: "serverConn \<Rightarrow> serverConn" where
  "serverConn_Close c = c\<lparr>sc_closed := True, sc_cancelled := True\<rparr>"

definition lookup_default :: "(string \<Rightarrow> 'a option) option \<Rightarrow> string \<Rightarrow> 'a option" where
  "lookup_default m k =
     (case m of None \<Rightarrow> None
      | Some f \<Rightarrow> (case f k of Some v \<Rightarrow> Some v | None \<Rightarrow> f ''default''))"

datatype conn_action =
    CloseRaw conn_id | SetDeadline "int option" | FailedCallback error
  | TrackConn nat | UntrackConn nat | HandleRequests | Dispatch channel_handler string
  | RejectChannel string | CloseConn

definition dispatch_channel :: "('h, 'k) ssh_server \<Rightarrow> string \<Rightarrow> conn_action" where
  "dispatch_channel srv t =
     (case lookup_default (ChannelHandlers srv) t of
        None \<Rightarrow> RejectChannel t | Some h \<Rightarrow> Dispatch h t)"

text \<open>\<open>HandleConn\<close>: the actions on the connection in order, and the final context. \<open>now1\<close> to \<open>now4\<close>
  are the instants read; \<open>handshake\<close> stands for \<open>gossh.NewServerConn\<close>, which may call back into the
  configuration and so change the context, and returns the SSH connection, its metadata and the
  types of the channels that the client opens until the connection ends.\<close>

definition new_serverConn :: "('h, 'k) ssh_server \<Rightarrow> int \<Rightarrow> int \<Rightarrow> conn_id \<Rightarrow> serverConn" where
  "new_serverConn srv now1 now2 c =
     \<lparr>sc_conn = c, idleTimeout = IdleTimeout srv,
      handshakeDeadline = (if HandshakeTimeout srv > 0 then Some (now2 + HandshakeTimeout srv) else None),
      maxDeadline = (if MaxTimeout srv > 0 then Some (now1 + MaxTimeout srv) else None),
      sc_deadline = None, sc_closed = False, sc_cancelled = False\<rparr>"

definition HandleConn ::
  "(signer \<Rightarrow> signer list \<Rightarrow> signer list) \<Rightarrow>
   ('k ServerConfig \<Rightarrow> sshContext \<Rightarrow> sshContext \<times> (error + nat \<times> ConnMetadata \<times> string list)) \<Rightarrow>
   int \<times> int \<times> int \<times> int \<Rightarrow> sshContext \<Rightarrow> conn_id \<Rightarrow> ('h, 'k) ssh_server \<Rightarrow>
   conn_action list \<times> sshContext" where
  "HandleConn cfgAddHostKey handshake clock ctx newConn srv =
     (case clock of (now1, now2, now3, now4) \<Rightarrow>
      case (case ConnCallback srv of None \<Rightarrow> Some newConn | Some cb \<Rightarrow> cb newConn) of
        None \<Rightarrow> ([CloseRaw newConn], ctx)
      | Some c \<Rightarrow>
          let conn = updateDeadline now3 (new_serverConn srv now1 now2 c);
              acts = [SetDeadline (sc_deadline conn)]
          in (case handshake (srv_config cfgAddHostKey srv ctx) ctx of
                (ctx1, Inl err) \<Rightarrow>
                  (acts @ (if has_ConnectionFailedCallback srv then [FailedCallback err] else []) @ [CloseConn],
                   ctx1)
              | (ctx1, Inr (sshConn, md, chans)) \<Rightarrow>
                  let conn1 = updateDeadline now4 (conn\<lparr>handshakeDeadline := None\<rparr>);
                      ctx2 = applyConnMetadata md (SetValue ContextKeyConn (VConn sshConn) ctx1)
                  in (acts @ [SetDeadline (sc_deadline conn1), TrackConn sshConn, HandleRequests] @
                      map (dispatch_channel srv) chans @ [UntrackConn sshConn, CloseConn], ctx2)))"

text \<open>\<open>handleRequests\<close>: the reply to each global request, given the request handlers.\<close>

definition handle_global_request ::
  "('h, 'k) ssh_server \<Rightarrow> (request_handler \<Rightarrow> request \<Rightarrow> 's \<Rightarrow> (bool \<times> string) \<times> 's) \<Rightarrow> request \<Rightarrow> 's \<Rightarrow>
   (bool \<times> string) \<times> 's" where
  "handle_global_request srv run req s =
     (case lookup_default (RequestHandlers srv) (rq_Type req) of
        None \<Rightarrow> ((False, []), s)
      | Some h \<Rightarrow> run h req s)"

primrec srv_handleRequests ::
  "('h, 'k) ssh_server \<Rightarrow> (request_handler \<Rightarrow> request \<Rightarrow> 's \<Rightarrow> (bool \<times> string) \<times> 's) \<Rightarrow> request list \<Rightarrow> 's \<Rightarrow>
   (bool \<times> string) list \<times> 's" where
  "srv_handleRequests srv run [] s = ([], s)"
| "srv_handleRequests srv run (req # reqs) s =
     (case handle_global_request srv run req s of
        (r, s1) \<Rightarrow> (case srv_handleRequests srv run reqs s1 of (rs, s2) \<Rightarrow> (r # rs, s2)))"

text \<open>\<open>DefaultSessionHandler\<close>: the session that runs when the channel is accepted.\<close>

definition DefaultSessionHandler ::
  "(string \<Rightarrow> string) \<Rightarrow> (string \<Rightarrow> string \<times> string) \<Rightarrow> ('h, 'k) ssh_server \<Rightarrow> error option \<Rightarrow> sshContext \<Rightarrow>
   ('h sess_cfg \<times> session) option" where
  "DefaultSessionHandler um1 um2 srv accept_err ctx =
     (case accept_err of
        Some _ \<Rightarrow> None
      | None \<Rightarrow>
          Some (\<lparr>c_handler = Handler srv,
                 c_subsystemHandlers = (case SubsystemHandlers srv of None \<Rightarrow> Map.empty | Some m \<Rightarrow> m),
                 c_ptyCb = PtyCallback srv, c_sessReqCb = SessionRequestCallback srv,
                 c_unmarshal1 = um1, c_unmarshal2 = um2\<rparr>,
                new_session ctx))"

section \<open>Host keys\<close>

lemma replace_key_None: "replace_key key ks = None \<longleftrightarrow> sg_Type key \<notin> sg_Type ` set ks"
  by (induction ks) auto

lemma replace_key_types: "replace_key key ks = Some ks' \<Longrightarrow> map sg_Type ks' = map sg_Type ks"
  by (induction ks arbitrary: ks') (auto split: if_splits)

lemma replace_key_mem:
  assumes "replace_key key ks = Some ks'" "distinct (map sg_Type ks)"
  shows "set ks' = insert key {k \<in> set ks. sg_Type k \<noteq> sg_Type key}"
  using assms
proof (induction ks arbitrary: ks')
  case (Cons k ks)
  show ?case
  proof (cases "sg_Type k = sg_Type key")
    case True
    then show ?thesis using Cons.prems by (auto intro: rev_image_eqI)
  next
    case False
    then obtain ks1 where "replace_key key ks = Some ks1" "ks' = k # ks1" using Cons.prems by auto
    then show ?thesis using Cons False by auto
  qed
qed simp

lemma AddHostKey_set:
  assumes "distinct (map sg_Type (HostSigners srv))"
  shows "distinct (map sg_Type (HostSigners (AddHostKey key srv)))"
    and "set (HostSigners (AddHostKey key srv)) =
      insert key {k \<in> set (HostSigners srv). sg_Type k \<noteq> sg_Type key}"
proof (atomize (full), cases "replace_key key (HostSigners srv)")
  case None
  then show "distinct (map sg_Type (HostSigners (AddHostKey key srv))) \<and>
      set (HostSigners (AddHostKey key srv)) = insert key {k \<in> set (HostSigners srv). sg_Type k \<noteq> sg_Type key}"
    using assms replace_key_None[of key "HostSigners srv"]
    by (auto simp: AddHostKey_def intro: rev_image_eqI)
next
  case (Some ks)
  then show "distinct (map sg_Type (HostSigners (AddHostKey key srv))) \<and>
      set (HostSigners (AddHostKey key srv)) = insert key {k \<in> set (HostSigners srv). sg_Type k \<noteq> sg_Type key}"
    using assms replace_key_mem[OF Some assms] replace_key_types[OF Some] by (simp add: AddHostKey_def)
qed

section \<open>Tracking\<close>

lemma members_simps [simp]:
  "members (Some xs) = xs" "members None = []" "members (map_option (\<lambda>_. []) s) = []"
  by (simp_all add: members_def split: option.split)

lemma set_add_del [simp]: "set (set_add x xs) = insert x (set xs)" "set (set_del x xs) = set xs - {x}"
  by (auto simp: set_add_def set_del_def)

lemmas track_defs =
  trackListener_def trackConn_def srv_Close_def Shutdown_begin_def closeListenersLocked_def
  closeDoneChanLocked_def getDoneChanLocked_def

lemma closeDoneChan_frame [simp]:
  "listenerWg (closeDoneChanLocked srv) = listenerWg srv" "connWg (closeDoneChanLocked srv) = connWg srv"
  "listeners (closeDoneChanLocked srv) = listeners srv" "conns (closeDoneChanLocked srv) = conns srv"
  "doneChan (closeDoneChanLocked srv) = Some True"
  by (auto simp: closeDoneChanLocked_def getDoneChanLocked_def split: option.split bool.split)

lemma length_remove1_int: "x \<in> set xs \<Longrightarrow> int (length (remove1 x xs)) = int (length xs) - 1"
  by (cases "length xs") (auto simp: length_remove1)

lemma set_remove1_sub: "A \<subseteq> set xs \<Longrightarrow> A - {x} \<subseteq> set (remove1 x xs)"
  by (auto simp: subset_iff in_set_remove1)

section \<open>The accept loop\<close>

definition temp_errors :: "(accepted \<times> bool) list \<Rightarrow> nat" where
  "temp_errors evs = length (filter (\<lambda>(a, _). case a of TempError _ \<Rightarrow> True | _ \<Rightarrow> False) evs)"

definition delay_after :: "nat \<Rightarrow> int" where
  "delay_after n = (if n = 0 then 0 else min 1000000000 (5000000 * 2 ^ (n - 1)))"

lemma backoff_delay_after: "backoff (delay_after n) = delay_after (Suc n)"
proof (cases n)
  case (Suc k)
  then show ?thesis by (auto simp: backoff_def delay_after_def min_def Let_def)
qed (simp add: backoff_def delay_after_def)

lemma delay_after_pos: "0 < n \<Longrightarrow> 0 < delay_after n"
  by (simp add: delay_after_def)

text \<open>A loop that has not returned saw only connections and temporary errors; the delay counts
  all temporary errors since the start.\<close>

lemma serve_delay:
  assumes "sv_result (foldl serve_turn serve_init evs) = None"
  shows "sv_delay (foldl serve_turn serve_init evs) = delay_after (temp_errors evs) \<and>
    sv_slept (foldl serve_turn serve_init evs) = map (\<lambda>k. delay_after (Suc k)) [0..<temp_errors evs]"
  using assms
proof (induction evs rule: rev_induct)
  case Nil
  then show ?case by (simp add: serve_init_def temp_errors_def delay_after_def)
next
  case (snoc ev evs)
  have "sv_result (serve_turn st ev) = None \<Longrightarrow> sv_result st = None" for st
    by (simp add: serve_turn_def split: if_splits)
  with snoc.prems have "sv_result (foldl serve_turn serve_init evs) = None" by simp
  with snoc show ?case
    by (auto simp: serve_turn_def temp_errors_def backoff_delay_after split: prod.splits accepted.splits if_splits)
qed

section \<open>Deadlines\<close>

definition deadlines :: "int \<Rightarrow> serverConn \<Rightarrow> int set" where
  "deadlines now c =
     set_option (maxDeadline c) \<union> set_option (handshakeDeadline c) \<union>
     (if idleTimeout c > 0 then {now + idleTimeout c} else {})"

lemma updateDeadline_value:
  "sc_deadline (updateDeadline now c) = (if deadlines now c = {} then None else Some (Min (deadlines now c)))"
  by (cases "maxDeadline c"; cases "handshakeDeadline c")
    (auto simp: updateDeadline_def deadlines_def before_def Let_def min_def)

section \<open>The protocol configuration\<close>

definition base_config :: "('h, 'k) ssh_server \<Rightarrow> sshContext \<Rightarrow> 'k ServerConfig" where
  "base_config srv ctx =
     (case ServerConfigCallback srv of None \<Rightarrow> empty_ServerConfig | Some cb \<Rightarrow> cb ctx)"

lemma srv_config_fields:
  "cf_NoClientAuth (srv_config ak srv ctx) \<longleftrightarrow>
     PasswordHandler srv = None \<and> PublicKeyHandler srv = None \<and> KeyboardInteractiveHandler srv = None \<or>
     cf_NoClientAuth (base_config srv ctx)"
  "cf_PasswordCallback (srv_config ak srv ctx) =
     (case PasswordHandler srv of None \<Rightarrow> cf_PasswordCallback (base_config srv ctx)
      | Some h \<Rightarrow> Some (auth_callback h (\<lambda>ctx _. ctx)))"
  "cf_KeyboardCallback (srv_config ak srv ctx) =
     (case KeyboardInteractiveHandler srv of None \<Rightarrow> cf_KeyboardCallback (base_config srv ctx)
      | Some h \<Rightarrow> Some (auth_callback h (\<lambda>ctx _. ctx)))"
  "cf_PublicKeyCallback (srv_config ak srv ctx) =
     (case PublicKeyHandler srv of None \<Rightarrow> cf_PublicKeyCallback (base_config srv ctx)
      | Some h \<Rightarrow> Some (auth_callback h (\<lambda>ctx key. SetValue ContextKeyPublicKey (VPublicKey key) ctx)))"
  unfolding srv_config_def Let_def base_config_def[symmetric]
  by (simp_all split: option.split)

lemmas base_config_default = base_config_def empty_ServerConfig_def

section \<open>Properties\<close>

text \<open>While the accept loop runs it sleeps before the k-th retry after a temporary error for
  5 ms times two to the k-1, but never more than a second; accepted connections in between do not
  reset the delay, and each of them is handed to a goroutine in order.\<close>

theorem serve_backoff:
  assumes "sv_result (foldl serve_turn serve_init evs) = None"
  shows "sv_slept (foldl serve_turn serve_init evs) =
      map (\<lambda>k. min 1000000000 (5000000 * 2 ^ k)) [0..<temp_errors evs]"
  using serve_delay[OF assms] by (simp add: delay_after_def)

theorem serve_backoff_witness:
  "sv_slept (foldl serve_turn serve_init
      [(TempError EOF, False), (NewConn 3, False), (TempError EOF, False)]) = [5000000, 10000000]"
  using serve_backoff[of "[(TempError EOF, False), (NewConn 3, False), (TempError EOF, False)]"]
  by (simp add: serve_turn_def serve_init_def temp_errors_def upt_rec backoff_def)

text \<open>After \<open>Close\<close> no listener and no connection is registered, the connections that were are
  closed, the done channel is closed, and a \<open>Serve\<close> loop whose \<open>Accept\<close> then fails returns
  \<open>ErrServerClosed\<close>; a second \<open>Close\<close> changes nothing and succeeds.\<close>

theorem srv_Close_spec:
  assumes "srv_Close cl srv = (err, closed, srv')"
  shows "closed = members (conns srv) \<and> members (listeners srv') = [] \<and> members (conns srv') = [] \<and>
    doneChan srv' = Some True \<and> srv_Close cl' srv' = (None, [], srv') \<and>
    (sv_result st = None \<longrightarrow>
       sv_result (serve_turn st (PermError e, fst (getDoneChanLocked srv'))) = Some ErrServerClosed)"
proof -
  have srv': "srv' = (closeDoneChanLocked srv)\<lparr>listeners := map_option (\<lambda>_. []) (listeners srv),
      conns := map_option (\<lambda>_. []) (conns srv)\<rparr>" and closed: "closed = members (conns srv)"
    using assms by (auto simp: srv_Close_def closeListenersLocked_def)
  have dc: "doneChan srv' = Some True" by (simp add: srv')
  have "getDoneChanLocked srv' = (True, srv')" by (simp add: getDoneChanLocked_def dc)
  moreover from this have "closeDoneChanLocked srv' = srv'" by (simp add: closeDoneChanLocked_def)
  moreover have "members (listeners srv') = []" "members (conns srv') = []" by (simp_all add: srv')
  moreover have "srv'\<lparr>listeners := map_option (\<lambda>_. []) (listeners srv'),
      conns := map_option (\<lambda>_. []) (conns srv')\<rparr> = srv'"
    by (simp add: srv' option.map_comp comp_def)
  ultimately show ?thesis
    by (simp add: srv_Close_def closeListenersLocked_def closed dc serve_turn_def)
qed

theorem srv_Close_spec_witness:
  "srv_Close (\<lambda>_. None) (trackConn 7 True (trackListener 1 True (zero_Server :: (nat, nat) ssh_server))) =
     (None, [7], snd (snd (srv_Close (\<lambda>_. None) (trackConn 7 True (trackListener 1 True zero_Server)))))"
  using srv_Close_spec[of "\<lambda>_. None" "trackConn 7 True (trackListener 1 True (zero_Server :: (nat, nat) ssh_server))"
      None "[7]"]
  by (simp add: srv_Close_def closeListenersLocked_def trackConn_def trackListener_def zero_Server_def
      set_add_def closeDoneChanLocked_def getDoneChanLocked_def)

text \<open>C25. Clients may log in without authentication exactly when no authentication handler of any of the
  three kinds is set (or a custom configuration already said so), so a server with a
  keyboard-interactive handler only does authenticate, unlike what the comment on \<open>Server\<close> says; with
  a public-key handler, a key is accepted exactly when the handler accepts it in the context that
  knows the connection's metadata, and only then does the context remember the key.\<close>

theorem srv_config_auth:
  "(cf_NoClientAuth (srv_config ak srv ctx) \<longleftrightarrow>
      PasswordHandler srv = None \<and> PublicKeyHandler srv = None \<and> KeyboardInteractiveHandler srv = None \<or>
      (\<exists>cb. ServerConfigCallback srv = Some cb \<and> cf_NoClientAuth (cb ctx))) \<and>
   (\<forall>h. PublicKeyHandler srv = Some h \<longrightarrow>
     (\<exists>cb. cf_PublicKeyCallback (srv_config ak srv ctx) = Some cb \<and>
       (\<forall>conn key c. let c1 = applyConnMetadata conn c; (c2, perms, err) = cb conn key c in
          (err = None \<longleftrightarrow> h c1 key) \<and>
          ctx_Value c2 ContextKeyPublicKey =
            (if h c1 key then Some (VPublicKey key) else ctx_Value c ContextKeyPublicKey))))"
  by (auto simp: srv_config_fields base_config_default auth_callback_def Let_def split: option.split)

theorem srv_config_auth_witness:
  "\<not> cf_NoClientAuth (srv_config (#)
      ((zero_Server :: (nat, nat) ssh_server)\<lparr>PublicKeyHandler := Some (\<lambda>_ k. k = ''k'')\<rparr>) (newContext 0 0))"
  using srv_config_auth[of "(#)" "(zero_Server :: (nat, nat) ssh_server)\<lparr>PublicKeyHandler := Some (\<lambda>_ k. k = ''k'')\<rparr>" "newContext 0 0"]
  by (auto simp: zero_Server_def)

end
