(* ===== verification/Shell_Handler.thy ===== *)
theory Shell_Handler
  imports Ssh_Server Go_Strconv
begin

text \<open>
  The agent's secure shell (\<open>core/secure_shell\<close>): key generation, the configuration of the embedded
  SSH server, and the session handler that runs the user's shell or command. The user database,
  the word splitting of \<open>Session.Command\<close> (go-shlex), the pseudo-terminal and the process run are
  parameters; RSA and PEM are the primitives of Go's \<open>crypto\<close> and \<open>encoding\<close> packages.
\<close>

section \<open>Keys\<close>

record 'k rsa_ops =
  rsa_GenerateKey :: "int \<Rightarrow> 'k result"
  rsa_Validate :: "'k \<Rightarrow> error option"
  x509_PEM :: "'k \<Rightarrow> string"
  ssh_NewPublicKey :: "'k \<Rightarrow> string result"
  ssh_MarshalAuthorizedKey :: "string \<Rightarrow> string"

definition GeneratePrivateKey :: "'k rsa_ops \<Rightarrow> int \<Rightarrow> 'k result" where
  "GeneratePrivateKey ops bytesize =
     (case rsa_GenerateKey ops bytesize of
        Inl e \<Rightarrow> Inl e
      | Inr k \<Rightarrow> (case rsa_Validate ops k of Some e \<Rightarrow> Inl e | None \<Rightarrow> Inr k))"

definition EncodePrivateKeyToPEM :: "'k rsa_ops \<Rightarrow> 'k \<Rightarrow> string" where
  "EncodePrivateKeyToPEM ops k = x509_PEM ops k"

definition GeneratePublicKey :: "'k rsa_ops \<Rightarrow> 'k \<Rightarrow> string result" where
  "GeneratePublicKey ops k =
     (case ssh_NewPublicKey ops k of Inl e \<Rightarrow> Inl e | Inr p \<Rightarrow> Inr (ssh_MarshalAuthorizedKey ops p))"

record shell_server =
  sh_Port :: int
  userPrivateKey :: string
  userPublicKey :: string

definition shell_NewServer :: "'k rsa_ops \<Rightarrow> int \<Rightarrow> shell_server result" where
  "shell_NewServer ops port =
     (case GeneratePrivateKey ops 2048 of
        Inl e \<Rightarrow> Inl (Wrap ''failed to generate new user key'' e)
      | Inr k \<Rightarrow>
          (case GeneratePublicKey ops k of
             Inl e \<Rightarrow> Inl (Wrap ''failed to create new user pubkey'' e)
           | Inr pub \<Rightarrow>
               Inr \<lparr>sh_Port = port, userPrivateKey = EncodePrivateKeyToPEM ops k, userPublicKey = pub\<rparr>))"

section \<open>The configuration of the SSH server\<close>

definition shell_Version :: string where
  "shell_Version = ''1.0.0''"

definition ExtendedVersion :: string where
  "ExtendedVersion = ''PGA-built-in-SecureShell-'' @ shell_Version"

text \<open>The public-key handler: the wire form of the offered key against the agent's own key, which
  \<open>parse\<close> (\<open>gossh.ParseAuthorizedKey\<close>, \<open>None\<close> for a nil key) reads from its text form.\<close>

definition key_handler :: "(string \<Rightarrow> string option) \<Rightarrow> shell_server \<Rightarrow> sshContext \<Rightarrow> string \<Rightarrow> bool" where
  "key_handler parse s ctx key = KeysEqual (Some key) (parse (userPublicKey s))"

text \<open>Function values that a server may call: the agent's own session handler, or any other function of
  the program.\<close>

datatype shell_fn = ShellHandler | OtherFn nat

definition shell_ssh_server ::
  "(string \<Rightarrow> string option) \<Rightarrow> shell_server \<Rightarrow> error option \<times> (shell_fn, 'k) ssh_server" where
  "shell_ssh_server parse s =
     SetOption (PublicKeyAuth (key_handler parse s))
       (zero_Server\<lparr>Handler := Some ShellHandler, srv_Version := ExtendedVersion,
          Banner := ''Welcome to PGA's built-in Secure Shell v'' @ shell_Version @ [LF],
          IdleTimeout := 600 * 1000000000\<rparr>)"

text \<open>\<open>ListenAndServer\<close>: the error, or the server that serves the vsock listener.\<close>

definition ListenAndServer ::
  "(32 word \<Rightarrow> nat result) \<Rightarrow> (string \<Rightarrow> string option) \<Rightarrow> signer result \<Rightarrow> (accepted \<times> bool) list \<Rightarrow> shell_server \<Rightarrow>
   error option \<times> conn_id list" where
  "ListenAndServer vsock_Listen parse generateSigner evs s =
     (case vsock_Listen (of_int (sh_Port s)) of
        Inl e \<Rightarrow> (Some e, [])
      | Inr l \<Rightarrow>
          (case shell_ssh_server parse s of
             (Some e, _) \<Rightarrow> (Some e, [])
           | (None, srv) \<Rightarrow>
               (case srv_Serve generateSigner None l evs (srv :: (shell_fn, nat) ssh_server) of
                  (r, spawned, _, _) \<Rightarrow> (r, spawned))))"

section \<open>The session handler\<close>

record os_user =
  us_Uid :: string
  us_Gid :: string
  us_Username :: string
  us_HomeDir :: string

definition shell_of_line :: "string \<Rightarrow> string \<Rightarrow> string option" where
  "shell_of_line username line =
     (if HasPrefix line (username @ '':'')
      then let parts = Split (CHR '':'') line in
           if 7 \<le> length parts \<and> parts ! 6 \<noteq> [] then Some (parts ! 6) else None
      else None)"

definition getUserShell :: "os_user option \<Rightarrow> string result \<Rightarrow> string" where
  "getUserShell u passwd =
     (case u of
        None \<Rightarrow> ''/bin/sh''
      | Some us \<Rightarrow>
          (case passwd of
             Inl _ \<Rightarrow> ''/bin/sh''
           | Inr data \<Rightarrow>
               (case List.map_filter (shell_of_line (us_Username us)) (Split LF data) of
                  [] \<Rightarrow> ''/bin/sh'' | sh # _ \<Rightarrow> sh)))"

definition setWinsize :: "int \<Rightarrow> int \<Rightarrow> 16 word \<times> 16 word" where
  "setWinsize w h = (of_int h, of_int w)"

text \<open>\<open>syscall.WaitStatus\<close> on Linux, and \<open>commandExitCode\<close>: no error, a process error with its wait
  status, or another error.\<close>

datatype run_error = RunOk | ExitError "32 word" | OtherError error

definition ws_Exited :: "32 word \<Rightarrow> bool" where
  "ws_Exited w \<longleftrightarrow> unat w mod 128 = 0"

definition ws_Signaled :: "32 word \<Rightarrow> bool" where
  "ws_Signaled w \<longleftrightarrow> unat w mod 128 \<noteq> 127 \<and> unat w mod 128 \<noteq> 0"

definition ws_ExitStatus :: "32 word \<Rightarrow> int" where
  "ws_ExitStatus w = (if ws_Exited w then int (unat w div 256 mod 256) else -1)"

definition ws_Signal :: "32 word \<Rightarrow> int" where
  "ws_Signal w = (if ws_Signaled w then int (unat w mod 128) else -1)"

definition commandExitCode :: "run_error \<Rightarrow> int" where
  "commandExitCode err =
     (case err of
        RunOk \<Rightarrow> 0
      | ExitError status \<Rightarrow>
          if ws_Exited status then ws_ExitStatus status
          else if ws_Signaled status then 128 + ws_Signal status
          else 0
      | OtherError _ \<Rightarrow> 0)"

text \<open>The loop over the client's environment: the shell and the lines that are passed on.\<close>

definition env_line :: "string \<times> string list \<Rightarrow> string \<Rightarrow> string \<times> string list" where
  "env_line acc envline =
     (case acc of (shell, extra) \<Rightarrow>
      if HasPrefix envline ''SHELL=''
      then (let parts = SplitN (CHR ''='') 2 envline in
            (if length parts = 2 then parts ! 1 else shell, extra @ [envline]))
      else if HasPrefix envline ''LANG='' then (shell, extra @ [envline])
      else (shell, extra))"

record command =
  cmd_argv :: "string list"
  cmd_Dir :: string
  cmd_Env :: "string list"
  cmd_Uid :: "32 word"
  cmd_Gid :: "32 word"
  cmd_tty :: bool

datatype sh_action =
    Say string "error option" | SayErr run_error | StartPty command | RunCommand command
  | CloseWrite | ExitWith int | CloseSession

record shell_env =
  se_Lookup :: "string \<Rightarrow> os_user result"
  se_passwd :: "string result"
  se_shlex :: "string \<Rightarrow> string list"
  se_pty_Start :: "command \<Rightarrow> error option"
  se_StdinPipe :: "error option"
  se_Run :: "command \<Rightarrow> run_error"

definition shell_command :: "os_user \<Rightarrow> int \<Rightarrow> int \<Rightarrow> string list \<Rightarrow> string list \<Rightarrow> string list \<Rightarrow> bool \<Rightarrow> command" where
  "shell_command u uid gid argv first extraEnvs tty =
     \<lparr>cmd_argv = argv, cmd_Dir = us_HomeDir u,
      cmd_Env = first @ [''HOME='' @ us_HomeDir u, ''USER='' @ us_Username u, ''HISTFILE=/dev/null''] @ extraEnvs,
      cmd_Uid = of_int uid, cmd_Gid = of_int gid, cmd_tty = tty\<rparr>"

definition handler_pty ::
  "shell_env \<Rightarrow> os_user \<Rightarrow> int \<Rightarrow> int \<Rightarrow> string \<Rightarrow> string list \<Rightarrow> Pty \<Rightarrow> sh_action list" where
  "handler_pty env u uid gid shell extraEnvs ptyReq =
     (let cmd = shell_command u uid gid [shell] [''TERM='' @ Term ptyReq] extraEnvs True in
      case se_pty_Start env cmd of
        Some e \<Rightarrow> [StartPty cmd, Say ''Cannot assign a pseudo-terminal tty'' (Some e), ExitWith 1]
      | None \<Rightarrow> [StartPty cmd])"

text \<open>The \<open>err\<close> of the final \<open>Exit\<close> is the variable of the \<open>StdinPipe\<close> call, which is nil there: the
  result of \<open>Run\<close> is bound to a variable of its own inside the \<open>if\<close>.\<close>

definition handler_exec ::
  "shell_env \<Rightarrow> os_user \<Rightarrow> int \<Rightarrow> int \<Rightarrow> string \<Rightarrow> string list \<Rightarrow> string list \<Rightarrow> sh_action list" where
  "handler_exec env u uid gid shell extraEnvs words =
     (if words = [] then [Say ''No command given: exit status 1'' None, ExitWith 1]
      else let cmd = shell_command u uid gid [shell, ''-c'', Join '' '' words] [] extraEnvs False in
           case se_StdinPipe env of
             Some e \<Rightarrow> [Say ''Failed to create stdin pipe'' (Some e), ExitWith 1]
           | None \<Rightarrow>
               let err = RunOk in
               [RunCommand cmd] @ (if se_Run env cmd \<noteq> RunOk then [SayErr (se_Run env cmd)] else []) @
               [CloseWrite, ExitWith (commandExitCode err)])"

definition shell_handler :: "shell_env \<Rightarrow> string \<Rightarrow> session \<Rightarrow> sh_action list" where
  "shell_handler env user sess =
     (case se_Lookup env user of
        Inl e \<Rightarrow> [Say ''User lookup failed'' (Some e), ExitWith 1]
      | Inr u \<Rightarrow>
          (case Atoi (us_Uid u) of
             Inl e \<Rightarrow> [Say ''Invalid UID of user'' (Some e), ExitWith 1]
           | Inr uid \<Rightarrow>
               (case Atoi (us_Gid u) of
                  Inl e \<Rightarrow> [Say ''Invalid GID of user'' (Some e), ExitWith 1]
                | Inr gid \<Rightarrow>
                    (case foldl env_line (getUserShell (Some u) (se_passwd env), []) (session_Environ sess) of
                       (shell, extraEnvs) \<Rightarrow>
                         (case session_Pty sess of
                            (ptyReq, _, isPty) \<Rightarrow>
                              if isPty then handler_pty env u uid gid shell extraEnvs ptyReq
                              else handler_exec env u uid gid shell extraEnvs
                                     (session_Command (se_shlex env) sess)))))) @ [CloseSession]"

section \<open>Lemmas\<close>

lemma map_filter_nonempty: "List.map_filter f xs = y # ys \<Longrightarrow> \<exists>x \<in> set xs. f x = Some y"
  by (induction xs) (auto simp: List.map_filter_simps split: option.splits)

lemma getUserShell_not_Nil: "getUserShell u passwd \<noteq> []"
  by (auto simp: getUserShell_def shell_of_line_def Let_def split: option.splits sum.splits list.splits if_splits
      dest!: map_filter_nonempty)

definition allowed_env :: "string \<Rightarrow> bool" where
  "allowed_env = (\<lambda>l. HasPrefix l ''SHELL='' \<or> HasPrefix l ''LANG='')"

lemma foldl_env_line:
  "snd (foldl env_line (sh, extra) ls) = extra @ filter allowed_env ls"
  by (induction ls arbitrary: sh extra) (auto simp: env_line_def allowed_env_def Let_def)

lemma SplitN_SHELL: "SplitN (CHR ''='') 2 (''SHELL='' @ v) = [''SHELL'', v]"
  by (simp add: numeral_2_eq_2)

lemma env_line_SHELL [simp]: "env_line (sh, extra) (''SHELL='' @ v) = (v, extra @ [''SHELL='' @ v])"
  using SplitN_SHELL[of v] by (simp add: env_line_def HasPrefix_def)

definition client_shell :: "string \<Rightarrow> string list \<Rightarrow> string" where
  "client_shell sh ls =
     (let xs = filter (\<lambda>l. HasPrefix l ''SHELL='') ls in if xs = [] then sh else drop 6 (last xs))"

lemma client_shell_snoc:
  "client_shell sh (ls @ [l]) = (if HasPrefix l ''SHELL='' then drop 6 l else client_shell sh ls)"
  by (simp add: client_shell_def Let_def)

lemma env_line_shell: "fst (env_line acc l) = (if HasPrefix l ''SHELL='' then drop 6 l else fst acc)"
proof (cases "HasPrefix l ''SHELL=''")
  case True
  then obtain v where l: "l = ''SHELL='' @ v" by (auto simp: HasPrefix_iff prefix_def)
  then show ?thesis using True env_line_SHELL[of "fst acc" "snd acc" v] by simp
qed (simp add: env_line_def split: prod.split)

lemma foldl_env_line_shell: "fst (foldl env_line (sh, extra) ls) = client_shell sh ls"
proof (induction ls rule: rev_induct)
  case (snoc l ls)
  then show ?case by (simp add: env_line_shell client_shell_snoc)
qed (simp add: client_shell_def)

lemma handler_started:
  assumes "RunCommand cmd \<in> set (shell_handler env user sess) \<or> StartPty cmd \<in> set (shell_handler env user sess)"
  shows "\<exists>u uid gid. se_Lookup env user = Inr u \<and> Atoi (us_Uid u) = Inr uid \<and> Atoi (us_Gid u) = Inr gid \<and>
    (let sh = client_shell (getUserShell (Some u) (se_passwd env)) (s_env sess);
         extra = filter allowed_env (s_env sess) in
     cmd = (case s_pty sess of
              Some p \<Rightarrow> shell_command u uid gid [sh] [''TERM='' @ Term p] extra True
            | None \<Rightarrow> shell_command u uid gid [sh, ''-c'', Join '' '' (se_shlex env (s_rawCmd sess))] [] extra False))"
proof -
  have f: "foldl env_line (sh, []) ls = (client_shell sh ls, filter allowed_env ls)" for sh ls
    by (simp add: prod_eq_iff foldl_env_line_shell foldl_env_line)
  show ?thesis using assms
    by (auto simp: shell_handler_def handler_pty_def handler_exec_def session_Pty_def session_Environ_def
        session_Command_def f Let_def split: sum.splits option.splits if_splits)
qed

lemma shell_ssh_server_fields:
  assumes "shell_ssh_server parse s = (err, srv)"
  shows "err = None" "PublicKeyHandler srv = Some (key_handler parse s)" "PasswordHandler srv = None"
    "KeyboardInteractiveHandler srv = None" "ServerConfigCallback srv = None" "ChannelHandlers srv = None"
    "RequestHandlers srv = None" "LocalPortForwardingCallback srv = None"
    "ReversePortForwardingCallback srv = None"
  using assms by (auto simp: shell_ssh_server_def SetOption_def PublicKeyAuth_def zero_Server_def)

section \<open>Properties\<close>

text \<open>C11. The handler starts a process only for a user that the database knows with numeric ids; the
  process runs under these ids in the user's home, and of the client's environment it sees only
  the lines for \<open>SHELL\<close> and \<open>LANG\<close>, after the lines for the home, the user name and the history
  file; the program is the client's last \<open>SHELL\<close> value or else the user's shell.\<close>

theorem shell_handler_process:
  assumes "RunCommand cmd \<in> set (shell_handler env user sess) \<or> StartPty cmd \<in> set (shell_handler env user sess)"
  shows "\<exists>u uid gid. se_Lookup env user = Inr u \<and> Atoi (us_Uid u) = Inr uid \<and> Atoi (us_Gid u) = Inr gid \<and>
    cmd_Uid cmd = of_int uid \<and> cmd_Gid cmd = of_int gid \<and> cmd_Dir cmd = us_HomeDir u \<and>
    hd (cmd_argv cmd) = client_shell (getUserShell (Some u) (se_passwd env)) (s_env sess) \<and>
    cmd_Env cmd =
       (case s_pty sess of None \<Rightarrow> [] | Some p \<Rightarrow> [''TERM='' @ Term p]) @
       [''HOME='' @ us_HomeDir u, ''USER='' @ us_Username u, ''HISTFILE=/dev/null''] @
       filter (\<lambda>l. HasPrefix l ''SHELL='' \<or> HasPrefix l ''LANG='') (s_env sess)"
  using handler_started[OF assms]
  by (auto simp: shell_command_def Let_def allowed_env_def split: option.splits)

definition demo_shell_env :: shell_env where
  "demo_shell_env =
     \<lparr>se_Lookup = (\<lambda>n. if n = ''root'' then Inr \<lparr>us_Uid = ''0'', us_Gid = ''0'', us_Username = ''root'', us_HomeDir = ''/root''\<rparr>
                   else Inl (Errorf ''unknown user'')),
      se_passwd = Inr ''root:x:0:0:root:/root:/bin/bash'',
      se_shlex = Split (CHR '' ''), se_pty_Start = (\<lambda>_. None), se_StdinPipe = None,
      se_Run = (\<lambda>_. ExitError 256)\<rparr>"

definition demo_shell_server :: "(string \<Rightarrow> string option) \<Rightarrow> error option \<times> (shell_fn, nat) ssh_server" where
  "demo_shell_server parse =
     shell_ssh_server parse \<lparr>sh_Port = 1, userPrivateKey = [], userPublicKey = ''k''\<rparr>"

definition demo_session :: session where
  "demo_session =
     (new_session (newContext 0 0))\<lparr>s_env := [''LANG=C'', ''LD_PRELOAD=x''], s_rawCmd := ''false now''\<rparr>"

definition demo_command :: command where
  "demo_command =
     \<lparr>cmd_argv = [''/bin/bash'', ''-c'', ''false now''], cmd_Dir = ''/root'',
      cmd_Env = [''HOME=/root'', ''USER=root'', ''HISTFILE=/dev/null'', ''LANG=C''],
      cmd_Uid = 0, cmd_Gid = 0, cmd_tty = False\<rparr>"

lemma demo_handler:
  "shell_handler demo_shell_env ''root'' demo_session =
     [RunCommand demo_command, SayErr (ExitError 256), CloseWrite, ExitWith 0, CloseSession]"
  by code_simp

theorem shell_handler_process_witness:
  "\<exists>u. se_Lookup demo_shell_env ''root'' = Inr u \<and> cmd_Dir demo_command = us_HomeDir u"
  using shell_handler_process[of demo_command demo_shell_env "''root''" demo_session] demo_handler by auto

text \<open>C38. Whatever the command's outcome, the exit status that the client receives is 0 when the command
  was run, even if it failed or was killed, and 1 when it was not started.\<close>

theorem shell_handler_exit_status:
  "ExitWith c \<in> set (shell_handler env user sess) \<Longrightarrow>
     c = (if \<exists>cmd. RunCommand cmd \<in> set (shell_handler env user sess) then 0 else 1)"
  by (auto simp: shell_handler_def handler_pty_def handler_exec_def commandExitCode_def Let_def
      prod.case_eq_if split: sum.splits option.splits if_splits)

theorem shell_handler_exit_status_witness:
  "(0 :: int) = (if \<exists>cmd. RunCommand cmd \<in> set (shell_handler demo_shell_env ''root'' demo_session) then 0 else 1) \<and>
   commandExitCode (se_Run demo_shell_env demo_command) = 1"
  using shell_handler_exit_status[of 0 demo_shell_env "''root''" demo_session] demo_handler
  by (simp add: demo_shell_env_def commandExitCode_def ws_Exited_def ws_ExitStatus_def)

text \<open>The exit code of a finished process is its exit status, 0 to 255, or 128 plus its signal, 129
  to 254.\<close>

theorem commandExitCode_range:
  "commandExitCode (ExitError w) =
     (if unat w mod 128 = 0 then int (unat w div 256 mod 256)
      else if unat w mod 128 = 127 then 0 else 128 + int (unat w mod 128)) \<and>
   0 \<le> commandExitCode e \<and> commandExitCode e \<le> 255"
proof -
  have v: "commandExitCode (ExitError w) =
     (if unat w mod 128 = 0 then int (unat w div 256 mod 256)
      else if unat w mod 128 = 127 then 0 else 128 + int (unat w mod 128))" for w
    by (simp add: commandExitCode_def ws_Exited_def ws_Signaled_def ws_ExitStatus_def ws_Signal_def)
  have code_bounds: "0 \<le> (if a = 0 then int c else if a = 127 then 0 else 128 + int a) \<and>
      (if a = 0 then int c else if a = 127 then 0 else 128 + int a) \<le> 255" if "a < 128" "c < 256" for a c :: nat
    using that by auto
  have b: "unat w mod 128 < 128" "unat w div 256 mod 256 < 256" for w :: "32 word" by simp_all
  have "0 \<le> commandExitCode (ExitError w) \<and> commandExitCode (ExitError w) \<le> 255" for w
    unfolding v using b[of w] by (intro code_bounds)
  then have "0 \<le> commandExitCode e \<and> commandExitCode e \<le> 255"
    by (cases e) (simp_all add: commandExitCode_def)
  with v show ?thesis by blast
qed

text \<open>C9. The agent's SSH server always demands public-key authentication, accepts exactly the key pair
  generated at its start, refuses port forwarding and global requests, and serves only session
  channels.\<close>

theorem shell_ssh_server_policy:
  assumes "shell_ssh_server parse s = (err, srv)"
  shows "err = None \<and> \<not> cf_NoClientAuth (srv_config ak srv ctx) \<and>
    cf_PasswordCallback (srv_config ak srv ctx) = None \<and> cf_KeyboardCallback (srv_config ak srv ctx) = None \<and>
    (\<exists>cb. cf_PublicKeyCallback (srv_config ak srv ctx) = Some cb \<and>
       (\<forall>conn key c. snd (snd (cb conn key c)) = None \<longleftrightarrow> parse (userPublicKey s) = Some key)) \<and>
    dispatch_channel (ensureHandlers srv) t =
      (if t = ''session'' then Dispatch DefaultSession t else RejectChannel t) \<and>
    handle_global_request (ensureHandlers srv) run req st = ((False, []), st) \<and>
    LocalPortForwardingCallback srv = None \<and> ReversePortForwardingCallback srv = None"
proof -
  note f = shell_ssh_server_fields[OF assms]
  have key: "KeysEqual (Some key) k \<longleftrightarrow> k = Some key" for key k
    by (auto simp: KeysEqual_def split: option.split)
  have "snd (snd (auth_callback (key_handler parse s) g conn key c)) = None \<longleftrightarrow> parse (userPublicKey s) = Some key"
    for g conn key c
    by (simp add: auth_callback_def key_handler_def key Let_def)
  then show ?thesis using f
    by (simp add: srv_config_fields dispatch_channel_def ensureHandlers_def lookup_default_def
        DefaultChannelHandlers_def handle_global_request_def base_config_default)
qed

theorem shell_ssh_server_policy_witness:
  "dispatch_channel (ensureHandlers (snd (demo_shell_server (\<lambda>_. Some ''k'')))) ''direct-tcpip'' = RejectChannel ''direct-tcpip''"
  using shell_ssh_server_policy[OF surjective_pairing[of "demo_shell_server (\<lambda>_. Some ''k'')", unfolded demo_shell_server_def],
      where ak = "(#)" and ctx = "newContext 0 0" and t = "''direct-tcpip''" and st = "()" and
      run = "\<lambda>_ _ s. ((True, []), s)" and req = "\<lparr>rq_Type = [], rq_Payload = []\<rparr>"]
  by (simp add: demo_shell_server_def)

end
