(* ===== verification/Ssh_Session_Spec.thy ===== *)
theory Ssh_Session_Spec
  imports Ssh_Session
begin

text \<open>
  The contract of an SSH session (RFC 4254, section 6) as an abstract machine, and the refinement:
  the goroutines of \<open>internal/secure_shell/session.go\<close>, under every interleaving, make only the
  steps that the contract allows. Abstractly a session collects an environment and at most one
  terminal, then runs one program, then reports one exit status; nothing else is visible.
\<close>

section \<open>The contract\<close>

datatype 'h phase = Setup | Active 'h | Finished 'h "32 word"

record 'h sess_spec =
  sp_env :: "string list"
  sp_term :: "string option"
  sp_command :: string
  sp_phase :: "'h phase"

text \<open>The programs that the configuration can start.\<close>

definition startable :: "'h sess_cfg \<Rightarrow> 'h set" where
  "startable cfg = set_option (c_handler cfg) \<union> ran (c_subsystemHandlers cfg)"

inductive spec_step :: "'h sess_cfg \<Rightarrow> 'h sess_spec \<Rightarrow> 'h sess_spec \<Rightarrow> bool" for cfg where
  SetEnv: "sp_phase a = Setup \<Longrightarrow> spec_step cfg a (a\<lparr>sp_env := sp_env a @ [kv]\<rparr>)"
| GrantTerminal: "sp_phase a = Setup \<Longrightarrow> sp_term a = None \<Longrightarrow> spec_step cfg a (a\<lparr>sp_term := Some t\<rparr>)"
| SetCommand: "sp_phase a = Setup \<Longrightarrow> spec_step cfg a (a\<lparr>sp_command := c\<rparr>)"
| Start: "sp_phase a = Setup \<Longrightarrow> h \<in> startable cfg \<Longrightarrow>
    spec_step cfg a (a\<lparr>sp_command := c, sp_phase := Active h\<rparr>)"
| Finish: "sp_phase a = Active h \<Longrightarrow> spec_step cfg a (a\<lparr>sp_phase := Finished h code\<rparr>)"

inductive_cases spec_stepE: "spec_step cfg a b"

section \<open>The abstraction\<close>

fun phase_of :: "'h list \<Rightarrow> 32 word list \<Rightarrow> 'h phase" where
  "phase_of [] _ = Setup"
| "phase_of (h # _) [] = Active h"
| "phase_of (h # _) (c # _) = Finished h c"

definition sess_abs :: "'h machine \<Rightarrow> 'h sess_spec" where
  "sess_abs m =
     \<lparr>sp_env = s_env (m_sess m), sp_term = map_option Term (s_pty (m_sess m)), sp_command = s_rawCmd (m_sess m),
      sp_phase = phase_of (m_started m) (m_statuses m)\<rparr>"

text \<open>The invariant of the session, with the order of start and exit.\<close>

definition spec_inv :: "'h machine \<Rightarrow> bool" where
  "spec_inv m \<longleftrightarrow> sess_inv m \<and> (m_started m = [] \<longrightarrow> m_statuses m = [])"

lemma spec_inv_unhandled:
  "spec_inv m \<Longrightarrow> \<not> s_handled (m_sess m) \<Longrightarrow> m_started m = [] \<and> m_statuses m = []"
  by (simp add: spec_inv_def sess_inv_def started_ok_def)

lemma sess_abs_Setup: "m_started m = [] \<Longrightarrow> sp_phase (sess_abs m) = Setup"
  by (simp add: sess_abs_def)

definition refines :: "'h sess_cfg \<Rightarrow> 'h machine \<Rightarrow> 'h machine \<Rightarrow> bool" where
  "refines cfg m m' \<longleftrightarrow> sess_abs m' = sess_abs m \<or> spec_step cfg (sess_abs m) (sess_abs m')"

text \<open>One lemma for each kind of request that the contract sees.\<close>

lemma abs_req_env:
  assumes "spec_inv m"
  shows "refines cfg m (req_env cfg req m)"
proof (cases "s_handled (m_sess m)")
  case False
  obtain k v where kv: "c_unmarshal2 cfg (rq_Payload req) = (k, v)" by fastforce
  then have "sess_abs (req_env cfg req m) = (sess_abs m)\<lparr>sp_env := sp_env (sess_abs m) @ [k @ ''='' @ v]\<rparr>"
    using False by (simp add: req_env_def Let_def sess_abs_def helper_defs)
  then show ?thesis
    using SetEnv sess_abs_Setup spec_inv_unhandled[OF assms False] unfolding refines_def by metis
qed (simp add: refines_def req_env_def Let_def reply_def sess_abs_def)

lemma abs_req_pty:
  assumes "spec_inv m"
  shows "refines cfg m (req_pty cfg req m)"
proof (cases "s_handled (m_sess m) \<or> s_pty (m_sess m) \<noteq> None")
  case False
  then have st: "m_started m = []" using spec_inv_unhandled[OF assms] by blast
  have "sess_abs (req_pty cfg req m) = sess_abs m \<or>
      (\<exists>t. sess_abs (req_pty cfg req m) = (sess_abs m)\<lparr>sp_term := Some t\<rparr>)"
    using False by (auto simp: req_pty_def Let_def sess_abs_def helper_defs split: sum.splits)
  moreover have "sp_term (sess_abs m) = None" using False by (simp add: sess_abs_def)
  ultimately show ?thesis using GrantTerminal sess_abs_Setup[OF st] unfolding refines_def by metis
qed (auto simp: refines_def req_pty_def Let_def reply_def sess_abs_def)

text \<open>A start request that is not taken for a handled session sets the command, and starts a handler
  of the configuration or none.\<close>

lemma refines_start:
  assumes "spec_inv m" "\<not> s_handled (m_sess m)"
    and "sess_abs m' = (sess_abs m)\<lparr>sp_command := c, sp_phase := phase_of hs []\<rparr>"
    and "hs = [] \<or> (\<exists>h \<in> startable cfg. hs = [h])"
  shows "refines cfg m m'"
proof -
  have st: "sp_phase (sess_abs m) = Setup" using spec_inv_unhandled[OF assms(1,2)] by (simp add: sess_abs_def)
  from assms(4) show ?thesis
  proof
    assume "hs = []"
    then have "sess_abs m' = (sess_abs m)\<lparr>sp_command := c\<rparr>" using assms(3) st by simp
    then show ?thesis using SetCommand[OF st] by (simp add: refines_def)
  next
    assume "\<exists>h \<in> startable cfg. hs = [h]"
    then show ?thesis using Start[OF st] assms(3) by (auto simp: refines_def)
  qed
qed

lemma abs_req_shell:
  assumes "spec_inv m"
  shows "refines cfg m (req_shell cfg req m)"
proof (cases "s_handled (m_sess m)")
  case False
  note un = spec_inv_unhandled[OF assms False]
  let ?m = "req_shell cfg req m"
  have "m_started ?m = [] \<or> (\<exists>h \<in> startable cfg. m_started ?m = [h])"
    using False un by (auto simp: req_shell_def Let_def helper_defs startable_def split: option.splits)
  moreover have "sess_abs ?m = (sess_abs m)\<lparr>sp_command := s_rawCmd (m_sess ?m), sp_phase := phase_of (m_started ?m) []\<rparr>"
    using False un by (auto simp: req_shell_def Let_def helper_defs sess_abs_def split: option.splits)
  ultimately show ?thesis by (intro refines_start[OF assms False])
qed (simp add: refines_def req_shell_def Let_def reply_def sess_abs_def)

lemma abs_req_subsystem:
  assumes "spec_inv m"
  shows "refines cfg m (req_subsystem cfg req m)"
proof (cases "s_handled (m_sess m)")
  case False
  note un = spec_inv_unhandled[OF assms False]
  let ?m = "req_subsystem cfg req m"
  have "m_started ?m = [] \<or> (\<exists>h \<in> startable cfg. m_started ?m = [h])"
    using False un by (auto simp: req_subsystem_def Let_def helper_defs startable_def ran_def split: option.splits)
  moreover have "sess_abs ?m = (sess_abs m)\<lparr>sp_command := s_rawCmd (m_sess ?m), sp_phase := phase_of (m_started ?m) []\<rparr>"
    using False un by (auto simp: req_subsystem_def Let_def helper_defs sess_abs_def split: option.splits)
  ultimately show ?thesis by (intro refines_start[OF assms False])
qed (simp add: refines_def req_subsystem_def Let_def reply_def sess_abs_def)

text \<open>The other requests, and the steps of the other goroutines, are invisible but for the exit.\<close>

lemma abs_req_other:
  "refines cfg m (req_signal cfg req m)" "refines cfg m (req_agent req m)" "refines cfg m (req_break req m)"
  "refines cfg m (reply req b m)"
  by (auto simp: refines_def req_signal_def req_agent_def req_break_def Let_def helper_defs sess_abs_def
      split: option.splits)

lemma abs_req_winch: "refines cfg m (req_winch req m)"
  by (auto simp: refines_def req_winch_def Let_def helper_defs sess_abs_def split: option.splits prod.splits)

lemma abs_Exit:
  assumes "spec_inv m" "handler_runs m" "session_Exit se ce code m = (r, m')"
  shows "refines cfg m m'"
proof -
  obtain h hs where h: "m_started m = h # hs" using assms(2) by (cases "m_started m") (auto simp: handler_runs_def)
  note e = session_Exit_simps[OF assms(3)]
  show ?thesis
  proof (cases "s_exited (m_sess m)")
    case True
    then show ?thesis using e by (simp add: refines_def sess_abs_def)
  next
    case False
    then have "m_statuses m = []" using assms(1) by (simp add: spec_inv_def sess_inv_def status_ok_def)
    then have "sp_phase (sess_abs m) = Active h" "sess_abs m' = (sess_abs m)\<lparr>sp_phase := Finished h (of_int code)\<rparr>"
      using e False h by (simp_all add: sess_abs_def)
    then show ?thesis using Finish unfolding refines_def by metis
  qed
qed

lemma sess_square:
  assumes "spec_inv m" "sess_step cfg m m'"
  shows "refines cfg m m'"
  using assms(2)
proof (cases rule: sess_step.cases)
  case (Request req)
  then show ?thesis
    using assms(1) unfolding Request(1)
    by (cases rule: handle_request_cases[where cfg = cfg and req = req and m = m])
      (simp_all add: abs_req_env abs_req_pty abs_req_shell abs_req_subsystem abs_req_other abs_req_winch)
next
  case (CallExit se ce code r)
  then show ?thesis using abs_Exit assms(1) by blast
qed (simp_all add: refines_def sess_abs_def helper_defs Let_def)

lemma spec_inv_step:
  assumes "spec_inv m" "sess_step cfg m m'"
  shows "spec_inv m'"
proof -
  have "m_started m' = [] \<longrightarrow> m_statuses m' = []"
    using assms(2)
  proof (cases rule: sess_step.cases)
    case (Request req)
    then show ?thesis
      using assms(1) unfolding Request(1)
      by (cases rule: handle_request_cases[where cfg = cfg and req = req and m = m])
        (auto simp: spec_inv_def req_defs helper_defs Let_def split: option.splits sum.splits prod.splits)
  next
    case (CallExit se ce code r)
    then show ?thesis using session_Exit_simps[OF CallExit(3)] by (simp add: handler_runs_def)
  qed (use assms(1) in \<open>simp_all add: spec_inv_def helper_defs Let_def\<close>)
  then show ?thesis using assms sess_step_inv[of m cfg m'] by (simp add: spec_inv_def)
qed

interpretation sess_refines: simulation "sess_step cfg" spec_inv "spec_step cfg" sess_abs
  for cfg :: "'h sess_cfg"
  by unfold_locales (auto intro: spec_inv_step dest: sess_square simp: refines_def)

definition spec_init :: "'h sess_spec" where
  "spec_init = \<lparr>sp_env = [], sp_term = None, sp_command = [], sp_phase = Setup\<rparr>"

lemma new_machine_spec: "spec_inv (new_machine ctx sigs brks)" "sess_abs (new_machine ctx sigs brks) = spec_init"
  using new_machine_inv[of ctx sigs brks]
  by (simp_all add: spec_inv_def new_machine_def new_session_def sess_abs_def spec_init_def)

section \<open>Properties\<close>

text \<open>C7. The session refines its contract: whatever the client sends and however the goroutines
  interleave, each step is either invisible or one that the contract allows, so a session goes
  through setting up, running one configured program and one exit status, in this order, and every
  reachable state abstracts to a state that the contract reaches.\<close>

theorem session_refines_contract:
  assumes "(sess_step cfg)\<^sup>*\<^sup>* (new_machine ctx sigs brks) m"
  shows "(spec_step cfg)\<^sup>*\<^sup>* spec_init (sess_abs m) \<and>
    (\<forall>m'. sess_step cfg m m' \<longrightarrow> sess_abs m' = sess_abs m \<or> spec_step cfg (sess_abs m) (sess_abs m'))"
proof -
  have "spec_inv m" using sess_refines.star_inv[OF assms new_machine_spec(1)] .
  then show ?thesis
    using sess_refines.star_refines[OF assms new_machine_spec(1)] sess_square[of m cfg]
    by (simp add: new_machine_spec(2) refines_def)
qed

theorem session_refines_contract_witness:
  "(spec_step demo_cfg)\<^sup>*\<^sup>* spec_init (sess_abs demo_shell) \<and> sp_phase (sess_abs demo_shell) = Active 1"
proof -
  have "m_statuses demo_shell = []" by code_simp
  then show ?thesis
    using session_refines_contract[OF demo_shell_reachable[unfolded demo_start_def]] demo_shell_state(2)
    by (simp add: sess_abs_def)
qed

end
