(* ===== verification/Ssh_Login.thy ===== *)
theory Ssh_Login
  imports Shell_Handler Ssh_Session_Spec
begin

text \<open>
  A login on the agent, across its components: the configuration of \<open>core/secure_shell/server.go\<close>, the
  connection handling of \<open>internal/secure_shell/server.go\<close> and the session of \<open>session.go\<close>. The SSH
  protocol is a parameter; what is used of it is that a handshake succeeds only when the
  configuration demands no authentication or one of its callbacks accepted a credential that the
  client offered (the contract of \<open>golang.org/x/crypto/ssh\<close>).
\<close>

section \<open>The contract of the protocol\<close>

datatype 'k credential = PublicKey string | Password string | Keyboard 'k

definition accepts :: "'k ServerConfig \<Rightarrow> 'k credential \<Rightarrow> bool" where
  "accepts cfg c =
     (case c of
        PublicKey k \<Rightarrow> (case cf_PublicKeyCallback cfg of None \<Rightarrow> False
                        | Some cb \<Rightarrow> (\<exists>md ctx. snd (snd (cb md k ctx)) = None))
      | Password p \<Rightarrow> (case cf_PasswordCallback cfg of None \<Rightarrow> False
                        | Some cb \<Rightarrow> (\<exists>md ctx. snd (snd (cb md p ctx)) = None))
      | Keyboard k \<Rightarrow> (case cf_KeyboardCallback cfg of None \<Rightarrow> False
                        | Some cb \<Rightarrow> (\<exists>md ctx. snd (snd (cb md k ctx)) = None)))"

definition sound_handshake ::
  "'k credential set \<Rightarrow>
   ('k ServerConfig \<Rightarrow> sshContext \<Rightarrow> sshContext \<times> (error + nat \<times> ConnMetadata \<times> string list)) \<Rightarrow> bool" where
  "sound_handshake offered hs \<longleftrightarrow>
     (\<forall>cfg ctx ctx' r. hs cfg ctx = (ctx', Inr r) \<longrightarrow> cf_NoClientAuth cfg \<or> (\<exists>c \<in> offered. accepts cfg c))"

section \<open>Lemmas\<close>

lemma KeysEqual_Some: "KeysEqual (Some key) k \<longleftrightarrow> k = Some key"
  by (auto simp: KeysEqual_def split: option.split)

text \<open>The agent's server accepts nothing but its own key.\<close>

lemma shell_accepts:
  assumes "shell_ssh_server parse s = (err, srv)"
  shows "accepts (srv_config ak srv ctx) c \<longleftrightarrow> (\<exists>key. c = PublicKey key \<and> parse (userPublicKey s) = Some key)"
    "\<not> cf_NoClientAuth (srv_config ak srv ctx)"
  using shell_ssh_server_fields[OF assms]
  by (auto simp: accepts_def srv_config_fields base_config_default auth_callback_def key_handler_def
      KeysEqual_Some Let_def split: credential.split)

lemma srv_config_ensureHandlers [simp]: "srv_config ak (ensureHandlers srv) ctx = srv_config ak srv ctx"
proof -
  have f: "ServerConfigCallback (ensureHandlers srv) = ServerConfigCallback srv"
    "HostSigners (ensureHandlers srv) = HostSigners srv" "PasswordHandler (ensureHandlers srv) = PasswordHandler srv"
    "PublicKeyHandler (ensureHandlers srv) = PublicKeyHandler srv"
    "KeyboardInteractiveHandler (ensureHandlers srv) = KeyboardInteractiveHandler srv"
    "srv_Version (ensureHandlers srv) = srv_Version srv" "Banner (ensureHandlers srv) = Banner srv"
    "BannerHandler (ensureHandlers srv) = BannerHandler srv"
    by (simp_all add: ensureHandlers_def)
  show ?thesis unfolding srv_config_def f ..
qed

lemma dispatched_after_handshake:
  assumes "HandleConn ak hs clock ctx c srv = (acts, ctx')" "Dispatch h t \<in> set acts"
  shows "(\<exists>ctx1 r. hs (srv_config ak srv ctx) ctx = (ctx1, Inr r)) \<and> lookup_default (ChannelHandlers srv) t = Some h"
  using assms
  by (auto simp: HandleConn_def Let_def dispatch_channel_def split: prod.splits option.splits sum.splits)

text \<open>A session of the agent's server can start the shell handler only.\<close>

lemma shell_startable:
  assumes "shell_ssh_server parse s = (err, srv)"
    and "DefaultSessionHandler um1 um2 (ensureHandlers srv) None ctx = Some (cfg, sess)"
  shows "startable cfg = {ShellHandler}"
  using assms
  by (auto simp: shell_ssh_server_def SetOption_def PublicKeyAuth_def zero_Server_def DefaultSessionHandler_def
      ensureHandlers_def startable_def)

definition phase_in :: "'h set \<Rightarrow> 'h sess_spec \<Rightarrow> bool" where
  "phase_in H a = (case sp_phase a of Setup \<Rightarrow> True | Active h \<Rightarrow> h \<in> H | Finished h _ \<Rightarrow> h \<in> H)"

lemma spec_step_phase_in: "phase_in (startable cfg) a \<Longrightarrow> spec_step cfg a b \<Longrightarrow> phase_in (startable cfg) b"
  by (erule spec_step.cases) (auto simp: phase_in_def)

lemma session_starts_only_startable:
  assumes "(sess_step cfg)\<^sup>*\<^sup>* (new_machine ctx sigs brks) m"
  shows "set (m_started m) \<subseteq> startable cfg"
proof -
  have "phase_in (startable cfg) (sess_abs m)"
    using sess_refines.spec_invariant[of "phase_in (startable cfg)" cfg, OF spec_step_phase_in assms new_machine_spec(1)]
    by (simp add: new_machine_spec(2) spec_init_def phase_in_def)
  moreover have "length (m_started m) \<le> 1"
    using sess_invariant.star_inv[OF assms new_machine_inv] by (auto simp: sess_inv_def started_ok_def split: if_splits)
  ultimately show ?thesis
    by (cases "m_started m"; cases "m_statuses m") (auto simp: phase_in_def sess_abs_def)
qed

section \<open>Properties\<close>

text \<open>C8. No shell without the agent's key: whatever a client does on a connection, a channel is handed to a
  handler only if one of the credentials that the client offered is the public key generated at the
  start of the agent; then the channel is a session, and in every execution of that session the
  only thing that is ever started is the shell handler, at most once.\<close>

theorem ssh_login_safe:
  assumes "shell_ssh_server parse s = (err, srv)" and "sound_handshake offered hs"
    and "HandleConn ak hs clock ctx c (ensureHandlers srv) = (acts, ctx')" and "Dispatch h t \<in> set acts"
  shows "(\<exists>key. PublicKey key \<in> offered \<and> parse (userPublicKey s) = Some key) \<and>
    h = DefaultSession \<and> t = ''session'' \<and>
    (\<forall>um1 um2 sctx cfg sess sigs brks m.
       DefaultSessionHandler um1 um2 (ensureHandlers srv) None sctx = Some (cfg, sess) \<longrightarrow>
       (sess_step cfg)\<^sup>*\<^sup>* (new_machine sctx sigs brks) m \<longrightarrow>
       m_started m = [] \<or> m_started m = [ShellHandler])"
proof -
  note d = dispatched_after_handshake[OF assms(3,4)]
  then have "\<exists>cr \<in> offered. accepts (srv_config ak srv ctx) cr"
    using assms(2) shell_accepts(2)[OF assms(1), of ak ctx] unfolding sound_handshake_def
    by (metis srv_config_ensureHandlers)
  then have k: "\<exists>key. PublicKey key \<in> offered \<and> parse (userPublicKey s) = Some key"
    using shell_accepts(1)[OF assms(1)] by metis
  have ht: "h = DefaultSession \<and> t = ''session''"
    using d shell_ssh_server_fields(6)[OF assms(1)]
    by (auto simp: lookup_default_def ensureHandlers_def DefaultChannelHandlers_def split: option.splits if_splits)
  have "m_started m = [] \<or> m_started m = [ShellHandler]"
    if "DefaultSessionHandler um1 um2 (ensureHandlers srv) None sctx = Some (cfg, sess)"
      "(sess_step cfg)\<^sup>*\<^sup>* (new_machine sctx sigs brks) m" for um1 um2 sctx cfg sess sigs brks m
  proof -
    have "set (m_started m) \<subseteq> {ShellHandler}"
      using session_starts_only_startable[OF that(2)] shell_startable[OF assms(1) that(1)] by simp
    moreover have "length (m_started m) \<le> 1"
      using sess_invariant.star_inv[OF that(2) new_machine_inv] by (auto simp: sess_inv_def started_ok_def split: if_splits)
    ultimately show ?thesis by (cases "m_started m") auto
  qed
  then show ?thesis using k ht by blast
qed

text \<open>A client that offers the agent's key, and a protocol that accepts it by asking the callback.\<close>

definition demo_handshake ::
  "nat ServerConfig \<Rightarrow> sshContext \<Rightarrow> sshContext \<times> (error + nat \<times> ConnMetadata \<times> string list)" where
  "demo_handshake cfg ctx =
     (let md = \<lparr>md_User = ''root'', md_SessionID = [], md_ClientVersion = [], md_ServerVersion = [],
                md_RemoteAddr = [], md_LocalAddr = []\<rparr> in
      case cf_PublicKeyCallback cfg of
        None \<Rightarrow> (ctx, Inl EOF)
      | Some cb \<Rightarrow>
          (case cb md ''k'' ctx of
             (ctx1, _, None) \<Rightarrow> (ctx1, Inr (1, md, [''session'']))
           | (ctx1, _, Some e) \<Rightarrow> (ctx1, Inl e)))"

lemma demo_handshake_sound: "sound_handshake {PublicKey ''k''} demo_handshake"
  unfolding sound_handshake_def
proof (intro allI impI)
  fix cfg :: "nat ServerConfig" and ctx ctx' r
  assume h: "demo_handshake cfg ctx = (ctx', Inr r)"
  let ?md = "\<lparr>md_User = ''root'', md_SessionID = [], md_ClientVersion = [], md_ServerVersion = [],
    md_RemoteAddr = [], md_LocalAddr = []\<rparr>"
  from h obtain cb where cb: "cf_PublicKeyCallback cfg = Some cb"
    by (cases "cf_PublicKeyCallback cfg") (auto simp: demo_handshake_def Let_def)
  have "snd (snd (cb ?md ''k'' ctx)) = None"
    using h cb by (cases "cb ?md ''k'' ctx"; cases "snd (snd (cb ?md ''k'' ctx))") (auto simp: demo_handshake_def Let_def)
  then have "accepts cfg (PublicKey ''k'')" using cb unfolding accepts_def by auto
  then show "cf_NoClientAuth cfg \<or> (\<exists>c\<in>{PublicKey ''k''}. accepts cfg c)" by blast
qed

theorem ssh_login_safe_witness:
  "sound_handshake {PublicKey ''k''} demo_handshake \<and>
   (\<exists>acts ctx'. HandleConn (#) demo_handshake (0, 0, 0, 0) (newContext 0 0) 5
       (ensureHandlers (snd (demo_shell_server (\<lambda>_. Some ''k'')))) = (acts, ctx') \<and>
     Dispatch DefaultSession ''session'' \<in> set acts \<and>
     (\<exists>key. PublicKey key \<in> {PublicKey ''k'' :: nat credential} \<and> Some ''k'' = Some key))"
proof -
  let ?srv = "snd (demo_shell_server (\<lambda>_. Some ''k''))"
  obtain acts ctx' where h: "HandleConn (#) demo_handshake (0, 0, 0, 0) (newContext 0 0) 5 (ensureHandlers ?srv) = (acts, ctx')"
    by fastforce
  have "Dispatch DefaultSession ''session'' \<in> set (fst (HandleConn (#) demo_handshake (0, 0, 0, 0) (newContext 0 0) 5 (ensureHandlers ?srv)))"
    by code_simp
  then have d: "Dispatch DefaultSession ''session'' \<in> set acts" using h by simp
  show ?thesis
    using ssh_login_safe[OF surjective_pairing[of "demo_shell_server (\<lambda>_. Some ''k'')", unfolded demo_shell_server_def]
        demo_handshake_sound h[unfolded demo_shell_server_def] d] h d demo_handshake_sound by blast
qed

end
