(* ===== verification/Ssh_Life.thy ===== *)
theory Ssh_Life
  imports Ssh_Server
begin

text \<open>
  The goroutines of an SSH server (\<open>internal/secure_shell/server.go\<close>) over their whole life: \<open>Serve\<close>
  calls, connections from \<open>Accept\<close> through the handshake to their end, \<open>Close\<close>, and any number of
  \<open>Shutdown\<close> calls, whose goroutine waits for the listeners first and for the connections after that.
  And \<open>HandleConn\<close> on one connection: what is done on every path, with its effect on the server.
\<close>

section \<open>Goroutines\<close>

text \<open>A connection is registered only when its handshake is over.\<close>

datatype conn_pc = Handshaking | Established

record ('h, 'k) life =
  lf_srv :: "('h, 'k) ssh_server"
  lf_serving :: "nat list"
  lf_conns :: "(nat \<times> conn_pc) list"
  lf_shutdown :: "nat \<Rightarrow> shutdown_pc"

datatype life_event =
    ServeStarts nat | ServeReturns nat
  | Accepts nat nat | HandshakeFails nat | HandshakeDone nat | ConnEnds nat
  | CallClose "nat \<Rightarrow> error option" | CallShutdown nat "nat \<Rightarrow> error option" | ShutdownWaits nat

definition life_step :: "('h, 'k) life \<Rightarrow> life_event \<Rightarrow> ('h, 'k) life" where
  "life_step s e =
     (case e of
        ServeStarts l \<Rightarrow> s\<lparr>lf_srv := trackListener l True (lf_srv s), lf_serving := l # lf_serving s\<rparr>
      | ServeReturns l \<Rightarrow>
          if l \<in> set (lf_serving s)
          then s\<lparr>lf_srv := trackListener l False (lf_srv s), lf_serving := remove1 l (lf_serving s)\<rparr> else s
      | Accepts l c \<Rightarrow> if l \<in> set (lf_serving s) then s\<lparr>lf_conns := (c, Handshaking) # lf_conns s\<rparr> else s
      | HandshakeFails c \<Rightarrow> s\<lparr>lf_conns := remove1 (c, Handshaking) (lf_conns s)\<rparr>
      | HandshakeDone c \<Rightarrow>
          if (c, Handshaking) \<in> set (lf_conns s)
          then s\<lparr>lf_srv := trackConn c True (lf_srv s),
                 lf_conns := (c, Established) # remove1 (c, Handshaking) (lf_conns s)\<rparr> else s
      | ConnEnds c \<Rightarrow>
          if (c, Established) \<in> set (lf_conns s)
          then s\<lparr>lf_srv := trackConn c False (lf_srv s), lf_conns := remove1 (c, Established) (lf_conns s)\<rparr> else s
      | CallClose cl \<Rightarrow> s\<lparr>lf_srv := snd (snd (srv_Close cl (lf_srv s)))\<rparr>
      | CallShutdown i cl \<Rightarrow>
          if lf_shutdown s i = NotCalled
          then s\<lparr>lf_srv := snd (Shutdown_begin cl (lf_srv s)), lf_shutdown := (lf_shutdown s)(i := WaitListeners)\<rparr>
          else s
      | ShutdownWaits i \<Rightarrow>
          s\<lparr>lf_shutdown := (lf_shutdown s)(i := Shutdown_wait (lf_srv s) (lf_shutdown s i))\<rparr>)"

definition life_init :: "('h, 'k) ssh_server \<Rightarrow> ('h, 'k) life" where
  "life_init srv = \<lparr>lf_srv = srv, lf_serving = [], lf_conns = [], lf_shutdown = (\<lambda>_. NotCalled)\<rparr>"

definition established :: "(nat \<times> conn_pc) list \<Rightarrow> nat list" where
  "established xs = map fst (filter (\<lambda>x. snd x = Established) xs)"

section \<open>Invariant\<close>

definition life_inv :: "('h, 'k) life \<Rightarrow> bool" where
  "life_inv s \<longleftrightarrow>
     listenerWg (lf_srv s) = int (length (lf_serving s)) \<and> connWg (lf_srv s) = int (length (established (lf_conns s))) \<and>
     set (members (listeners (lf_srv s))) \<subseteq> set (lf_serving s) \<and>
     set (members (conns (lf_srv s))) \<subseteq> set (established (lf_conns s))"

lemma established_simps [simp]:
  "established [] = []" "established ((c, Handshaking) # xs) = established xs"
  "established ((c, Established) # xs) = c # established xs"
  "established (remove1 (c, Handshaking) xs) = established xs"
  "established (remove1 (c, Established) xs) = remove1 c (established xs)"
  by (induction xs) (auto simp: established_def)

lemma established_iff [simp]: "c \<in> set (established xs) \<longleftrightarrow> (c, Established) \<in> set xs"
  by (force simp: established_def)

lemma life_step_inv:
  assumes "life_inv s"
  shows "life_inv (life_step s e)"
proof (cases e)
  case (ConnEnds c)
  then show ?thesis
    using assms established_iff[of c "lf_conns s"]
    by (auto simp: life_inv_def life_step_def trackConn_def Let_def length_remove1_int simp del: established_iff
        intro: set_remove1_sub[THEN subsetD])
qed (use assms in \<open>auto simp: life_inv_def life_step_def trackListener_def trackConn_def srv_Close_def
    Shutdown_begin_def closeListenersLocked_def Let_def length_remove1_int
    intro: set_remove1_sub[THEN subsetD] split: prod.splits\<close>)

interpretation srv_life: step_invariant life_step life_inv
  by unfold_locales (rule life_step_inv)

section \<open>Shutdown\<close>

text \<open>Once the listeners are gone for a \<open>Shutdown\<close>, they stay gone unless \<open>Serve\<close> is called again.\<close>

definition no_serve :: "life_event \<Rightarrow> bool" where
  "no_serve e = (case e of ServeStarts _ \<Rightarrow> False | _ \<Rightarrow> True)"

definition drained :: "nat \<Rightarrow> ('h, 'k) life \<Rightarrow> bool" where
  "drained i s \<longleftrightarrow>
     life_inv s \<and> lf_shutdown s i \<noteq> NotCalled \<and> (lf_shutdown s i \<in> {WaitConns, Finished} \<longrightarrow> lf_serving s = [])"

lemma Shutdown_wait_called: "pc \<noteq> NotCalled \<Longrightarrow> Shutdown_wait srv pc \<noteq> NotCalled"
  by (cases pc) simp_all

lemma drained_step:
  assumes "drained i s" "no_serve e"
  shows "drained i (life_step s e)"
proof (cases e)
  case (ShutdownWaits j)
  have "lf_serving s = []" if "Shutdown_wait (lf_srv s) (lf_shutdown s i) \<in> {WaitConns, Finished}"
    using that assms(1) by (cases "lf_shutdown s i") (auto simp: drained_def life_inv_def split: if_splits)
  then show ?thesis
    using assms(1) life_step_inv[of s e] Shutdown_wait_called ShutdownWaits by (auto simp: drained_def life_step_def)
qed (use assms life_step_inv[of s e] in \<open>auto simp: drained_def no_serve_def life_step_def split: if_splits\<close>)

lemma drained_run: "drained i s \<Longrightarrow> list_all no_serve es \<Longrightarrow> drained i (foldl life_step s es)"
  by (induction es arbitrary: s) (simp_all add: drained_step)

text \<open>A connection that was accepted before the shutdown and is still in its handshake.\<close>

definition late_conn :: "life_event list" where
  "late_conn = [ServeStarts 1, Accepts 1 7, CallShutdown 0 (\<lambda>_. None), ServeReturns 1, ShutdownWaits 0,
     ShutdownWaits 0, HandshakeDone 7]"

section \<open>One connection\<close>

fun act_on :: "conn_action \<Rightarrow> ('h, 'k) ssh_server \<Rightarrow> ('h, 'k) ssh_server" where
  "act_on (TrackConn n) srv = trackConn n True srv"
| "act_on (UntrackConn n) srv = trackConn n False srv"
| "act_on _ srv = srv"

definition acts_on :: "conn_action list \<Rightarrow> ('h, 'k) ssh_server \<Rightarrow> ('h, 'k) ssh_server" where
  "acts_on acts srv = foldl (\<lambda>s a. act_on a s) srv acts"

fun channel_of :: "conn_action \<Rightarrow> string option" where
  "channel_of (Dispatch h t) = Some t"
| "channel_of (RejectChannel t) = Some t"
| "channel_of _ = None"

lemma acts_on_simps [simp]:
  "acts_on [] srv = srv" "acts_on (a # as) srv = acts_on as (act_on a srv)"
  "acts_on (as @ bs) srv = acts_on bs (acts_on as srv)"
  by (simp_all add: acts_on_def)

lemma dispatch_channel_simps [simp]:
  "channel_of (dispatch_channel srv t) = Some t" "act_on (dispatch_channel srv t) s = s"
  by (simp_all add: dispatch_channel_def split: option.split)

lemma acts_on_dispatch [simp]: "acts_on (map (dispatch_channel srv) ts) s = s"
  by (induction ts) simp_all




section \<open>Properties\<close>

text \<open>C12. In every history of a server whose counters start at zero, the wait groups count exactly the \<open>Serve\<close>
  calls and the established connections (so they never go negative), and only those are registered.
  When a graceful shutdown finishes, no established connection is left at that moment; if \<open>Serve\<close>
  was not called again since the shutdown began, no \<open>Serve\<close> call is left either, so nothing new is
  accepted; and once none of both is left, it does finish. But a connection that was accepted before
  the shutdown and is still in its handshake is not waited for: it is served after the
  shutdown has finished.\<close>

theorem srv_lifecycle:
  assumes "listenerWg srv = 0" "connWg srv = 0" "members (listeners srv) = []" "members (conns srv) = []"
    and "s = foldl life_step (life_init srv) evs"
  shows "listenerWg (lf_srv s) = int (length (lf_serving s)) \<and>
    connWg (lf_srv s) = int (length (filter (\<lambda>x. snd x = Established) (lf_conns s))) \<and>
    set (members (listeners (lf_srv s))) \<subseteq> set (lf_serving s) \<and>
    (\<forall>c \<in> set (members (conns (lf_srv s))). (c, Established) \<in> set (lf_conns s)) \<and>
    (\<forall>i. lf_shutdown s i = WaitConns \<and> lf_shutdown (life_step s (ShutdownWaits i)) i = Finished \<longrightarrow>
       (\<forall>c. (c, Established) \<notin> set (lf_conns s))) \<and>
    (\<forall>i pre cl post. evs = pre @ CallShutdown i cl # post \<and> list_all no_serve post \<and>
       lf_shutdown s i \<in> {WaitConns, Finished} \<and> lf_shutdown (foldl life_step (life_init srv) pre) i = NotCalled \<longrightarrow>
       lf_serving s = []) \<and>
    (\<forall>i. lf_shutdown s i \<noteq> NotCalled \<and> lf_serving s = [] \<and> (\<forall>c. (c, Established) \<notin> set (lf_conns s)) \<longrightarrow>
       lf_shutdown (foldl life_step s [ShutdownWaits i, ShutdownWaits i]) i = Finished) \<and>
    (let t = foldl life_step (life_init srv) late_conn in
       lf_shutdown t 0 = Finished \<and> (7, Established) \<in> set (lf_conns t) \<and> 7 \<in> set (members (conns (lf_srv t))))"
proof -
  have i0: "life_inv (life_init srv)" using assms(1-4) by (simp add: life_inv_def life_init_def established_def)
  have i: "life_inv s" unfolding assms(5) by (rule srv_life.run_inv[OF i0])
  have none: "established (lf_conns s) = [] \<longleftrightarrow> (\<forall>c. (c, Established) \<notin> set (lf_conns s))"
    using established_iff[of _ "lf_conns s"] by (metis list.set_intros(1) list.exhaust empty_iff empty_set)
  have "lf_serving s = []"
    if h: "evs = pre @ CallShutdown i cl # post" "list_all no_serve post" "lf_shutdown s i \<in> {WaitConns, Finished}"
      "lf_shutdown (foldl life_step (life_init srv) pre) i = NotCalled" for i pre cl post
  proof -
    let ?p = "foldl life_step (life_init srv) pre"
    have "life_inv ?p" by (rule srv_life.run_inv[OF i0])
    then have "life_inv (life_step ?p (CallShutdown i cl))" by (rule life_step_inv)
    then have "drained i (life_step ?p (CallShutdown i cl))"
      using h(4) by (auto simp: drained_def life_step_def)
    from drained_run[OF this h(2)] have "drained i s" using h(1) assms(5) by simp
    then show ?thesis using h(3) by (auto simp: drained_def)
  qed
  moreover have "\<forall>c. (c, Established) \<notin> set (lf_conns s)"
    if "lf_shutdown s i = WaitConns" "lf_shutdown (life_step s (ShutdownWaits i)) i = Finished" for i
    using that i none by (auto simp: life_step_def life_inv_def split: if_splits)
  moreover have "lf_shutdown (foldl life_step s [ShutdownWaits i, ShutdownWaits i]) i = Finished"
    if "lf_shutdown s i \<noteq> NotCalled" "lf_serving s = []" "\<forall>c. (c, Established) \<notin> set (lf_conns s)" for i
    using that i none by (cases "lf_shutdown s i") (auto simp: life_step_def life_inv_def)
  moreover have "let t = foldl life_step (life_init srv) late_conn in
      lf_shutdown t 0 = Finished \<and> (7, Established) \<in> set (lf_conns t) \<and> 7 \<in> set (members (conns (lf_srv t)))"
    using assms(1-4)
    by (simp add: late_conn_def life_step_def life_init_def trackListener_def trackConn_def Shutdown_begin_def
        closeListenersLocked_def Let_def)
  ultimately show ?thesis
    using i by (auto simp: life_inv_def established_def)
qed

theorem srv_lifecycle_witness:
  "connWg (lf_srv (foldl life_step (life_init (zero_Server :: (nat, nat) ssh_server))
      [ServeStarts 1, Accepts 1 7, Accepts 1 8, HandshakeDone 7, CallShutdown 0 (\<lambda>_. None), ServeReturns 1])) = 1"
  using srv_lifecycle[of "zero_Server :: (nat, nat) ssh_server",
      OF _ _ _ _ refl, of "[ServeStarts 1, Accepts 1 7, Accepts 1 8, HandshakeDone 7, CallShutdown 0 (\<lambda>_. None), ServeReturns 1]"]
  by (simp add: zero_Server_def life_step_def life_init_def)




end
