(* ===== verification/Ssh_Forward.thy ===== *)
theory Ssh_Forward
  imports Ssh_Server Go_Net
begin

text \<open>
  TCP forwarding of the embedded SSH server (\<open>internal/secure_shell/tcpip.go\<close>): the channel handler
  for connections that the client asks the server to make, and the request handler for ports that
  the client asks the server to listen on, with the two goroutines that each such port has (one
  waits for the end of the connection's context, one accepts). Listening, dialling and the wire
  format of the payloads (\<open>gossh.Marshal\<close>, \<open>gossh.Unmarshal\<close>) are parameters.
\<close>

section \<open>Local forwarding\<close>

record localForwardChannelData =
  DestAddr :: string
  DestPort :: "32 word"
  OriginAddr :: string
  OriginPort :: "32 word"

datatype reject_reason = ConnectionFailed | Prohibited

datatype direct_action =
    RejectNewChan reject_reason error | DialDest string | AcceptChan | CopyBothWays | CloseDest

definition port_string :: "32 word \<Rightarrow> string" where
  "port_string p = Itoa (uint p)"

definition DirectTCPIPHandler ::
  "(string \<Rightarrow> localForwardChannelData result) \<Rightarrow> (string \<Rightarrow> error option) \<Rightarrow> error option \<Rightarrow>
   ('h, 'k) ssh_server \<Rightarrow> sshContext \<Rightarrow> string \<Rightarrow> direct_action list" where
  "DirectTCPIPHandler unmarshal dial accept srv ctx extra =
     (case unmarshal extra of
        Inl err \<Rightarrow> [RejectNewChan ConnectionFailed (Wrap ''error parsing forward data: '' err)]
      | Inr d \<Rightarrow>
          if (case LocalPortForwardingCallback srv of
                None \<Rightarrow> True | Some cb \<Rightarrow> \<not> cb ctx (DestAddr d) (DestPort d))
          then [RejectNewChan Prohibited (Errorf ''port forwarding is disabled'')]
          else let dest = JoinHostPort (DestAddr d) (port_string (DestPort d)) in
               (case dial dest of
                  Some err \<Rightarrow> [DialDest dest, RejectNewChan ConnectionFailed err]
                | None \<Rightarrow>
                    (case accept of
                       Some _ \<Rightarrow> [DialDest dest, AcceptChan, CloseDest]
                     | None \<Rightarrow> [DialDest dest, AcceptChan, CopyBothWays])))"

section \<open>Remote forwarding\<close>

record remoteForwardRequest =
  BindAddr :: string
  BindPort :: "32 word"

record remoteForwardChannelData =
  rDestAddr :: string
  rDestPort :: "32 word"
  rOriginAddr :: string
  rOriginPort :: "32 word"

text \<open>The handler's table, with the listeners that are open, the goroutines that wait for the end of
  a connection's context, and the accept goroutines (listener, key of the table, requested address
  and real port).\<close>

record fwd_state =
  forwards :: "string \<Rightarrow> nat option"
  open_ls :: "nat list"
  ctx_waiters :: "(nat \<times> string) list"
  acceptors :: "(nat \<times> string \<times> string \<times> int) list"

definition bind_key :: "remoteForwardRequest \<Rightarrow> string" where
  "bind_key r = JoinHostPort (BindAddr r) (port_string (BindPort r))"

definition close_ln :: "nat \<Rightarrow> fwd_state \<Rightarrow> fwd_state" where
  "close_ln l st = st\<lparr>open_ls := removeAll l (open_ls st)\<rparr>"

text \<open>\<open>split_port a\<close>: the port part of an address, zero when the address does not parse.\<close>

definition split_port :: "string \<Rightarrow> int" where
  "split_port a = (case SplitHostPort a of Inr (_, p) \<Rightarrow> Atoi_value p | Inl _ \<Rightarrow> Atoi_value [])"

definition split_host :: "string \<Rightarrow> string" where
  "split_host a = (case SplitHostPort a of Inr (h, _) \<Rightarrow> h | Inl _ \<Rightarrow> [])"

record fwd_env =
  fe_unmarshal :: "string \<Rightarrow> remoteForwardRequest result"
  fe_marshal_port :: "32 word \<Rightarrow> string"
  fe_listen :: "string \<Rightarrow> (nat \<times> string) result"

definition tcpip_forward ::
  "fwd_env \<Rightarrow> ('h, 'k) ssh_server \<Rightarrow> sshContext \<Rightarrow> nat \<Rightarrow> string \<Rightarrow> fwd_state \<Rightarrow> (bool \<times> string) \<times> fwd_state" where
  "tcpip_forward env srv ctx ctx_id payload st =
     (case fe_unmarshal env payload of
        Inl _ \<Rightarrow> ((False, []), st)
      | Inr r \<Rightarrow>
          if (case ReversePortForwardingCallback srv of
                None \<Rightarrow> True | Some cb \<Rightarrow> \<not> cb ctx (BindAddr r) (BindPort r))
          then ((False, ''port forwarding is disabled''), st)
          else (case fe_listen env (bind_key r) of
                  Inl _ \<Rightarrow> ((False, []), st)
                | Inr (ln, laddr) \<Rightarrow>
                    let destPort = split_port laddr in
                    ((True, fe_marshal_port env (of_int destPort)),
                     st\<lparr>forwards := (forwards st)(bind_key r := Some ln), open_ls := ln # open_ls st,
                        ctx_waiters := (ctx_id, bind_key r) # ctx_waiters st,
                        acceptors := (ln, bind_key r, BindAddr r, destPort) # acceptors st\<rparr>)))"

definition cancel_tcpip_forward ::
  "fwd_env \<Rightarrow> string \<Rightarrow> fwd_state \<Rightarrow> (bool \<times> string) \<times> fwd_state" where
  "cancel_tcpip_forward env payload st =
     (case fe_unmarshal env payload of
        Inl _ \<Rightarrow> ((False, []), st)
      | Inr r \<Rightarrow>
          (case forwards st (bind_key r) of
             Some ln \<Rightarrow> ((True, []), close_ln ln st)
           | None \<Rightarrow> ((True, []), st)))"

text \<open>A nil table is not distinguished from an empty one: the handler allocates it first. Before the
  switch the SSH connection is read from the context with a type assertion.\<close>

definition HandleSSHRequest ::
  "fwd_env \<Rightarrow> ('h, 'k) ssh_server \<Rightarrow> sshContext \<Rightarrow> nat \<Rightarrow> request \<Rightarrow> fwd_state \<Rightarrow> ((bool \<times> string) \<times> fwd_state) result" where
  "HandleSSHRequest env srv ctx ctx_id req st =
     (case ctx_Value ctx ContextKeyConn of
        Some (VConn _) \<Rightarrow>
          Inr (if rq_Type req = ''tcpip-forward'' then tcpip_forward env srv ctx ctx_id (rq_Payload req) st
               else if rq_Type req = ''cancel-tcpip-forward'' then cancel_tcpip_forward env (rq_Payload req) st
               else ((False, []), st))
      | _ \<Rightarrow> Inl (Panic ''interface conversion''))"

text \<open>The waiting goroutine after the context ended, the accept goroutine after \<open>Accept\<close> failed, and
  the payload for an accepted connection.\<close>

definition ctx_done :: "nat \<times> string \<Rightarrow> fwd_state \<Rightarrow> fwd_state" where
  "ctx_done w st =
     (let st1 = st\<lparr>ctx_waiters := removeAll w (ctx_waiters st)\<rparr> in
      case forwards st (snd w) of Some ln \<Rightarrow> close_ln ln st1 | None \<Rightarrow> st1)"

definition accept_failed :: "nat \<times> string \<times> string \<times> int \<Rightarrow> fwd_state \<Rightarrow> fwd_state" where
  "accept_failed a st =
     st\<lparr>forwards := (forwards st)(fst (snd a) := None), acceptors := removeAll a (acceptors st)\<rparr>"

definition forwarded_payload :: "nat \<times> string \<times> string \<times> int \<Rightarrow> string \<Rightarrow> remoteForwardChannelData" where
  "forwarded_payload a remote =
     \<lparr>rDestAddr = fst (snd (snd a)), rDestPort = of_int (snd (snd (snd a))),
      rOriginAddr = split_host remote, rOriginPort = of_int (split_port remote)\<rparr>"

section \<open>Lemmas\<close>

lemma in_int64_uint32: "in_int64 (uint (p :: 32 word))"
proof -
  have "0 \<le> uint p" "uint p < 2 ^ 32" using unsigned_less[of p, where ?'a = int] by simp_all
  then show ?thesis by (simp add: in_int64_def order_trans[of "- 9223372036854775808" 0])
qed

lemma port_string_inj: "port_string p = port_string q \<Longrightarrow> p = q"
  using Itoa_inj[of "uint p" "uint q"] in_int64_uint32
  by (simp add: port_string_def word_uint_eq_iff)

lemma bind_key_eq:
  assumes "BindAddr r = BindAddr r'" "bind_key r = bind_key r'"
  shows "BindPort r = BindPort r'"
  using assms JoinHostPort_inj[of "port_string (BindPort r)" "port_string (BindPort r')" "BindAddr r"]
    port_string_inj Itoa_no_addr_chars
  by (simp add: bind_key_def port_string_def)

lemma split_port_Join:
  assumes "CHR ''['' \<notin> set h" "CHR '']'' \<notin> set h"
  shows "split_port (JoinHostPort h (port_string p)) = uint p"
    "split_host (JoinHostPort h (port_string p)) = h"
  using SplitHostPort_JoinHostPort[OF assms, of "port_string p"] Itoa_no_addr_chars
  by (simp_all add: split_port_def split_host_def port_string_def Atoi_value_Itoa in_int64_uint32)

section \<open>Properties\<close>

text \<open>No connection is made for a client unless the local-forwarding callback is set and allows
  this destination; a refused channel is rejected as prohibited; and after a failed accept the
  dialled connection is closed.\<close>

theorem DirectTCPIP_guard:
  "DialDest dest \<in> set (DirectTCPIPHandler um dial acc srv ctx extra) \<Longrightarrow>
     (\<exists>d cb. um extra = Inr d \<and> LocalPortForwardingCallback srv = Some cb \<and>
        cb ctx (DestAddr d) (DestPort d) \<and> dest = JoinHostPort (DestAddr d) (port_string (DestPort d)))"
  by (auto simp: DirectTCPIPHandler_def Let_def split: sum.splits if_splits option.splits)

theorem DirectTCPIP_guard_witness:
  "\<exists>d cb. Inr \<lparr>DestAddr = ''h'', DestPort = 80, OriginAddr = [], OriginPort = 0\<rparr> = (Inr d :: localForwardChannelData result) \<and>
     Some (\<lambda>(_ :: sshContext) (_ :: string) (p :: 32 word). p = 80) = Some cb \<and> cb (newContext 0 0) (DestAddr d) (DestPort d)"
  using DirectTCPIP_guard[of "JoinHostPort ''h'' (port_string 80)"
      "\<lambda>_. Inr \<lparr>DestAddr = ''h'', DestPort = 80, OriginAddr = [], OriginPort = 0\<rparr>" "\<lambda>_. None" None
      "(zero_Server :: (nat, nat) ssh_server)\<lparr>LocalPortForwardingCallback := Some (\<lambda>_ _ p. p = 80)\<rparr>"
      "newContext 0 0" "[]"]
  by (simp add: DirectTCPIPHandler_def)

text \<open>C28. A forward is cancelled by the address and port it was requested with: the listener that the
  request opened is then closed. A cancel request for the same address with any other port, in
  particular the port that the reply to a request for port 0 reported, is answered with success
  and leaves that listener open.\<close>

theorem forward_then_cancel:
  assumes "tcpip_forward env srv ctx cid pl st = ((True, rep), st1)"
    and "fe_unmarshal env pl = Inr r" and "fe_unmarshal env pl' = Inr r'" and "BindAddr r' = BindAddr r"
    and "forwards st (bind_key r') = None"
    and "fe_listen env (bind_key r) = Inr (ln, laddr)" and "ln \<notin> set (open_ls st)"
  shows "fst (cancel_tcpip_forward env pl' st1) = (True, []) \<and>
    (ln \<in> set (open_ls (snd (cancel_tcpip_forward env pl' st1))) \<longleftrightarrow> BindPort r' \<noteq> BindPort r)"
proof -
  have st1: "st1 = st\<lparr>forwards := (forwards st)(bind_key r := Some ln), open_ls := ln # open_ls st,
      ctx_waiters := (cid, bind_key r) # ctx_waiters st,
      acceptors := (ln, bind_key r, BindAddr r, split_port laddr) # acceptors st\<rparr>"
    using assms(1,2,6) by (auto simp: tcpip_forward_def Let_def split: if_splits)
  show ?thesis
  proof (cases "BindPort r' = BindPort r")
    case True
    then have "bind_key r' = bind_key r" using assms(4) by (simp add: bind_key_def)
    then show ?thesis using True assms(3) by (simp add: st1 cancel_tcpip_forward_def close_ln_def)
  next
    case False
    then have "bind_key r' \<noteq> bind_key r" using bind_key_eq[of r' r] assms(4) by auto
    then show ?thesis using False assms(3,5) by (simp add: st1 cancel_tcpip_forward_def)
  qed
qed

text \<open>An environment whose payload is the decimal port, with a listener per address.\<close>

definition demo_env :: fwd_env where
  "demo_env = \<lparr>fe_unmarshal = (\<lambda>s. Inr \<lparr>BindAddr = ''lo'', BindPort = of_int (Atoi_value s)\<rparr>),
     fe_marshal_port = (\<lambda>p. port_string p),
     fe_listen = (\<lambda>a. Inr (1, if a = ''lo:0'' then ''lo:4022'' else a))\<rparr>"

definition demo_srv :: "(nat, nat) ssh_server" where
  "demo_srv = zero_Server\<lparr>ReversePortForwardingCallback := Some (\<lambda>_ _ _. True)\<rparr>"

definition empty_fwd :: fwd_state where
  "empty_fwd = \<lparr>forwards = (\<lambda>_. None), open_ls = [], ctx_waiters = [], acceptors = []\<rparr>"

lemma demo_forward:
  "fst (tcpip_forward demo_env demo_srv (newContext 0 0) 1 ''0'' empty_fwd) = (True, ''4022'')"
  "fe_listen demo_env (bind_key \<lparr>BindAddr = ''lo'', BindPort = 0\<rparr>) = Inr (1, ''lo:4022'')"
  "fe_unmarshal demo_env ''0'' = Inr \<lparr>BindAddr = ''lo'', BindPort = 0\<rparr>"
  "fe_unmarshal demo_env ''4022'' = Inr \<lparr>BindAddr = ''lo'', BindPort = 4022\<rparr>"
  by code_simp+

theorem forward_then_cancel_witness:
  "1 \<in> set (open_ls (snd (cancel_tcpip_forward demo_env ''4022''
      (snd (tcpip_forward demo_env demo_srv (newContext 0 0) 1 ''0'' empty_fwd)))))"
  using forward_then_cancel[of demo_env demo_srv "newContext 0 0" 1 "''0''" empty_fwd "''4022''"
      "snd (tcpip_forward demo_env demo_srv (newContext 0 0) 1 ''0'' empty_fwd)"
      "\<lparr>BindAddr = ''lo'', BindPort = 0\<rparr>" "''4022''" "\<lparr>BindAddr = ''lo'', BindPort = 4022\<rparr>" 1 "''lo:4022''"]
    demo_forward
  by (simp add: empty_fwd_def prod_eq_iff)

text \<open>The payload announced for an accepted connection names the requested address, the port that
  was really opened, and the peer's host and port.\<close>

theorem forwarded_payload_spec:
  assumes "CHR ''['' \<notin> set h" "CHR '']'' \<notin> set h"
  shows "forwarded_payload (ln, key, a, split_port laddr) (JoinHostPort h (port_string p)) =
    \<lparr>rDestAddr = a, rDestPort = of_int (split_port laddr), rOriginAddr = h, rOriginPort = p\<rparr>"
  using split_port_Join[OF assms] by (simp add: forwarded_payload_def)

theorem forwarded_payload_spec_witness:
  "forwarded_payload (1, ''lo:0'', ''lo'', split_port ''lo:4022'') (JoinHostPort ''::1'' (port_string 5000)) =
    \<lparr>rDestAddr = ''lo'', rDestPort = of_int (split_port ''lo:4022''), rOriginAddr = ''::1'', rOriginPort = 5000\<rparr>"
  using forwarded_payload_spec[of "''::1''" 1 "''lo:0''" "''lo''" "''lo:4022''" 5000] by simp

end
