(* ===== verification/Ssh_Pump.thy ===== *)
theory Ssh_Pump
  imports Ssh_Context
begin

text \<open>
  Copying between a connection and an SSH channel, in the two forms that the server has: forwarding
  of an authentication agent (\<open>internal/secure_shell/agent.go\<close>), where each direction half-closes
  its destination and a wait group closes both ends after the two directions have finished, and TCP
  forwarding (\<open>internal/secure_shell/tcpip.go\<close>), where each of the two goroutines closes both ends as
  soon as its own direction ends. The goroutines interleave at every chunk.
\<close>

section \<open>State\<close>

text \<open>Direction \<open>ToChan\<close> copies from the connection to the channel, \<open>ToConn\<close> back. \<open>d_pending\<close> is what the
  source has sent, or will send before it ends its side, and has not been copied.\<close>

datatype direction = ToChan | ToConn

record dir =
  d_pending :: string
  d_out :: string
  d_ended :: bool
  d_failed :: bool
  d_half_closed :: bool

record pump =
  p_dir :: "direction \<Rightarrow> dir"
  p_chan_closed :: bool
  p_conn_closed :: bool

definition new_pump :: "(direction \<Rightarrow> string) \<Rightarrow> pump" where
  "new_pump src =
     \<lparr>p_dir = (\<lambda>d. \<lparr>d_pending = src d, d_out = [], d_ended = False, d_failed = False, d_half_closed = False\<rparr>),
      p_chan_closed = False, p_conn_closed = False\<rparr>"

definition set_dir :: "direction \<Rightarrow> dir \<Rightarrow> pump \<Rightarrow> pump" where
  "set_dir d x m = m\<lparr>p_dir := (p_dir m)(d := x)\<rparr>"

definition both_open :: "pump \<Rightarrow> bool" where
  "both_open m \<longleftrightarrow> \<not> p_chan_closed m \<and> \<not> p_conn_closed m"

text \<open>One chunk of \<open>io.Copy\<close>.\<close>

definition copy_chunk :: "direction \<Rightarrow> nat \<Rightarrow> pump \<Rightarrow> pump" where
  "copy_chunk d n m =
     (let x = p_dir m d in
      set_dir d (x\<lparr>d_pending := drop n (d_pending x), d_out := d_out x @ take n (d_pending x)\<rparr>) m)"

text \<open>\<open>io.Copy\<close> returns: at the end of its source, or (with \<open>err\<close>) when a read or a write fails, which it
  does on an end that was closed.\<close>

definition copy_ends :: "direction \<Rightarrow> bool \<Rightarrow> pump \<Rightarrow> bool" where
  "copy_ends d err m \<longleftrightarrow> \<not> d_ended (p_dir m d) \<and> (err \<or> d_pending (p_dir m d) = [])"

section \<open>Agent forwarding\<close>

definition agentChannelType :: string where "agentChannelType = ''auth-agent@openssh.com''"
definition agentTempDir :: string where "agentTempDir = ''auth-agent''"
definition agentListenFile :: string where "agentListenFile = ''listener.sock''"

text \<open>\<open>NewAgentListener\<close>: the socket's path, and the directories it has created.\<close>

definition NewAgentListener ::
  "(string \<Rightarrow> string result) \<Rightarrow> (string \<Rightarrow> error option) \<Rightarrow> string result \<times> string list" where
  "NewAgentListener mkdirTemp listen =
     (case mkdirTemp agentTempDir of
        Inl e \<Rightarrow> (Inl e, [])
      | Inr d \<Rightarrow>
          let sock = path_join [d, agentListenFile] in
          (case listen sock of Some e \<Rightarrow> (Inl e, [d]) | None \<Rightarrow> (Inr sock, [d])))"

definition agent_end :: "direction \<Rightarrow> bool \<Rightarrow> pump \<Rightarrow> pump" where
  "agent_end d err m =
     set_dir d ((p_dir m d)\<lparr>d_ended := True, d_failed := err, d_half_closed := True\<rparr>) m"

inductive agent_step :: "pump \<Rightarrow> pump \<Rightarrow> bool" where
  AgentCopy: "\<not> d_ended (p_dir m d) \<Longrightarrow> both_open m \<Longrightarrow> agent_step m (copy_chunk d n m)"
| AgentEnd: "copy_ends d err m \<Longrightarrow> agent_step m (agent_end d err m)"
| AgentCloseChan: "d_ended (p_dir m ToChan) \<Longrightarrow> d_ended (p_dir m ToConn) \<Longrightarrow>
    agent_step m (m\<lparr>p_chan_closed := True\<rparr>)"
| AgentCloseConn: "p_chan_closed m \<Longrightarrow> agent_step m (m\<lparr>p_conn_closed := True\<rparr>)"

text \<open>\<open>ForwardAgentConnections\<close>: the accepted connections in order, each with the outcome of
  \<open>OpenChannel\<close>; a connection without a channel is closed at once.\<close>

datatype forwarded = ClosedUnopened | Pumping pump

definition ForwardAgentConnections ::
  "sshContext \<Rightarrow> ((direction \<Rightarrow> string) \<times> error option) list \<Rightarrow> forwarded list result" where
  "ForwardAgentConnections ctx accepted =
     (case ctx_Value ctx ContextKeyConn of
        Some (VConn _) \<Rightarrow>
          Inr (map (\<lambda>(src, open_err). if open_err = None then Pumping (new_pump src) else ClosedUnopened) accepted)
      | _ \<Rightarrow> Inl (Panic ''interface conversion''))"

section \<open>TCP forwarding\<close>

text \<open>The deferred calls of a goroutine run when its copy has ended: the connection first, then the
  channel.\<close>

definition tcp_end :: "direction \<Rightarrow> bool \<Rightarrow> pump \<Rightarrow> pump" where
  "tcp_end d err m = set_dir d ((p_dir m d)\<lparr>d_ended := True, d_failed := err\<rparr>) m"

inductive tcp_step :: "pump \<Rightarrow> pump \<Rightarrow> bool" where
  TcpCopy: "\<not> d_ended (p_dir m d) \<Longrightarrow> both_open m \<Longrightarrow> tcp_step m (copy_chunk d n m)"
| TcpEnd: "copy_ends d err m \<Longrightarrow> tcp_step m (tcp_end d err m)"
| TcpCloseConn: "d_ended (p_dir m d) \<Longrightarrow> tcp_step m (m\<lparr>p_conn_closed := True\<rparr>)"
| TcpCloseChan: "d_ended (p_dir m d) \<Longrightarrow> p_conn_closed m \<Longrightarrow> tcp_step m (m\<lparr>p_chan_closed := True\<rparr>)"

section \<open>Invariants\<close>

text \<open>No byte is lost or reordered inside a direction.\<close>

definition streams_ok :: "(direction \<Rightarrow> string) \<Rightarrow> pump \<Rightarrow> bool" where
  "streams_ok src m \<longleftrightarrow> (\<forall>d. d_out (p_dir m d) @ d_pending (p_dir m d) = src d)"

lemma new_pump_streams: "streams_ok src (new_pump src)"
  by (simp add: streams_ok_def new_pump_def)

lemma copy_chunk_streams: "streams_ok src m \<Longrightarrow> streams_ok src (copy_chunk d n m)"
  by (auto simp: streams_ok_def copy_chunk_def set_dir_def Let_def)

lemma end_streams:
  "streams_ok src m \<Longrightarrow> streams_ok src (agent_end d err m)" "streams_ok src m \<Longrightarrow> streams_ok src (tcp_end d err m)"
  by (simp_all add: streams_ok_def agent_end_def tcp_end_def set_dir_def)

lemma close_streams:
  "streams_ok src (m\<lparr>p_chan_closed := b\<rparr>) = streams_ok src m" "streams_ok src (m\<lparr>p_conn_closed := b\<rparr>) = streams_ok src m"
  by (simp_all add: streams_ok_def)

lemmas stream_rules = copy_chunk_streams end_streams close_streams

text \<open>In agent forwarding an end is closed only when both directions have finished, and a direction
  that finished without an error has copied everything.\<close>

definition agent_inv :: "(direction \<Rightarrow> string) \<Rightarrow> pump \<Rightarrow> bool" where
  "agent_inv src m \<longleftrightarrow>
     streams_ok src m \<and>
     (\<forall>d. d_ended (p_dir m d) = d_half_closed (p_dir m d)) \<and>
     (\<forall>d. d_ended (p_dir m d) \<and> \<not> d_failed (p_dir m d) \<longrightarrow> d_pending (p_dir m d) = []) \<and>
     (p_chan_closed m \<longrightarrow> (\<forall>d. d_ended (p_dir m d))) \<and>
     (p_conn_closed m \<longrightarrow> p_chan_closed m)"

lemma agent_step_inv:
  assumes "agent_inv src m" "agent_step m m'"
  shows "agent_inv src m'"
proof -
  have "streams_ok src m'"
    using assms by (auto simp: agent_inv_def stream_rules elim!: agent_step.cases)
  moreover have "\<forall>d. d_ended (p_dir m' d) = d_half_closed (p_dir m' d)"
    "\<forall>d. d_ended (p_dir m' d) \<and> \<not> d_failed (p_dir m' d) \<longrightarrow> d_pending (p_dir m' d) = []"
    "p_conn_closed m' \<longrightarrow> p_chan_closed m'"
    using assms
    by (auto simp: agent_inv_def copy_chunk_def agent_end_def set_dir_def Let_def copy_ends_def both_open_def
        elim!: agent_step.cases)
  moreover have "p_chan_closed m' \<longrightarrow> (\<forall>d. d_ended (p_dir m' d))"
    using assms
    by (auto simp: agent_inv_def copy_chunk_def agent_end_def set_dir_def Let_def both_open_def
        elim!: agent_step.cases intro: direction.exhaust) (metis direction.exhaust)+
  ultimately show ?thesis by (simp add: agent_inv_def)
qed

interpretation agent_pump: rel_invariant agent_step "agent_inv src" for src
  by unfold_locales (rule agent_step_inv)

interpretation tcp_pump: rel_invariant tcp_step "streams_ok src" for src
  by unfold_locales (auto simp: stream_rules elim: tcp_step.cases)

lemma new_pump_agent: "agent_inv src (new_pump src)"
  by (simp add: agent_inv_def new_pump_streams) (simp add: new_pump_def)

lemma agent_complete:
  assumes "agent_step\<^sup>*\<^sup>* (new_pump src) m" "d_ended (p_dir m d)" "\<not> d_failed (p_dir m d)"
  shows "d_out (p_dir m d) = src d"
  using agent_pump.star_inv[OF assms(1) new_pump_agent] assms(2,3) by (metis agent_inv_def streams_ok_def append_Nil2)

text \<open>After the connection is closed a TCP pump copies nothing any more.\<close>

definition stalled :: "(direction \<Rightarrow> string) \<Rightarrow> pump \<Rightarrow> bool" where
  "stalled out m \<longleftrightarrow> p_conn_closed m \<and> (\<forall>d. d_out (p_dir m d) = out d)"

interpretation tcp_stalled: rel_invariant tcp_step "stalled out" for out
  by unfold_locales (auto simp: stalled_def both_open_def tcp_end_def set_dir_def elim: tcp_step.cases)

lemma tcp_closed_stalls:
  assumes "tcp_step\<^sup>*\<^sup>* m m''" "p_conn_closed m"
  shows "d_out (p_dir m'' d) = d_out (p_dir m d)"
proof -
  have "stalled (\<lambda>x. d_out (p_dir m x)) m" using assms(2) by (simp add: stalled_def)
  from tcp_stalled.star_inv[OF assms(1) this] show ?thesis by (simp add: stalled_def)
qed

section \<open>Properties\<close>

text \<open>C29. Agent forwarding loses nothing: under every interleaving what has reached each side is a prefix
  of what the other side sent, the writing side of an end is closed exactly when its direction has
  finished, both ends are closed only after both directions have finished, and when they are closed
  without a copying error every byte has been delivered in both directions.\<close>

theorem agent_forwarding_delivers:
  assumes "agent_step\<^sup>*\<^sup>* (new_pump src) m"
  shows "(\<forall>d. prefix (d_out (p_dir m d)) (src d) \<and> (d_half_closed (p_dir m d) \<longleftrightarrow> d_ended (p_dir m d))) \<and>
    (p_conn_closed m \<or> p_chan_closed m \<longrightarrow>
       (\<forall>d. d_ended (p_dir m d) \<and> (\<not> d_failed (p_dir m d) \<longrightarrow> d_out (p_dir m d) = src d)))"
proof -
  have i: "agent_inv src m" using agent_pump.star_inv[OF assms new_pump_agent] .
  have "prefix (d_out (p_dir m d)) (src d)" for d
    using i by (metis agent_inv_def streams_ok_def prefixI)
  then show ?thesis using i agent_complete[OF assms] unfolding agent_inv_def by blast
qed

definition demo_src :: "direction \<Rightarrow> string" where
  "demo_src d = (case d of ToChan \<Rightarrow> ''ab'' | ToConn \<Rightarrow> [])"

definition demo_pump_end :: pump where
  "demo_pump_end = (agent_end ToConn False (agent_end ToChan False (copy_chunk ToChan 2 (new_pump demo_src))))\<lparr>p_chan_closed := True\<rparr>"

lemma demo_pump_reached: "agent_step\<^sup>*\<^sup>* (new_pump demo_src) demo_pump_end"
proof -
  let ?m1 = "copy_chunk ToChan 2 (new_pump demo_src)"
  let ?m2 = "agent_end ToChan False ?m1"
  let ?m3 = "agent_end ToConn False ?m2"
  note defs = new_pump_def both_open_def copy_chunk_def set_dir_def copy_ends_def agent_end_def demo_src_def Let_def
  have "agent_step (new_pump demo_src) ?m1" by (rule AgentCopy) (simp_all add: defs)
  moreover have "agent_step ?m1 ?m2" by (rule AgentEnd) (simp add: defs)
  moreover have "agent_step ?m2 ?m3" by (rule AgentEnd) (simp add: defs)
  moreover have "agent_step ?m3 demo_pump_end"
    unfolding demo_pump_end_def by (rule AgentCloseChan) (simp_all add: defs)
  ultimately show ?thesis by (meson converse_rtranclp_into_rtranclp rtranclp.rtrancl_refl)
qed

theorem agent_forwarding_delivers_witness: "d_out (p_dir demo_pump_end ToChan) = ''ab''"
  using agent_forwarding_delivers[OF demo_pump_reached]
  by (simp add: demo_pump_end_def agent_end_def copy_chunk_def set_dir_def new_pump_def demo_src_def Let_def)

text \<open>C30. TCP forwarding keeps the order of bytes but not all of them: what has reached each side is a prefix
  of what the other side sent, yet when one side ends its own direction the goroutine of that
  direction closes both ends. So an execution exists in which no copy has failed, in either
  direction, both ends are closed, and nothing of the answer that the other side was sending has
  arrived or ever will, however the execution continues. Agent forwarding has no such execution:
  with its ends closed and no copy failed, everything was delivered.\<close>

theorem tcp_forwarding_truncates:
  "(tcp_step\<^sup>*\<^sup>* (new_pump src) m \<longrightarrow> (\<forall>d. prefix (d_out (p_dir m d)) (src d))) \<and>
   (d \<noteq> e \<and> src e \<noteq> [] \<longrightarrow>
      (\<exists>m'. tcp_step\<^sup>*\<^sup>* (new_pump src) m' \<and> p_conn_closed m' \<and> p_chan_closed m' \<and>
         (\<forall>x. \<not> d_failed (p_dir m' x)) \<and> d_out (p_dir m' d) = src d \<and>
         (\<forall>m''. tcp_step\<^sup>*\<^sup>* m' m'' \<longrightarrow> d_out (p_dir m'' e) = [])) \<and>
      \<not> (\<exists>m'. agent_step\<^sup>*\<^sup>* (new_pump src) m' \<and> (p_conn_closed m' \<or> p_chan_closed m') \<and>
         (\<forall>x. \<not> d_failed (p_dir m' x)) \<and> d_out (p_dir m' e) \<noteq> src e))"
proof (intro conjI impI allI)
  fix d assume "tcp_step\<^sup>*\<^sup>* (new_pump src) m"
  then have "streams_ok src m" using tcp_pump.star_inv new_pump_streams by blast
  then show "prefix (d_out (p_dir m d)) (src d)" by (metis streams_ok_def prefixI)
next
  assume de: "d \<noteq> e \<and> src e \<noteq> []"
  let ?m1 = "copy_chunk d (length (src d)) (new_pump src)"
  let ?m2 = "tcp_end d False ?m1"
  let ?m3 = "?m2\<lparr>p_conn_closed := True\<rparr>"
  let ?m4 = "?m3\<lparr>p_chan_closed := True\<rparr>"
  note defs = new_pump_def both_open_def copy_chunk_def set_dir_def copy_ends_def tcp_end_def Let_def
  have "tcp_step (new_pump src) ?m1" by (rule TcpCopy) (simp_all add: defs)
  moreover have "tcp_step ?m1 ?m2" by (rule TcpEnd) (simp add: defs)
  moreover have "tcp_step ?m2 ?m3" by (rule TcpCloseConn[of _ d]) (simp add: defs)
  moreover have "tcp_step ?m3 ?m4" by (rule TcpCloseChan[of _ d]) (simp_all add: defs)
  ultimately have "tcp_step\<^sup>*\<^sup>* (new_pump src) ?m4"
    by (meson converse_rtranclp_into_rtranclp rtranclp.rtrancl_refl)
  moreover have "p_conn_closed ?m4" "p_chan_closed ?m4" "\<forall>x. \<not> d_failed (p_dir ?m4 x)" "d_out (p_dir ?m4 d) = src d"
    by (auto simp: defs)
  moreover have "d_out (p_dir ?m4 e) = []" using de by (auto simp: defs)
  then have "\<forall>m''. tcp_step\<^sup>*\<^sup>* ?m4 m'' \<longrightarrow> d_out (p_dir m'' e) = []"
    using tcp_closed_stalls[of ?m4 _ e] by simp
  ultimately show "\<exists>m'. tcp_step\<^sup>*\<^sup>* (new_pump src) m' \<and> p_conn_closed m' \<and> p_chan_closed m' \<and>
      (\<forall>x. \<not> d_failed (p_dir m' x)) \<and> d_out (p_dir m' d) = src d \<and>
      (\<forall>m''. tcp_step\<^sup>*\<^sup>* m' m'' \<longrightarrow> d_out (p_dir m'' e) = [])" by blast
  show "\<not> (\<exists>m'. agent_step\<^sup>*\<^sup>* (new_pump src) m' \<and> (p_conn_closed m' \<or> p_chan_closed m') \<and>
      (\<forall>x. \<not> d_failed (p_dir m' x)) \<and> d_out (p_dir m' e) \<noteq> src e)"
    using agent_complete agent_pump.star_inv[OF _ new_pump_agent] unfolding agent_inv_def by blast
qed

theorem tcp_forwarding_truncates_witness:
  "\<exists>m'. tcp_step\<^sup>*\<^sup>* (new_pump demo_src) m' \<and> p_conn_closed m' \<and> (\<forall>x. \<not> d_failed (p_dir m' x)) \<and>
     (\<forall>m''. tcp_step\<^sup>*\<^sup>* m' m'' \<longrightarrow> d_out (p_dir m'' ToChan) = [])"
proof -
  have "demo_src ToChan \<noteq> []" by (simp add: demo_src_def)
  then show ?thesis
    using tcp_forwarding_truncates[of demo_src "new_pump demo_src" ToConn ToChan] by blast
qed

end
