(* ===== verification/Cloud_Init.thy ===== *)
theory Cloud_Init
  imports Go_Os
begin

text \<open>
  Discovery of the cloud-init data source (\<open>internal/cloudinit/cloudinit.go\<close>): the search for the
  volume labelled CIDATA, the temporary mount under \<open>/run/phoenix-ga\<close>, and the SMBIOS marker. The
  \<open>blkid\<close> program, the SMBIOS tables and the YAML decoder are parameters.
\<close>

section \<open>Device attributes\<close>

text \<open>\<open>blkid\<close>'s outcome: success, an exit code (after \<open>128 + signal\<close> for a killed one), or another
  error of running it, whose exit code is taken as 0.\<close>

datatype probe = ProbeOk string | ProbeExit int string | ProbeFail error string

definition GetDeviceAttr :: "(string \<Rightarrow> string \<Rightarrow> probe) \<Rightarrow> world \<Rightarrow> string \<Rightarrow> string \<Rightarrow> string result" where
  "GetDeviceAttr blkid w device attr =
     (case os_Open w device of
        Inl e \<Rightarrow> Inl e
      | Inr _ \<Rightarrow>
          (case blkid (ToUpper attr) device of
             ProbeOk out \<Rightarrow> Inr (TrimSpace out)
           | ProbeExit c out \<Rightarrow>
               if c \<noteq> 2 then Inl (Errorf (''blkid probe failed: '' @ out)) else Inr (TrimSpace out)
           | ProbeFail e out \<Rightarrow> Inl (Fmt ''blkid probe failed'' e)))"

section \<open>The data volume\<close>

datatype mount_flag = MS_NOATIME | MS_SILENT | MS_NODEV | MS_NOEXEC | MS_NOSUID | MS_RDONLY

text \<open>The system calls of \<open>ReadData\<close>, each with its outcome.\<close>

datatype ci_op =
    CiMkdirAll string "error option"
  | CiTempDir "string result"
  | CiMount string string string "mount_flag list" "error option"
  | CiRead string "string result"
  | CiUnmount string "error option"
  | CiRemoveAll string "error option"

text \<open>The search over \<open>/sys/block\<close>: the first device with the label; an unreadable device ends it.\<close>

fun find_cidata :: "(string \<Rightarrow> string \<Rightarrow> probe) \<Rightarrow> world \<Rightarrow> string list \<Rightarrow> string result" where
  "find_cidata blkid w [] = Inl (Errorf ''CIDATA device not found'')"
| "find_cidata blkid w (n # ns) =
     (if \<not> ok (os_Stat w (path_join [''/sys/class/block'', n, ''dev''])) then find_cidata blkid w ns
      else (case GetDeviceAttr blkid w (path_join [''/dev'', n]) ''LABEL'' of
              Inl e \<Rightarrow> Inl e
            | Inr fslabel \<Rightarrow>
                if ToUpper fslabel = ''CIDATA'' then Inr (path_join [''/dev'', n])
                else find_cidata blkid w ns))"

record ci_env =
  ci_blkid :: "string \<Rightarrow> string \<Rightarrow> probe"
  ci_mkdir :: "error option"
  ci_tempdir :: "string result"
  ci_mount :: "string \<Rightarrow> string \<Rightarrow> error option"
  ci_readfile :: "string \<Rightarrow> string result"
  ci_unmount :: "string \<Rightarrow> error option"
  ci_remove :: "string \<Rightarrow> error option"

definition ci_flags :: "mount_flag list" where
  "ci_flags = [MS_NOATIME, MS_SILENT, MS_NODEV, MS_NOEXEC, MS_NOSUID, MS_RDONLY]"

text \<open>\<open>ReadData\<close>: the system calls in order and the parsed network configuration; the deferred calls
  run on every way out after they were registered, and their errors are dropped.\<close>

definition ReadData ::
  "ci_env \<Rightarrow> (string \<Rightarrow> 'c result) \<Rightarrow> world \<Rightarrow> ci_op list \<times> 'c result" where
  "ReadData env yaml w =
     (case os_ReadDir w ''/sys/block'' of
        Inl e \<Rightarrow> ([], Inl e)
      | Inr names \<Rightarrow>
          (case find_cidata (ci_blkid env) w names of
             Inl e \<Rightarrow> ([], Inl e)
           | Inr devname \<Rightarrow>
               let a0 = [CiMkdirAll ''/run/phoenix-ga'' (ci_mkdir env)] in
               (case ci_mkdir env of
                  Some e \<Rightarrow> (a0, Inl e)
                | None \<Rightarrow>
                    let a1 = a0 @ [CiTempDir (ci_tempdir env)] in
                    (case ci_tempdir env of
                       Inl e \<Rightarrow> (a1, Inl e)
                     | Inr tmpdir \<Rightarrow>
                         let a2 = a1 @ [CiMount devname tmpdir ''iso9660'' ci_flags (ci_mount env devname tmpdir)];
                             remove = CiRemoveAll tmpdir (ci_remove env tmpdir) in
                         (case ci_mount env devname tmpdir of
                            Some e \<Rightarrow> (a2 @ [remove], Inl (Fmt ''mount error'' e))
                          | None \<Rightarrow>
                              let p = path_join [tmpdir, ''network-config''];
                                  a3 = a2 @ [CiRead p (ci_readfile env p), CiUnmount tmpdir (ci_unmount env tmpdir), remove]
                              in (case ci_readfile env p of
                                    Inl e \<Rightarrow> (a3, Inl e)
                                  | Inr b \<Rightarrow> (a3, yaml b)))))))"

text \<open>What such calls leave behind: the directories they made and the volumes they mounted. A reading
  is kept with the volumes that were mounted at that moment.\<close>

record ci_state =
  cs_dirs :: "string set"
  cs_mounted :: "(string \<times> string) list"
  cs_reads :: "(string \<times> (string \<times> string) list) list"

fun ci_effect :: "ci_state \<Rightarrow> ci_op \<Rightarrow> ci_state" where
  "ci_effect st (CiMkdirAll p None) = st\<lparr>cs_dirs := insert p (cs_dirs st)\<rparr>"
| "ci_effect st (CiTempDir (Inr t)) = st\<lparr>cs_dirs := insert t (cs_dirs st)\<rparr>"
| "ci_effect st (CiMount d t fs fl None) = st\<lparr>cs_mounted := (d, t) # cs_mounted st\<rparr>"
| "ci_effect st (CiRead p r) = st\<lparr>cs_reads := cs_reads st @ [(p, cs_mounted st)]\<rparr>"
| "ci_effect st (CiUnmount t None) = st\<lparr>cs_mounted := filter (\<lambda>m. snd m \<noteq> t) (cs_mounted st)\<rparr>"
| "ci_effect st (CiRemoveAll t None) = st\<lparr>cs_dirs := cs_dirs st - {t}\<rparr>"
| "ci_effect st _ = st"

definition ci_run :: "ci_op list \<Rightarrow> ci_state" where
  "ci_run ops = foldl ci_effect \<lparr>cs_dirs = {}, cs_mounted = [], cs_reads = []\<rparr> ops"

fun mount_of :: "ci_op \<Rightarrow> (string \<times> string \<times> string \<times> mount_flag list) option" where
  "mount_of (CiMount d t fs fl r) = Some (d, t, fs, fl)"
| "mount_of _ = None"

section \<open>The marker\<close>

record smbios_structure =
  sm_Type :: nat
  sm_Formatted :: "nat list"
  sm_Strings :: "string list"

fun marker_bytes :: "string list \<Rightarrow> nat \<Rightarrow> nat list \<Rightarrow> bool" where
  "marker_bytes strs idx [] = False"
| "marker_bytes strs idx (b # bs) =
     (if b = 4 \<and> length strs > idx then Contains (strs ! idx) ''ds=nocloud''
      else marker_bytes strs (Suc idx) bs)"

fun marker_structs :: "smbios_structure list \<Rightarrow> bool" where
  "marker_structs [] = False"
| "marker_structs (s # ss) =
     (if sm_Type s \<noteq> 1 then marker_structs ss else marker_bytes (sm_Strings s) 0 (sm_Formatted s))"

definition IsNoCloudMarkerPresent ::
  "error option \<Rightarrow> smbios_structure list result \<Rightarrow> bool result" where
  "IsNoCloudMarkerPresent stream_err decoded =
     (case stream_err of
        Some e \<Rightarrow> Inl (Fmt ''failed to open stream'' e)
      | None \<Rightarrow>
          (case decoded of
             Inl e \<Rightarrow> Inl (Fmt ''failed to decode smbios structures'' e)
           | Inr ss \<Rightarrow> Inr (marker_structs ss)))"

section \<open>Lemmas\<close>

lemma find_cidata_ok:
  "find_cidata blkid w ns = Inr d \<Longrightarrow>
     \<exists>n \<in> set ns. d = path_join [''/dev'', n] \<and>
       (\<exists>l. GetDeviceAttr blkid w d ''LABEL'' = Inr l \<and> ToUpper l = ''CIDATA'')"
  by (induction ns) (auto split: if_splits sum.splits)

section \<open>Properties\<close>

text \<open>C32. What reading the data volume does to the guest. It mounts nothing, or makes one mount call: of a
  device labelled CIDATA, on the temporary directory it has just made, read-only and without
  devices, programs or set-id bits. The configuration is read once, while that volume and no other
  is mounted, and a successful result is what the decoder makes of it. At the end, after success
  and every error, nothing is mounted unless the unmount itself failed, and of the directories
  only \<open>/run/phoenix-ga\<close> is left, and the temporary one if its removal failed: errors of these two
  deferred calls do not change the result.\<close>

theorem ReadData_cleanup:
  assumes "ReadData env yaml w = (ops, r)"
  shows "(List.map_filter mount_of ops = [] \<or>
       (\<exists>d t l. List.map_filter mount_of ops = [(d, t, ''iso9660'', ci_flags)] \<and> ci_tempdir env = Inr t \<and>
          GetDeviceAttr (ci_blkid env) w d ''LABEL'' = Inr l \<and> ToUpper l = ''CIDATA'')) \<and>
    {MS_RDONLY, MS_NODEV, MS_NOEXEC, MS_NOSUID} \<subseteq> set ci_flags \<and>
    (\<forall>p ms. (p, ms) \<in> set (cs_reads (ci_run ops)) \<longrightarrow>
       (\<exists>d t. ci_tempdir env = Inr t \<and> p = path_join [t, ''network-config''] \<and> ms = [(d, t)])) \<and>
    (ok r \<longrightarrow> (\<exists>t b. ci_tempdir env = Inr t \<and> ci_readfile env (path_join [t, ''network-config'']) = Inr b \<and>
       r = yaml b \<and> length (cs_reads (ci_run ops)) = 1)) \<and>
    (\<forall>d t. (d, t) \<in> set (cs_mounted (ci_run ops)) \<longrightarrow> ci_tempdir env = Inr t \<and> ci_unmount env t \<noteq> None) \<and>
    (\<forall>p \<in> cs_dirs (ci_run ops). p = ''/run/phoenix-ga'' \<or> ci_tempdir env = Inr p \<and> ci_remove env p \<noteq> None) \<and>
    snd (ReadData (env\<lparr>ci_unmount := u, ci_remove := v\<rparr>) yaml w) = r"
proof -
  have l: "\<exists>l. GetDeviceAttr (ci_blkid env) w d ''LABEL'' = Inr l \<and> ToUpper l = ''CIDATA''"
    if "find_cidata (ci_blkid env) w ns = Inr d" for ns d
    using find_cidata_ok[OF that] by blast
  note cases = ReadData_def ci_run_def Let_def
  have "List.map_filter mount_of ops = [] \<or>
      (\<exists>d t l. List.map_filter mount_of ops = [(d, t, ''iso9660'', ci_flags)] \<and> ci_tempdir env = Inr t \<and>
        GetDeviceAttr (ci_blkid env) w d ''LABEL'' = Inr l \<and> ToUpper l = ''CIDATA'')"
    using assms l by (auto simp: cases map_filter_simps split: sum.splits option.splits)
  moreover have "{MS_RDONLY, MS_NODEV, MS_NOEXEC, MS_NOSUID} \<subseteq> set ci_flags" by (simp add: ci_flags_def)
  moreover have "(\<forall>p ms. (p, ms) \<in> set (cs_reads (ci_run ops)) \<longrightarrow>
      (\<exists>d t. ci_tempdir env = Inr t \<and> p = path_join [t, ''network-config''] \<and> ms = [(d, t)])) \<and>
    (ok r \<longrightarrow> (\<exists>t b. ci_tempdir env = Inr t \<and> ci_readfile env (path_join [t, ''network-config'']) = Inr b \<and>
      r = yaml b \<and> length (cs_reads (ci_run ops)) = 1)) \<and>
    (\<forall>d t. (d, t) \<in> set (cs_mounted (ci_run ops)) \<longrightarrow> ci_tempdir env = Inr t \<and> ci_unmount env t \<noteq> None) \<and>
    (\<forall>p \<in> cs_dirs (ci_run ops). p = ''/run/phoenix-ga'' \<or> ci_tempdir env = Inr p \<and> ci_remove env p \<noteq> None)"
    using assms
    by (cases "ci_unmount env (projr (ci_tempdir env))"; cases "ci_remove env (projr (ci_tempdir env))")
      (auto simp: cases split: sum.splits option.splits)
  moreover have "snd (ReadData (env\<lparr>ci_unmount := u, ci_remove := v\<rparr>) yaml w) = r"
    using assms by (auto simp: cases split: sum.splits option.splits)
  ultimately show ?thesis by blast
qed

definition demo_ci :: ci_env where
  "demo_ci = \<lparr>ci_blkid = (\<lambda>_ d. ProbeOk (if d = ''/dev/sr0'' then ''cidata'' else [])), ci_mkdir = None,
     ci_tempdir = Inr ''/run/phoenix-ga/netinit_1'', ci_mount = (\<lambda>_ _. None), ci_readfile = (\<lambda>_. Inr ''version: 2''),
     ci_unmount = (\<lambda>_. None), ci_remove = (\<lambda>_. None)\<rparr>"

definition ci_world :: world where
  "ci_world = (mk_world [(''/sys/block'', DirK), (''/sys/class/block/sr0/dev'', RegK []), (''/dev/sr0'', RegK [])])
     \<lparr>dir_entries := (\<lambda>p. if p = ''/sys/block'' then [''sr0''] else [])\<rparr>"

theorem ReadData_cleanup_witness:
  "case ReadData demo_ci (Inr :: string \<Rightarrow> string result) ci_world of (ops, r) \<Rightarrow>
     List.map_filter mount_of ops = [(''/dev/sr0'', ''/run/phoenix-ga/netinit_1'', ''iso9660'', ci_flags)] \<and>
     r = Inr ''version: 2'' \<and> cs_mounted (ci_run ops) = [] \<and> cs_dirs (ci_run ops) \<subseteq> {''/run/phoenix-ga''}"
proof -
  let ?r = "ReadData demo_ci (Inr :: string \<Rightarrow> string result) ci_world"
  have "List.map_filter mount_of (fst ?r) = [(''/dev/sr0'', ''/run/phoenix-ga/netinit_1'', ''iso9660'', ci_flags)]"
    "snd ?r = Inr ''version: 2''" by code_simp+
  moreover have "\<forall>d t. (d, t) \<notin> set (cs_mounted (ci_run (fst ?r)))" "cs_dirs (ci_run (fst ?r)) \<subseteq> {''/run/phoenix-ga''}"
    using ReadData_cleanup[of demo_ci Inr ci_world, OF surjective_pairing] by (auto simp: demo_ci_def)
  ultimately show ?thesis by (cases "cs_mounted (ci_run (fst ?r))") (auto simp: prod.case_eq_if)
qed

end
