(* ===== verification/Dev_Conn.thy ===== *)
theory Dev_Conn
  imports Prelude
begin

text \<open>
  The virtio serial port as a listener (\<open>internal/devconn/devconn.go\<close>): one device, opened once, is
  handed out as the connection of every \<open>Accept\<close>; closing that connection does nothing, closing the
  listener closes the device. The limit of one connection at a time (netutil) is around this listener.
\<close>

section \<open>Connection and listener\<close>

record DeviceConn =
  devpath :: string
  dc_Closed :: bool
  dc_fd_open :: bool

record DeviceListener =
  dl_conn :: "DeviceConn option"
  dl_closed :: bool

definition DialDevice :: "error option \<Rightarrow> string \<Rightarrow> DeviceConn result" where
  "DialDevice open_err path =
     (case open_err of
        Some e \<Rightarrow> Inl e
      | None \<Rightarrow> Inr \<lparr>devpath = path, dc_Closed = False, dc_fd_open = True\<rparr>)"

definition DeviceConn_Close :: "DeviceConn \<Rightarrow> error option \<times> DeviceConn" where
  "DeviceConn_Close c = (None, c)"

text \<open>The second close of an \<open>os.File\<close> is an error.\<close>

definition closeDevice :: "DeviceConn \<Rightarrow> error option \<times> DeviceConn" where
  "closeDevice c =
     (if dc_fd_open c then (None, c\<lparr>dc_Closed := True, dc_fd_open := False\<rparr>)
      else (Some (Wrap (''close '' @ devpath c) (Errorf ''file already closed'')), c\<lparr>dc_Closed := True\<rparr>))"

text \<open>Reading, writing and deadlines go to the open file; \<open>file\<close> is what the device answers. A closed
  \<open>os.File\<close> refuses them.\<close>

definition on_device :: "string \<Rightarrow> 'a result \<Rightarrow> DeviceConn \<Rightarrow> 'a result" where
  "on_device op answer c =
     (if dc_fd_open c then answer else Inl (Wrap (op @ '' '' @ devpath c) (Errorf ''file already closed'')))"

definition DeviceConn_Read :: "(nat \<Rightarrow> string result) \<Rightarrow> nat \<Rightarrow> DeviceConn \<Rightarrow> string result" where
  "DeviceConn_Read file n c = on_device ''read'' (file n) c"

definition DeviceConn_Write :: "(string \<Rightarrow> nat result) \<Rightarrow> string \<Rightarrow> DeviceConn \<Rightarrow> nat result" where
  "DeviceConn_Write file b c = on_device ''write'' (file b) c"

definition LocalAddr :: "DeviceConn \<Rightarrow> string" where
  "LocalAddr c = ''virtio-port:'' @ devpath c"

definition RemoteAddr :: "DeviceConn \<Rightarrow> string" where
  "RemoteAddr c = ''qemu-host''"

definition ListenDevice :: "error option \<Rightarrow> string \<Rightarrow> DeviceListener result" where
  "ListenDevice open_err path =
     (case DialDevice open_err path of
        Inl e \<Rightarrow> Inl (Wrap ''dial virtio'' e)
      | Inr c \<Rightarrow> Inr \<lparr>dl_conn = Some c, dl_closed = False\<rparr>)"

definition dl_ok :: "DeviceListener \<Rightarrow> bool" where
  "dl_ok ln \<longleftrightarrow> dl_conn ln \<noteq> None \<and> \<not> dl_closed ln"

definition DeviceListener_Accept :: "DeviceListener \<Rightarrow> DeviceConn result" where
  "DeviceListener_Accept ln =
     (if \<not> dl_ok ln then Inl (SysErrno EINVAL)
      else (case dl_conn ln of Some c \<Rightarrow> Inr c | None \<Rightarrow> Inl (Panic ''nil connection'')))"

definition DeviceListener_Close :: "DeviceListener \<Rightarrow> error option \<times> DeviceListener" where
  "DeviceListener_Close ln =
     (if \<not> dl_ok ln then (Some (SysErrno EINVAL), ln)
      else if dl_closed ln then (None, ln)
      else (case dl_conn ln of
              None \<Rightarrow> (Some (Panic ''nil connection''), ln)
            | Some c \<Rightarrow>
                (case closeDevice c of (e, c1) \<Rightarrow> (e, ln\<lparr>dl_closed := True, dl_conn := Some c1\<rparr>))))"

definition Addr_of :: "DeviceListener \<Rightarrow> string option" where
  "Addr_of ln = (if dl_ok ln then map_option LocalAddr (dl_conn ln) else None)"

definition DeviceListener_CloseConn :: "DeviceListener \<Rightarrow> error option \<times> DeviceListener" where
  "DeviceListener_CloseConn ln =
     (if \<not> dl_ok ln then (Some (SysErrno EINVAL), ln)
      else (case dl_conn ln of
              None \<Rightarrow> (Some (Panic ''nil connection''), ln)
            | Some c \<Rightarrow> (case DeviceConn_Close c of (e, c1) \<Rightarrow> (e, ln\<lparr>dl_conn := Some c1\<rparr>))))"

section \<open>Histories\<close>

datatype dev_call = CallAccept | CallCloseConn | CallCloseListener

definition dev_step :: "DeviceListener \<Rightarrow> dev_call \<Rightarrow> DeviceListener" where
  "dev_step ln c =
     (case c of
        CallAccept \<Rightarrow> ln
      | CallCloseConn \<Rightarrow> snd (DeviceListener_CloseConn ln)
      | CallCloseListener \<Rightarrow> snd (DeviceListener_Close ln))"

definition dev_inv :: "string \<Rightarrow> DeviceListener \<Rightarrow> bool" where
  "dev_inv path ln \<longleftrightarrow>
     dl_conn ln = Some \<lparr>devpath = path, dc_Closed = dl_closed ln, dc_fd_open = (\<not> dl_closed ln)\<rparr>"

lemma dev_step_inv: "dev_inv path ln \<Longrightarrow> dev_inv path (dev_step ln c)"
  by (cases c) (auto simp: dev_inv_def dev_step_def DeviceListener_CloseConn_def DeviceListener_Close_def closeDevice_def
      DeviceConn_Close_def dl_ok_def)

interpretation dev: step_invariant dev_step "dev_inv path" for path
  by unfold_locales (rule dev_step_inv)

lemma dev_closed_run: "dev_inv path ln \<Longrightarrow> dl_closed (foldl dev_step ln cs) \<longleftrightarrow> dl_closed ln \<or> CallCloseListener \<in> set cs"
proof (induction cs arbitrary: ln)
  case (Cons c cs)
  have "dl_closed (dev_step ln c) \<longleftrightarrow> dl_closed ln \<or> c = CallCloseListener"
    using Cons.prems
    by (cases c) (auto simp: dev_step_def DeviceListener_CloseConn_def DeviceListener_Close_def dl_ok_def dev_inv_def
        DeviceConn_Close_def closeDevice_def)
  then show ?case using Cons.IH[OF dev_step_inv[OF Cons.prems]] by auto
qed simp

lemma dev_history:
  assumes "ListenDevice None path = Inr ln"
  shows "dev_inv path (foldl dev_step ln cs)" "dl_closed (foldl dev_step ln cs) \<longleftrightarrow> CallCloseListener \<in> set cs"
proof -
  have i: "dev_inv path ln" "\<not> dl_closed ln"
    using assms by (auto simp: ListenDevice_def DialDevice_def dev_inv_def)
  have "dev_inv path (foldl dev_step ln cs)" by (rule dev.run_inv[OF i(1)])
  moreover have "dl_closed (foldl dev_step ln cs) \<longleftrightarrow> CallCloseListener \<in> set cs"
    using dev_closed_run[OF i(1), of cs] i(2) by simp
  ultimately show "dev_inv path (foldl dev_step ln cs)" "dl_closed (foldl dev_step ln cs) \<longleftrightarrow> CallCloseListener \<in> set cs"
    by simp_all
qed

section \<open>Property\<close>

text \<open>A connection that was handed out reads and writes the device exactly until the listener is closed,
  however often it or its siblings were closed themselves.\<close>

lemma device_io_until_closed:
  assumes "ListenDevice None path = Inr ln" "dl_conn (foldl dev_step ln cs) = Some c"
  shows "(\<exists>e. DeviceConn_Read file n c = Inl (Wrap e (Errorf ''file already closed''))) \<or> CallCloseListener \<notin> set cs"
    and "CallCloseListener \<notin> set cs \<Longrightarrow> DeviceConn_Read file n c = file n \<and> DeviceConn_Write out b c = out b"
proof -
  have "dc_fd_open c \<longleftrightarrow> CallCloseListener \<notin> set cs"
    using dev_history[OF assms(1), of cs] assms(2) by (simp add: dev_inv_def)
  then show "(\<exists>e. DeviceConn_Read file n c = Inl (Wrap e (Errorf ''file already closed''))) \<or> CallCloseListener \<notin> set cs"
    and "CallCloseListener \<notin> set cs \<Longrightarrow> DeviceConn_Read file n c = file n \<and> DeviceConn_Write out b c = out b"
    by (simp_all add: DeviceConn_Read_def DeviceConn_Write_def on_device_def)
qed

text \<open>Until the listener is closed every \<open>Accept\<close> hands out the open device, whatever connections
  were closed in between; afterwards \<open>Accept\<close> fails with \<open>EINVAL\<close>, the device is closed exactly once,
  and a second \<open>Close\<close> reports \<open>EINVAL\<close> as well.\<close>

theorem device_listener_lifecycle:
  assumes "ListenDevice None path = Inr ln"
  shows "let l = foldl dev_step ln cs in
    (if CallCloseListener \<in> set cs
     then DeviceListener_Accept l = Inl (SysErrno EINVAL) \<and> DeviceListener_Close l = (Some (SysErrno EINVAL), l) \<and> Addr_of l = None
     else DeviceListener_Accept l = Inr \<lparr>devpath = path, dc_Closed = False, dc_fd_open = True\<rparr> \<and>
       fst (DeviceListener_Close l) = None \<and> Addr_of l = Some (''virtio-port:'' @ path))"
  using dev_history[OF assms, of cs]
  by (auto simp: Let_def DeviceListener_Accept_def DeviceListener_Close_def Addr_of_def dl_ok_def dev_inv_def closeDevice_def LocalAddr_def)

theorem device_listener_lifecycle_witness:
  "DeviceListener_Close (dev_step \<lparr>dl_conn = Some \<lparr>devpath = ''p'', dc_Closed = False, dc_fd_open = True\<rparr>, dl_closed = False\<rparr> CallCloseListener) =
     (Some (SysErrno EINVAL), dev_step \<lparr>dl_conn = Some \<lparr>devpath = ''p'', dc_Closed = False, dc_fd_open = True\<rparr>, dl_closed = False\<rparr> CallCloseListener)"
  using device_listener_lifecycle[of "''p''" "\<lparr>dl_conn = Some \<lparr>devpath = ''p'', dc_Closed = False, dc_fd_open = True\<rparr>, dl_closed = False\<rparr>"
      "[CallCloseListener]"]
  by (simp add: ListenDevice_def DialDevice_def Let_def)

end
