(* ===== verification/Spec2Isabelle.thy ===== *)
theory Spec2Isabelle
  imports
    Agent_Client Agent_Inv Agent_Run Service_Registry Umask_Race Client_Usage
    Ssh_Login Ssh_Life Ssh_Forward Ssh_Pump Cloud_Init Dev_Conn
begin

text \<open>
  Verification of the Phoenix guest agent.

  \<^bold>\<open>The program.\<close> The agent runs inside a QEMU guest and answers requests of the host. It listens on a
  virtual socket, a serial port or link-local TCP addresses, serves five gRPC services (system,
  agent, file system, network, secure shell), polls statistics of the guest in the background and
  runs an SSH server. The client program turns a command line into one request. A freeze request
  locks the agent: until an unfreeze, the calls of the system and file-system services are refused.

  \<^bold>\<open>Theories and sources.\<close> Paths are relative to \<open>src/\<close>.

  \<^item> \<open>Prelude\<close>: errors as values (\<open>error\<close>, \<open>'a result = error + 'a\<close>), wrap-around and truncated division
    of Go integers, and the contracts that components share, as locales: \<open>step_invariant\<close>,
    \<open>step_progress\<close>, \<open>rel_invariant\<close>, \<open>simulation\<close> (which extends \<open>rel_invariant\<close>), \<open>lock_gate\<close>,
    \<open>codec\<close>. Each is interpreted on the model's own
    definitions in the theory of the component that provides them.
  \<^item> \<open>Go_Strings\<close>, \<open>Go_Strconv\<close>, \<open>Go_Os\<close>, \<open>Go_Net\<close>, \<open>Go_IP\<close>: what the sources use of the Go standard
    library. \<open>Go_Os\<close> has the guest's file systems: a \<open>world\<close> maps path names to nodes, keeps
    the umask and the set of frozen file systems, and has an oracle \<open>fault\<close> that may make any system
    call on any path fail. Its \<open>mkdir\<close> honours the permission and the sticky bits only and passes the group
    and the bit of a set-group-id parent on; its \<open>chown\<close> clears set-id bits as the kernel does.
  \<^item> \<open>Agent_Version\<close> (\<open>internal/version\<close>): parsing, printing and packing of versions; the round trips.
  \<^item> \<open>Fs_Utils\<close> (\<open>core/filesystem_utils.go\<close>): mount table, users and groups. The locale \<open>id_table\<close>
    is the contract of both tables. Lemmas: what is listed, that devices are distinct, when the reader
    panics.
  \<^item> \<open>Utmp\<close> (\<open>internal/utmp\<close>): binary login records; round trip, and exactly when the loop returns.
  \<^item> \<open>Stat_Poller\<close> (\<open>core/stat_poller.go\<close>, \<open>core/guest_stat.go\<close>): each refresh, the poller as a step
    function on starts and ticks; invariant, what a query can answer, that an error ends it.
  \<^item> \<open>Core_Server\<close> (\<open>core/server.go\<close>, \<open>core/filesystem.go\<close>, \<open>core/secure_shell.go\<close>): server state, lock,
    freezing and thawing, directories, owners, modes, stat and hash; specification of each on every
    branch, and recovery after a failed freeze. \<open>Umask_Race\<close> runs its two operations that change the
    umask concurrently and says exactly what can go wrong.
  \<^item> \<open>File_Transfer\<close> (streaming methods of \<open>services/filesystem/service.go\<close>, \<open>client/filesystem.go\<close>):
    atomicity of uploads, prefix property of downloads, end-to-end round trip.
  \<^item> \<open>Network\<close> (\<open>core/network*.go\<close>, \<open>cmd/agent/netinit.go\<close>) and \<open>Cloud_Init\<close> (\<open>internal/cloudinit\<close>):
    routes, links, addresses, boot-time configuration and its data source.
  \<^item> \<open>Ssh_Wire\<close>, \<open>Ssh_Context\<close>, \<open>Ssh_Session\<close>, \<open>Ssh_Server\<close>, \<open>Ssh_Forward\<close> (\<open>internal/secure_shell\<close>):
    payload decoders, connection context, the session as a step relation of goroutines that
    interleave (request loop, handler, signal delivery), configuration, accept loop, connection
    tracking and shutdown, port forwarding. \<open>Ssh_Life\<close> has the life of a server over all its goroutines,
    with connections that are still in their handshake and the two waits of a shutdown one after the
    other, and what is done with one connection on every path. \<open>Ssh_Session_Spec\<close> states the contract of a session as an
    abstract machine and proves that the goroutines refine it (an interpretation of \<open>simulation\<close>).
    \<open>Ssh_Pump\<close> (\<open>agent.go\<close>, \<open>tcpip.go\<close>) has the goroutines that copy bytes between a connection and a
    channel, in the two forms that the sources have.
  \<^item> \<open>Shell_Handler\<close> (\<open>core/secure_shell\<close>): the SSH server that the agent configures, its only key, and
    the handler that starts a process for a session. \<open>Ssh_Login\<close> composes it with the SSH server and
    the session: what a client without the key can reach (nothing), and what one with it can start.
  \<^item> \<open>Dev_Conn\<close> (\<open>internal/devconn\<close>) and \<open>Transport\<close> (\<open>cert\<close>, \<open>client/grpcclient\<close>,
    \<open>cmd/agent/agent_server.go\<close>, \<open>cmd/agent/main.go\<close>): listeners, endpoints and TLS configurations. The
    agent looks for the vsock device twice, and the two answers are separate inputs of the model.
  \<^item> \<open>Agent_Run\<close> (\<open>cmd/agent\<close>): the life of the agent process as a step relation of its goroutines, from
    the first listener to the graceful stop; when it returns, with what, and that it can.
  \<^item> \<open>Services\<close> (\<open>services\<close>): every unary handler, the conversions to messages, and the interceptors in
    the order in which the agent chains them. \<open>Service_Registry\<close> (\<open>services/service.go\<close> and the
    registration code of each service, \<open>internal/grpc/interfaces\<close>): from the registry to the service
    table, and from the path that a client's stub sends through the table to the handler. \<open>Agent_Inv\<close>: in every
    sequence of unary calls and poller ticks frozen file systems imply the lock and the umask is
    kept. (Streaming uploads are not part of these sequences: they pass the lock, which \<open>Services\<close> shows.)
  \<^item> \<open>Client_Cli\<close> (\<open>cmd/client\<close>, \<open>client/secure_shell.go\<close>) and \<open>Agent_Client\<close> (the other files of
    \<open>client\<close>): command dispatch, the request of each command, and sessions of commands against the agent.
    \<open>Client_Usage\<close>: the usage text as a grammar, and that the dispatcher does what it says for every
    command line that fits.

  \<^bold>\<open>How the parts meet.\<close> \<open>agent_state\<close> of \<open>Services\<close> joins the server of \<open>Core_Server\<close>, the world and the
  history of network changes. A command line goes through \<open>client_main\<close>, \<open>client_request\<close>,
  \<open>ExecuteGRPC\<close>, \<open>PreHandler\<close> and \<open>MapErrors\<close> to a handler and its core operation. The contract
  \<open>lock_gate\<close> is provided by the unary calls and again by the command lines; the snapshot theorem of
  \<open>Agent_Client\<close> rests on it and on the recovery lemma of \<open>Core_Server\<close>.

  \<^bold>\<open>Loops and bounds.\<close> Loops over lists recurse on them. The loop over login records may run for ever
  and is a \<open>partial_function\<close> on options, and the theorem says exactly when it returns. Symbolic links
  are followed for at most 255 steps when a path is evaluated and 40 when it is opened, the limits of
  Go and of the kernel. The search for link-local addresses stops after 21 rounds by its own counter.
  Accept loops are functions of the finite list of what happens to them; the theorems hold for every
  such list.

  \<^bold>\<open>Idealisations.\<close> Load averages are rational numbers rather than floating point. White space is that of
  ASCII. Paths are looked up by name, without hard links: two names are two files. The agent runs as
  root, and there are no access control lists. What the kernel's network tables answer is a
  function of the changes made so far. A handler of the agent runs to its end before the next one, except
  where the interleaving is the subject: the goroutines of an SSH session, of the agent process and of a
  forwarded connection, those of an SSH server, and the requests that change the umask.

  \<^bold>\<open>Parameters.\<close> Code outside the repository is an argument of the definitions that use it: the netlink
  library, the SSH protocol and its cryptography, TLS key pairs, MD5, YAML, SMBIOS, \<open>blkid\<close>, the word
  splitter of the shell, the started process, the user database, the registry of gRPC services and the
  split of a call's path into service and method.
  Of gRPC and of the error group \<open>Agent_Run\<close> uses the documented behaviour, as steps that may happen.

  \<^bold>\<open>Not modelled.\<close> Generated protocol code except for its names and paths, logging and the layout of printed answers, embedded certificate
  files, the flag parser of the agent (a library), deadlines of the serial device (passed on to the
  file), and the aliases of \<open>wrap.go\<close>, which only rename types of the SSH library.
\<close>

end
